(* ===== verification/Prelude.thy ===== *)
theory Prelude
  imports Main "HOL-Library.Word"
begin

text \<open>
  What every component of the development shares: results with errors, actions on a
  state that may fail, and generic lemmas on lists.  A Go function that returns
  \<open>(T, error)\<close> is a value of \<open>'e + 'a\<close> (\<open>Inl\<close> the error); one that also changes the
  database or an object is an \<open>action\<close>, which returns the new state on every path,
  the failing ones included.
\<close>

section \<open>Results and actions\<close>

type_synonym byte = "8 word"

type_synonym ('s, 'e, 'a) action = "'s \<Rightarrow> ('e + 'a) \<times> 's"

named_theorems action_simps \<open>unfolding of the action combinators\<close>

definition rbind :: "('e + 'a) \<Rightarrow> ('a \<Rightarrow> 'e + 'b) \<Rightarrow> 'e + 'b" where
  "rbind r f = (case r of Inl e \<Rightarrow> Inl e | Inr a \<Rightarrow> f a)"

definition ret :: "'a \<Rightarrow> ('s, 'e, 'a) action" where
  "ret a = (\<lambda>s. (Inr a, s))"

definition throw :: "'e \<Rightarrow> ('s, 'e, 'a) action" where
  "throw e = (\<lambda>s. (Inl e, s))"

definition abind :: "('s, 'e, 'a) action \<Rightarrow> ('a \<Rightarrow> ('s, 'e, 'b) action) \<Rightarrow> ('s, 'e, 'b) action" where
  "abind m f = (\<lambda>s. case m s of (Inl e, s') \<Rightarrow> (Inl e, s') | (Inr a, s') \<Rightarrow> f a s')"

text \<open>A read of the state that may fail, and an action whose error the caller inspects.\<close>

definition query :: "('s \<Rightarrow> 'e + 'a) \<Rightarrow> ('s, 'e, 'a) action" where
  "query q = (\<lambda>s. (q s, s))"

definition attempt :: "('s, 'e, 'a) action \<Rightarrow> ('s, 'e, 'e + 'a) action" where
  "attempt m = (\<lambda>s. case m s of (r, s') \<Rightarrow> (Inr r, s'))"

lemma rbind_simps [simp, action_simps]:
  "rbind (Inl e) f = Inl e"
  "rbind (Inr a) f = f a"
  by (simp_all add: rbind_def)

lemma rbind_Inr_iff: "rbind r f = Inr b \<longleftrightarrow> (\<exists>a. r = Inr a \<and> f a = Inr b)"
  by (cases r) simp_all

lemma rbind_Inl_iff: "rbind r f = Inl e \<longleftrightarrow> r = Inl e \<or> (\<exists>a. r = Inr a \<and> f a = Inl e)"
  by (cases r) auto

lemma ret_app [simp, action_simps]: "ret a s = (Inr a, s)"
  by (simp add: ret_def)

lemma throw_app [simp, action_simps]: "throw e s = (Inl e, s)"
  by (simp add: throw_def)

lemma query_app [simp, action_simps]: "query q s = (q s, s)"
  by (simp add: query_def)

lemma abind_app [action_simps]:
  "abind m f s = (case m s of (Inl e, s') \<Rightarrow> (Inl e, s') | (Inr a, s') \<Rightarrow> f a s')"
  by (simp add: abind_def)

lemma attempt_app [action_simps]: "attempt m s = (Inr (fst (m s)), snd (m s))"
  by (simp add: attempt_def split: prod.splits)

lemma abind_Inl [simp]: "m s = (Inl e, s') \<Longrightarrow> abind m f s = (Inl e, s')"
  by (simp add: abind_def)

lemma abind_Inr [simp]: "m s = (Inr a, s') \<Longrightarrow> abind m f s = f a s'"
  by (simp add: abind_def)

text \<open>
  Success of a sequence: every step succeeded.  The elimination rule turns a hypothesis
  about a whole handler into one equation per statement of the handler.
\<close>

lemma abind_InrE:
  assumes "abind m f s = (Inr b, s')"
  obtains a t where "m s = (Inr a, t)" and "f a t = (Inr b, s')"
  using assms by (auto simp: abind_def split: sum.splits prod.splits)

lemma abind_Inr_iff:
  "abind m f s = (Inr b, s') \<longleftrightarrow> (\<exists>a t. m s = (Inr a, t) \<and> f a t = (Inr b, s'))"
  by (auto simp: abind_def split: sum.splits prod.splits)

lemma query_eq_iff [simp]: "query q s = (r, s') \<longleftrightarrow> q s = r \<and> s' = s"
  by (auto simp: query_def)

section \<open>Lists\<close>

lemma find_Some_iff: "find P xs = Some x \<Longrightarrow> x \<in> set xs \<and> P x"
  by (induction xs) (auto split: if_splits)

lemma find_None_set: "find P xs = None \<longleftrightarrow> (\<forall>x \<in> set xs. \<not> P x)"
  by (induction xs) auto

lemma find_append: "find P (xs @ ys) = (case find P xs of Some x \<Rightarrow> Some x | None \<Rightarrow> find P ys)"
  by (induction xs) auto

text \<open>An update of the rows that satisfy \<open>Q\<close> keeps what \<open>P\<close> selects if \<open>f\<close> keeps \<open>P\<close>.\<close>

lemma find_map_update:
  assumes "\<And>x. P (f x) = P x"
  shows "find P (map f xs) = map_option f (find P xs)"
  using assms by (induction xs) auto

lemma take_eq_iff_append: "take (length p) s = p \<longleftrightarrow> (\<exists>r. s = p @ r)"
  by (metis append_eq_conv_conj append_take_drop_id)

end
