(* ===== verification/GoStrings.thy ===== *)
theory GoStrings
  imports Prelude
begin

text \<open>
  The parts of Go's \<open>strings\<close>, \<open>bytes\<close> and \<open>strconv\<close> packages the program uses.  A Go
  \<open>string\<close> is a sequence of bytes: it is a HOL \<open>string\<close>, one \<open>char\<close> per byte, and a
  \<open>[]byte\<close> is a list of 8-bit words.  White space is Unicode's, recognised by its UTF-8
  byte sequences as \<open>strings.TrimSpace\<close> and \<open>strings.Fields\<close> do.  Case mapping covers
  ASCII and the only runes outside it that map into ASCII; it leaves every other byte as
  it is, so it is exact wherever the result is compared with an ASCII word.
\<close>

section \<open>Bytes and strings\<close>

definition bytes_of :: "string \<Rightarrow> byte list" where
  "bytes_of s = map of_char s"

definition string_of :: "byte list \<Rightarrow> string" where
  "string_of bs = map (\<lambda>b. char_of (unat b)) bs"

lemma unat_of_char: "unat (of_char c :: byte) = of_char c"
proof -
  have "(of_char c :: byte) = of_nat (of_char c)"
    by (simp add: of_nat_of_char)
  moreover have "(of_char c :: nat) < 256"
    using of_char_mod_256 [where 'a = nat, of c] by (metis mod_less_divisor zero_less_numeral)
  ultimately show ?thesis
    by (simp add: unat_of_nat take_bit_eq_mod)
qed

lemma string_of_bytes_of [simp]: "string_of (bytes_of s) = s"
  by (induction s) (simp_all add: string_of_def bytes_of_def unat_of_char)

lemma length_bytes_of [simp]: "length (bytes_of s) = length s"
  by (simp add: bytes_of_def)

lemma length_string_of [simp]: "length (string_of s) = length s"
  by (simp add: string_of_def)

lemma bytes_of_append [simp]: "bytes_of (s @ t) = bytes_of s @ bytes_of t"
  by (simp add: bytes_of_def)

lemma bytes_of_inject [simp]: "bytes_of s = bytes_of t \<longleftrightarrow> s = t"
  by (metis string_of_bytes_of)

section \<open>Searching and replacing\<close>

definition has_prefix :: "'a list \<Rightarrow> 'a list \<Rightarrow> bool" where
  "has_prefix p s = (take (length p) s = p)"

definition has_suffix :: "'a list \<Rightarrow> 'a list \<Rightarrow> bool" where
  "has_suffix p s = (length p \<le> length s \<and> drop (length s - length p) s = p)"

text \<open>\<open>strings.Index\<close>: the offset of the first occurrence.\<close>

fun index_of :: "'a list \<Rightarrow> 'a list \<Rightarrow> nat option" where
  "index_of p [] = (if p = [] then Some 0 else None)"
| "index_of p (c # s) =
     (if has_prefix p (c # s) then Some 0 else map_option Suc (index_of p s))"

definition contains :: "'a list \<Rightarrow> 'a list \<Rightarrow> bool" where
  "contains p s = (index_of p s \<noteq> None)"

fun index_byte :: "'a \<Rightarrow> 'a list \<Rightarrow> nat option" where
  "index_byte c [] = None"
| "index_byte c (x # xs) = (if x = c then Some 0 else map_option Suc (index_byte c xs))"

fun last_index_byte :: "'a \<Rightarrow> 'a list \<Rightarrow> nat option" where
  "last_index_byte c [] = None"
| "last_index_byte c (x # xs) =
     (case last_index_byte c xs of
        Some i \<Rightarrow> Some (Suc i)
      | None \<Rightarrow> if x = c then Some 0 else None)"

text \<open>\<open>strings.ReplaceAll\<close> of a one-byte pattern, and of a non-empty pattern.\<close>

definition replace_char :: "'a \<Rightarrow> 'a list \<Rightarrow> 'a list \<Rightarrow> 'a list" where
  "replace_char c r s = concat (map (\<lambda>x. if x = c then r else [x]) s)"

function replace_all :: "'a list \<Rightarrow> 'a list \<Rightarrow> 'a list \<Rightarrow> 'a list" where
  "replace_all p r s =
     (case s of
        [] \<Rightarrow> []
      | c # t \<Rightarrow> if p \<noteq> [] \<and> has_prefix p s then r @ replace_all p r (drop (length p) s)
                else c # replace_all p r t)"
  by pat_completeness auto
termination
  by (relation "measure (\<lambda>(p, r, s). length s)") (auto simp: has_prefix_def)

declare replace_all.simps [simp del]

text \<open>\<open>strings.Split\<close> on a one-byte separator, and \<open>strings.Join\<close>.\<close>

fun split_char :: "'a \<Rightarrow> 'a list \<Rightarrow> 'a list list" where
  "split_char c [] = [[]]"
| "split_char c (x # xs) =
     (if x = c then [] # split_char c xs
      else case split_char c xs of [] \<Rightarrow> [[x]] | w # ws \<Rightarrow> (x # w) # ws)"

fun join :: "'a list \<Rightarrow> 'a list list \<Rightarrow> 'a list" where
  "join sep [] = []"
| "join sep [w] = w"
| "join sep (w # v # ws) = w @ sep @ join sep (v # ws)"

lemma has_prefix_append [simp]: "has_prefix p (p @ s)"
  by (simp add: has_prefix_def)

lemma has_prefix_iff: "has_prefix p s \<longleftrightarrow> (\<exists>r. s = p @ r)"
  unfolding has_prefix_def by (rule take_eq_iff_append)

lemma has_prefix_Nil [simp]: "has_prefix [] s"
  by (simp add: has_prefix_def)

lemma has_prefix_Cons [simp]:
  "has_prefix (a # p) (c # s) \<longleftrightarrow> a = c \<and> has_prefix p s"
  "\<not> has_prefix (a # p) []"
  by (auto simp: has_prefix_def)

lemma has_prefix_empty [simp]: "has_prefix p [] \<longleftrightarrow> p = []"
  by (auto simp: has_prefix_def)

lemma has_suffix_append [simp]: "has_suffix p (s @ p)"
  by (simp add: has_suffix_def)

lemma has_suffix_iff: "has_suffix p s \<longleftrightarrow> (\<exists>r. s = r @ p)"
proof
  assume "has_suffix p s"
  hence "s = take (length s - length p) s @ p"
    unfolding has_suffix_def by (metis append_take_drop_id)
  thus "\<exists>r. s = r @ p" by blast
qed auto

lemma index_byte_None [simp]: "index_byte c s = None \<longleftrightarrow> c \<notin> set s"
  by (induction s) auto

lemma index_byte_app: "c \<notin> set s \<Longrightarrow> index_byte c (s @ c # t) = Some (length s)"
  by (induction s) auto

lemma index_byte_Some:
  "index_byte c s = Some i \<Longrightarrow> i < length s \<and> s ! i = c \<and> c \<notin> set (take i s)"
  by (induction s arbitrary: i) (auto split: if_splits)

lemma last_index_None [simp]: "last_index_byte c s = None \<longleftrightarrow> c \<notin> set s"
  by (induction s) (auto split: option.splits if_splits)

lemma last_index_app: "c \<notin> set t \<Longrightarrow> last_index_byte c (s @ c # t) = Some (length s)"
proof (induction s)
  case Nil
  hence "last_index_byte c t = None" by simp
  thus ?case by (simp del: last_index_None)
qed simp

lemma last_index_Some:
  "last_index_byte c s = Some i \<Longrightarrow>
   i < length s \<and> s = take i s @ c # drop (Suc i) s \<and> c \<notin> set (drop (Suc i) s)"
proof (induction s arbitrary: i)
  case (Cons x xs)
  show ?case
  proof (cases "last_index_byte c xs")
    case None
    moreover from None have "c \<notin> set xs" by simp
    ultimately show ?thesis using Cons.prems by (auto simp del: last_index_None split: if_splits)
  next
    case (Some j)
    with Cons show ?thesis by fastforce
  qed
qed simp

lemma index_of_Some: "index_of p s = Some i \<Longrightarrow> has_prefix p (drop i s) \<and> i \<le> length s"
  by (induction s arbitrary: i) (auto split: if_splits)

lemma index_of_None: "index_of p s = None \<longleftrightarrow> (\<forall>i \<le> length s. \<not> has_prefix p (drop i s))"
proof (induction s)
  case Nil
  show ?case by (auto simp: has_prefix_def)
next
  case (Cons c s)
  have "(\<forall>i \<le> length (c # s). \<not> has_prefix p (drop i (c # s))) \<longleftrightarrow>
        \<not> has_prefix p (c # s) \<and> (\<forall>i \<le> length s. \<not> has_prefix p (drop i s))"
    by (metis Suc_le_mono drop0 drop_Suc_Cons le0 length_Cons not0_implies_Suc)
  thus ?case using Cons.IH by simp
qed

lemma contains_Cons: "contains p (x # s) \<longleftrightarrow> has_prefix p (x # s) \<or> contains p s"
  by (auto simp: contains_def)

lemma contains_iff: "contains p s \<longleftrightarrow> (\<exists>u v. s = u @ p @ v)"
proof
  assume "contains p s"
  then obtain i where "index_of p s = Some i" unfolding contains_def by auto
  hence "has_prefix p (drop i s)" using index_of_Some by blast
  then obtain v where "drop i s = p @ v" by (auto simp: has_prefix_iff)
  thus "\<exists>u v. s = u @ p @ v" by (metis append_take_drop_id)
next
  assume "\<exists>u v. s = u @ p @ v"
  then obtain u v where s: "s = u @ p @ v" by blast
  hence "length u \<le> length s \<and> has_prefix p (drop (length u) s)" by simp
  thus "contains p s" unfolding contains_def using index_of_None by fastforce
qed

lemma replace_char_simps [simp]:
  "replace_char c r [] = []"
  "replace_char c r (x # s) = (if x = c then r else [x]) @ replace_char c r s"
  by (simp_all add: replace_char_def)

lemma replace_char_append [simp]:
  "replace_char c r (s @ t) = replace_char c r s @ replace_char c r t"
  by (simp add: replace_char_def)

lemma replace_char_absent: "c \<notin> set s \<Longrightarrow> replace_char c r s = s"
  by (induction s) auto

lemma split_char_not_Nil [simp]: "split_char c s \<noteq> []"
  by (induction s) (auto split: list.splits)

lemma join_split_char: "join [c] (split_char c s) = s"
proof (induction s)
  case (Cons x xs)
  show ?case using Cons.IH
    by (cases "split_char c xs"; cases "tl (split_char c xs)") auto
qed simp

lemma split_char_no_sep: "c \<notin> set s \<Longrightarrow> split_char c s = [s]"
  by (induction s) auto

lemma split_char_app:
  "c \<notin> set s \<Longrightarrow> split_char c (s @ c # t) = s # split_char c t"
  by (induction s) auto

lemma split_char_words: "w \<in> set (split_char c s) \<Longrightarrow> c \<notin> set w"
  by (induction s arbitrary: w) (auto split: list.splits if_splits)

lemma bytes_of_string_of [simp]: "bytes_of (string_of bs) = bs"
proof (induction bs)
  case (Cons b bs)
  have lt: "unat b < 256"
    by (rule order_less_le_trans [OF unsigned_less]) simp
  have "(of_char (char_of (unat b) :: char) :: byte) = of_nat (of_char (char_of (unat b)))"
    by (simp only: of_nat_of_char)
  also have "\<dots> = b"
    using lt by (simp add: of_nat_of_char)
  finally show ?case using Cons.IH by (simp add: string_of_def bytes_of_def)
qed (simp add: string_of_def bytes_of_def)

section \<open>White space\<close>

text \<open>A character by its code, for the bytes that have no literal.\<close>

abbreviation chr :: "nat \<Rightarrow> char" where
  "chr n \<equiv> char_of n"

definition ascii_space :: "char \<Rightarrow> bool" where
  "ascii_space c = (of_char c \<in> {9 :: nat, 10, 11, 12, 13, 32})"

text \<open>
  \<open>unicode.IsSpace\<close> outside ASCII, as UTF-8: U+0085, U+00A0, U+1680, U+2000 to U+200A,
  U+2028, U+2029, U+202F, U+205F, U+3000.
\<close>

definition wide_spaces :: "string list" where
  "wide_spaces =
     map (map chr)
       ([[194, 133], [194, 160], [225, 154, 128]] @
        map (\<lambda>k. [226, 128, k]) ([128..<139] @ [168, 169, 175]) @
        [[226, 129, 159], [227, 128, 128]])"

text \<open>The length of the white space rune at the front, 0 when there is none.\<close>

definition space_len :: "string list \<Rightarrow> string \<Rightarrow> nat" where
  "space_len ws s =
     (case s of
        [] \<Rightarrow> 0
      | c # t \<Rightarrow> if ascii_space c then 1
                else case find (\<lambda>w. has_prefix w s) ws of Some w \<Rightarrow> length w | None \<Rightarrow> 0)"

function strip_front :: "string list \<Rightarrow> string \<Rightarrow> string" where
  "strip_front ws s =
     (if s \<noteq> [] \<and> 0 < space_len ws s then strip_front ws (drop (space_len ws s) s) else s)"
  by pat_completeness auto
termination
  by (relation "measure (\<lambda>(ws, s). length s)") auto

declare strip_front.simps [simp del]

definition trim_space :: "string \<Rightarrow> string" where
  "trim_space s = rev (strip_front (map rev wide_spaces) (rev (strip_front wide_spaces s)))"

text \<open>\<open>strings.Trim\<close>, \<open>TrimLeft\<close> and \<open>TrimRight\<close> with an ASCII cut set.\<close>

definition trim_left :: "('a \<Rightarrow> bool) \<Rightarrow> 'a list \<Rightarrow> 'a list" where
  "trim_left P s = dropWhile P s"

definition trim_right :: "('a \<Rightarrow> bool) \<Rightarrow> 'a list \<Rightarrow> 'a list" where
  "trim_right P s = rev (dropWhile P (rev s))"

definition trim_set :: "('a \<Rightarrow> bool) \<Rightarrow> 'a list \<Rightarrow> 'a list" where
  "trim_set P s = trim_right P (trim_left P s)"

text \<open>\<open>strings.Fields\<close>: the maximal runs without white space.\<close>

function string_fields_from :: "string \<Rightarrow> string \<Rightarrow> string list" where
  "string_fields_from w s =
     (case s of
        [] \<Rightarrow> (if w = [] then [] else [w])
      | c # t \<Rightarrow>
          if 0 < space_len wide_spaces s
          then (if w = [] then [] else [w]) @ string_fields_from [] (drop (space_len wide_spaces s) s)
          else string_fields_from (w @ [c]) t)"
  by pat_completeness auto
termination
  by (relation "measure (\<lambda>(w, s). length s)") (auto simp del: drop_Suc_Cons)

declare string_fields_from.simps [simp del]

definition string_fields :: "string \<Rightarrow> string list" where
  "string_fields s = string_fields_from [] s"

section \<open>Letter case\<close>

definition lower_char :: "char \<Rightarrow> char" where
  "lower_char c = (let n = of_char c :: nat in if 65 \<le> n \<and> n \<le> 90 then chr (n + 32) else c)"

definition upper_char :: "char \<Rightarrow> char" where
  "upper_char c = (let n = of_char c :: nat in if 97 \<le> n \<and> n \<le> 122 then chr (n - 32) else c)"

text \<open>
  U+212A (the Kelvin sign) and U+0130 have the lower case letters k and i; U+017F and
  U+0131 have the upper case letters S and I.
\<close>

definition to_lower :: "string \<Rightarrow> string" where
  "to_lower s =
     replace_all (map chr [196, 176]) ''i''
       (replace_all (map chr [226, 132, 170]) ''k'' (map lower_char s))"

definition to_upper :: "string \<Rightarrow> string" where
  "to_upper s =
     replace_all (map chr [197, 191]) ''S''
       (replace_all (map chr [196, 177]) ''I'' (map upper_char s))"

section \<open>Decimal numbers\<close>

definition digit :: "nat \<Rightarrow> char" where
  "digit n = chr (48 + n)"

definition digit_val :: "char \<Rightarrow> nat option" where
  "digit_val c =
     (let n = of_char c :: nat in if 48 \<le> n \<and> n \<le> 57 then Some (n - 48) else None)"

fun show_nat :: "nat \<Rightarrow> string" where
  "show_nat n = (if n < 10 then [digit n] else show_nat (n div 10) @ [digit (n mod 10)])"

declare show_nat.simps [simp del]

definition show_int :: "int \<Rightarrow> string" where
  "show_int i = (if i < 0 then CHR ''-'' # show_nat (nat (- i)) else show_nat (nat i))"

fun parse_digits :: "nat \<Rightarrow> string \<Rightarrow> nat option" where
  "parse_digits acc [] = Some acc"
| "parse_digits acc (c # s) =
     (case digit_val c of None \<Rightarrow> None | Some d \<Rightarrow> parse_digits (10 * acc + d) s)"

definition int64_range :: "int \<Rightarrow> bool" where
  "int64_range i = (- (2 ^ 63) \<le> i \<and> i < 2 ^ 63)"

text \<open>\<open>strconv.ParseInt(s, 10, 64)\<close>, which \<open>strconv.Atoi\<close> is on a 64-bit machine.\<close>

definition parse_unsigned :: "string \<Rightarrow> nat option" where
  "parse_unsigned s = (if s = [] then None else parse_digits 0 s)"

definition parse_int64 :: "string \<Rightarrow> int option" where
  "parse_int64 s =
     (let neg = has_prefix ''-'' s;
          body = (if neg \<or> has_prefix ''+'' s then tl s else s)
      in case parse_unsigned body of
           None \<Rightarrow> None
         | Some n \<Rightarrow>
             let i = (if neg then - int n else int n)
             in if int64_range i then Some i else None)"

lemma digit_val_digit [simp]: "n < 10 \<Longrightarrow> digit_val (digit n) = Some n"
  by (simp add: digit_val_def digit_def)

lemma parse_digits_append:
  "parse_digits acc (s @ t) = (case parse_digits acc s of None \<Rightarrow> None | Some a \<Rightarrow> parse_digits a t)"
  by (induction acc s rule: parse_digits.induct) (auto split: option.splits)

lemma show_nat_not_Nil [simp]: "show_nat n \<noteq> []"
  by (simp add: show_nat.simps [of n])

lemma parse_show_nat [simp]: "parse_digits 0 (show_nat n) = Some n"
proof (induction n rule: show_nat.induct)
  case (1 n)
  show ?case
  proof (cases "n < 10")
    case True
    thus ?thesis by (simp add: show_nat.simps [of n])
  next
    case False
    hence "parse_digits 0 (show_nat n) = Some (10 * (n div 10) + n mod 10)"
      using 1 by (simp add: show_nat.simps [of n] parse_digits_append)
    thus ?thesis by simp
  qed
qed

lemma show_nat_digits: "c \<in> set (show_nat n) \<Longrightarrow> \<exists>d < 10. c = digit d"
proof (induction n rule: show_nat.induct)
  case (1 n)
  show ?case
  proof (cases "n < 10")
    case True
    thus ?thesis using 1 by (auto simp: show_nat.simps [of n])
  next
    case False
    hence "c \<in> set (show_nat (n div 10)) \<or> c = digit (n mod 10)"
      using "1.prems" by (auto simp: show_nat.simps [of n])
    moreover have "n mod 10 < 10" by simp
    ultimately show ?thesis using "1.IH" False by blast
  qed
qed

lemma digit_val_Some: "digit_val c = Some d \<Longrightarrow> d < 10 \<and> c = digit d"
proof -
  assume a: "digit_val c = Some d"
  hence d: "(of_char c :: nat) = 48 + d" "d \<le> 9"
    by (auto simp: digit_val_def Let_def split: if_splits)
  have "c = chr (of_char c)" by simp
  also have "\<dots> = digit d" unfolding digit_def by (simp only: d)
  finally show ?thesis using d by simp
qed

lemma show_nat_digit_val: "c \<in> set (show_nat n) \<Longrightarrow> digit_val c \<noteq> None"
  using show_nat_digits by fastforce

lemma not_digit_absent: "digit_val c = None \<Longrightarrow> c \<notin> set (show_nat n)"
  using show_nat_digit_val by blast

lemma parse_show_int64 [simp]:
  assumes "int64_range i"
  shows "parse_int64 (show_int i) = Some i"
proof -
  have "\<not> has_prefix ''-'' (show_nat n)" "\<not> has_prefix ''+'' (show_nat n)" for n
    using not_digit_absent [of "CHR ''-''" n] not_digit_absent [of "CHR ''+''" n]
    by (auto simp: has_prefix_iff digit_val_def)
  thus ?thesis using assms
    by (simp add: parse_int64_def show_int_def parse_unsigned_def Let_def)
qed

lemma parse_int64_range: "parse_int64 s = Some i \<Longrightarrow> int64_range i"
  by (auto simp: parse_int64_def Let_def split: option.splits if_splits)

section \<open>Trimming\<close>

lemma trim_right_append:
  "trim_right P (s @ t) = (if \<forall>c \<in> set t. P c then trim_right P s else s @ trim_right P t)"
  by (auto simp: trim_right_def dropWhile_append dropWhile_eq_Nil_conv)

lemma trim_right_all: "trim_right P s = [] \<longleftrightarrow> (\<forall>c \<in> set s. P c)"
  by (simp add: trim_right_def)

lemma trim_right_last: "trim_right P s \<noteq> [] \<Longrightarrow> \<not> P (last (trim_right P s))"
  by (simp add: trim_right_def last_rev hd_dropWhile)

lemma trim_right_id: "s = [] \<or> \<not> P (last s) \<Longrightarrow> trim_right P s = s"
  by (cases s rule: rev_cases) (auto simp: trim_right_def)

lemma trim_right_idem [simp]: "trim_right P (trim_right P s) = trim_right P s"
  by (rule trim_right_id) (use trim_right_last in blast)

lemma trim_right_prefix: "\<exists>t. s = trim_right P s @ t \<and> (\<forall>c \<in> set t. P c)"
proof -
  have "s = rev (takeWhile P (rev s) @ dropWhile P (rev s))" by simp
  also have "\<dots> = trim_right P s @ rev (takeWhile P (rev s))"
    by (simp only: rev_append trim_right_def)
  finally show ?thesis by (metis set_rev set_takeWhileD)
qed

lemma trim_left_hd: "trim_left P s \<noteq> [] \<Longrightarrow> \<not> P (hd (trim_left P s))"
  by (simp add: trim_left_def hd_dropWhile)

lemma trim_left_id: "s = [] \<or> \<not> P (hd s) \<Longrightarrow> trim_left P s = s"
  by (cases s) (auto simp: trim_left_def)

lemma trim_right_hd: "trim_right P s \<noteq> [] \<Longrightarrow> hd (trim_right P s) = hd s"
  using trim_right_prefix [of s P] by (metis hd_append2)

lemma trim_set_ends:
  assumes "trim_set P s \<noteq> []"
  shows "\<not> P (hd (trim_set P s))" and "\<not> P (last (trim_set P s))"
proof -
  have "trim_left P s \<noteq> []" using assms by (auto simp: trim_set_def trim_right_def)
  thus "\<not> P (hd (trim_set P s))" using assms trim_left_hd [of P s] trim_right_hd
    unfolding trim_set_def by metis
  show "\<not> P (last (trim_set P s))" using assms trim_right_last unfolding trim_set_def by blast
qed

lemma trim_set_id: "s = [] \<or> \<not> P (hd s) \<and> \<not> P (last s) \<Longrightarrow> trim_set P s = s"
  unfolding trim_set_def by (metis trim_left_id trim_right_id)

lemma trim_set_idem [simp]: "trim_set P (trim_set P s) = trim_set P s"
  by (rule trim_set_id) (use trim_set_ends in blast)

section \<open>Printable characters survive trimming\<close>

definition solid :: "char \<Rightarrow> bool" where
  "solid c = (let n = of_char c :: nat in 33 \<le> n \<and> n \<le> 126)"

definition solid_free :: "string list \<Rightarrow> bool" where
  "solid_free ws = list_all (\<lambda>w. w \<noteq> [] \<and> list_all (\<lambda>c. \<not> solid c) w) ws"

lemma wide_spaces_solid_free: "solid_free wide_spaces"
  by (simp add: solid_free_def wide_spaces_def solid_def Let_def upt_conv_Cons)

lemma rev_spaces_solid_free: "solid_free ws \<Longrightarrow> solid_free (map rev ws)"
  by (simp add: solid_free_def list_all_iff)

lemma solid_not_space: "solid c \<Longrightarrow> \<not> ascii_space c"
  by (auto simp: solid_def ascii_space_def Let_def)

lemma space_len_solid [simp]:
  assumes "solid c" and "solid_free ws"
  shows "space_len ws (c # s) = 0"
proof -
  have "\<not> has_prefix w (c # s)" if "w \<in> set ws" for w
    using assms that by (cases w) (auto simp: solid_free_def list_all_iff)
  hence "find (\<lambda>w. has_prefix w (c # s)) ws = None" by (simp add: find_None_set)
  thus ?thesis using assms by (simp add: space_len_def solid_not_space)
qed

lemma strip_front_solid [simp]: "solid c \<Longrightarrow> solid_free ws \<Longrightarrow> strip_front ws (c # s) = c # s"
  by (simp add: strip_front.simps [of ws "c # s"])

text \<open>White space at the front never reaches into a printable character.\<close>

lemma space_len_before:
  assumes "solid c" and "solid_free ws"
  shows "space_len ws (u @ c # s) \<le> length u"
proof (cases u)
  case (Cons x v)
  have "length w \<le> length u" if "w \<in> set ws" and p: "has_prefix w (u @ c # s)" for w
  proof (rule ccontr)
    assume "\<not> length w \<le> length u"
    hence lt: "length u < length w" by simp
    from p obtain r where "u @ c # s = w @ r" by (auto simp: has_prefix_iff)
    hence "w ! length u = c" using lt by (metis nth_append nth_append_length)
    hence "c \<in> set w" using lt nth_mem by blast
    thus False using assms that(1) by (auto simp: solid_free_def list_all_iff)
  qed
  hence "find (\<lambda>w. has_prefix w (u @ c # s)) ws = Some w \<Longrightarrow> length w \<le> length u" for w
    using find_Some_iff by metis
  thus ?thesis using Cons by (auto simp: space_len_def split: option.split)
qed (simp add: assms)

lemma strip_front_keeps:
  assumes "solid c" and "solid_free ws"
  shows "\<exists>u'. strip_front ws (u @ c # s) = u' @ c # s"
proof (induction u rule: length_induct)
  case (1 u)
  let ?k = "space_len ws (u @ c # s)"
  show ?case
  proof (cases "0 < ?k")
    case True
    have k: "?k \<le> length u" by (rule space_len_before [OF assms])
    hence "strip_front ws (u @ c # s) = strip_front ws (drop ?k u @ c # s)"
      using True by (simp add: strip_front.simps [of ws "u @ c # s"])
    moreover have "length (drop ?k u) < length u" using True k by simp
    ultimately show ?thesis using 1 by metis
  next
    case False
    thus ?thesis by (auto simp: strip_front.simps [of ws "u @ c # s"])
  qed
qed

lemma strip_front_id: "s = [] \<or> solid (hd s) \<Longrightarrow> solid_free ws \<Longrightarrow> strip_front ws s = s"
  by (cases s) (auto simp: strip_front.simps [of ws "[]"])

lemma trim_space_tail:
  assumes "t \<noteq> []" and "solid (hd t)" and "solid (last t)"
  shows "\<exists>u'. trim_space (u @ t) = u' @ t"
proof -
  obtain c s where t: "t = c # s" using assms(1) by (cases t) auto
  obtain u' where u': "strip_front wide_spaces (u @ t) = u' @ t"
    using strip_front_keeps [OF _ wide_spaces_solid_free] assms(2) t by force
  have "rev (u' @ t) \<noteq> [] \<and> hd (rev (u' @ t)) = last t"
    using assms(1) by (simp add: hd_append hd_rev)
  hence "strip_front (map rev wide_spaces) (rev (u' @ t)) = rev (u' @ t)"
    using assms(3) rev_spaces_solid_free [OF wide_spaces_solid_free] by (metis strip_front_id)
  thus ?thesis by (simp add: trim_space_def u')
qed

lemma trim_space_solid:
  assumes "t = [] \<or> solid (hd t) \<and> solid (last t)"
  shows "trim_space t = t"
proof -
  have "strip_front wide_spaces t = t"
    using assms wide_spaces_solid_free by (intro strip_front_id) auto
  moreover have "strip_front (map rev wide_spaces) (rev t) = rev t"
    using assms rev_spaces_solid_free [OF wide_spaces_solid_free]
    by (intro strip_front_id) (auto simp: hd_rev)
  ultimately show ?thesis by (simp add: trim_space_def)
qed

lemma trim_set_tail:
  assumes "t \<noteq> []" and "\<not> P (hd t)" and "\<not> P (last t)"
  shows "\<exists>u'. trim_set P (u @ t) = u' @ t"
proof -
  have "dropWhile P (u @ t) = dropWhile P u @ t"
    using assms by (cases t) (auto simp: dropWhile_append)
  moreover have "trim_right P (dropWhile P u @ t) = dropWhile P u @ t"
    using assms by (intro trim_right_id) simp
  ultimately show ?thesis by (simp add: trim_set_def trim_left_def)
qed

section \<open>Letter case of ASCII text\<close>

definition ascii :: "string \<Rightarrow> bool" where
  "ascii s = list_all (\<lambda>c. (of_char c :: nat) < 128) s"

lemma replace_all_absent: "a \<notin> set s \<Longrightarrow> replace_all (a # p) r s = s"
proof (induction s)
  case Nil
  show ?case by (simp add: replace_all.simps [of "a # p" r "[]"])
next
  case (Cons c s)
  thus ?case by (simp add: replace_all.simps [of "a # p" r "c # s"])
qed

lemma of_char_lower: "(of_char (lower_char c) :: nat) =
  (if 65 \<le> (of_char c :: nat) \<and> (of_char c :: nat) \<le> 90 then of_char c + 32 else of_char c)"
  by (auto simp: lower_char_def Let_def)

lemma of_char_upper: "(of_char (upper_char c) :: nat) =
  (if 97 \<le> (of_char c :: nat) \<and> (of_char c :: nat) \<le> 122 then of_char c - 32 else of_char c)"
  by (auto simp: upper_char_def Let_def)

lemma not_in_ascii: "ascii s \<Longrightarrow> 128 \<le> n \<Longrightarrow> n < 256 \<Longrightarrow> chr n \<notin> set s"
proof
  assume a: "ascii s" "128 \<le> n" "n < 256" "chr n \<in> set s"
  hence "(of_char (chr n) :: nat) < 128" by (auto simp: ascii_def list_all_iff)
  thus False using a by simp
qed

lemma ascii_lower: "ascii s \<Longrightarrow> ascii (map lower_char s)"
  by (auto simp: ascii_def list_all_iff of_char_lower)

lemma to_lower_ascii: "ascii s \<Longrightarrow> to_lower s = map lower_char s"
  using not_in_ascii [OF ascii_lower, of s 226] not_in_ascii [OF ascii_lower, of s 196]
  by (simp add: to_lower_def replace_all_absent)

lemma lower_char_idem [simp]: "lower_char (lower_char c) = lower_char c"
proof -
  have "(of_char (lower_char (lower_char c)) :: nat) = of_char (lower_char c)"
    by (simp only: of_char_lower split: if_split) simp
  thus ?thesis by simp
qed

section \<open>Literals\<close>

text \<open>The texts the concrete runs of the later theories use.\<close>

lemma literal_words_trimmed:
  "trim_space ''ssh'' = ''ssh''" "trim_space ''rdp'' = ''rdp''" "trim_space ''mysql'' = ''mysql''"
  "trim_space ''true'' = ''true''" "trim_space ''rec'' = ''rec''" "trim_space ''admin'' = ''admin''"
  by (rule trim_space_solid, simp add: solid_def)+

lemma literal_words_lower:
  "to_lower ''ssh'' = ''ssh''" "to_lower ''rdp'' = ''rdp''" "to_lower ''mysql'' = ''mysql''"
  by code_simp+

lemma literal_words_no_nul:
  "chr 0 \<noteq> CHR ''r''" "chr 0 \<noteq> CHR ''o''" "chr 0 \<noteq> CHR ''t''" "chr 0 \<noteq> CHR ''j''" "chr 0 \<noteq> CHR ''u''" "chr 0 \<noteq> CHR ''m''" "chr 0 \<noteq> CHR ''p''"
  by code_simp+

lemma literal_word_kept: "trim_space (map chr [195, 92, 33]) = map chr [195, 92, 33]"
  by code_simp

lemma literal_numbers: "parse_int64 ''2222'' = Some 2222" "parse_int64 ''3307'' = Some 3307" "parse_int64 ''3'' = Some 3"
  "parse_int64 ''2'' = Some 2"
  by code_simp+

end
