(* ===== verification/Codec.thy ===== *)
theory Codec
  imports GoStrings
begin

text \<open>
  Fixed width integers on the wire (\<open>encoding/binary\<close>), UTF-8 validity
  (\<open>unicode/utf8\<close>), and the contract of a self-delimiting encoding, which the integers,
  strings, fields and packets of the wire protocols share.
\<close>

unbundle bit_operations_syntax

section \<open>Fixed width integers\<close>

text \<open>\<open>le k w\<close> is the \<open>k\<close> low bytes of \<open>w\<close>, the lowest first; \<open>un_le\<close> reads them back.\<close>

definition le :: "nat \<Rightarrow> 'a::len word \<Rightarrow> byte list" where
  "le k w = map (\<lambda>i. ucast (drop_bit (8 * i) w)) [0..<k]"

definition un_le :: "byte list \<Rightarrow> 'a::len word" where
  "un_le bs = foldr (\<lambda>b acc. ucast b OR push_bit 8 acc) bs 0"

text \<open>The same, highest byte first.\<close>

definition be :: "nat \<Rightarrow> 'a::len word \<Rightarrow> byte list" where
  "be k w = rev (le k w)"

definition un_be :: "byte list \<Rightarrow> 'a::len word" where
  "un_be bs = un_le (rev bs)"

lemma length_le [simp]: "length (le k w) = k" "length (be k w) = k"
  by (simp_all add: le_def be_def)

lemma bit_un_le:
  "bit (un_le bs :: 'a::len word) n \<longleftrightarrow>
   n < LENGTH('a) \<and> n div 8 < length bs \<and> bit (bs ! (n div 8)) (n mod 8)"
proof (induction bs arbitrary: n)
  case Nil
  show ?case by (simp add: un_le_def)
next
  case (Cons b bs)
  have u: "un_le (b # bs) = (ucast b OR push_bit 8 (un_le bs) :: 'a word)"
    by (simp add: un_le_def)
  show ?case
  proof (cases "n < 8")
    case True
    thus ?thesis by (simp add: u bit_simps)
  next
    case False
    hence d: "n div 8 = Suc ((n - 8) div 8)" "n mod 8 = (n - 8) mod 8"
      by (simp_all add: le_div_geq le_mod_geq)
    have "\<not> bit b n" using False by (auto dest: bit_imp_le_length)
    thus ?thesis unfolding u d using False Cons.IH [of "n - 8"] by (auto simp: bit_simps)
  qed
qed

lemma un_le_le: "un_le (le k w) = take_bit (8 * k) w"
  by (rule bit_word_eqI) (auto simp: bit_un_le le_def bit_simps)

lemma un_be_be: "un_be (be k w) = take_bit (8 * k) w"
  by (simp add: un_be_def be_def un_le_le)

lemma take_bit_full: "uint w < 2 ^ n \<Longrightarrow> take_bit n (w :: 'a::len word) = w"
  by (rule word_uint_eqI) (simp add: unsigned_take_bit_eq take_bit_int_eq_self)

lemma un_le_fits: "uint w < 2 ^ (8 * k) \<Longrightarrow> un_le (le k w) = w"
  by (simp add: un_le_le take_bit_full)

lemma un_be_fits: "uint w < 2 ^ (8 * k) \<Longrightarrow> un_be (be k w) = w"
  by (simp add: un_be_be take_bit_full)

text \<open>Reading \<open>k\<close> bytes into a wider word is reading them into their own width.\<close>

lemma ucast_un_le:
  "8 * length bs \<le> LENGTH('a) \<Longrightarrow> ucast (un_le bs :: 'a::len word) = (un_le bs :: 'b::len word)"
proof (rule bit_word_eqI)
  fix n
  assume len: "8 * length bs \<le> LENGTH('a)" and n: "n < LENGTH('b)"
  have "n div 8 < length bs \<Longrightarrow> n < LENGTH('a)" using len by linarith
  thus "bit (ucast (un_le bs :: 'a word) :: 'b word) n = bit (un_le bs :: 'b word) n"
    using n by (auto simp: bit_simps bit_un_le)
qed

section \<open>Signed 64-bit arithmetic\<close>

text \<open>Go's \<open>int\<close> and \<open>int64\<close> wrap around on overflow.\<close>

definition wrap64 :: "int \<Rightarrow> int" where
  "wrap64 i = (i + 2 ^ 63) mod 2 ^ 64 - 2 ^ 63"

lemma wrap64_id: "int64_range i \<Longrightarrow> wrap64 i = i"
  by (simp add: wrap64_def int64_range_def)

lemma wrap64_range: "int64_range (wrap64 i)"
  by (simp add: wrap64_def int64_range_def)

lemma wrap64_over: "2 ^ 63 \<le> i \<Longrightarrow> i < 2 ^ 63 + 2 ^ 64 \<Longrightarrow> wrap64 i = i - 2 ^ 64"
  unfolding wrap64_def
proof -
  assume a: "2 ^ 63 \<le> i" "i < 2 ^ 63 + 2 ^ 64"
  have "(i + 2 ^ 63) mod 2 ^ 64 = (i + 2 ^ 63 - 2 ^ 64) mod 2 ^ 64"
    by (metis mod_diff_right_eq mod_self diff_zero)
  also have "\<dots> = i + 2 ^ 63 - 2 ^ 64"
    using a by (intro mod_pos_pos_trivial) simp_all
  finally show "(i + 2 ^ 63) mod 2 ^ 64 - 2 ^ 63 = i - 2 ^ 64" by simp
qed

section \<open>UTF-8\<close>

text \<open>The length of the well-formed rune at the front, 0 when there is none.\<close>

definition in_range :: "int \<Rightarrow> int \<Rightarrow> byte \<Rightarrow> bool" where
  "in_range lo hi b = (lo \<le> uint b \<and> uint b \<le> hi)"

definition utf8_len :: "byte list \<Rightarrow> nat" where
  "utf8_len s =
     (case s of
        [] \<Rightarrow> 0
      | b # t \<Rightarrow>
          if uint b < 0x80 then 1
          else let cont = in_range 0x80 0xBF;
                   follows = (\<lambda>k lo hi. k \<le> length t \<and> in_range lo hi (hd t)
                                \<and> list_all cont (take (k - 1) (tl t)))
               in if in_range 0xC2 0xDF b then (if follows 1 0x80 0xBF then 2 else 0)
                  else if uint b = 0xE0 then (if follows 2 0xA0 0xBF then 3 else 0)
                  else if uint b = 0xED then (if follows 2 0x80 0x9F then 3 else 0)
                  else if in_range 0xE1 0xEF b then (if follows 2 0x80 0xBF then 3 else 0)
                  else if uint b = 0xF0 then (if follows 3 0x90 0xBF then 4 else 0)
                  else if in_range 0xF1 0xF3 b then (if follows 3 0x80 0xBF then 4 else 0)
                  else if uint b = 0xF4 then (if follows 3 0x80 0x8F then 4 else 0)
                  else 0)"

function utf8_valid :: "byte list \<Rightarrow> bool" where
  "utf8_valid s =
     (if s = [] then True
      else if utf8_len s = 0 then False else utf8_valid (drop (utf8_len s) s))"
  by pat_completeness auto
termination
  by (relation "measure length") auto

declare utf8_valid.simps [simp del]

lemma utf8_valid_Nil [simp]: "utf8_valid []"
  by (simp add: utf8_valid.simps [of "[]"])

lemma utf8_valid_ascii: "(\<And>b. b \<in> set s \<Longrightarrow> uint b < 0x80) \<Longrightarrow> utf8_valid s"
proof (induction s)
  case (Cons b t)
  have "utf8_len (b # t) = 1" using Cons.prems by (simp add: utf8_len_def)
  thus ?case using Cons by (simp add: utf8_valid.simps [of "b # t"])
qed simp

section \<open>Self-delimiting encodings\<close>

text \<open>
  A reader returns the value and the bytes that follow it.  The contract: it reads back
  what the writer wrote, whatever follows, and a written value has at least one byte.
\<close>

text \<open>A sequence of values, one after the other, and the reader of \<open>n\<close> values.\<close>

primrec enc_list :: "('a \<Rightarrow> byte list) \<Rightarrow> 'a list \<Rightarrow> byte list" where
  "enc_list enc [] = []"
| "enc_list enc (a # as) = enc a @ enc_list enc as"

primrec dec_list ::
    "(byte list \<Rightarrow> ('a \<times> byte list) option) \<Rightarrow> nat \<Rightarrow> byte list \<Rightarrow> ('a list \<times> byte list) option" where
  "dec_list dec 0 bs = Some ([], bs)"
| "dec_list dec (Suc n) bs =
     (case dec bs of
        None \<Rightarrow> None
      | Some (a, bs') \<Rightarrow> map_option (\<lambda>(as, r). (a # as, r)) (dec_list dec n bs'))"

lemma enc_list_append: "enc_list enc (as @ bs) = enc_list enc as @ enc_list enc bs"
  by (induction as) simp_all

locale prefix_codec =
  fixes enc :: "'a \<Rightarrow> byte list"
    and dec :: "byte list \<Rightarrow> ('a \<times> byte list) option"
    and valid :: "'a \<Rightarrow> bool"
  assumes dec_enc: "valid a \<Longrightarrow> dec (enc a @ rest) = Some (a, rest)"
    and enc_not_Nil: "enc a \<noteq> []"
begin


lemma dec_enc_list:
  assumes "list_all valid as"
  shows "dec_list dec (length as) (enc_list enc as @ rest) = Some (as, rest)"
  using assms by (induction as) (simp_all add: dec_enc)

lemma enc_inject: "valid a \<Longrightarrow> valid b \<Longrightarrow> enc a @ r = enc b @ r' \<Longrightarrow> a = b \<and> r = r'"
  by (metis dec_enc option.inject prod.inject)

lemma enc_list_inject:
  assumes "list_all valid as" and "list_all valid bs" and "enc_list enc as = enc_list enc bs"
  shows "as = bs"
  using assms
proof (induction as arbitrary: bs)
  case Nil
  thus ?case by (cases bs) (auto simp: enc_not_Nil)
next
  case (Cons a as)
  then obtain b bs' where b: "bs = b # bs'"
    by (cases bs) (auto simp: enc_not_Nil)
  with Cons.prems have "a = b \<and> enc_list enc as = enc_list enc bs'"
    using enc_inject [of a b "enc_list enc as" "enc_list enc bs'"] by simp
  thus ?case using Cons b by simp
qed

end

end
