(* ===== verification/MySqlProtocol.thy ===== *)
theory MySqlProtocol
  imports Codec
begin

text \<open>
  The MySQL wire protocol of the database proxy (\<open>proxy/db/mysql_protocol.go\<close>): packet
  framing, length-encoded integers and strings, the client's handshake response, result
  sets, and the command classification of \<open>proxy/db/mysql_server.go\<close>.  The bytes a client
  can still send are a list; what is written is a list of bytes.  Reading past a slice's
  end is an outcome of its own, because Go panics there.
\<close>

section \<open>Length-encoded integers and strings\<close>

definition writeLenEncInt :: "64 word \<Rightarrow> byte list" where
  "writeLenEncInt n =
     (if n < 251 then [ucast n]
      else if n \<le> 0xffff then 0xfc # le 2 n
      else if n \<le> 0xffffff then 0xfd # le 3 n
      else 0xfe # le 8 n)"

text \<open>The value and the next position; \<open>None\<close> is the result \<open>ok = false\<close>.\<close>

definition readLenEncInt :: "byte list \<Rightarrow> nat \<Rightarrow> (64 word \<times> nat) option" where
  "readLenEncInt payload pos =
     (if length payload \<le> pos then None
      else
        let first = payload ! pos;
            wide = (\<lambda>k. if length payload < pos + k then None
                        else Some (un_le (take (k - 1) (drop (pos + 1) payload)), pos + k))
        in if first = 0xfc then wide 3
           else if first = 0xfd then wide 4
           else if first = 0xfe then wide 9
           else Some (ucast first, pos + 1))"

definition writeLenEncString :: "byte list \<Rightarrow> byte list" where
  "writeLenEncString value = writeLenEncInt (of_nat (length value)) @ value"

lemma readLenEncInt_shift:
  "readLenEncInt (pre @ bs) (length pre + k) =
   map_option (\<lambda>(n, p). (n, length pre + p)) (readLenEncInt bs k)"
  by (simp add: readLenEncInt_def Let_def nth_append)

lemma readLenEncInt_next:
  "readLenEncInt payload pos = Some (n, next) \<Longrightarrow> pos < next \<and> next \<le> length payload"
  by (auto simp: readLenEncInt_def Let_def split: if_splits)

lemma lenenc_small: "n < 251 \<Longrightarrow> uint (n :: 64 word) < 251"
  by (simp add: word_less_def)

lemma lenenc_byte:
  assumes "(n :: 64 word) < 251"
  shows "(ucast (ucast n :: byte) :: 64 word) = n"
    and "(ucast n :: byte) \<noteq> 0xfc" and "(ucast n :: byte) \<noteq> 0xfd" and "(ucast n :: byte) \<noteq> 0xfe"
proof -
  have u: "uint (ucast n :: byte) = uint n"
    using lenenc_small [OF assms]
    by (simp add: unsigned_ucast_eq unsigned_take_bit_eq take_bit_int_eq_self)
  show "(ucast (ucast n :: byte) :: 64 word) = n"
    using lenenc_small [OF assms]
    by (intro word_uint_eqI)
       (simp add: unsigned_ucast_eq unsigned_take_bit_eq take_bit_int_eq_self)
  show "(ucast n :: byte) \<noteq> 0xfc" "(ucast n :: byte) \<noteq> 0xfd" "(ucast n :: byte) \<noteq> 0xfe"
    using lenenc_small [OF assms] by (auto simp flip: u)
qed

lemma lenenc_un_le:
  "(n :: 64 word) \<le> 0xffff \<Longrightarrow> un_le (le 2 n) = n"
  "(n :: 64 word) \<le> 0xffffff \<Longrightarrow> un_le (le 3 n) = n"
  by (rule un_le_fits; simp add: word_le_def)+

lemma lenenc_un_le_8: "un_le (le 8 n) = (n :: 64 word)"
  by (rule un_le_fits, rule order_less_le_trans [OF unsigned_less], simp)

lemma readLenEncInt_write:
  "readLenEncInt (writeLenEncInt n @ rest) 0 = Some (n, length (writeLenEncInt n))"
  by (auto simp: readLenEncInt_def writeLenEncInt_def lenenc_byte lenenc_un_le
      lenenc_un_le_8 not_less)

definition take_lenenc :: "byte list \<Rightarrow> (64 word \<times> byte list) option" where
  "take_lenenc bs = map_option (\<lambda>(n, p). (n, drop p bs)) (readLenEncInt bs 0)"

interpretation lenenc_int: prefix_codec writeLenEncInt take_lenenc "\<lambda>_. True"
  by unfold_locales
     (simp_all add: take_lenenc_def readLenEncInt_write, simp add: writeLenEncInt_def)

lemma length_writeLenEncInt: "length (writeLenEncInt n) \<le> 9"
  by (simp add: writeLenEncInt_def)

text \<open>The reader a client has for a string: its length, then that many bytes.\<close>

definition take_string :: "byte list \<Rightarrow> (byte list \<times> byte list) option" where
  "take_string bs =
     (case take_lenenc bs of
        None \<Rightarrow> None
      | Some (n, r) \<Rightarrow>
          if unat n \<le> length r then Some (take (unat n) r, drop (unat n) r) else None)"

definition string_fits :: "byte list \<Rightarrow> bool" where
  "string_fits s = (length s < 2 ^ 64)"

lemma unat_length: "string_fits s \<Longrightarrow> unat (of_nat (length s) :: 64 word) = length s"
  by (simp add: string_fits_def unsigned_of_nat take_bit_nat_eq_self)

interpretation lenenc_string: prefix_codec writeLenEncString take_string string_fits
proof unfold_locales
  fix a rest
  assume "string_fits a"
  thus "take_string (writeLenEncString a @ rest) = Some (a, rest)"
    using lenenc_int.dec_enc [of "of_nat (length a)" "a @ rest"]
    by (simp add: take_string_def writeLenEncString_def unat_length)
next
  fix a
  show "writeLenEncString a \<noteq> []"
    by (simp add: writeLenEncString_def lenenc_int.enc_not_Nil)
qed

section \<open>Packets\<close>

datatype mysql_error =
    EndOfStream | UnexpectedEnd | PacketTooLarge nat
  | ResponseTooShort | MissingUsername | BadAuthResponse

definition mysqlMaxPacketSize :: nat where
  "mysqlMaxPacketSize = 0xffffff"

text \<open>\<open>io.ReadFull\<close>.\<close>

definition read_full :: "nat \<Rightarrow> byte list \<Rightarrow> mysql_error + byte list \<times> byte list" where
  "read_full n bs =
     (if n \<le> length bs then Inr (take n bs, drop n bs)
      else Inl (if bs = [] then EndOfStream else UnexpectedEnd))"

text \<open>The payload, the sequence number, and what follows the packet.\<close>

definition readMySQLPacket :: "byte list \<Rightarrow> mysql_error + (byte list \<times> byte) \<times> byte list" where
  "readMySQLPacket bs =
     rbind (read_full 4 bs) (\<lambda>(header, bs1).
       let len = unat (un_le (take 3 header) :: 64 word);
           seq = header ! 3
       in if mysqlMaxPacketSize < len then Inl (PacketTooLarge len)
          else rbind (read_full len bs1) (\<lambda>(payload, bs2). Inr ((payload, seq), bs2)))"

definition packet_bytes :: "byte list \<times> byte \<Rightarrow> byte list" where
  "packet_bytes = (\<lambda>(payload, seq). le 3 (of_nat (length payload) :: 64 word) @ [seq] @ payload)"

definition writeMySQLPacket :: "byte \<Rightarrow> byte list \<Rightarrow> mysql_error + byte list" where
  "writeMySQLPacket seq payload =
     (if mysqlMaxPacketSize < length payload then Inl (PacketTooLarge (length payload))
      else Inr (packet_bytes (payload, seq)))"

definition packet_fits :: "byte list \<times> byte \<Rightarrow> bool" where
  "packet_fits = (\<lambda>(payload, seq). length payload \<le> mysqlMaxPacketSize)"

definition take_packet :: "byte list \<Rightarrow> ((byte list \<times> byte) \<times> byte list) option" where
  "take_packet bs = (case readMySQLPacket bs of Inl _ \<Rightarrow> None | Inr r \<Rightarrow> Some r)"

lemma packet_length:
  "length payload \<le> mysqlMaxPacketSize \<Longrightarrow>
   unat (un_le (le 3 (of_nat (length payload) :: 64 word)) :: 64 word) = length payload"
proof -
  assume "length payload \<le> mysqlMaxPacketSize"
  hence le: "length payload < 2 ^ 24" by (simp add: mysqlMaxPacketSize_def)
  hence u: "unat (of_nat (length payload) :: 64 word) = length payload"
    by (simp add: unsigned_of_nat take_bit_nat_eq_self)
  moreover have "uint w = int (unat w)" for w :: "64 word" by simp
  ultimately have "uint (of_nat (length payload) :: 64 word) = int (length payload)" by metis
  hence "uint (of_nat (length payload) :: 64 word) < 2 ^ (8 * 3)"
    using le by simp
  hence "un_le (le 3 (of_nat (length payload) :: 64 word)) = (of_nat (length payload) :: 64 word)"
    by (rule un_le_fits)
  thus ?thesis using u by simp
qed

lemma readMySQLPacket_write:
  assumes "writeMySQLPacket seq payload = Inr out"
  shows "readMySQLPacket (out @ rest) = Inr ((payload, seq), rest)"
proof -
  define header where "header = le 3 (of_nat (length payload) :: 64 word) @ [seq]"
  have fits: "length payload \<le> mysqlMaxPacketSize" and out: "out = header @ payload"
    using assms by (auto simp: writeMySQLPacket_def packet_bytes_def header_def split: if_splits)
  have h: "length header = 4" "header ! 3 = seq"
    "unat (un_le (take 3 header) :: 64 word) = length payload"
    using packet_length [OF fits] by (simp_all add: header_def nth_append)
  have "read_full 4 (out @ rest) = Inr (header, payload @ rest)"
    "read_full (length payload) (payload @ rest) = Inr (payload, rest)"
    using h(1) by (simp_all add: read_full_def out)
  thus ?thesis using h(2,3) fits by (simp add: readMySQLPacket_def Let_def)
qed

interpretation packet: prefix_codec packet_bytes take_packet packet_fits
proof unfold_locales
  fix a :: "byte list \<times> byte" and rest
  assume "packet_fits a"
  hence "writeMySQLPacket (snd a) (fst a) = Inr (packet_bytes a)"
    by (auto simp: packet_fits_def writeMySQLPacket_def split: prod.splits)
  thus "take_packet (packet_bytes a @ rest) = Some (a, rest)"
    by (simp add: take_packet_def readMySQLPacket_write)
next
  fix a
  show "packet_bytes a \<noteq> []" by (simp add: packet_bytes_def split: prod.split)
qed

end
