(* ===== verification/MySqlHandshake.thy ===== *)
theory MySqlHandshake
  imports MySqlProtocol
begin

text \<open>
  The connection phase of the MySQL proxy: the server's greeting, the parser of the
  client's handshake response (\<open>proxy/db/mysql_protocol.go\<close>).
\<close>

section \<open>Null-terminated fields\<close>

definition readNullBytes :: "byte list \<Rightarrow> nat \<Rightarrow> (byte list \<times> nat) option" where
  "readNullBytes payload pos =
     (if length payload < pos then None
      else case index_byte 0 (drop pos payload) of
             None \<Rightarrow> None
           | Some idx \<Rightarrow> Some (take idx (drop pos payload), pos + idx + 1))"

definition readNullString :: "byte list \<Rightarrow> nat \<Rightarrow> (string \<times> nat) option" where
  "readNullString payload pos =
     map_option (\<lambda>(value, next). (string_of value, next)) (readNullBytes payload pos)"

lemma readNullBytes_app:
  "0 \<notin> set s \<Longrightarrow> readNullBytes (pre @ s @ 0 # rest) (length pre) = Some (s, length pre + length s + 1)"
  by (simp add: readNullBytes_def index_byte_app)

section \<open>The server's greeting\<close>

definition mysqlClientConnectWithDB :: "32 word" where
  "mysqlClientConnectWithDB = push_bit 3 1"

definition mysqlClientSecureConn :: "32 word" where
  "mysqlClientSecureConn = push_bit 15 1"

definition mysqlClientPluginAuthLenEnc :: "32 word" where
  "mysqlClientPluginAuthLenEnc = push_bit 21 1"

definition serverCaps :: "32 word" where
  "serverCaps =
     push_bit 0 1 OR push_bit 2 1 OR mysqlClientConnectWithDB OR push_bit 9 1 OR push_bit 13 1
     OR mysqlClientSecureConn OR push_bit 17 1 OR push_bit 19 1 OR mysqlClientPluginAuthLenEnc"

text \<open>The connection id is the low half of the clock's reading.\<close>

definition greeting :: "32 word \<Rightarrow> byte list" where
  "greeting connId =
     [10] @ bytes_of ''8.0.0-turjmp'' @ [0] @ le 4 connId
     @ bytes_of ''turjmp01'' @ [0] @ le 2 serverCaps @ [33] @ le 2 (2 :: 16 word)
     @ le 2 (drop_bit 16 serverCaps) @ [21] @ replicate 10 0
     @ bytes_of ''turjmp-dbproxy'' @ [0] @ bytes_of ''mysql_native_password'' @ [0]"

definition writeHandshake :: "32 word \<Rightarrow> mysql_error + byte list" where
  "writeHandshake connId = writeMySQLPacket 0 (greeting connId)"

section \<open>The client's response\<close>

record handshakeResponse =
  Username :: string
  Password :: string
  Database :: string

text \<open>
  A parse succeeds, is refused with an error the client is told, or slices past the
  payload: then Go panics, and the whole process ends, as nothing recovers.
\<close>

datatype 'a parse = Parsed 'a | Refused mysql_error | Panicked

datatype auth_read = AuthBytes "byte list" nat | AuthMissing | AuthPanics

definition has_flag :: "32 word \<Rightarrow> 32 word \<Rightarrow> bool" where
  "has_flag flags f = (flags AND f \<noteq> 0)"

text \<open>
  \<open>next+int(n)\<close> is computed in signed 64-bit arithmetic; a slice whose upper bound is
  below its lower one panics.
\<close>

definition readAuthResponse :: "byte list \<Rightarrow> nat \<Rightarrow> 32 word \<Rightarrow> auth_read" where
  "readAuthResponse payload pos flags =
     (if length payload < pos then AuthMissing
      else if has_flag flags mysqlClientPluginAuthLenEnc then
        (case readLenEncInt payload pos of
           None \<Rightarrow> AuthMissing
         | Some (n, next) \<Rightarrow>
             let upper = wrap64 (int next + wrap64 (uint n))
             in if int (length payload) < upper then AuthMissing
                else if upper < int next then AuthPanics
                else AuthBytes (take (nat upper - next) (drop next payload)) (nat upper))
      else if has_flag flags mysqlClientSecureConn then
        (if length payload \<le> pos then AuthMissing
         else let n = unat (payload ! pos); pos = pos + 1
              in if length payload < pos + n then AuthMissing
                 else AuthBytes (take n (drop pos payload)) (pos + n))
      else
        (case readNullBytes payload pos of
           None \<Rightarrow> AuthMissing
         | Some (value, next) \<Rightarrow> AuthBytes value next))"

definition printableAuthResponse :: "byte list \<Rightarrow> string" where
  "printableAuthResponse raw =
     (let raw = trim_right (\<lambda>b. b = 0) raw
      in if raw = [] \<or> \<not> utf8_valid raw then ''''
         else if list_ex (\<lambda>b. b < 0x20 \<or> b = 0x7f) raw then ''''
         else string_of raw)"

definition parseHandshakeResponse :: "byte list \<Rightarrow> handshakeResponse parse" where
  "parseHandshakeResponse payload =
     (if length payload < 32 then Refused ResponseTooShort
      else
        let flags = un_le (take 4 payload); pos = 4 + 4 + 1 + 23
        in case readNullString payload pos of
             None \<Rightarrow> Refused MissingUsername
           | Some (username, pos) \<Rightarrow>
               (case readAuthResponse payload pos flags of
                  AuthPanics \<Rightarrow> Panicked
                | AuthMissing \<Rightarrow> Refused BadAuthResponse
                | AuthBytes authResp pos \<Rightarrow>
                    let database =
                          (if has_flag flags mysqlClientConnectWithDB \<and> pos < length payload
                           then (case readNullString payload pos of
                                   None \<Rightarrow> '''' | Some (db, _) \<Rightarrow> db)
                           else '''')
                    in Parsed \<lparr>Username = username,
                               Password = printableAuthResponse authResp,
                               Database = database\<rparr>))"

text \<open>
  What the protocol prescribes for the client: the capability flags decide how the
  authentication data is delimited and whether a database name follows.
\<close>

definition auth_field :: "32 word \<Rightarrow> byte list \<Rightarrow> byte list" where
  "auth_field flags auth =
     (if has_flag flags mysqlClientPluginAuthLenEnc then writeLenEncString auth
      else if has_flag flags mysqlClientSecureConn then of_nat (length auth) # auth
      else auth @ [0])"

definition auth_field_fits :: "32 word \<Rightarrow> byte list \<Rightarrow> bool" where
  "auth_field_fits flags auth =
     (if has_flag flags mysqlClientPluginAuthLenEnc then True
      else if has_flag flags mysqlClientSecureConn then length auth < 256
      else 0 \<notin> set auth)"

definition client_response ::
    "32 word \<Rightarrow> byte list \<Rightarrow> byte list \<Rightarrow> byte list \<Rightarrow> byte list \<Rightarrow> byte list" where
  "client_response flags fixed user auth db =
     le 4 flags @ fixed @ user @ [0] @ auth_field flags auth
     @ (if has_flag flags mysqlClientConnectWithDB then db @ [0] else [])"

section \<open>Parsing a well-formed response\<close>

lemma un_le_flags: "un_le (le 4 (flags :: 32 word)) = flags"
  by (rule un_le_fits, rule order_less_le_trans [OF unsigned_less], simp)

lemma readAuthResponse_field:
  assumes fits: "auth_field_fits flags auth"
    and len: "length (pre @ auth_field flags auth @ rest) \<le> mysqlMaxPacketSize"
  shows "readAuthResponse (pre @ auth_field flags auth @ rest) (length pre) flags =
         AuthBytes auth (length pre + length (auth_field flags auth))"
proof (cases "has_flag flags mysqlClientPluginAuthLenEnc")
  case True
  let ?payload = "pre @ auth_field flags auth @ rest"
  let ?w = "of_nat (length auth) :: 64 word"
  let ?k = "length (writeLenEncInt ?w)"
  have field: "auth_field flags auth = writeLenEncInt ?w @ auth"
    using True by (simp add: auth_field_def writeLenEncString_def)
  have small: "length pre + ?k + length auth < 2 ^ 24"
    using len by (simp add: field mysqlMaxPacketSize_def)
  hence u: "uint ?w = int (length auth)"
    by (simp add: unsigned_of_nat take_bit_nat_eq_self uint_nat del: of_nat_unat)
  have read: "readLenEncInt ?payload (length pre) = Some (?w, length pre + ?k)"
    using readLenEncInt_shift [of pre "auth_field flags auth @ rest" 0]
      readLenEncInt_write [of ?w "auth @ rest"] by (simp add: field)
  have "wrap64 (int (length pre + ?k) + wrap64 (uint ?w)) = int (length pre + ?k + length auth)"
    using small by (simp add: u wrap64_id int64_range_def)
  thus ?thesis using True read by (simp add: readAuthResponse_def field Let_def)
next
  case False
  show ?thesis
  proof (cases "has_flag flags mysqlClientSecureConn")
    case True
    have "unat (of_nat (length auth) :: byte) = length auth"
      using fits True False
      by (simp add: auth_field_fits_def unsigned_of_nat take_bit_nat_eq_self)
    thus ?thesis using True False
      by (simp add: readAuthResponse_def auth_field_def Let_def nth_append)
  next
    case no_secure: False
    hence "0 \<notin> set auth" using fits False by (simp add: auth_field_fits_def)
    thus ?thesis using no_secure False readNullBytes_app [of auth pre rest]
      by (simp add: readAuthResponse_def auth_field_def)
  qed
qed

lemma parse_client_response:
  assumes "length fixed = 28" and "0 \<notin> set user" and "auth_field_fits flags auth" and "0 \<notin> set db"
    and "length (client_response flags fixed user auth db) \<le> mysqlMaxPacketSize"
  shows "parseHandshakeResponse (client_response flags fixed user auth db) =
         Parsed \<lparr>Username = string_of user, Password = printableAuthResponse auth,
                 Database = (if has_flag flags mysqlClientConnectWithDB then string_of db else '''')\<rparr>"
proof -
  define tail where "tail = (if has_flag flags mysqlClientConnectWithDB then db @ [0] else [])"
  define head32 where "head32 = le 4 flags @ fixed"
  define pre where "pre = head32 @ user @ [0]"
  let ?payload = "client_response flags fixed user auth db"
  have h: "length head32 = 32" "un_le (take 4 head32) = flags"
    using assms(1) by (simp_all add: head32_def un_le_flags)
  have p1: "?payload = head32 @ user @ 0 # auth_field flags auth @ tail"
    and p2: "?payload = pre @ auth_field flags auth @ tail"
    and p3: "?payload = (pre @ auth_field flags auth) @ tail"
    by (simp_all add: client_response_def head32_def tail_def pre_def)
  have user: "readNullString ?payload 32 = Some (string_of user, length pre)"
    using readNullBytes_app [OF assms(2), of head32 "auth_field flags auth @ tail"] h(1)
    by (simp add: readNullString_def p1 pre_def)
  have auth: "readAuthResponse ?payload (length pre) flags =
              AuthBytes auth (length pre + length (auth_field flags auth))"
    using readAuthResponse_field [OF assms(3), of pre tail] assms(5) by (simp only: p2)
  have db: "has_flag flags mysqlClientConnectWithDB \<Longrightarrow>
            readNullString ?payload (length pre + length (auth_field flags auth)) =
              Some (string_of db, length pre + length (auth_field flags auth) + length db + 1)"
    using readNullBytes_app [OF assms(4), of "pre @ auth_field flags auth" "[]"]
    by (simp add: readNullString_def p3 tail_def)
  have len: "32 \<le> length ?payload" and take: "un_le (take 4 ?payload) = flags"
    and more: "length pre + length (auth_field flags auth) < length ?payload
               \<longleftrightarrow> has_flag flags mysqlClientConnectWithDB"
    using h by (simp_all add: p1 p2 pre_def tail_def)
  show ?thesis
    using len by (simp add: parseHandshakeResponse_def Let_def user auth take more db)
qed

text \<open>
  A response laid out as the protocol prescribes is parsed into its three fields,
  whichever of the three encodings of the authentication data the capability flags
  select, and with the database name exactly when the client announced one.
\<close>

theorem parseHandshakeResponse_wellformed:
  assumes "length fixed = 28" and "0 \<notin> set user" and "auth_field_fits flags auth" and "0 \<notin> set db"
    and "length (client_response flags fixed user auth db) \<le> mysqlMaxPacketSize"
  shows "parseHandshakeResponse (client_response flags fixed user auth db) =
         Parsed \<lparr>Username = string_of user, Password = printableAuthResponse auth,
                 Database = (if has_flag flags mysqlClientConnectWithDB then string_of db else [])\<rparr>"
  using parse_client_response [OF assms] .

theorem parseHandshakeResponse_wellformed_witness:
  "parseHandshakeResponse
     (client_response 0x8008 (replicate 28 0) (bytes_of ''u#tok'') [65, 66] (bytes_of ''shop'')) =
   Parsed \<lparr>Username = ''u#tok'', Password = ''AB'', Database = ''shop''\<rparr>"
proof -
  have f: "has_flag 0x8008 mysqlClientConnectWithDB" "has_flag 0x8008 mysqlClientSecureConn"
    "\<not> has_flag 0x8008 mysqlClientPluginAuthLenEnc"
    by (simp_all add: has_flag_def mysqlClientConnectWithDB_def mysqlClientSecureConn_def
        mysqlClientPluginAuthLenEnc_def)
  have "printableAuthResponse [65, 66] = ''AB''"
    by code_simp
  moreover have "0 \<notin> set (bytes_of ''u#tok'')" "0 \<notin> set (bytes_of ''shop'')"
    by (simp_all add: bytes_of_def)
  ultimately show ?thesis
    using parseHandshakeResponse_wellformed
      [of "replicate 28 0" "bytes_of ''u#tok''" "0x8008" "[65, 66]" "bytes_of ''shop''"] f
    by (simp add: auth_field_fits_def client_response_def auth_field_def mysqlMaxPacketSize_def)
qed

section \<open>When the parser panics\<close>

lemma wrap64_negative:
  assumes "next \<le> mysqlMaxPacketSize" and "0 \<le> n" and "n < 2 ^ 64"
  shows "wrap64 (int next + wrap64 n) < int next \<longleftrightarrow> 2 ^ 63 - int next \<le> n"
proof -
  have nx: "int next < 2 ^ 24" using assms(1) by (simp add: mysqlMaxPacketSize_def)
  consider "n < 2 ^ 63 - int next" | "2 ^ 63 - int next \<le> n" "n < 2 ^ 63" | "2 ^ 63 \<le> n"
    by linarith
  thus ?thesis
  proof cases
    case 1
    hence "wrap64 n = n" "wrap64 (int next + n) = int next + n"
      using assms(2) nx by (simp_all add: wrap64_id int64_range_def)
    thus ?thesis using 1 assms(2) by simp
  next
    case 2
    hence "wrap64 n = n" using assms(2) by (simp add: wrap64_id int64_range_def)
    moreover have "wrap64 (int next + n) = int next + n - 2 ^ 64"
      using 2 nx by (intro wrap64_over) simp_all
    ultimately show ?thesis using 2 assms(3) by simp
  next
    case 3
    hence "wrap64 n = n - 2 ^ 64" using assms(3) by (intro wrap64_over) simp_all
    moreover have "wrap64 (int next + (n - 2 ^ 64)) = int next + (n - 2 ^ 64)"
      using 3 assms(3) nx by (intro wrap64_id) (simp add: int64_range_def)
    ultimately show ?thesis using 3 assms(3) nx by simp
  qed
qed

lemma readAuthResponse_panics:
  assumes "length payload \<le> mysqlMaxPacketSize"
  shows "readAuthResponse payload pos flags = AuthPanics \<longleftrightarrow>
         has_flag flags mysqlClientPluginAuthLenEnc \<and>
         (\<exists>n next. readLenEncInt payload pos = Some (n, next) \<and> 2 ^ 63 - int next \<le> uint n)"
proof (cases "readLenEncInt payload pos")
  case None
  thus ?thesis by (auto simp: readAuthResponse_def Let_def split: option.splits)
next
  case (Some r)
  obtain n "next" where r: "r = (n, next)" by (cases r)
  have nx: "pos < next" "next \<le> length payload"
    using readLenEncInt_next Some r by blast+
  have un: "uint n < 2 ^ 64" by (rule order_less_le_trans [OF unsigned_less]) simp
  have "wrap64 (int next + wrap64 (uint n)) < int next \<longleftrightarrow> 2 ^ 63 - int next \<le> uint n"
    using nx assms un by (intro wrap64_negative) simp_all
  thus ?thesis using nx Some r
    by (auto simp: readAuthResponse_def Let_def split: option.splits)
qed

text \<open>
  C33: The parser of the handshake response, which runs before any authentication, slices
  past the payload, and so panics, exactly when the client sets
  \<open>CLIENT_PLUGIN_AUTH_LENENC_CLIENT_DATA\<close> and announces a length whose sum with the
  position does not fit a signed 64-bit integer.
\<close>

theorem parseHandshakeResponse_panics_iff:
  assumes "length payload \<le> mysqlMaxPacketSize"
  shows "parseHandshakeResponse payload = Panicked \<longleftrightarrow>
         32 \<le> length payload \<and> has_flag (un_le (take 4 payload)) mysqlClientPluginAuthLenEnc \<and>
         (\<exists>user pos n next. readNullString payload 32 = Some (user, pos) \<and>
            readLenEncInt payload pos = Some (n, next) \<and> 2 ^ 63 - int next \<le> uint n)"
proof -
  have "parseHandshakeResponse payload = Panicked \<longleftrightarrow>
        32 \<le> length payload \<and>
        (\<exists>user pos. readNullString payload 32 = Some (user, pos) \<and>
           readAuthResponse payload pos (un_le (take 4 payload)) = AuthPanics)"
    by (auto simp: parseHandshakeResponse_def Let_def split: option.split auth_read.split)
  thus ?thesis unfolding readAuthResponse_panics [OF assms] by blast
qed

theorem parseHandshakeResponse_panics_witness:
  "parseHandshakeResponse
     (le 4 mysqlClientPluginAuthLenEnc @ replicate 28 0 @ [117, 0] @ 0xfe # replicate 8 0xff)
   = Panicked"
proof -
  let ?p = "le 4 mysqlClientPluginAuthLenEnc @ replicate 28 0 @ [117, 0] @ 0xfe # replicate 8 (0xff :: byte)"
  have "readNullString ?p 32 = Some (''u'', 34)" "readLenEncInt ?p 34 = Some (0xffffffffffffffff, 43)"
    "has_flag (un_le (take 4 ?p)) mysqlClientPluginAuthLenEnc"
    by code_simp+
  moreover have "(2 :: int) ^ 63 - int 43 \<le> uint (0xffffffffffffffff :: 64 word)" by simp
  moreover have "length ?p \<le> mysqlMaxPacketSize" by (simp add: mysqlMaxPacketSize_def)
  ultimately show ?thesis
    using parseHandshakeResponse_panics_iff [of ?p] by fastforce
qed

end
