(* ===== verification/MySqlResult.thy ===== *)
theory MySqlResult
  imports MySqlProtocol
begin

text \<open>
  What the MySQL proxy sends to the client (\<open>proxy/db/mysql_protocol.go\<close>): OK, EOF and
  ERR packets, column definitions, row packets and whole result sets, with the reader a
  client has for them as the specification.
\<close>

section \<open>Status packets\<close>

definition okPacket :: "64 word \<Rightarrow> 64 word \<Rightarrow> byte list" where
  "okPacket affectedRows lastInsertID =
     [0] @ writeLenEncInt affectedRows @ writeLenEncInt lastInsertID
     @ le 2 (2 :: 16 word) @ le 2 (0 :: 16 word)"

definition writeOKPacket :: "byte \<Rightarrow> 64 word \<Rightarrow> 64 word \<Rightarrow> mysql_error + byte list" where
  "writeOKPacket seq affectedRows lastInsertID =
     writeMySQLPacket seq (okPacket affectedRows lastInsertID)"

definition eofPacket :: "byte list" where
  "eofPacket = [0xfe, 0, 0, 2, 0]"

definition writeEOFPacket :: "byte \<Rightarrow> mysql_error + byte list" where
  "writeEOFPacket seq = writeMySQLPacket seq eofPacket"

definition writeErrorPacket :: "byte \<Rightarrow> 16 word \<Rightarrow> string \<Rightarrow> mysql_error + byte list" where
  "writeErrorPacket seq code msg =
     writeMySQLPacket seq ([0xff] @ le 2 code @ bytes_of (CHR ''#'' # ''HY000'') @ bytes_of msg)"

section \<open>Values and rows\<close>

text \<open>
  What a \<open>database/sql\<close> driver scans into an \<open>any\<close>.  A floating point number is kept as
  the text \<open>fmt.Sprint\<close> gives it.
\<close>

datatype sql_value =
    SqlNull
  | SqlBytes "byte list"
  | SqlString string
  | SqlInt int
  | SqlBool bool
  | SqlFloat string
  | SqlTime nat nat nat nat nat nat nat  \<comment> \<open>year, month, day, hour, minute, second, nanosecond\<close>

definition pad :: "nat \<Rightarrow> nat \<Rightarrow> string" where
  "pad w n = replicate (w - length (show_nat n)) (CHR ''0'') @ show_nat n"

text \<open>The fraction of the layout \<open>.999999\<close>: microseconds, trailing zeros removed.\<close>

definition fraction :: "nat \<Rightarrow> string" where
  "fraction ns =
     (let micro = ns div 1000
      in if micro = 0 then '''' else CHR ''.'' # trim_right (\<lambda>c. c = CHR ''0'') (pad 6 micro))"

definition mysqlValueString :: "sql_value \<Rightarrow> byte list" where
  "mysqlValueString value =
     (case value of
        SqlNull \<Rightarrow> bytes_of ''<nil>''
      | SqlBytes v \<Rightarrow> v
      | SqlTime y mo d h mi s ns \<Rightarrow>
          bytes_of (pad 4 y @ ''-'' @ pad 2 mo @ ''-'' @ pad 2 d @ '' ''
                    @ pad 2 h @ '':'' @ pad 2 mi @ '':'' @ pad 2 s @ fraction ns)
      | SqlString t \<Rightarrow> bytes_of t
      | SqlInt i \<Rightarrow> bytes_of (show_int i)
      | SqlBool b \<Rightarrow> bytes_of (if b then ''true'' else ''false'')
      | SqlFloat t \<Rightarrow> bytes_of t)"

fun rowPacket :: "sql_value list \<Rightarrow> byte list" where
  "rowPacket [] = []"
| "rowPacket (value # vals) =
     (if value = SqlNull then [0xfb] else writeLenEncString (mysqlValueString value)) @ rowPacket vals"

text \<open>One field of a row as a client reads it: NULL or a string.\<close>

definition enc_field :: "byte list option \<Rightarrow> byte list" where
  "enc_field f = (case f of None \<Rightarrow> [0xfb] | Some s \<Rightarrow> writeLenEncString s)"

definition take_field :: "byte list \<Rightarrow> (byte list option \<times> byte list) option" where
  "take_field bs =
     (if has_prefix [0xfb] bs then Some (None, tl bs)
      else map_option (\<lambda>(s, r). (Some s, r)) (take_string bs))"

definition field_fits :: "byte list option \<Rightarrow> bool" where
  "field_fits f = (case f of None \<Rightarrow> True | Some s \<Rightarrow> string_fits s)"

definition field_of :: "sql_value \<Rightarrow> byte list option" where
  "field_of v = (if v = SqlNull then None else Some (mysqlValueString v))"

lemma writeLenEncInt_hd:
  "hd (writeLenEncInt n) = 0xfe \<longleftrightarrow> 0xffffff < n" "hd (writeLenEncInt n) \<noteq> 0xfb"
proof -
  have "n < 251 \<Longrightarrow> (ucast n :: byte) \<noteq> 0xfb"
  proof -
    assume a: "n < 251"
    have "uint (ucast n :: byte) = uint n"
      using lenenc_small [OF a]
      by (simp add: unsigned_ucast_eq unsigned_take_bit_eq take_bit_int_eq_self)
    thus ?thesis using lenenc_small [OF a] by auto
  qed
  thus "hd (writeLenEncInt n) \<noteq> 0xfb" by (simp add: writeLenEncInt_def)
  have "n < 251 \<Longrightarrow> \<not> 0xffffff < n" "n \<le> 0xffff \<Longrightarrow> \<not> 0xffffff < n"
    by (auto simp: word_less_def word_le_def)
  thus "hd (writeLenEncInt n) = 0xfe \<longleftrightarrow> 0xffffff < n"
    by (auto simp: writeLenEncInt_def lenenc_byte)
qed

interpretation row_field: prefix_codec enc_field take_field field_fits
proof unfold_locales
  fix a rest
  assume fits: "field_fits a"
  show "take_field (enc_field a @ rest) = Some (a, rest)"
  proof (cases a)
    case (Some s)
    let ?l = "writeLenEncInt (of_nat (length s))"
    obtain b t where l: "?l = b # t" using lenenc_int.enc_not_Nil by (cases "?l") auto
    have "b \<noteq> 0xfb" using writeLenEncInt_hd(2) [of "of_nat (length s)"] l by simp
    hence "\<not> has_prefix [0xfb] (writeLenEncString s @ rest)"
      by (simp add: writeLenEncString_def l)
    thus ?thesis
      using fits lenenc_string.dec_enc [of s rest] Some
      by (simp add: take_field_def enc_field_def field_fits_def)
  qed (simp add: take_field_def enc_field_def)
next
  fix a
  show "enc_field a \<noteq> []"
    using lenenc_string.enc_not_Nil by (simp add: enc_field_def split: option.split)
qed

lemma enc_field_of:
  "enc_field (field_of v) = (if v = SqlNull then [0xfb] else writeLenEncString (mysqlValueString v))"
  by (simp add: enc_field_def field_of_def)

lemma rowPacket_enc: "rowPacket vals = enc_list enc_field (map field_of vals)"
  by (induction vals) (simp_all add: enc_field_of)

text \<open>No row packet that fits a packet can be taken for the EOF packet that ends the rows.\<close>

definition is_eof :: "byte list \<Rightarrow> bool" where
  "is_eof p = (p \<noteq> [] \<and> hd p = 0xfe \<and> length p < 9)"

lemma rowPacket_not_eof:
  assumes "length (rowPacket vals) \<le> mysqlMaxPacketSize"
  shows "\<not> is_eof (rowPacket vals)"
proof (cases vals)
  case (Cons v vs)
  show ?thesis
  proof (cases "v = SqlNull")
    case False
    let ?s = "mysqlValueString v"
    have len: "length ?s < 2 ^ 24"
      using assms Cons False by (simp add: writeLenEncString_def mysqlMaxPacketSize_def)
    hence "uint (of_nat (length ?s) :: 64 word) = int (length ?s)"
      by (simp add: unsigned_of_nat take_bit_nat_eq_self uint_nat del: of_nat_unat)
    hence "\<not> (0xffffff < (of_nat (length ?s) :: 64 word))"
      using len by (simp add: word_less_def)
    hence "hd (writeLenEncInt (of_nat (length ?s))) \<noteq> 0xfe" by (simp add: writeLenEncInt_hd)
    thus ?thesis using Cons False lenenc_int.enc_not_Nil [of "of_nat (length ?s)"]
      by (simp add: is_eof_def writeLenEncString_def hd_append)
  qed (simp add: Cons is_eof_def)
qed (simp add: is_eof_def)

section \<open>Column types and definitions\<close>

definition mysqlColumnType :: "string \<Rightarrow> byte" where
  "mysqlColumnType dbType =
     (let t = to_upper dbType
      in if t \<in> {''TINYINT'', ''SMALLINT'', ''MEDIUMINT'', ''INT'', ''INTEGER''} then 0x03
         else if t = ''BIGINT'' then 0x08
         else if t = ''FLOAT'' then 0x04
         else if t = ''DOUBLE'' \<or> t = ''REAL'' then 0x05
         else if t \<in> {''DECIMAL'', ''NUMERIC'', ''NEWDECIMAL''} then 0x00
         else if t = ''DATE'' then 0x0a
         else if t = ''TIME'' then 0x0b
         else if t = ''DATETIME'' then 0x0c
         else if t = ''TIMESTAMP'' then 0x07
         else if t = ''JSON'' then 0xf5
         else 0xfd)"

definition columnDefinitionPacket :: "string \<Rightarrow> string \<Rightarrow> string \<Rightarrow> byte \<Rightarrow> byte list" where
  "columnDefinitionPacket schema table name typ =
     enc_list writeLenEncString
       (map bytes_of [''def'', schema, table, table, name, name])
     @ [0x0c] @ le 2 (33 :: 16 word) @ le 4 (1024 :: 32 word) @ [typ] @ le 2 (0 :: 16 word) @ [0]
     @ [0, 0]"

text \<open>The column's name and type, as a client reads them.\<close>

definition client_column :: "byte list \<Rightarrow> (byte list \<times> byte) option" where
  "client_column p =
     (case dec_list take_string 6 p of
        None \<Rightarrow> None
      | Some (texts, r) \<Rightarrow> if length r = 13 then Some (texts ! 4, r ! 7) else None)"

section \<open>Result sets\<close>

text \<open>
  The rows of a query: the column names and the driver's type names (of which there may
  be fewer), each row scanned or failing to, and the error iterating ended with.
\<close>

record result_rows =
  columns :: "string list"
  column_types :: "string list"
  row_values :: "(string + sql_value list) list"
  rows_err :: "string option"

datatype result_error = WireError mysql_error | DriverError string

fun writeColumns :: "byte \<Rightarrow> string list \<Rightarrow> string list \<Rightarrow> byte list \<times> (result_error + byte)" where
  "writeColumns seq [] types = ([], Inr seq)"
| "writeColumns seq (col # cols) types =
     (case writeMySQLPacket seq
             (columnDefinitionPacket '''' '''' col
                (mysqlColumnType (case types of [] \<Rightarrow> '''' | t # _ \<Rightarrow> t))) of
        Inl e \<Rightarrow> ([], Inl (WireError e))
      | Inr b \<Rightarrow>
          let (out, r) = writeColumns (seq + 1) cols (drop 1 types) in (b @ out, r))"

fun writeRows ::
    "byte \<Rightarrow> (string + sql_value list) list \<Rightarrow> byte list \<times> nat \<times> (result_error + byte)" where
  "writeRows seq [] = ([], 0, Inr seq)"
| "writeRows seq (Inl e # rows) = ([], 0, Inl (DriverError e))"
| "writeRows seq (Inr vals # rows) =
     (case writeMySQLPacket seq (rowPacket vals) of
        Inl e \<Rightarrow> ([], 0, Inl (WireError e))
      | Inr b \<Rightarrow>
          let (out, count, r) = writeRows (seq + 1) rows in (b @ out, count + 1, r))"

text \<open>The bytes sent, the number of rows, and the error if there is one.\<close>

definition writeResultSet :: "string + result_rows \<Rightarrow> byte list \<times> nat \<times> result_error option" where
  "writeResultSet rs =
     (case rs of
        Inl e \<Rightarrow> ([], 0, Some (DriverError e))
      | Inr rows \<Rightarrow>
          (case writeMySQLPacket 1 (writeLenEncInt (of_nat (length (columns rows)))) of
             Inl e \<Rightarrow> ([], 0, Some (WireError e))
           | Inr header \<Rightarrow>
               (case writeColumns 2 (columns rows) (column_types rows) of
                  (out1, Inl e) \<Rightarrow> (header @ out1, 0, Some e)
                | (out1, Inr seq) \<Rightarrow>
                    (case writeEOFPacket seq of
                       Inl e \<Rightarrow> (header @ out1, 0, Some (WireError e))
                     | Inr eof1 \<Rightarrow>
                         (case writeRows (seq + 1) (row_values rows) of
                            (out2, count, Inl e) \<Rightarrow> (header @ out1 @ eof1 @ out2, count, Some e)
                          | (out2, count, Inr seq2) \<Rightarrow>
                              (case rows_err rows of
                                 Some e \<Rightarrow>
                                   (header @ out1 @ eof1 @ out2, count, Some (DriverError e))
                               | None \<Rightarrow>
                                   (case writeEOFPacket seq2 of
                                      Inl e \<Rightarrow>
                                        (header @ out1 @ eof1 @ out2, count, Some (WireError e))
                                    | Inr eof2 \<Rightarrow>
                                        (header @ out1 @ eof1 @ out2 @ eof2, count, None))))))))"

section \<open>What a client reads from a result set\<close>

lemma columnDefinitionPacket_client:
  assumes "string_fits (bytes_of schema)" "string_fits (bytes_of table)" "string_fits (bytes_of name)"
  shows "client_column (columnDefinitionPacket schema table name typ) = Some (bytes_of name, typ)"
proof -
  let ?texts = "map bytes_of [''def'', schema, table, table, name, name]"
  have "list_all string_fits ?texts" using assms by (simp add: string_fits_def)
  from lenenc_string.dec_enc_list [OF this]
  show ?thesis unfolding columnDefinitionPacket_def client_column_def
    by (simp add: nth_append numeral_eq_Suc)
qed

text \<open>Packets numbered from \<open>seq\<close> on, modulo 256.\<close>

fun numbered :: "byte \<Rightarrow> byte list list \<Rightarrow> (byte list \<times> byte) list" where
  "numbered seq [] = []"
| "numbered seq (p # ps) = (p, seq) # numbered (seq + 1) ps"

definition column_packets :: "string list \<Rightarrow> string list \<Rightarrow> byte list list" where
  "column_packets cols types =
     map (\<lambda>i. columnDefinitionPacket '''' '''' (cols ! i)
                (mysqlColumnType (if i < length types then types ! i else ''''))) [0..<length cols]"

definition result_packets :: "result_rows \<Rightarrow> sql_value list list \<Rightarrow> byte list list" where
  "result_packets rows vals =
     [writeLenEncInt (of_nat (length (columns rows)))] @ column_packets (columns rows) (column_types rows)
     @ [eofPacket] @ map rowPacket vals @ [eofPacket]"

lemma numbered_append:
  "numbered seq (ps @ qs) = numbered seq ps @ numbered (seq + of_nat (length ps)) qs"
  by (induction seq ps rule: numbered.induct) (simp_all add: add_ac)

lemma numbered_fits: "list_all packet_fits (numbered seq ps) \<longleftrightarrow>
  (\<forall>p \<in> set ps. length p \<le> mysqlMaxPacketSize)"
  by (induction seq ps rule: numbered.induct) (simp_all add: packet_fits_def)

lemma numbered_nth: "i < length ps \<Longrightarrow> numbered seq ps ! i = (ps ! i, seq + of_nat i)"
  by (induction seq ps arbitrary: i rule: numbered.induct) (auto simp: nth_Cons' add_ac)

lemma length_numbered [simp]: "length (numbered seq ps) = length ps"
  by (induction seq ps rule: numbered.induct) simp_all

lemma column_packets_Cons:
  "column_packets (col # cols) types =
   columnDefinitionPacket '''' '''' col (mysqlColumnType (case types of [] \<Rightarrow> '''' | t # _ \<Rightarrow> t))
   # column_packets cols (drop 1 types)"
proof -
  have "[0..<length (col # cols)] = 0 # map Suc [0..<length cols]"
    by (simp add: map_Suc_upt upt_conv_Cons del: upt_Suc)
  thus ?thesis
    by (cases types) (simp_all add: column_packets_def o_def)
qed

lemma writeColumns_packets:
  assumes "\<forall>p \<in> set (column_packets cols types). length p \<le> mysqlMaxPacketSize"
  shows "writeColumns seq cols types =
         (enc_list packet_bytes (numbered seq (column_packets cols types)), Inr (seq + of_nat (length cols)))"
  using assms
proof (induction cols arbitrary: seq types)
  case Nil
  show ?case by (simp add: column_packets_def)
next
  case (Cons col cols)
  thus ?case
    unfolding column_packets_Cons by (simp add: writeMySQLPacket_def add_ac)
qed

lemma writeRows_packets:
  assumes "\<forall>p \<in> set (map rowPacket vals). length p \<le> mysqlMaxPacketSize"
  shows "writeRows seq (map Inr vals) =
         (enc_list packet_bytes (numbered seq (map rowPacket vals)), length vals,
          Inr (seq + of_nat (length vals)))"
  using assms by (induction vals arbitrary: seq) (simp_all add: writeMySQLPacket_def add_ac)

lemma length_column_packets [simp]: "length (column_packets cols types) = length cols"
  by (simp add: column_packets_def)

lemma eofPacket_fits: "length eofPacket \<le> mysqlMaxPacketSize"
  by (simp add: eofPacket_def mysqlMaxPacketSize_def)

lemma writeResultSet_packets:
  assumes vals: "row_values rows = map Inr vals" and "rows_err rows = None"
    and fits: "\<forall>p \<in> set (result_packets rows vals). length p \<le> mysqlMaxPacketSize"
  shows "writeResultSet (Inr rows) =
         (enc_list packet_bytes (numbered 1 (result_packets rows vals)), length vals, None)"
proof -
  have "\<forall>p \<in> set (column_packets (columns rows) (column_types rows)). length p \<le> mysqlMaxPacketSize"
    and "\<forall>p \<in> set (map rowPacket vals). length p \<le> mysqlMaxPacketSize"
    and "length (writeLenEncInt (of_nat (length (columns rows)))) \<le> mysqlMaxPacketSize"
    using fits by (auto simp: result_packets_def)
  thus ?thesis
    unfolding result_packets_def numbered_append enc_list_append
    by (simp add: writeResultSet_def writeColumns_packets writeRows_packets vals assms(2)
        writeMySQLPacket_def writeEOFPacket_def eofPacket_fits not_less add_ac)
qed

text \<open>
  The answer to a query as the client/server protocol defines it: the first packet is an OK
  packet when it starts with 0x00, an error with 0xff, a request for a local file with 0xfb, and
  otherwise the column count; that many column definitions follow, an EOF packet, and then rows
  until the next EOF packet, or an error.
\<close>

datatype client_result =
    ClientRows "(byte list \<times> byte) list" "byte list option list list" "byte list"
  | ClientOK "byte list"
  | ClientError
  | ClientInfile

lemma take_packet_shorter: "take_packet bs = Some (p, r) \<Longrightarrow> length r < length bs"
  by (auto simp: take_packet_def readMySQLPacket_def read_full_def rbind_def Let_def
      split: sum.splits if_splits prod.splits)

primrec read_columns :: "nat \<Rightarrow> byte list \<Rightarrow> ((byte list \<times> byte) list \<times> byte list) option" where
  "read_columns 0 bs = Some ([], bs)"
| "read_columns (Suc k) bs =
     (case take_packet bs of
        None \<Rightarrow> None
      | Some ((p, _), r) \<Rightarrow>
          (case client_column p of
             None \<Rightarrow> None
           | Some c \<Rightarrow> map_option (\<lambda>(cs, r'). (c # cs, r')) (read_columns k r)))"

function read_rows :: "nat \<Rightarrow> byte list \<Rightarrow> (byte list option list list \<times> byte list) option" where
  "read_rows k bs =
     (case take_packet bs of
        None \<Rightarrow> None
      | Some ((p, _), r) \<Rightarrow>
          if is_eof p then Some ([], r)
          else if has_prefix [0xff] p then None
          else (case dec_list take_field k p of
                  Some (row, []) \<Rightarrow> map_option (\<lambda>(rs, r'). (row # rs, r')) (read_rows k r)
                | _ \<Rightarrow> None))"
  by pat_completeness auto
termination
  by (relation "measure (\<lambda>(k, bs). length bs)") (auto dest: take_packet_shorter)

declare read_rows.simps [simp del]

definition read_result :: "byte list \<Rightarrow> client_result option" where
  "read_result bs =
     (case take_packet bs of
        None \<Rightarrow> None
      | Some ((p, _), r1) \<Rightarrow>
          if has_prefix [0x00] p then Some (ClientOK r1)
          else if has_prefix [0xff] p then Some ClientError
          else if has_prefix [0xfb] p then Some ClientInfile
          else
            (case take_lenenc p of
               Some (n, []) \<Rightarrow>
                 (case read_columns (unat n) r1 of
                    None \<Rightarrow> None
                  | Some (cs, r2) \<Rightarrow>
                      (case take_packet r2 of
                         None \<Rightarrow> None
                       | Some ((e, _), r3) \<Rightarrow>
                           if is_eof e
                           then map_option (\<lambda>(rs, r). ClientRows cs rs r) (read_rows (length cs) r3)
                           else None))
             | _ \<Rightarrow> None))"

definition client_columns :: "result_rows \<Rightarrow> (byte list \<times> byte) list" where
  "client_columns rows =
     map (\<lambda>i. (bytes_of (columns rows ! i),
               mysqlColumnType (if i < length (column_types rows) then column_types rows ! i else '''')))
       [0..<length (columns rows)]"

text \<open>The first byte of a column count tells that there are columns.\<close>

lemma lenenc_first:
  "0 < unat n \<Longrightarrow> \<not> has_prefix [0x00] (writeLenEncInt n) \<and> \<not> has_prefix [0xff] (writeLenEncInt n) \<and>
     \<not> has_prefix [0xfb] (writeLenEncInt n)"
proof -
  assume pos: "0 < unat n"
  have "(ucast n :: byte) \<noteq> 0 \<and> (ucast n :: byte) \<noteq> 0xff \<and> (ucast n :: byte) \<noteq> 0xfb" if "n < 251"
  proof -
    have u: "uint (ucast n :: byte) = uint n"
      using lenenc_small [OF that]
      by (simp add: unsigned_ucast_eq unsigned_take_bit_eq take_bit_int_eq_self)
    moreover have "int (unat n) = uint n" by simp
    hence "0 < uint n" using pos by linarith
    moreover have "uint n < 251" using lenenc_small [OF that] by simp
    ultimately show ?thesis by auto
  qed
  thus ?thesis by (auto simp: writeLenEncInt_def has_prefix_def)
qed

lemma row_not_error: "\<not> has_prefix [0xff] (rowPacket vs)"
proof (cases vs)
  case (Cons v vs')
  have "\<not> has_prefix [0xff] (writeLenEncInt n @ r)" for n r
  proof (cases "0 < unat n")
    case True
    thus ?thesis using lenenc_first [of n] lenenc_int.enc_not_Nil [of n]
      by (cases "writeLenEncInt n") (auto simp: has_prefix_def)
  next
    case False
    hence "n = 0" by (simp add: unat_eq_zero)
    thus ?thesis by (simp add: writeLenEncInt_def has_prefix_def)
  qed
  hence "\<not> has_prefix [0xff] (writeLenEncString str @ r)" for str r by (simp add: writeLenEncString_def)
  thus ?thesis using Cons by (cases "v = SqlNull") (auto simp: has_prefix_def)
qed (simp add: has_prefix_def)

lemma packet_bytes_not_Nil: "packet_bytes p \<noteq> []"
  by (cases p) (simp add: packet_bytes_def)

lemma take_packet_bytes:
  "length p \<le> mysqlMaxPacketSize \<Longrightarrow> take_packet (packet_bytes (p, seq) @ r) = Some ((p, seq), r)"
  by (rule packet.dec_enc) (simp add: packet_fits_def)

lemma read_columns_numbered:
  assumes "\<forall>p \<in> set ps. length p \<le> mysqlMaxPacketSize" and "map client_column ps = map Some cs"
  shows "read_columns (length ps) (enc_list packet_bytes (numbered seq ps) @ r) = Some (cs, r)"
  using assms
proof (induction ps arbitrary: seq cs)
  case (Cons p ps)
  then obtain c cs' where "cs = c # cs'" by (cases cs) auto
  thus ?case using Cons by (simp add: take_packet_bytes)
qed simp

lemma rowPacket_value_length:
  "v \<in> set vals \<Longrightarrow> v \<noteq> SqlNull \<Longrightarrow> length (mysqlValueString v) \<le> length (rowPacket vals)"
  by (induction vals) (auto simp: writeLenEncString_def)

lemma rowPacket_client:
  assumes "length (rowPacket vals) \<le> mysqlMaxPacketSize"
  shows "dec_list take_field (length vals) (rowPacket vals) = Some (map field_of vals, [])"
proof -
  have "list_all field_fits (map field_of vals)"
    using rowPacket_value_length [of _ vals] assms
    by (fastforce simp: list_all_iff field_of_def field_fits_def string_fits_def mysqlMaxPacketSize_def)
  from row_field.dec_enc_list [OF this, of "[]"] show ?thesis by (simp add: rowPacket_enc)
qed

lemma read_rows_numbered:
  assumes "\<forall>vs \<in> set vals. length vs = k \<and> length (rowPacket vs) \<le> mysqlMaxPacketSize"
  shows "read_rows k (enc_list packet_bytes (numbered seq (map rowPacket vals @ [eofPacket]))) =
         Some (map (map field_of) vals, [])"
  using assms
proof (induction vals arbitrary: seq)
  case Nil
  have "is_eof eofPacket" by (simp add: is_eof_def eofPacket_def)
  thus ?case
    using take_packet_bytes [OF eofPacket_fits, of seq "[]"]
    by (simp add: read_rows.simps [of k "packet_bytes (eofPacket, seq)"])
next
  case (Cons vs vals)
  let ?rest = "enc_list packet_bytes (numbered (seq + 1) (map rowPacket vals @ [eofPacket]))"
  have "length (rowPacket vs) \<le> mysqlMaxPacketSize" and k: "length vs = k" using Cons.prems by auto
  hence "take_packet (packet_bytes (rowPacket vs, seq) @ ?rest) = Some ((rowPacket vs, seq), ?rest)"
    and "\<not> is_eof (rowPacket vs)"
    and "dec_list take_field k (rowPacket vs) = Some (map field_of vs, [])"
    using take_packet_bytes rowPacket_not_eof rowPacket_client [of vs] by simp_all
  thus ?case using Cons.IH [of "seq + 1"] Cons.prems
    by (simp add: read_rows.simps [of k "packet_bytes (rowPacket vs, seq) @ ?rest"] row_not_error)
qed

lemma column_packets_client:
  assumes "\<forall>p \<in> set (column_packets (columns rows) (column_types rows)). length p \<le> mysqlMaxPacketSize"
  shows "map client_column (column_packets (columns rows) (column_types rows)) =
         map Some (client_columns rows)"
proof -
  have "string_fits (bytes_of (columns rows ! i))" if "i < length (columns rows)" for i
  proof -
    let ?t = "mysqlColumnType (if i < length (column_types rows) then column_types rows ! i else '''')"
    have "length (columnDefinitionPacket '''' '''' (columns rows ! i) ?t) \<le> mysqlMaxPacketSize"
      using assms that by (auto simp: column_packets_def)
    thus ?thesis
      by (simp add: columnDefinitionPacket_def writeLenEncString_def string_fits_def mysqlMaxPacketSize_def)
  qed
  thus ?thesis
    by (simp add: column_packets_def client_columns_def columnDefinitionPacket_client string_fits_def)
qed


definition sample_rows :: result_rows where
  "sample_rows =
     \<lparr>columns = [''id'', ''name''], column_types = [''bigint''],
      row_values = map Inr [[SqlInt 7, SqlString ''''], [SqlInt (-1), SqlNull]], rows_err = None\<rparr>"


end
