(* ===== verification/DbTypes.thy ===== *)
theory DbTypes
  imports Codec
begin

text \<open>
  What the two database proxies share (\<open>proxy/db/types.go\<close>): the authorisation a token
  buys, the session it opens, the extraction of the token from a login, settings parsed
  from their stored text, and the limiter of concurrent connections, stated as a contract
  that the SSH dialer's semaphore (\<open>proxy/ssh/client.go\<close>) satisfies too.
\<close>

section \<open>Targets, authorisations, sessions\<close>

record targetConfig =
  Address :: string
  Port :: int
  Protocol :: string

record targetAccount =
  AccUsername :: string
  Secret :: string
  SecretType :: string
  DBName :: string

record authResult =
  Target :: targetConfig
  Account :: targetAccount
  AuthUserID :: int
  AuthAssetID :: int
  AuthAccountID :: int
  AuthConnectMethod :: string

record sessionInfo =
  SiUserID :: int
  SiAssetID :: int
  SiAccountID :: int
  SiProtocol :: string
  SiType :: string
  SiConnectMethod :: string
  SiRemoteAddr :: string
  SiSessionID :: int
  SiIsFinished :: bool

definition dbSessionInfo :: "authResult \<Rightarrow> string \<Rightarrow> string \<Rightarrow> string \<Rightarrow> sessionInfo" where
  "dbSessionInfo auth protocol nativeConnectMethod remoteAddr =
     (let web = (AuthConnectMethod auth = ''web_db'')
      in \<lparr>SiUserID = AuthUserID auth, SiAssetID = AuthAssetID auth,
          SiAccountID = AuthAccountID auth, SiProtocol = protocol,
          SiType = (if web then ''db_terminal'' else ''db_proxy''),
          SiConnectMethod = (if web then ''web_db'' else nativeConnectMethod),
          SiRemoteAddr = remoteAddr, SiSessionID = 0, SiIsFinished = False\<rparr>)"

definition normalizeDBProtocol :: "string \<Rightarrow> string" where
  "normalizeDBProtocol protocol =
     (let p = to_lower (trim_space protocol) in if p = ''postgresql'' then ''postgres'' else p)"

definition protocolDefaultPort :: "string \<Rightarrow> int" where
  "protocolDefaultPort protocol =
     (let p = normalizeDBProtocol protocol
      in if p = ''mysql'' then 3306 else if p = ''postgres'' then 5432 else 0)"

definition targetPort :: "targetConfig \<Rightarrow> int" where
  "targetPort target =
     (if 0 < Port target then Port target
      else let port = protocolDefaultPort (Protocol target)
           in if 0 < port then port else Port target)"

section \<open>Settings\<close>

text \<open>
  \<open>json.Unmarshal\<close> into an \<open>int64\<close>: a JSON integer in range, or \<open>null\<close>, which leaves the
  variable at 0.
\<close>

definition json_int :: "string \<Rightarrow> int option" where
  "json_int s =
     (let body = (if has_prefix ''-'' s then tl s else s)
      in if s = ''null'' then Some 0
         else if body = '''' \<or> (has_prefix ''0'' body \<and> body \<noteq> ''0'')
                 \<or> parse_digits 0 body = None then None
         else parse_int64 s)"

definition parseSettingInt :: "string \<Rightarrow> int \<Rightarrow> int" where
  "parseSettingInt raw fallback =
     (let raw = trim_space raw
      in if raw = '''' then fallback
         else case json_int raw of
                Some n \<Rightarrow> n
              | None \<Rightarrow>
                  (case parse_int64 (trim_set (\<lambda>c. c = chr 34) raw) of
                     Some parsed \<Rightarrow> parsed
                   | None \<Rightarrow> fallback))"

section \<open>The connection token\<close>

definition normalizeTokenCandidate :: "string \<Rightarrow> string" where
  "normalizeTokenCandidate candidate =
     trim_space (trim_set (\<lambda>c. c = chr 0) (trim_space candidate))"

definition hash_token :: "string \<Rightarrow> string option" where
  "hash_token candidate =
     (case last_index_byte (CHR ''#'') candidate of
        None \<Rightarrow> None
      | Some idx \<Rightarrow>
          if idx < length candidate - 1 then Some (trim_space (drop (idx + 1) candidate)) else None)"

definition extractConnectionToken :: "string \<Rightarrow> string \<Rightarrow> string" where
  "extractConnectionToken username password =
     (let username = normalizeTokenCandidate username;
          password = normalizeTokenCandidate password
      in case hash_token username of
           Some token \<Rightarrow> token
         | None \<Rightarrow>
             (case hash_token password of
                Some token \<Rightarrow> token
              | None \<Rightarrow>
                  if password \<noteq> '''' then password
                  else if username \<noteq> '''' then username else ''''))"

definition token_char :: "char \<Rightarrow> bool" where
  "token_char c = (solid c \<and> c \<noteq> CHR ''#'')"

lemma not_nul_solid: "solid c \<Longrightarrow> c \<noteq> chr 0"
  by (auto simp: solid_def)

lemma normalize_tail:
  assumes "t \<noteq> []" and "solid (hd t)" and "solid (last t)"
  shows "\<exists>u'. normalizeTokenCandidate (u @ t) = u' @ t"
proof -
  obtain u1 where u1: "trim_space (u @ t) = u1 @ t"
    using trim_space_tail [OF assms] by blast
  obtain u2 where u2: "trim_set (\<lambda>c. c = chr 0) (u1 @ t) = u2 @ t"
    using trim_set_tail [of t "\<lambda>c. c = chr 0"] assms not_nul_solid by blast
  obtain u3 where "trim_space (u2 @ t) = u3 @ t"
    using trim_space_tail [OF assms] by blast
  thus ?thesis by (simp add: normalizeTokenCandidate_def u1 u2)
qed

lemma hash_token_app:
  assumes "t \<noteq> []" and "list_all token_char t"
  shows "hash_token (u @ CHR ''#'' # t) = Some t"
proof -
  have "CHR ''#'' \<notin> set t" using assms(2) by (auto simp: list_all_iff token_char_def)
  moreover have "trim_space t = t"
    using assms by (intro trim_space_solid) (auto simp: list_all_iff token_char_def)
  ultimately show ?thesis using assms(1) by (simp add: hash_token_def last_index_app)
qed

lemma extract_username_token:
  assumes "token \<noteq> []" and "list_all token_char token"
  shows "extractConnectionToken (user @ CHR ''#'' # token) password = token"
proof -
  have "solid (CHR ''#'')" by (simp add: solid_def)
  moreover have "solid (last token)" using assms by (auto simp: list_all_iff token_char_def)
  ultimately obtain u where "normalizeTokenCandidate (user @ CHR ''#'' # token) = u @ CHR ''#'' # token"
    using normalize_tail [of "CHR ''#'' # token" user] assms(1) by auto
  thus ?thesis using hash_token_app [OF assms] by (simp add: extractConnectionToken_def)
qed

text \<open>
  A native client that logs in as \<open>user#token\<close> is identified by that token, whatever
  the user name before it and whatever password it sends: the user name wins.
\<close>

theorem extractConnectionToken_username:
  assumes "token \<noteq> []" and "list_all token_char token"
  shows "extractConnectionToken (user @ CHR ''#'' # token) password = token"
  using extract_username_token [OF assms] .

theorem extractConnectionToken_username_witness:
  "extractConnectionToken ''ann#3f2a'' ''secret#x'' = ''3f2a''"
  using extractConnectionToken_username [of "''3f2a''" "''ann''" "''secret#x''"]
  by (simp add: token_char_def solid_def)

section \<open>The limiter\<close>

text \<open>
  A buffered channel used as a counting semaphore: \<open>chan_len\<close> tokens in a buffer of
  \<open>chan_cap\<close>.  Both operations are a \<open>select\<close> with a \<open>default\<close>, so neither blocks.
\<close>

record limiter =
  chan_len :: nat
  chan_cap :: nat

definition newLimiter :: "int \<Rightarrow> limiter" where
  "newLimiter n = \<lparr>chan_len = 0, chan_cap = nat (if n \<le> 0 then 1 else n)\<rparr>"

definition acquire :: "limiter \<Rightarrow> bool \<times> limiter" where
  "acquire l =
     (if chan_len l < chan_cap l then (True, l\<lparr>chan_len := chan_len l + 1\<rparr>) else (False, l))"

definition release :: "limiter \<Rightarrow> limiter" where
  "release l = (if 0 < chan_len l then l\<lparr>chan_len := chan_len l - 1\<rparr> else l)"

text \<open>
  The accept loop of a proxy: an incoming connection is served if a slot is free and
  closed at once otherwise; a served connection that ends gives its slot back.
\<close>

datatype conn_event = Incoming | Ended

fun accept_loop ::
    "('l \<Rightarrow> bool \<times> 'l) \<Rightarrow> ('l \<Rightarrow> 'l) \<Rightarrow> 'l \<times> nat \<Rightarrow> conn_event list \<Rightarrow> ('l \<times> nat) \<times> bool list" where
  "accept_loop acq rel (l, served) [] = ((l, served), [])"
| "accept_loop acq rel (l, served) (Incoming # es) =
     (case acq l of
        (ok, l') \<Rightarrow>
          let (s, log) = accept_loop acq rel (l', if ok then served + 1 else served) es
          in (s, ok # log))"
| "accept_loop acq rel (l, served) (Ended # es) =
     (if 0 < served then accept_loop acq rel (rel l, served - 1) es
      else accept_loop acq rel (l, served) es)"

text \<open>The contract of a limiter, and what the accept loop makes of it.\<close>

locale slots =
  fixes cap used :: "'l \<Rightarrow> nat"
    and acq :: "'l \<Rightarrow> bool \<times> 'l"
    and rel :: "'l \<Rightarrow> 'l"
  assumes acq_ok: "used l < cap l \<Longrightarrow> fst (acq l) \<and> used (snd (acq l)) = Suc (used l)"
    and acq_full: "\<not> used l < cap l \<Longrightarrow> acq l = (False, l)"
    and acq_cap: "cap (snd (acq l)) = cap l"
    and rel_used: "used (rel l) = used l - 1"
    and rel_cap: "cap (rel l) = cap l"
begin

lemma loop_counts:
  assumes "accept_loop acq rel (l, served) es = ((l', served'), log)"
    and "used l = served" and "served \<le> cap l"
  shows "used l' = served' \<and> served' \<le> cap l' \<and> cap l' = cap l"
  using assms
proof (induction es arbitrary: l served log)
  case (Cons e es)
  show ?case
  proof (cases e)
    case Incoming
    obtain ok m where m: "acq l = (ok, m)" by force
    obtain log' where
      "accept_loop acq rel (m, if ok then served + 1 else served) es = ((l', served'), log')"
      using Cons.prems(1) Incoming m by (auto split: prod.splits)
    moreover have "used m = (if ok then served + 1 else served) \<and>
        (if ok then served + 1 else served) \<le> cap m \<and> cap m = cap l"
      using acq_ok [of l] acq_full [of l] acq_cap [of l] m Cons.prems by (cases "used l < cap l") auto
    ultimately show ?thesis using Cons.IH by metis
  next
    case Ended
    show ?thesis
    proof (cases "0 < served")
      case True
      have "used (rel l) = served - 1" "served - 1 \<le> cap (rel l)" "cap (rel l) = cap l"
        using rel_used [of l] rel_cap [of l] Cons.prems by simp_all
      thus ?thesis using Cons.IH [of "rel l" "served - 1" log] Cons.prems(1) Ended True by simp
    next
      case False
      thus ?thesis using Cons.IH [of l served log] Cons.prems Ended by simp
    qed
  qed
qed simp

text \<open>A connection is refused exactly when as many are served as there are slots.\<close>

lemma incoming_iff:
  assumes "accept_loop acq rel (l, served) es = ((l', served'), log)"
    and "used l = served" and "served \<le> cap l"
  shows "fst (acq l') \<longleftrightarrow> served' < cap l"
  using loop_counts [OF assms] acq_ok [of l'] acq_full [of l'] by (cases "used l' < cap l'") auto

end

interpretation db_limiter: slots chan_cap chan_len acquire release
  by unfold_locales (auto simp: acquire_def release_def)

text \<open>
  However connections arrive and end, a database proxy serves at most as many at once
  as its configured limit (at least one), and refuses the next one exactly when that many
  are being served.
\<close>

theorem limiter_bounds_connections:
  assumes "accept_loop acquire release (newLimiter n, 0) es = ((l, served), log)"
  shows "int served \<le> max 1 n \<and> (fst (acquire l) \<longleftrightarrow> int served < max 1 n)"
proof -
  have n: "int (chan_cap (newLimiter n)) = max 1 n" "chan_len (newLimiter n) = 0"
    by (auto simp: newLimiter_def)
  show ?thesis
    using db_limiter.loop_counts [OF assms] db_limiter.incoming_iff [OF assms] n by auto
qed

theorem limiter_bounds_connections_witness:
  "fst (acquire (fst (fst (accept_loop acquire release (newLimiter 1, 0) [Incoming, Incoming])))) = False"
proof -
  have "accept_loop acquire release (newLimiter 1, 0) [Incoming, Incoming] =
        ((\<lparr>chan_len = 1, chan_cap = 1\<rparr>, 1), [True, False])"
    by (simp add: newLimiter_def acquire_def)
  from limiter_bounds_connections [OF this] this show ?thesis by simp
qed

end
