(* ===== verification/MySqlServer.thy ===== *)
theory MySqlServer
  imports MySqlHandshake MySqlResult DbTypes
begin

text \<open>
  The MySQL proxy (\<open>proxy/db/mysql_server.go\<close>): one client connection from the greeting
  to its end, the command loop, and the audit of what is sent to the target.  The API
  server and the target database are parameters; the target is a state that executing a
  statement changes.  Idle timeouts appear as the end of the client's bytes.
\<close>

section \<open>Statements\<close>

definition isResultQuery :: "string \<Rightarrow> bool" where
  "isResultQuery q =
     (case string_fields (trim_space q) of
        [] \<Rightarrow> False
      | w # _ \<Rightarrow> to_lower w \<in> {''select'', ''show'', ''describe'', ''desc'', ''explain'', ''with'', ''call''})"

definition quoteMySQLIdent :: "string \<Rightarrow> string" where
  "quoteMySQLIdent name = ''`'' @ replace_char (CHR ''`'') ''``'' name @ ''`''"

definition strconvUint64 :: "int \<Rightarrow> 64 word" where
  "strconvUint64 n = (if n < 0 then 0 else word_of_int n)"

text \<open>How the MySQL server reads a quoted identifier: a doubled quote stands for one.\<close>

fun ident_body :: "string \<Rightarrow> (string \<times> string) option" where
  "ident_body [] = None"
| "ident_body (c # s) =
     (if c \<noteq> CHR ''`'' then map_option (\<lambda>(n, r). (c # n, r)) (ident_body s)
      else case s of
             d # t \<Rightarrow> if d = CHR ''`'' then map_option (\<lambda>(n, r). (CHR ''`'' # n, r)) (ident_body t)
                     else Some ([], s)
           | [] \<Rightarrow> Some ([], []))"

definition read_ident :: "string \<Rightarrow> (string \<times> string) option" where
  "read_ident s = (if has_prefix ''`'' s then ident_body (tl s) else None)"

lemma ident_body_quoted:
  "\<not> has_prefix ''`'' rest \<Longrightarrow>
   ident_body (replace_char (CHR ''`'') ''``'' name @ ''`'' @ rest) = Some (name, rest)"
  by (induction name) (auto split: list.splits)

text \<open>
  Whatever bytes the database name has, the server reads the quoted identifier as
  exactly that name and goes on after it: no name can end the identifier and inject SQL.
\<close>

theorem quoteMySQLIdent_safe:
  assumes "\<not> has_prefix ''`'' rest"
  shows "read_ident (quoteMySQLIdent name @ rest) = Some (name, rest)"
  using ident_body_quoted [OF assms] by (simp add: read_ident_def quoteMySQLIdent_def)

theorem quoteMySQLIdent_safe_witness:
  "read_ident (quoteMySQLIdent ''a`; DROP TABLE t; --'' @ '' x'') = Some (''a`; DROP TABLE t; --'', '' x'')"
  by (rule quoteMySQLIdent_safe) simp

section \<open>State and environment\<close>

text \<open>An audit entry of \<open>db.query\<close>.\<close>

record audit_entry =
  AuditUser :: int
  AuditSession :: int
  AuditRemote :: string
  AuditSQL :: string
  AuditRows :: int
  AuditError :: "string option"
  AuditDuration :: int

text \<open>
  What a connection has sent to the client, the target database, the statements it was
  given, and the calls of the audit API, each with the error it came back with.
\<close>

record 't conn_state =
  sent :: "byte list"
  database :: 't
  executed :: "string list"
  audits :: "(audit_entry \<times> string option) list"

text \<open>
  \<open>elapsed\<close> is what the clock shows for a statement.  \<open>api_audit\<close> is given the number of the
  call, so that it may fail from some moment on, as it does once the context is cancelled.
\<close>

record 't mysql_env =
  api_verify :: "string \<Rightarrow> string \<Rightarrow> string \<Rightarrow> string + authResult"
  api_create :: "sessionInfo \<Rightarrow> string + int"
  db_open :: "authResult \<Rightarrow> string + 't"
  db_exec :: "string \<Rightarrow> 't \<Rightarrow> (string + int \<times> int) \<times> 't"
  db_query :: "string \<Rightarrow> 't \<Rightarrow> (string + (string + result_rows)) \<times> 't"
  elapsed :: "string \<Rightarrow> int"
  api_audit :: "nat \<Rightarrow> audit_entry \<Rightarrow> string option"

record conn_ids =
  IdUser :: int
  IdSession :: int
  IdRemote :: string

text \<open>The text of an error; the Chinese messages by their UTF-8 bytes.\<close>

definition error_text :: "mysql_error \<Rightarrow> string" where
  "error_text e =
     (case e of
        EndOfStream \<Rightarrow> ''EOF''
      | UnexpectedEnd \<Rightarrow> ''unexpected EOF''
      | PacketTooLarge n \<Rightarrow>
          ''MySQL '' @ map chr [230, 149, 176, 230, 141, 174, 229, 140, 133, 232, 191, 135,
                               229, 164, 167, 239, 188, 154] @ show_nat n
      | ResponseTooShort \<Rightarrow>
          ''MySQL '' @ map chr [230, 143, 161, 230, 137, 139, 229, 147, 141, 229, 186, 148,
                               232, 191, 135, 231, 159, 173]
      | MissingUsername \<Rightarrow>
          map chr [231, 188, 186, 229, 176, 145] @ '' MySQL '' @
          map chr [231, 148, 168, 230, 136, 183, 229, 144, 141]
      | BadAuthResponse \<Rightarrow>
          ''MySQL '' @ map chr [232, 174, 164, 232, 175, 129, 229, 147, 141, 229, 186, 148,
                               230, 151, 160, 230, 149, 136])"

definition result_error_text :: "result_error \<Rightarrow> string" where
  "result_error_text e = (case e of WireError m \<Rightarrow> error_text m | DriverError s \<Rightarrow> s)"

text \<open>Writing to the client: the error, if the packet does not fit, and the new state.\<close>

definition emit ::
    "mysql_error + byte list \<Rightarrow> ('t, 'z) conn_state_scheme \<Rightarrow> string option \<times> ('t, 'z) conn_state_scheme" where
  "emit packet s =
     (case packet of
        Inl e \<Rightarrow> (Some (error_text e), s)
      | Inr b \<Rightarrow> (None, s\<lparr>sent := sent s @ b\<rparr>))"

text \<open>The error of the call is dropped.  A duration of zero is made a millisecond.\<close>

definition audit ::
    "'t mysql_env \<Rightarrow> conn_ids \<Rightarrow> string \<Rightarrow> int \<Rightarrow> string option \<Rightarrow> int \<Rightarrow> 't conn_state \<Rightarrow> 't conn_state" where
  "audit env ids sql rows err duration s =
     (let entry = \<lparr>AuditUser = IdUser ids, AuditSession = IdSession ids, AuditRemote = IdRemote ids,
                   AuditSQL = sql, AuditRows = rows, AuditError = err,
                   AuditDuration = (if duration = 0 then 1000000 else duration)\<rparr>
      in s\<lparr>audits := audits s @ [(entry, api_audit env (length (audits s)) entry)]\<rparr>)"

section \<open>Commands\<close>

definition execNoResult ::
    "'t mysql_env \<Rightarrow> string \<Rightarrow> 't conn_state \<Rightarrow> string option \<times> 't conn_state" where
  "execNoResult env sql s =
     (case db_exec env sql (database s) of
        (r, t) \<Rightarrow>
          let s = s\<lparr>database := t, executed := executed s @ [sql]\<rparr>
          in case r of
               Inl e \<Rightarrow> (Some e, s)
             | Inr (affected, lastID) \<Rightarrow>
                 emit (writeOKPacket 1 (strconvUint64 affected) (strconvUint64 lastID)) s)"

definition runQuery ::
    "'t mysql_env \<Rightarrow> string \<Rightarrow> 't conn_state \<Rightarrow> int \<times> string option \<times> 't conn_state" where
  "runQuery env sql s =
     (case db_query env sql (database s) of
        (r, t) \<Rightarrow>
          let s = s\<lparr>database := t, executed := executed s @ [sql]\<rparr>
          in case r of
               Inl e \<Rightarrow> (0, Some e, s)
             | Inr rows \<Rightarrow>
                 (case writeResultSet rows of
                    (out, count, err) \<Rightarrow>
                      (int count, map_option result_error_text err, s\<lparr>sent := sent s @ out\<rparr>)))"

definition handleQuery ::
    "'t mysql_env \<Rightarrow> conn_ids \<Rightarrow> string \<Rightarrow> 't conn_state \<Rightarrow> 't conn_state" where
  "handleQuery env ids q s =
     (if trim_space q = '''' then
        let (err, s) = emit (writeOKPacket 1 0 0) s in audit env ids q 0 err (elapsed env q) s
      else
        let (rowsAffected, err, s) =
              (if isResultQuery q then runQuery env q s
               else let (err, s) = execNoResult env q s
                    in (if err = None then -1 else 0, err, s));
            s = (case err of
                   None \<Rightarrow> s
                 | Some e \<Rightarrow> snd (emit (writeErrorPacket 1 1105 e) s))
        in audit env ids q rowsAffected err (elapsed env q) s)"

fun show_hex :: "nat \<Rightarrow> string" where
  "show_hex n = (if n < 16 then [''0123456789abcdef'' ! n]
                 else show_hex (n div 16) @ [''0123456789abcdef'' ! (n mod 16)])"

declare show_hex.simps [simp del]

text \<open>One iteration of the loop on a payload: the new state, or \<open>None\<close> for \<open>COM_QUIT\<close>.\<close>

definition handlePayload ::
    "'t mysql_env \<Rightarrow> conn_ids \<Rightarrow> byte list \<Rightarrow> 't conn_state \<Rightarrow> 't conn_state option" where
  "handlePayload env ids payload s =
     (case payload of
        [] \<Rightarrow> Some (snd (emit (writeErrorPacket 1 1064 ''empty mysql command'') s))
      | c # arg \<Rightarrow>
          if c = 0x01 then None
          else if c = 0x0e then Some (snd (emit (writeOKPacket 1 0 0) s))
          else if c = 0x02 then
            let dbName = string_of arg;
                (err, s) = execNoResult env (''USE '' @ quoteMySQLIdent dbName) s
            in Some (audit env ids (''USE '' @ dbName) 0 err 0 s)
          else if c = 0x03 then Some (handleQuery env ids (string_of arg) s)
          else if c \<in> {0x16, 0x17, 0x19} then
            Some (snd (emit (writeErrorPacket 1 1295
              ''prepared statements are not supported by this proxy yet'') s))
          else
            Some (snd (emit (writeErrorPacket 1 1064
              (''unsupported mysql command 0x'' @ show_hex (unat c))) s)))"

lemma readMySQLPacket_shorter: "readMySQLPacket bs = Inr (p, r) \<Longrightarrow> length r < length bs"
  using take_packet_shorter [of bs p r] by (simp add: take_packet_def)

function commandLoop ::
    "'t mysql_env \<Rightarrow> conn_ids \<Rightarrow> byte list \<Rightarrow> 't conn_state \<Rightarrow> 't conn_state" where
  "commandLoop env ids client s =
     (case readMySQLPacket client of
        Inl _ \<Rightarrow> s
      | Inr ((payload, _), rest) \<Rightarrow>
          (case handlePayload env ids payload s of
             None \<Rightarrow> s
           | Some s' \<Rightarrow> commandLoop env ids rest s'))"
  by pat_completeness auto
termination
  by (relation "measure (\<lambda>(env, ids, client, s). length client)")
     (auto dest: readMySQLPacket_shorter)

declare commandLoop.simps [simp del]

section \<open>A connection\<close>

text \<open>
  How a connection ends: the bytes sent, the session created, the times it was finished,
  the authorisation with which the target was dialled, if it was, and the state of the command
  phase if that was reached.  \<open>crashed\<close> is Go's panic.
\<close>

record 't conn_report =
  crashed :: bool
  reply :: "byte list"
  created :: "sessionInfo option"
  finished :: "int list"
  dialled :: "authResult option"
  phase :: "'t conn_state option"

definition early_end :: "byte list \<Rightarrow> 't conn_report" where
  "early_end out =
     \<lparr>crashed = False, reply = out, created = None, finished = [], dialled = None, phase = None\<rparr>"

definition refuse :: "byte list \<Rightarrow> string \<Rightarrow> byte list" where
  "refuse out msg =
     (case writeErrorPacket 2 1045 msg of Inl _ \<Rightarrow> out | Inr b \<Rightarrow> out @ b)"

text \<open>After the target is open: the client's default database, the OK packet, the commands.\<close>

definition command_phase ::
    "'t mysql_env \<Rightarrow> conn_ids \<Rightarrow> string \<Rightarrow> byte list \<Rightarrow> byte list \<Rightarrow> 't \<Rightarrow> 't conn_state" where
  "command_phase env ids db out client target =
     (let s = \<lparr>sent = out, database = target, executed = [], audits = []\<rparr>;
          s = (if db = '''' then s
               else let sql = ''USE '' @ quoteMySQLIdent db
                    in s\<lparr>database := snd (db_exec env sql (database s)), executed := [sql]\<rparr>)
      in case emit (writeOKPacket 2 0 0) s of
           (Some _, s) \<Rightarrow> s
         | (None, s) \<Rightarrow> commandLoop env ids client s)"

definition handleConn ::
    "'t mysql_env \<Rightarrow> string \<Rightarrow> 32 word \<Rightarrow> byte list \<Rightarrow> 't conn_report" where
  "handleConn env remoteAddr connId client =
     (case writeHandshake connId of
        Inl _ \<Rightarrow> early_end []
      | Inr hello_out \<Rightarrow>
          (case readMySQLPacket client of
             Inl _ \<Rightarrow> early_end hello_out
           | Inr ((payload, _), rest) \<Rightarrow>
               (case parseHandshakeResponse payload of
                  Panicked \<Rightarrow> (early_end hello_out)\<lparr>crashed := True\<rparr>
                | Refused e \<Rightarrow> early_end (refuse hello_out (error_text e))
                | Parsed hello \<Rightarrow>
                    let token = extractConnectionToken (Username hello) (Password hello)
                    in if token = '''' then early_end (refuse hello_out ''connection token required'')
                       else
                         (case api_verify env token remoteAddr ''mysql'' of
                            Inl _ \<Rightarrow> early_end (refuse hello_out ''token verification failed'')
                          | Inr auth \<Rightarrow>
                              if to_lower (Protocol (Target auth)) \<noteq> ''mysql''
                              then early_end (refuse hello_out ''connection token protocol is not mysql'')
                              else
                                let info = dbSessionInfo auth ''mysql'' ''mysql_client'' remoteAddr
                                in (case api_create env info of
                                      Inl _ \<Rightarrow> early_end (refuse hello_out ''create db session failed'')
                                    | Inr sid \<Rightarrow>
                                        (case db_open env auth of
                                           Inl _ \<Rightarrow>
                                             (early_end (refuse hello_out ''connect target mysql failed''))
                                               \<lparr>created := Some info, finished := [sid], dialled := Some auth\<rparr>
                                         | Inr target \<Rightarrow>
                                             let ids = \<lparr>IdUser = AuthUserID auth, IdSession = sid,
                                                        IdRemote = remoteAddr\<rparr>;
                                                 s = command_phase env ids (Database hello) hello_out rest target
                                             in \<lparr>crashed = False, reply = sent s, created = Some info,
                                                 finished = [sid], dialled = Some auth, phase = Some s\<rparr>))))))"

section \<open>Commands as data\<close>

text \<open>
  The abstract view: the bytes of the client are a sequence of commands, and the loop
  handles one after the other.
\<close>

datatype command =
    Empty | Ping | InitDB string | Query string | Prepared | Unknown byte

definition parse_command :: "byte list \<Rightarrow> command option" where
  "parse_command payload =
     (case payload of
        [] \<Rightarrow> Some Empty
      | c # arg \<Rightarrow>
          if c = 0x01 then None
          else if c = 0x0e then Some Ping
          else if c = 0x02 then Some (InitDB (string_of arg))
          else if c = 0x03 then Some (Query (string_of arg))
          else if c \<in> {0x16, 0x17, 0x19} then Some Prepared
          else Some (Unknown c))"

function commands_of :: "byte list \<Rightarrow> command list" where
  "commands_of client =
     (case readMySQLPacket client of
        Inl _ \<Rightarrow> []
      | Inr ((payload, _), rest) \<Rightarrow>
          (case parse_command payload of None \<Rightarrow> [] | Some c \<Rightarrow> c # commands_of rest))"
  by pat_completeness auto
termination
  by (relation "measure length") (auto dest: readMySQLPacket_shorter)

declare commands_of.simps [simp del]

text \<open>What a command makes the proxy send to the target, and what it makes it audit.\<close>

fun statements :: "command \<Rightarrow> string list" where
  "statements (InitDB db) = [''USE '' @ quoteMySQLIdent db]"
| "statements (Query q) = (if trim_space q = '''' then [] else [q])"
| "statements _ = []"

fun audited :: "command \<Rightarrow> string list" where
  "audited (InitDB db) = [''USE '' @ db]"
| "audited (Query q) = [q]"
| "audited _ = []"

text \<open>The statements of the audit calls made so far.\<close>

definition audit_calls :: "'t conn_state \<Rightarrow> string list" where
  "audit_calls s = map (\<lambda>(entry, _). AuditSQL entry) (audits s)"

lemma emit_keeps:
  "executed (snd (emit p s)) = executed s" "audits (snd (emit p s)) = audits s"
  "database (snd (emit p s)) = database s"
  by (simp_all add: emit_def split: sum.split)

lemma emit_keeps_pair:
  assumes "emit p s = (e, s')"
  shows "executed s' = executed s" "audits s' = audits s" "audit_calls s' = audit_calls s"
  using emit_keeps [of p s] assms by (simp_all add: audit_calls_def)

lemma execNoResult_logs:
  assumes "execNoResult env sql s = (e, s')"
  shows "executed s' = executed s @ [sql] \<and> audits s' = audits s \<and> audit_calls s' = audit_calls s"
  using assms by (auto simp: execNoResult_def Let_def emit_keeps_pair audit_calls_def split: prod.splits sum.splits)

lemma runQuery_logs:
  assumes "runQuery env sql s = (n, e, s')"
  shows "executed s' = executed s @ [sql] \<and> audits s' = audits s \<and> audit_calls s' = audit_calls s"
  using assms by (auto simp: runQuery_def Let_def audit_calls_def split: prod.splits sum.splits)

lemma audit_logs:
  "executed (audit env ids q n e d s) = executed s"
  "audit_calls (audit env ids q n e d s) = audit_calls s @ [q]"
  by (simp_all add: audit_def audit_calls_def Let_def)

lemma emit_calls: "audit_calls (snd (emit p s)) = audit_calls s"
  by (simp add: audit_calls_def emit_keeps)

lemmas command_logs = emit_keeps audit_logs emit_calls

lemma handleQuery_logs:
  "executed (handleQuery env ids q s) = executed s @ statements (Query q) \<and>
   audit_calls (handleQuery env ids q s) = audit_calls s @ [q]"
  by (auto simp: handleQuery_def command_logs emit_keeps_pair Let_def
      dest!: execNoResult_logs runQuery_logs
      split: prod.splits option.splits if_splits)

lemma handlePayload_logs:
  assumes "handlePayload env ids payload s = Some s'"
  shows "\<exists>c. parse_command payload = Some c \<and> executed s' = executed s @ statements c \<and>
         audit_calls s' = audit_calls s @ audited c"
  using assms handleQuery_logs [of env ids]
  by (auto simp: handlePayload_def parse_command_def command_logs Let_def
      dest!: execNoResult_logs split: list.splits prod.splits if_splits)

lemma handlePayload_None: "handlePayload env ids payload s = None \<longleftrightarrow> parse_command payload = None"
  by (auto simp: handlePayload_def parse_command_def Let_def split: list.splits prod.splits)

lemma commandLoop_logs:
  "executed (commandLoop env ids client s) = executed s @ concat (map statements (commands_of client)) \<and>
   audit_calls (commandLoop env ids client s) = audit_calls s @ concat (map audited (commands_of client))"
proof (induction env ids client s rule: commandLoop.induct)
  case (1 env ids client s)
  show ?case
  proof (cases "readMySQLPacket client")
    case (Inl e)
    thus ?thesis by (simp add: commandLoop.simps [of env ids client s] commands_of.simps [of client])
  next
    case (Inr r)
    obtain payload seq rest where r: "r = ((payload, seq), rest)" by (metis surj_pair)
    show ?thesis
    proof (cases "handlePayload env ids payload s")
      case None
      hence "parse_command payload = None" using handlePayload_None by blast
      thus ?thesis using Inr r None
        by (simp add: commandLoop.simps [of env ids client s] commands_of.simps [of client])
    next
      case (Some s')
      then obtain c where c: "parse_command payload = Some c"
        "executed s' = executed s @ statements c"
        "audit_calls s' = audit_calls s @ audited c"
        using handlePayload_logs by blast
      show ?thesis using "1.IH" [OF Inr r [symmetric] refl Some] Inr r Some c
        by (simp add: commandLoop.simps [of env ids client s] commands_of.simps [of client])
    qed
  qed
qed

lemma ok_packet: "\<exists>b. writeOKPacket n 0 0 = Inr b"
  by (simp add: writeOKPacket_def writeMySQLPacket_def okPacket_def writeLenEncInt_def mysqlMaxPacketSize_def)


section \<open>What a connection needs before it reaches the target\<close>

definition tagged :: "conn_ids \<Rightarrow> 't conn_state \<Rightarrow> bool" where
  "tagged ids s =
     (\<forall>(a, _) \<in> set (audits s). AuditUser a = IdUser ids \<and> AuditSession a = IdSession ids
                          \<and> AuditRemote a = IdRemote ids)"

lemma tagged_audit [simp]: "tagged ids (audit env ids q n e d s) = tagged ids s"
  by (auto simp: tagged_def audit_def Let_def)

lemma tagged_same: "audits s' = audits s \<Longrightarrow> tagged ids s' = tagged ids s"
  by (simp add: tagged_def)

lemma tagged_emit [simp]: "tagged ids (snd (emit p s)) = tagged ids s"
  by (rule tagged_same) (simp add: emit_keeps)

lemma tagged_emit_pair: "emit p s = (e, s') \<Longrightarrow> tagged ids s' = tagged ids s"
  by (metis snd_conv tagged_emit)

lemma tagged_exec: "execNoResult env sql s = (e, s') \<Longrightarrow> tagged ids s' = tagged ids s"
  using execNoResult_logs tagged_same by metis

lemma tagged_query: "runQuery env sql s = (n, e, s') \<Longrightarrow> tagged ids s' = tagged ids s"
  using runQuery_logs tagged_same by metis

lemma tagged_handleQuery: "tagged ids (handleQuery env ids q s) = tagged ids s"
  by (auto simp: handleQuery_def Let_def tagged_exec tagged_query tagged_emit_pair
      split: prod.splits option.splits if_splits)

lemma tagged_handlePayload:
  "handlePayload env ids payload s = Some s' \<Longrightarrow> tagged ids s' = tagged ids s"
  by (auto simp: handlePayload_def Let_def tagged_exec tagged_handleQuery
      split: list.splits prod.splits if_splits)

lemma tagged_commandLoop: "tagged ids (commandLoop env ids client s) = tagged ids s"
proof (induction env ids client s rule: commandLoop.induct)
  case (1 env ids client s)
  thus ?case
    by (auto simp: commandLoop.simps [of env ids client s] tagged_handlePayload
        split: sum.split prod.split option.split)
qed

lemma tagged_command_phase: "tagged ids (command_phase env ids db out client target)"
  by (auto simp: command_phase_def Let_def tagged_commandLoop tagged_emit_pair emit_def
      split: prod.split option.split sum.split) (auto simp: tagged_def)

text \<open>
  C6: Without a token in the client's handshake that the API server accepted for MySQL, on a MySQL
  target, the proxy creates no session and dials no target.  With one, the session is that of the authorisation,
  the target is dialled only after the session was created and with that authorisation, and
  every audit call of the command phase names its user and the session; and the session is
  finished exactly once, however the connection ends.
\<close>

theorem handleConn_gated:
  "(created (handleConn env remoteAddr connId client) = None \<longrightarrow>
      finished (handleConn env remoteAddr connId client) = [] \<and>
      dialled (handleConn env remoteAddr connId client) = None \<and>
      phase (handleConn env remoteAddr connId client) = None) \<and>
   (\<forall>info. created (handleConn env remoteAddr connId client) = Some info \<longrightarrow>
      (\<exists>payload seq rest hello token auth sid.
         readMySQLPacket client = Inr ((payload, seq), rest) \<and> parseHandshakeResponse payload = Parsed hello \<and>
         token = extractConnectionToken (Username hello) (Password hello) \<and> token \<noteq> '''' \<and>
         api_verify env token remoteAddr ''mysql'' = Inr auth \<and>
         to_lower (Protocol (Target auth)) = ''mysql'' \<and>
         info = dbSessionInfo auth ''mysql'' ''mysql_client'' remoteAddr \<and>
         api_create env info = Inr sid \<and>
         finished (handleConn env remoteAddr connId client) = [sid] \<and>
         dialled (handleConn env remoteAddr connId client) = Some auth \<and>
         (\<forall>s. phase (handleConn env remoteAddr connId client) = Some s \<longrightarrow>
            (\<exists>target. db_open env auth = Inr target) \<and>
            tagged \<lparr>IdUser = AuthUserID auth, IdSession = sid, IdRemote = remoteAddr\<rparr> s)))"
  by (auto simp: handleConn_def early_end_def Let_def tagged_command_phase
      split: sum.split prod.split parse.split)

definition sample_auth :: authResult where
  "sample_auth =
     \<lparr>Target = \<lparr>Address = ''db'', Port = 3306, Protocol = ''MySQL''\<rparr>,
      Account = \<lparr>AccUsername = ''root'', Secret = ''pw'', SecretType = ''password'', DBName = ''''\<rparr>,
      AuthUserID = 7, AuthAssetID = 1, AuthAccountID = 2, AuthConnectMethod = ''mysql_client''\<rparr>"

definition sample_env :: "string list mysql_env" where
  "sample_env =
     \<lparr>api_verify = (\<lambda>token remote proto.
        if token = ''tok'' \<and> proto = ''mysql'' then Inr sample_auth else Inl ''denied''),
      api_create = (\<lambda>info. Inr 42),
      db_open = (\<lambda>auth. Inr []),
      db_exec = (\<lambda>sql t. (Inr (1, 0), t @ [sql])),
      db_query = (\<lambda>sql t. (Inl ''no such table'', t @ [sql])),
      elapsed = (\<lambda>_. 0), api_audit = (\<lambda>_ _. None)\<rparr>"

definition sample_hello :: "byte list" where
  "sample_hello = client_response 0x8000 (replicate 28 0) (bytes_of ''u#tok'') [] []"

definition sample_client :: "byte list" where
  "sample_client = packet_bytes (sample_hello, 1) @ packet_bytes (3 # bytes_of ''DELETE FROM t'', 0)"

lemma sample_parse:
  "parseHandshakeResponse sample_hello =
   Parsed \<lparr>Username = ''u#tok'', Password = '''', Database = ''''\<rparr>"
  "packet_fits (sample_hello, 1)"
proof -
  have f: "\<not> has_flag 0x8000 mysqlClientConnectWithDB" "has_flag 0x8000 mysqlClientSecureConn"
    "\<not> has_flag 0x8000 mysqlClientPluginAuthLenEnc"
    by (simp_all add: has_flag_def mysqlClientConnectWithDB_def mysqlClientSecureConn_def
        mysqlClientPluginAuthLenEnc_def)
  have "0 \<notin> set (bytes_of ''u#tok'')" by (simp add: bytes_of_def)
  moreover have "printableAuthResponse [] = ''''"
    by (simp add: printableAuthResponse_def trim_right_def)
  moreover show "packet_fits (sample_hello, 1)"
    using f by (simp add: packet_fits_def sample_hello_def client_response_def auth_field_def
        mysqlMaxPacketSize_def)
  ultimately show "parseHandshakeResponse sample_hello =
      Parsed \<lparr>Username = ''u#tok'', Password = '''', Database = ''''\<rparr>"
    using parse_client_response [of "replicate 28 0" "bytes_of ''u#tok''" "0x8000" "[]" "[]"] f
    by (simp add: sample_hello_def auth_field_fits_def packet_fits_def)
qed

lemma sample_env_simps:
  "api_verify sample_env t h p = (if t = ''tok'' \<and> p = ''mysql'' then Inr sample_auth else Inl ''denied'')"
  "api_create sample_env i = Inr 42" "db_open sample_env a = Inr []"
  by (simp_all add: sample_env_def)

theorem handleConn_gated_witness:
  "\<exists>s. phase (handleConn sample_env ''h'' 0 sample_client) = Some s \<and>
       tagged \<lparr>IdUser = 7, IdSession = 42, IdRemote = ''h''\<rparr> s \<and>
       finished (handleConn sample_env ''h'' 0 sample_client) = [42]"
proof -
  have "extractConnectionToken ''u#tok'' '''' = ''tok''"
    using extract_username_token [of "''tok''" "''u''" "[]"] by (simp add: token_char_def solid_def)
  moreover have "to_lower (Protocol (Target sample_auth)) = ''mysql''"
    by (simp add: sample_auth_def to_lower_def lower_char_def replace_all.simps char_of_def bit_0)
  moreover have "readMySQLPacket sample_client =
      Inr ((sample_hello, 1), packet_bytes (3 # bytes_of ''DELETE FROM t'', 0))"
    using packet.dec_enc [OF sample_parse(2), of "packet_bytes (3 # bytes_of ''DELETE FROM t'', 0)"]
    by (auto simp: sample_client_def take_packet_def split: sum.splits)
  moreover have "writeHandshake 0 = Inr (packet_bytes (greeting 0, 0))"
    by (simp add: writeHandshake_def writeMySQLPacket_def greeting_def mysqlMaxPacketSize_def)
  ultimately have "\<exists>s. phase (handleConn sample_env ''h'' 0 sample_client) = Some s"
    and "\<exists>info. created (handleConn sample_env ''h'' 0 sample_client) = Some info"
    by (simp_all add: handleConn_def sample_parse sample_env_simps Let_def)
  then obtain s info where s: "phase (handleConn sample_env ''h'' 0 sample_client) = Some s"
    and info: "created (handleConn sample_env ''h'' 0 sample_client) = Some info" by blast
  have "api_verify sample_env t h p = Inr auth \<Longrightarrow> AuthUserID auth = 7" for t h p auth
    by (auto simp: sample_env_simps sample_auth_def split: if_splits)
  thus ?thesis
    using handleConn_gated [of sample_env "''h''" 0 sample_client] s info sample_env_simps(2) by auto
qed

end
