(* ===== verification/PgAudit.thy ===== *)
theory PgAudit
  imports DbTypes
begin

text \<open>
  What the PostgreSQL proxy records (\<open>proxy/db/postgres_audit.go\<close>) and how its relay moves
  messages between client and target (\<open>relay\<close>, \<open>copyFrontendToTarget\<close> and
  \<open>copyTargetToFrontend\<close> of \<open>proxy/db/postgres_server.go\<close>).  The two copying loops run
  concurrently; the relay is a step relation whose steps are their atomic actions.
\<close>

section \<open>Messages\<close>

text \<open>
  The messages the proxy looks into; the others are passed on unseen.  \<open>CloseObject\<close> carries
  the object type byte as a character.
\<close>

datatype frontend_msg =
    SimpleQuery string
  | Parse string string
  | Bind string string
  | Execute string
  | CloseObject char string
  | Terminate
  | OtherFrontend string

datatype backend_msg =
    CommandComplete string
  | ErrorResponse string string
  | ReadyForQuery char
  | OtherBackend string

section \<open>Audit entries\<close>

text \<open>
  \<open>sqlAuditDetail\<close>: the fields of the JSON text, the duration in milliseconds.  An empty
  error is left out.
\<close>

record sql_detail =
  sd_session :: int
  sd_protocol :: string
  sd_sql :: string
  sd_ms :: int
  sd_rows :: int
  sd_error :: string

definition newSQLAuditDetail ::
  "int \<Rightarrow> string \<Rightarrow> string \<Rightarrow> int \<Rightarrow> int \<Rightarrow> string option \<Rightarrow> sql_detail" where
  "newSQLAuditDetail sessionID protocol q duration rowsAffected err =
     \<lparr>sd_session = sessionID, sd_protocol = protocol, sd_sql = q,
      sd_ms = duration div 1000000, sd_rows = rowsAffected,
      sd_error = (case err of None \<Rightarrow> '''' | Some e \<Rightarrow> e)\<rparr>"

text \<open>The last field of the tag that is a number; \<open>-1\<close> if there is none.\<close>

definition parsePostgresRowsAffected :: "string \<Rightarrow> int" where
  "parsePostgresRowsAffected tag =
     (case List.map_filter parse_int64 (rev (string_fields tag)) of [] \<Rightarrow> - 1 | n # _ \<Rightarrow> n)"

definition postgresError :: "string \<Rightarrow> string \<Rightarrow> string" where
  "postgresError code message =
     (if code \<noteq> '''' \<and> message \<noteq> '''' then code @ '': '' @ message
      else if message \<noteq> '''' then message
      else ''PostgreSQL '' @ map chr [233, 148, 153, 232, 175, 175])"

section \<open>The audit state\<close>

record audit_event =
  ev_query :: string
  ev_start :: int

text \<open>
  \<open>postgresAuditState\<close>: who is connected, the SQL texts of the prepared statements and of
  the portals, the events whose end has not been seen, and the entries sent to the API.
\<close>

record audit_state =
  au_user :: int
  au_session :: int
  au_remote :: string
  au_prepared :: "string \<rightharpoonup> string"
  au_portals :: "string \<rightharpoonup> string"
  au_pending :: "audit_event list"
  au_log :: "(int \<times> string \<times> sql_detail) list"

definition newPostgresAuditState :: "int \<Rightarrow> int \<Rightarrow> string \<Rightarrow> audit_state" where
  "newPostgresAuditState userID sessionID remoteAddr =
     \<lparr>au_user = userID, au_session = sessionID, au_remote = remoteAddr, au_prepared = Map.empty,
      au_portals = Map.empty, au_pending = [], au_log = []\<rparr>"

text \<open>Go reads a missing key of a map as the empty string.\<close>

definition text_at :: "(string \<rightharpoonup> string) \<Rightarrow> string \<Rightarrow> string" where
  "text_at m k = (case m k of None \<Rightarrow> '''' | Some v \<Rightarrow> v)"

definition beginLocked :: "int \<Rightarrow> string \<Rightarrow> audit_state \<Rightarrow> audit_state" where
  "beginLocked now q s = s\<lparr>au_pending := au_pending s @ [\<lparr>ev_query = q, ev_start = now\<rparr>]\<rparr>"

definition observeFrontend :: "int \<Rightarrow> frontend_msg \<Rightarrow> audit_state \<Rightarrow> audit_state" where
  "observeFrontend now msg s =
     (case msg of
        SimpleQuery q \<Rightarrow> beginLocked now q s
      | Parse name q \<Rightarrow> s\<lparr>au_prepared := (au_prepared s)(name \<mapsto> q)\<rparr>
      | Bind portal statement \<Rightarrow>
          let q = text_at (au_prepared s) statement
          in if q \<noteq> '''' then s\<lparr>au_portals := (au_portals s)(portal \<mapsto> q)\<rparr> else s
      | Execute portal \<Rightarrow>
          let q = text_at (au_portals s) portal;
              q = (if q = '''' then text_at (au_prepared s) '''' else q)
          in if q \<noteq> '''' then beginLocked now q s else s
      | CloseObject kind name \<Rightarrow>
          if kind = CHR ''S'' then s\<lparr>au_prepared := (au_prepared s)(name := None)\<rparr>
          else if kind = CHR ''P'' then s\<lparr>au_portals := (au_portals s)(name := None)\<rparr>
          else s
      | Terminate \<Rightarrow> s
      | OtherFrontend _ \<Rightarrow> s)"

definition audit_write :: "int \<Rightarrow> audit_event \<Rightarrow> int \<Rightarrow> string option \<Rightarrow> audit_state \<Rightarrow> audit_state" where
  "audit_write now event rowsAffected err s =
     (let duration = now - ev_start event;
          duration = (if duration \<le> 0 then 1000000 else duration);
          detail = newSQLAuditDetail (au_session s) ''postgres'' (ev_query event) duration rowsAffected err
      in s\<lparr>au_log := au_log s @ [(au_user s, au_remote s, detail)]\<rparr>)"

definition finishNext :: "int \<Rightarrow> int \<Rightarrow> string option \<Rightarrow> audit_state \<Rightarrow> audit_state" where
  "finishNext now rowsAffected err s =
     (case au_pending s of
        [] \<Rightarrow> s
      | event # rest \<Rightarrow> audit_write now event rowsAffected err (s\<lparr>au_pending := rest\<rparr>))"

definition flushPending :: "int \<Rightarrow> audit_state \<Rightarrow> audit_state" where
  "flushPending now s =
     fold (\<lambda>event. audit_write now event 0 None) (au_pending s) (s\<lparr>au_pending := []\<rparr>)"

definition observeBackend :: "int \<Rightarrow> backend_msg \<Rightarrow> audit_state \<Rightarrow> audit_state" where
  "observeBackend now msg s =
     (case msg of
        CommandComplete tag \<Rightarrow> finishNext now (parsePostgresRowsAffected tag) None s
      | ErrorResponse code message \<Rightarrow> finishNext now 0 (Some (postgresError code message)) s
      | ReadyForQuery _ \<Rightarrow> flushPending now s
      | OtherBackend _ \<Rightarrow> s)"

section \<open>The relay\<close>

text \<open>
  The messages received from the client and passed to the target, those of the target passed
  to the client, the message that was passed to the client and is about to be observed by the
  goroutine that passed it, and whether the client's direction has ended.  \<open>to_target\<close> is what
  the target was sent.
\<close>

record relay_state =
  rl_audit :: audit_state
  rl_received :: "frontend_msg list"
  rl_to_target :: "frontend_msg list"
  rl_to_client :: "backend_msg list"
  rl_observing :: "backend_msg option"
  rl_ended :: bool

definition relay_start :: "audit_state \<Rightarrow> relay_state" where
  "relay_start a =
     \<lparr>rl_audit = a, rl_received = [], rl_to_target = [], rl_to_client = [],
      rl_observing = None, rl_ended = False\<rparr>"

text \<open>
  \<open>copyFrontendToTarget\<close> observes a message before it forwards it; it stops after a
  \<open>Terminate\<close>.  \<open>copyTargetToFrontend\<close> forwards a message and observes it afterwards.
  Between its two actions the other loop may run.
\<close>

datatype relay_label =
    FromClient int frontend_msg
  | Forward
  | FromTarget backend_msg
  | Observe int

inductive relay_step :: "relay_state \<Rightarrow> relay_label \<Rightarrow> relay_state \<Rightarrow> bool" where
  client: "\<not> rl_ended s \<Longrightarrow> rl_received s = rl_to_target s \<Longrightarrow>
     relay_step s (FromClient now m)
       (s\<lparr>rl_received := rl_received s @ [m], rl_audit := observeFrontend now m (rl_audit s)\<rparr>)"
| forward: "rl_received s = rl_to_target s @ [m] \<Longrightarrow>
     relay_step s Forward
       (s\<lparr>rl_to_target := rl_to_target s @ [m], rl_ended := (m = Terminate)\<rparr>)"
| target: "rl_observing s = None \<Longrightarrow>
     relay_step s (FromTarget b)
       (s\<lparr>rl_to_client := rl_to_client s @ [b],
          rl_observing := Some b\<rparr>)"
| observe: "rl_observing s = Some b \<Longrightarrow>
     relay_step s (Observe now)
       (s\<lparr>rl_observing := None, rl_audit := observeBackend now b (rl_audit s)\<rparr>)"

inductive relay_run :: "relay_state \<Rightarrow> relay_label list \<Rightarrow> relay_state \<Rightarrow> bool" where
  stop: "relay_run s [] s"
| step: "relay_run s ls s' \<Longrightarrow> relay_step s' l s'' \<Longrightarrow> relay_run s (ls @ [l]) s''"

inductive_cases client_stepE: "relay_step s (FromClient now m) s'"
inductive_cases forward_stepE: "relay_step s Forward s'"
inductive_cases target_stepE: "relay_step s (FromTarget b) s'"
inductive_cases observe_stepE: "relay_step s (Observe now) s'"

inductive_simps relay_step_simps: "relay_step s l s'"

section \<open>The statements a client runs\<close>

text \<open>
  The reference: the SQL texts that the messages of a client run, given the statements and
  portals it has defined before.
\<close>

type_synonym definitions = "(string \<rightharpoonup> string) \<times> (string \<rightharpoonup> string)"

fun defining :: "frontend_msg \<Rightarrow> definitions \<Rightarrow> definitions" where
  "defining (Parse name q) (pre, por) = (pre(name \<mapsto> q), por)"
| "defining (Bind portal st) (pre, por) =
     (pre, if text_at pre st = '''' then por else por(portal \<mapsto> text_at pre st))"
| "defining (CloseObject kind name) (pre, por) =
     (if kind = CHR ''S'' then pre(name := None) else pre,
      if kind = CHR ''P'' then por(name := None) else por)"
| "defining _ d = d"

fun runs :: "frontend_msg \<Rightarrow> definitions \<Rightarrow> string list" where
  "runs (SimpleQuery q) d = [q]"
| "runs (Execute portal) (pre, por) =
     (let q = (if text_at por portal = '''' then text_at pre '''' else text_at por portal)
      in if q = '''' then [] else [q])"
| "runs _ d = []"

fun statements_run :: "definitions \<Rightarrow> frontend_msg list \<Rightarrow> string list" where
  "statements_run d [] = []"
| "statements_run d (m # ms) = runs m d @ statements_run (defining m d) ms"

definition log_sql :: "audit_state \<Rightarrow> string list" where
  "log_sql s = map (\<lambda>(u, r, d). sd_sql d) (au_log s)"

definition recorded :: "audit_state \<Rightarrow> string list" where
  "recorded s = log_sql s @ map ev_query (au_pending s)"

text \<open>Every entry names the user, the address and the session it belongs to.\<close>

definition entries_tagged :: "audit_state \<Rightarrow> bool" where
  "entries_tagged s =
     list_all (\<lambda>(u, r, d). u = au_user s \<and> r = au_remote s \<and> sd_session d = au_session s \<and>
                 sd_protocol d = ''postgres'') (au_log s)"

lemma statements_run_snoc:
  "statements_run d (ms @ [m]) = statements_run d ms @ runs m (fold defining ms d)"
  by (induction ms arbitrary: d) simp_all

lemma audit_write_log:
  "log_sql (audit_write now e n err s) = log_sql s @ [ev_query e]"
  "au_pending (audit_write now e n err s) = au_pending s"
  "entries_tagged s \<Longrightarrow> entries_tagged (audit_write now e n err s)"
  "(au_prepared (audit_write now e n err s), au_portals (audit_write now e n err s)) =
     (au_prepared s, au_portals s)"
  "(au_user (audit_write now e n err s), au_session (audit_write now e n err s),
    au_remote (audit_write now e n err s)) = (au_user s, au_session s, au_remote s)"
  by (simp_all add: audit_write_def Let_def log_sql_def entries_tagged_def newSQLAuditDetail_def)

lemma flush_writes:
  "log_sql (fold (\<lambda>e. audit_write now e 0 None) es s) = log_sql s @ map ev_query es \<and>
   au_pending (fold (\<lambda>e. audit_write now e 0 None) es s) = au_pending s \<and>
   (entries_tagged s \<longrightarrow> entries_tagged (fold (\<lambda>e. audit_write now e 0 None) es s)) \<and>
   au_prepared (fold (\<lambda>e. audit_write now e 0 None) es s) = au_prepared s \<and>
   au_portals (fold (\<lambda>e. audit_write now e 0 None) es s) = au_portals s"
  using audit_write_log by (induction es arbitrary: s) simp_all

lemma log_update [simp]:
  "log_sql (s\<lparr>au_pending := p\<rparr>) = log_sql s"
  "entries_tagged (s\<lparr>au_pending := p\<rparr>) = entries_tagged s"
  by (simp_all add: log_sql_def entries_tagged_def)

lemma observeBackend_records:
  "recorded (observeBackend now b s) = recorded s \<and>
   (au_prepared (observeBackend now b s), au_portals (observeBackend now b s)) =
     (au_prepared s, au_portals s) \<and>
   (entries_tagged s \<longrightarrow> entries_tagged (observeBackend now b s))"
  using audit_write_log flush_writes [of now "au_pending s" "s\<lparr>au_pending := []\<rparr>"]
  by (auto simp: observeBackend_def finishNext_def flushPending_def recorded_def
      split: backend_msg.split list.split)

lemma observeFrontend_records:
  "recorded (observeFrontend now m s) = recorded s @ runs m (au_prepared s, au_portals s) \<and>
   (au_prepared (observeFrontend now m s), au_portals (observeFrontend now m s)) =
     defining m (au_prepared s, au_portals s) \<and>
   (entries_tagged s \<longrightarrow> entries_tagged (observeFrontend now m s))"
  by (cases m; simp add: observeFrontend_def beginLocked_def recorded_def log_sql_def entries_tagged_def Let_def
      fun_upd_def)

text \<open>After \<open>ReadyForQuery\<close> nothing is left open.\<close>

lemma ready_flushes: "au_pending (observeBackend now (ReadyForQuery t) s) = []"
  using flush_writes [of now "au_pending s" "s\<lparr>au_pending := []\<rparr>"]
  by (simp add: observeBackend_def flushPending_def)

definition relay_ok :: "relay_state \<Rightarrow> bool" where
  "relay_ok s =
     (recorded (rl_audit s) = statements_run (Map.empty, Map.empty) (rl_received s) \<and>
      (au_prepared (rl_audit s), au_portals (rl_audit s)) =
        fold defining (rl_received s) (Map.empty, Map.empty) \<and>
      entries_tagged (rl_audit s) \<and>
      (rl_received s = rl_to_target s \<or> (\<exists>m. rl_received s = rl_to_target s @ [m])))"

lemma relay_ok_start: "relay_ok (relay_start (newPostgresAuditState u i r))"
  by (simp add: relay_ok_def relay_start_def newPostgresAuditState_def recorded_def log_sql_def entries_tagged_def)

lemma relay_ok_step: "relay_step s l s' \<Longrightarrow> relay_ok s \<Longrightarrow> relay_ok s'"
proof (induction rule: relay_step.induct)
  case (client s now m)
  thus ?case using observeFrontend_records [of now m "rl_audit s"]
    by (simp add: relay_ok_def statements_run_snoc)
next
  case (observe s b now)
  thus ?case using observeBackend_records [of now b "rl_audit s"]
    by (simp add: relay_ok_def)
qed (simp_all add: relay_ok_def)

lemma relay_ok_run: "relay_run s ls s' \<Longrightarrow> relay_ok s \<Longrightarrow> relay_ok s'"
  by (induction rule: relay_run.induct) (auto intro: relay_ok_step)

text \<open>
  C16: However the two directions of the relay interleave, the audit log followed by the open
  events lists exactly the statements the client has run, in order; the target has been sent
  nothing that is not recorded already; every entry carries the user, the address and the
  session; and once the proxy has observed \<open>ReadyForQuery\<close> nothing is open, so the log itself
  is complete.
\<close>

theorem relay_records_everything:
  assumes "relay_run (relay_start (newPostgresAuditState user session addr)) ls s"
  shows "recorded (rl_audit s) = statements_run (Map.empty, Map.empty) (rl_received s) \<and>
         (\<exists>ms. rl_received s = rl_to_target s @ ms \<and> length ms \<le> 1) \<and>
         entries_tagged (rl_audit s) \<and>
         (\<forall>s' now t. rl_observing s = Some (ReadyForQuery t) \<and> relay_step s (Observe now) s' \<longrightarrow>
            log_sql (rl_audit s') = statements_run (Map.empty, Map.empty) (rl_received s'))"
proof -
  have ok: "relay_ok s" using relay_ok_run [OF assms] relay_ok_start by blast
  have "log_sql (rl_audit s') = statements_run (Map.empty, Map.empty) (rl_received s')"
    if o: "rl_observing s = Some (ReadyForQuery t)" and st: "relay_step s (Observe now) s'" for s' now t
  proof -
    have "rl_audit s' = observeBackend now (ReadyForQuery t) (rl_audit s)"
      using st o by (auto elim: observe_stepE)
    hence "au_pending (rl_audit s') = []" by (simp add: ready_flushes)
    thus ?thesis using relay_ok_step [OF st ok] by (simp add: relay_ok_def recorded_def)
  qed
  moreover have "\<exists>ms. rl_received s = rl_to_target s @ ms \<and> length ms \<le> 1"
    using ok by (auto simp: relay_ok_def)
  ultimately show ?thesis using ok by (auto simp: relay_ok_def)
qed

text \<open>The next state of a run, step by step.\<close>

lemma run_client:
  "relay_run a ls s \<Longrightarrow> \<not> rl_ended s \<Longrightarrow> rl_received s = rl_to_target s \<Longrightarrow> m \<noteq> Terminate \<Longrightarrow>
   relay_run a (ls @ [FromClient now m, Forward])
     (s\<lparr>rl_received := rl_received s @ [m], rl_audit := observeFrontend now m (rl_audit s),
        rl_to_target := rl_to_target s @ [m], rl_ended := False\<rparr>)"
  using relay_run.step [OF relay_run.step [OF _ relay_step.client] relay_step.forward, of a ls s now m]
  by simp

lemma run_target:
  "relay_run a ls s \<Longrightarrow> rl_observing s = None \<Longrightarrow>
   relay_run a (ls @ [FromTarget b, Observe now])
     (s\<lparr>rl_to_client := rl_to_client s @ [b], rl_observing := None,
        rl_audit := observeBackend now b (rl_audit s)\<rparr>)"
  using relay_run.step [OF relay_run.step [OF _ relay_step.target] relay_step.observe, of a ls s b b now]
  by simp

definition sample_audit :: audit_state where
  "sample_audit = newPostgresAuditState 7 3 ''10.1.1.1''"

theorem relay_records_everything_witness:
  "\<exists>ls s. relay_run (relay_start sample_audit) ls s \<and>
     recorded (rl_audit s) = [''select 1'', ''select 1'']"
proof -
  define a where "a = relay_start sample_audit"
  have f: "\<not> rl_ended a" "rl_received a = []" "rl_to_target a = []"
    by (simp_all add: a_def relay_start_def)
  obtain ls1 s1 where r1: "relay_run a ls1 s1" and s1: "\<not> rl_ended s1"
    "rl_received s1 = [Parse ''p'' ''select 1'']" "rl_to_target s1 = [Parse ''p'' ''select 1'']"
    using run_client [OF relay_run.stop, of a "Parse ''p'' ''select 1''" 0] f by force
  obtain ls2 s2 where r2: "relay_run a ls2 s2" and s2: "\<not> rl_ended s2"
    "rl_received s2 = [Parse ''p'' ''select 1'', Bind ''c'' ''p'']"
    "rl_to_target s2 = [Parse ''p'' ''select 1'', Bind ''c'' ''p'']"
    using run_client [OF r1, of "Bind ''c'' ''p''" 0] s1 by force
  obtain ls3 s3 where r3: "relay_run a ls3 s3" and s3: "\<not> rl_ended s3"
    "rl_received s3 = [Parse ''p'' ''select 1'', Bind ''c'' ''p'', Execute ''c'']"
    "rl_to_target s3 = [Parse ''p'' ''select 1'', Bind ''c'' ''p'', Execute ''c'']"
    using run_client [OF r2, of "Execute ''c''" 1] s2 by force
  obtain ls4 s4 where r4: "relay_run a ls4 s4" and s4:
    "rl_received s4 = [Parse ''p'' ''select 1'', Bind ''c'' ''p'', Execute ''c'', Execute ''c'']"
    using run_client [OF r3, of "Execute ''c''" 2] s3 by force
  have "recorded (rl_audit s4) = statements_run (Map.empty, Map.empty) (rl_received s4)"
    using relay_records_everything [OF r4 [unfolded a_def sample_audit_def]] by (rule conjunct1)
  hence "recorded (rl_audit s4) = [''select 1'', ''select 1'']"
    by (simp add: s4 text_at_def)
  thus ?thesis using r4 unfolding a_def by blast
qed

section \<open>Outcomes\<close>

lemma late_observation:
  "\<exists>ls s. relay_run (relay_start sample_audit) ls s \<and>
     rl_received s = [SimpleQuery ''select 1'', SimpleQuery q] \<and> rl_to_target s = rl_received s \<and>
     rl_to_client s = [CommandComplete ''SELECT 1'', ReadyForQuery (CHR ''I''),
                       ErrorResponse ''42501'' ''permission denied'', ReadyForQuery (CHR ''I'')] \<and>
     rl_observing s = None \<and>
     map (\<lambda>(u, r, d). (sd_sql d, sd_error d)) (au_log (rl_audit s)) = [(''select 1'', ''''), (q, '''')]"
proof -
  define a where "a = relay_start sample_audit"
  have a0: "\<not> rl_ended a" "rl_received a = []" "rl_to_target a = []" "rl_observing a = None"
    "rl_to_client a = []" "rl_audit a = sample_audit"
    by (simp_all add: a_def relay_start_def)
  define s1 where "s1 = a\<lparr>rl_received := [SimpleQuery ''select 1''],
    rl_audit := observeFrontend 0 (SimpleQuery ''select 1'') sample_audit,
    rl_to_target := [SimpleQuery ''select 1''], rl_ended := False\<rparr>"
  obtain l1 where r1: "relay_run a l1 s1"
    using run_client [OF relay_run.stop, of a "SimpleQuery ''select 1''" 0] a0 unfolding s1_def by auto
  define s2 where "s2 = s1\<lparr>rl_to_client := [CommandComplete ''SELECT 1''], rl_observing := None,
    rl_audit := observeBackend 1 (CommandComplete ''SELECT 1'') (rl_audit s1)\<rparr>"
  obtain l2 where r2: "relay_run a l2 s2"
    using run_target [OF r1, of "CommandComplete ''SELECT 1''" 1] a0 unfolding s2_def s1_def by auto
  define s3 where "s3 = s2\<lparr>rl_to_client := rl_to_client s2 @ [ReadyForQuery (CHR ''I'')],
    rl_observing := Some (ReadyForQuery (CHR ''I''))\<rparr>"
  obtain l3 where r3: "relay_run a l3 s3"
    using relay_run.step [OF r2 relay_step.target, of "ReadyForQuery (CHR ''I'')"] unfolding s3_def s2_def by auto
  define s4 where "s4 = s3\<lparr>rl_received := rl_received s3 @ [SimpleQuery q],
    rl_audit := observeFrontend 2 (SimpleQuery q) (rl_audit s3),
    rl_to_target := rl_to_target s3 @ [SimpleQuery q], rl_ended := False\<rparr>"
  obtain l4 where r4: "relay_run a l4 s4"
    using run_client [OF r3, of "SimpleQuery q" 2] unfolding s4_def s3_def s2_def s1_def by auto
  define s5 where "s5 = s4\<lparr>rl_observing := None,
    rl_audit := observeBackend 3 (ReadyForQuery (CHR ''I'')) (rl_audit s4)\<rparr>"
  obtain l5 where r5: "relay_run a l5 s5"
    using relay_run.step [OF r4 relay_step.observe, of "ReadyForQuery (CHR ''I'')" 3]
    unfolding s5_def s4_def s3_def by auto
  define s6 where "s6 = s5\<lparr>rl_to_client := rl_to_client s5 @ [ErrorResponse ''42501'' ''permission denied''],
    rl_observing := None, rl_audit := observeBackend 4 (ErrorResponse ''42501'' ''permission denied'') (rl_audit s5)\<rparr>"
  obtain l6 where r6: "relay_run a l6 s6"
    using run_target [OF r5, of "ErrorResponse ''42501'' ''permission denied''" 4] unfolding s6_def s5_def by auto
  define s7 where "s7 = s6\<lparr>rl_to_client := rl_to_client s6 @ [ReadyForQuery (CHR ''I'')],
    rl_observing := None, rl_audit := observeBackend 5 (ReadyForQuery (CHR ''I'')) (rl_audit s6)\<rparr>"
  obtain l7 where r7: "relay_run a l7 s7"
    using run_target [OF r6, of "ReadyForQuery (CHR ''I'')" 5] unfolding s7_def s6_def by auto
  have "rl_received s7 = [SimpleQuery ''select 1'', SimpleQuery q]" "rl_to_target s7 = rl_received s7"
    "rl_to_client s7 = [CommandComplete ''SELECT 1'', ReadyForQuery (CHR ''I''),
       ErrorResponse ''42501'' ''permission denied'', ReadyForQuery (CHR ''I'')]" "rl_observing s7 = None"
    by (simp_all add: s7_def s6_def s5_def s4_def s3_def s2_def s1_def)
  moreover have "map (\<lambda>(u, r, d). (sd_sql d, sd_error d)) (au_log (rl_audit s7)) = [(''select 1'', ''''), (q, '''')]"
    by (simp add: s7_def s6_def s5_def s4_def s3_def s2_def s1_def sample_audit_def newPostgresAuditState_def
        observeBackend_def observeFrontend_def beginLocked_def finishNext_def flushPending_def
        audit_write_def newSQLAuditDetail_def Let_def)
  ultimately show ?thesis using r7 unfolding a_def by (intro exI [of _ l7] exI [of _ s7]) simp
qed

text \<open>
  C17: A statement whose answer and \<open>ReadyForQuery\<close> are observed before the client's next
  message is logged with its own rows or error.  That order is not enforced: the proxy hands
  \<open>ReadyForQuery\<close> to the client before it observes it, and a client that is quick enough has
  its next statement logged at once, as a success with no rows, although the target goes on
  to refuse it; the refusal itself is recorded nowhere.
\<close>

theorem audit_outcomes:
  "(let s = s0\<lparr>au_pending := []\<rparr> in
      map (\<lambda>(u, r, d). (sd_sql d, sd_rows d, sd_error d))
        (drop (length (au_log s))
          (au_log (observeBackend t2 (ReadyForQuery st) (observeBackend t1 reply
             (observeFrontend t0 (SimpleQuery q) s))))) =
      [(q, case reply of CommandComplete tag \<Rightarrow> parsePostgresRowsAffected tag | _ \<Rightarrow> 0,
           case reply of ErrorResponse code msg \<Rightarrow> postgresError code msg | _ \<Rightarrow> '''')]) \<and>
   (\<exists>ls s. relay_run (relay_start sample_audit) ls s \<and>
      rl_received s = [SimpleQuery ''select 1'', SimpleQuery q] \<and> rl_to_target s = rl_received s \<and>
      rl_to_client s = [CommandComplete ''SELECT 1'', ReadyForQuery (CHR ''I''),
                        ErrorResponse ''42501'' ''permission denied'', ReadyForQuery (CHR ''I'')] \<and>
      rl_observing s = None \<and>
      map (\<lambda>(u, r, d). (sd_sql d, sd_error d)) (au_log (rl_audit s)) = [(''select 1'', ''''), (q, '''')])"
  using late_observation
  by (simp add: observeBackend_def observeFrontend_def beginLocked_def finishNext_def flushPending_def
      audit_write_def newSQLAuditDetail_def Let_def split: backend_msg.split)

end
