(* ===== verification/NetAddr.thy ===== *)
theory NetAddr
  imports Prelude GoStrings
begin

text \<open>
  Host and port of the standard library's \<open>net\<close> package, and the escapes of \<open>net/url\<close> that
  connection strings are built with.
\<close>

section \<open>Host and port\<close>

text \<open>The text of an \<open>AddrError\<close>.\<close>

definition addr_error :: "string \<Rightarrow> string \<Rightarrow> string" where
  "addr_error addr why = (if addr = '''' then why else ''address '' @ addr @ '': '' @ why)"

definition SplitHostPort :: "string \<Rightarrow> string + string \<times> string" where
  "SplitHostPort hostport =
     (let missing_port = Inl (addr_error hostport ''missing port in address'');
          too_many_colons = Inl (addr_error hostport ''too many colons in address'')
      in case last_index_byte (CHR '':'') hostport of
           None \<Rightarrow> missing_port
         | Some i \<Rightarrow>
             let brackets = (\<lambda>j k host.
                   if CHR ''['' \<in> set (drop j hostport)
                   then Inl (addr_error hostport (''unexpected '' @ chr 39 # ''['' @ chr 39 # '' in address''))
                   else if CHR '']'' \<in> set (drop k hostport)
                   then Inl (addr_error hostport (''unexpected '' @ chr 39 # '']'' @ chr 39 # '' in address''))
                   else Inr (host, drop (i + 1) hostport))
             in if has_prefix ''['' hostport
                then (case index_byte (CHR '']'') hostport of
                        None \<Rightarrow> Inl (addr_error hostport (''missing '' @ chr 39 # '']'' @ chr 39 # '' in address''))
                      | Some close \<Rightarrow>
                          if close + 1 = length hostport then missing_port
                          else if close + 1 = i
                          then brackets 1 (close + 1) (drop 1 (take close hostport))
                          else if hostport ! (close + 1) = CHR '':'' then too_many_colons
                          else missing_port)
                else if CHR '':'' \<in> set (take i hostport) then too_many_colons
                else brackets 0 0 (take i hostport))"

definition JoinHostPort :: "string \<Rightarrow> string \<Rightarrow> string" where
  "JoinHostPort host port =
     (if CHR '':'' \<in> set host then ''['' @ host @ '']:'' @ port else host @ '':'' @ port)"

text \<open>Splitting gives back what was joined.\<close>

definition bracket_free :: "string \<Rightarrow> bool" where
  "bracket_free s = (CHR ''['' \<notin> set s \<and> CHR '']'' \<notin> set s)"

lemma split_join_plain:
  assumes "bracket_free host" and "bracket_free port" and "CHR '':'' \<notin> set port" and "CHR '':'' \<notin> set host"
  shows "SplitHostPort (host @ '':'' @ port) = Inr (host, port)"
proof -
  have "last_index_byte (CHR '':'') (host @ CHR '':'' # port) = Some (length host)"
    using assms(3) by (rule last_index_app)
  moreover have "\<not> has_prefix ''['' (host @ CHR '':'' # port)"
    using assms(1) by (cases host) (auto simp: bracket_free_def)
  ultimately show ?thesis using assms by (simp add: SplitHostPort_def bracket_free_def)
qed

lemma split_join_brackets:
  assumes "bracket_free host" and "bracket_free port" and "CHR '':'' \<notin> set port"
  shows "SplitHostPort (''['' @ host @ '']:'' @ port) = Inr (host, port)"
proof -
  let ?s = "''['' @ host @ '']:'' @ port"
  have "last_index_byte (CHR '':'') ((CHR ''['' # host @ '']'') @ CHR '':'' # port) = Some (length (CHR ''['' # host @ '']''))"
    using assms(3) by (rule last_index_app)
  hence l: "last_index_byte (CHR '':'') ?s = Some (length host + 2)" by simp
  have "index_byte (CHR '']'') ((CHR ''['' # host) @ CHR '']'' # '':'' @ port) = Some (length (CHR ''['' # host))"
    using assms(1) by (intro index_byte_app) (simp add: bracket_free_def)
  hence i: "index_byte (CHR '']'') ?s = Some (length host + 1)" by simp
  have d: "drop 1 (take (length host + 1) ?s) = host" "drop (length host + 2) ?s = '':'' @ port"
    "drop (length host + 2 + 1) ?s = port" "drop 1 ?s = host @ '']:'' @ port"
    by simp_all
  have p: "has_prefix ''['' ?s" by simp
  show ?thesis unfolding SplitHostPort_def Let_def l i option.case
    using assms d p by (simp add: bracket_free_def)
qed

lemma SplitHostPort_JoinHostPort:
  assumes "bracket_free host" and "bracket_free port" and "CHR '':'' \<notin> set port"
  shows "SplitHostPort (JoinHostPort host port) = Inr (host, port)"
  using split_join_plain [OF assms] split_join_brackets [OF assms] by (simp add: JoinHostPort_def)

section \<open>Literals\<close>

lemma literal_addresses:
  "SplitHostPort '':2222'' = Inr ('''', ''2222'')" "SplitHostPort '':3307'' = Inr ('''', ''3307'')"
  "isl (SplitHostPort ''jump'')"
  by code_simp+

end
