(* ===== verification/Domain.thy ===== *)
theory Domain
  imports GoStrings
begin

text \<open>
  The data model (\<open>domain/models.go\<close>, \<open>domain/errors.go\<close>): the errors the services
  return and one record per table.  A \<open>*time.Time\<close> or \<open>*int64\<close> is an option; an instant
  is an integer (nanoseconds).  Field names carry a prefix per record.
\<close>

section \<open>Errors\<close>

text \<open>
  The sentinel errors, the error of the native RDP resolver that keeps a denial reason and
  wraps one of them, the constraint errors of the database and, for everything else, the
  message.  A panic is not a Go error: no caller of the model turns \<open>ErrPanic\<close> into
  another error.
\<close>

datatype error =
    ErrPanic string |
    ErrNotFound | ErrUnauthorized | ErrForbidden | ErrInvalidArgument | ErrConflict
  | ErrDenied string error
  | ErrConstraint
  | ErrOther string

text \<open>\<open>errors.Is\<close> sees through the wrapper.\<close>

fun error_is :: "error \<Rightarrow> error \<Rightarrow> bool" where
  "error_is (ErrDenied reason e) target = (ErrDenied reason e = target \<or> error_is e target)"
| "error_is e target = (e = target)"

section \<open>Records\<close>

type_synonym time = int

record user =
  u_id :: int
  u_username :: string
  u_name :: string
  u_email :: string
  u_password_hash :: string
  u_mfa_enabled :: bool
  u_mfa_secret :: string
  u_is_active :: bool
  u_last_login_at :: "time option"
  u_created_at :: time
  u_updated_at :: time

record rdp_credential =
  rc_user_id :: int
  rc_password_hash :: string
  rc_is_enabled :: bool
  rc_created_at :: time
  rc_updated_at :: time
  rc_disabled_at :: "time option"

record role =
  r_id :: int
  r_name :: string
  r_description :: string
  r_created_at :: time
  r_updated_at :: time

record user_group =
  g_id :: int
  g_name :: string
  g_org_id :: int
  g_created_at :: time
  g_updated_at :: time

record platform =
  pl_id :: int
  pl_name :: string
  pl_type :: string
  pl_description :: string
  pl_created_at :: time

record platform_protocol =
  pp_id :: int
  pp_platform_id :: int
  pp_name :: string
  pp_port :: int

record node =
  n_id :: int
  n_name :: string
  n_parent_id :: "int option"
  n_org_id :: int

record asset =
  a_id :: int
  a_name :: string
  a_address :: string
  a_platform_id :: int
  a_node_id :: "int option"
  a_comment :: string
  a_is_active :: bool
  a_created_at :: time
  a_updated_at :: time

record account =
  ac_id :: int
  ac_asset_id :: int
  ac_name :: string
  ac_username :: string
  ac_secret :: string
  ac_secret_type :: string
  ac_ssh_key_type :: string
  ac_passphrase :: string
  ac_su_enabled :: bool
  ac_su_method :: string
  ac_su_account_id :: "int option"
  ac_db_name :: string
  ac_is_active :: bool
  ac_created_at :: time
  ac_updated_at :: time

record permission =
  p_id :: int
  p_name :: string
  p_actions :: string
  p_date_start :: "time option"
  p_date_expired :: "time option"
  p_is_active :: bool
  p_created_at :: time
  p_updated_at :: time

record connection_token =
  t_id :: int
  t_value :: string
  t_user_id :: int
  t_asset_id :: int
  t_account_id :: int
  t_protocol :: string
  t_connect_method :: string
  t_is_reusable :: bool
  t_connect_options :: string
  t_used_at :: "time option"
  t_expires_at :: time
  t_created_at :: time

record session =
  s_id :: int
  s_user_id :: int
  s_asset_id :: int
  s_account_id :: int
  s_protocol :: string
  s_type :: string
  s_login_from :: string
  s_remote_addr :: string
  s_recording_path :: string
  s_is_finished :: bool
  s_date_start :: time
  s_date_end :: "time option"
  s_created_at :: time
  s_updated_at :: time

record setting =
  st_key :: string
  st_value :: string
  st_category :: string
  st_label :: string
  st_description :: string
  st_input_type :: string
  st_options :: string
  st_updated_at :: time

record refresh_token =
  rt_id :: string
  rt_user_id :: int
  rt_token_hash :: string
  rt_expires_at :: time
  rt_revoked_at :: "time option"
  rt_created_at :: time

record audit_log =
  al_id :: int
  al_user_id :: "int option"
  al_action :: string
  al_resource :: string
  al_remote_addr :: string
  al_detail :: string
  al_created_at :: time

text \<open>The entities a permission is linked to (\<open>repository.PermissionLinks\<close>).\<close>

record permission_links =
  l_user_ids :: "int list"
  l_group_ids :: "int list"
  l_asset_ids :: "int list"
  l_node_ids :: "int list"
  l_account_ids :: "int list"

end
