(* ===== verification/Config.thy ===== *)
theory Config
  imports Complex_Main Codec Domain
begin

text \<open>
  The configuration (\<open>config/config.go\<close>): the structures with their getters, the default
  layer, the names of environment variables, and \<open>Load\<close>, which lays a YAML file and the
  environment over the defaults and checks what has to be set.  The merging of layers, the
  YAML parser and the decoding into the structure belong to the koanf library and are
  parameters.  A \<open>time.Duration\<close> is a 64-bit count of nanoseconds.
\<close>

section \<open>Durations\<close>

text \<open>\<open>time.Duration(n) * time.Second\<close> wraps around like every \<open>int64\<close> product.\<close>

definition seconds :: "int \<Rightarrow> int" where
  "seconds n = wrap64 (n * 1000000000)"

lemma seconds_pos: "0 < n \<Longrightarrow> n \<le> 9223372036 \<Longrightarrow> seconds n = n * 1000000000"
  by (simp add: seconds_def wrap64_id int64_range_def)

section \<open>The structures\<close>

record app_config =
  app_name :: string
  app_environment :: string

record http_config =
  http_addr :: string
  http_shutdown :: int

record database_config =
  dc_driver :: string
  dc_dsn :: string
  dc_migrations :: string

record security_config =
  encryption_key :: string
  password_min_length :: int

record jwt_config =
  private_key_path :: string
  public_key_path :: string
  access_ttl :: int
  refresh_ttl :: int

record proxy_auth_config =
  pa_secret :: string
  pa_allowed_ips :: "string list"

record ssh_config =
  ssh_addr :: string
  ssh_max :: int
  ssh_idle :: int
  ssh_connect :: int

record db_config =
  mysql_addr :: string
  postgres_addr :: string
  dbp_max :: int
  dbp_idle :: int
  dbp_connect :: int
  usql_path :: string

record rdp_config =
  rdp_addr :: string
  guacd_addr :: string
  recording_path :: string
  rdp_max :: int
  rdp_idle :: int
  rdp_connect :: int
  native_enabled :: bool
  native_addr :: string
  native_public_host :: string
  native_public_port :: int
  native_cert_path :: string
  native_key_path :: string
  native_engine_path :: string
  native_work_dir :: string

record proxy_config =
  api_base_url :: string
  px_ssh :: ssh_config
  px_db :: db_config
  px_rdp :: rdp_config

record totp_config =
  totp_issuer :: string

record logging_config =
  log_level :: string
  log_encoding :: string

text \<open>The rate is a \<open>float64\<close>; only its value is carried.\<close>

record rate_limit_config =
  rate_enabled :: bool
  requests_per_second :: rat

record config =
  c_app :: app_config
  c_http :: http_config
  c_database :: database_config
  c_security :: security_config
  c_jwt :: jwt_config
  c_proxy_auth :: proxy_auth_config
  c_proxy :: proxy_config
  c_totp :: totp_config
  c_logging :: logging_config
  c_rate_limit :: rate_limit_config

section \<open>Getters with their defaults\<close>

definition ShutdownTimeout :: "http_config \<Rightarrow> int" where
  "ShutdownTimeout c = (if http_shutdown c \<le> 0 then seconds 30 else seconds (http_shutdown c))"

definition AccessTTL :: "jwt_config \<Rightarrow> int" where
  "AccessTTL c = (if access_ttl c \<le> 0 then seconds (15 * 60) else seconds (access_ttl c))"

definition RefreshTTL :: "jwt_config \<Rightarrow> int" where
  "RefreshTTL c =
     (if refresh_ttl c \<le> 0 then seconds (7 * 24 * 3600) else seconds (refresh_ttl c))"

definition SSH_IdleTimeout :: "ssh_config \<Rightarrow> int" where
  "SSH_IdleTimeout c = (if ssh_idle c \<le> 0 then seconds (15 * 60) else seconds (ssh_idle c))"

definition SSH_ConnectTimeout :: "ssh_config \<Rightarrow> int" where
  "SSH_ConnectTimeout c = (if ssh_connect c \<le> 0 then seconds 15 else seconds (ssh_connect c))"

definition SSH_ConnectionLimit :: "ssh_config \<Rightarrow> int" where
  "SSH_ConnectionLimit c = (if ssh_max c \<le> 0 then 100 else ssh_max c)"

definition DB_IdleTimeout :: "db_config \<Rightarrow> int" where
  "DB_IdleTimeout c = (if dbp_idle c \<le> 0 then seconds (30 * 60) else seconds (dbp_idle c))"

definition DB_ConnectTimeout :: "db_config \<Rightarrow> int" where
  "DB_ConnectTimeout c = (if dbp_connect c \<le> 0 then seconds 15 else seconds (dbp_connect c))"

definition DB_ConnectionLimit :: "db_config \<Rightarrow> int" where
  "DB_ConnectionLimit c = (if dbp_max c \<le> 0 then 50 else dbp_max c)"

definition MySQLListenAddr :: "db_config \<Rightarrow> string" where
  "MySQLListenAddr c = (if mysql_addr c = '''' then '':3307'' else mysql_addr c)"

definition PostgresListenAddr :: "db_config \<Rightarrow> string" where
  "PostgresListenAddr c = (if postgres_addr c = '''' then '':5437'' else postgres_addr c)"

definition UsqlCommand :: "db_config \<Rightarrow> string" where
  "UsqlCommand c = (if usql_path c = '''' then ''usql'' else usql_path c)"

definition RDP_ListenAddr :: "rdp_config \<Rightarrow> string" where
  "RDP_ListenAddr c = (if rdp_addr c = '''' then '':33891'' else rdp_addr c)"

definition GuacdListenAddr :: "rdp_config \<Rightarrow> string" where
  "GuacdListenAddr c = (if guacd_addr c = '''' then ''127.0.0.1:4822'' else guacd_addr c)"

definition RecordingDir :: "rdp_config \<Rightarrow> string" where
  "RecordingDir c = (if recording_path c = '''' then ''./recordings/rdp-tmp'' else recording_path c)"

definition RDP_IdleTimeout :: "rdp_config \<Rightarrow> int" where
  "RDP_IdleTimeout c = (if rdp_idle c \<le> 0 then seconds 3600 else seconds (rdp_idle c))"

definition RDP_ConnectTimeout :: "rdp_config \<Rightarrow> int" where
  "RDP_ConnectTimeout c = (if rdp_connect c \<le> 0 then seconds 15 else seconds (rdp_connect c))"

definition RDP_ConnectionLimit :: "rdp_config \<Rightarrow> int" where
  "RDP_ConnectionLimit c = (if rdp_max c \<le> 0 then 20 else rdp_max c)"

definition NativeListenAddr :: "rdp_config \<Rightarrow> string" where
  "NativeListenAddr c = (if native_addr c = '''' then '':33890'' else native_addr c)"

definition NativeClientPort :: "rdp_config \<Rightarrow> int" where
  "NativeClientPort c = (if native_public_port c \<le> 0 then 33890 else native_public_port c)"

definition NativeEngineCommand :: "rdp_config \<Rightarrow> string" where
  "NativeEngineCommand c =
     (if native_engine_path c = '''' then ''freerdp-proxy'' else native_engine_path c)"

definition NativeEngineWorkDir :: "rdp_config \<Rightarrow> string" where
  "NativeEngineWorkDir c =
     (if native_work_dir c = '''' then ''./run/rdp-native'' else native_work_dir c)"

section \<open>Layers\<close>

datatype cfg_value = CString string | CInt int | CBool bool | CFloat rat | CStrings "string list"

text \<open>A layer: dotted keys with their values.\<close>

type_synonym layer = "(string \<times> cfg_value) list"

definition defaults :: layer where
  "defaults =
    [(''app.name'', CString ''Turjmp''),
     (''app.environment'', CString ''dev''),
     (''http.addr'', CString '':8080''),
     (''http.shutdown_timeout_seconds'', CInt 30),
     (''database.driver'', CString ''sqlite''),
     (''database.dsn'', CString ''file:turjmp.dev.db?_pragma=foreign_keys(ON)''),
     (''database.migrations_dir'', CString ''migrations/sqlite''),
     (''security.encryption_key'', CString ''dev-only-change-me-32-byte-secret''),
     (''security.password_min_length'', CInt 8),
     (''jwt.private_key_path'', CString ''.turjmp/jwt_private.pem''),
     (''jwt.public_key_path'', CString ''.turjmp/jwt_public.pem''),
     (''jwt.access_ttl_seconds'', CInt 900),
     (''jwt.refresh_ttl_seconds'', CInt 604800),
     (''proxy_auth.secret'', CString ''dev-proxy-secret''),
     (''proxy_auth.allowed_ips'', CStrings [''127.0.0.1'', ''::1'']),
     (''proxy.api_base_url'', CString ''http://127.0.0.1:8080''),
     (''proxy.ssh.addr'', CString '':2222''),
     (''proxy.ssh.max_connections'', CInt 100),
     (''proxy.ssh.idle_timeout_seconds'', CInt 900),
     (''proxy.ssh.connect_timeout_seconds'', CInt 15),
     (''proxy.db.mysql_addr'', CString '':3307''),
     (''proxy.db.postgres_addr'', CString '':5437''),
     (''proxy.db.max_connections'', CInt 50),
     (''proxy.db.idle_timeout_seconds'', CInt 1800),
     (''proxy.db.connect_timeout_seconds'', CInt 15),
     (''proxy.db.usql_path'', CString ''usql''),
     (''proxy.rdp.addr'', CString '':33891''),
     (''proxy.rdp.guacd_addr'', CString ''127.0.0.1:4822''),
     (''proxy.rdp.recording_path'', CString ''./recordings/rdp-tmp''),
     (''proxy.rdp.max_connections'', CInt 20),
     (''proxy.rdp.idle_timeout_seconds'', CInt 3600),
     (''proxy.rdp.connect_timeout_seconds'', CInt 15),
     (''proxy.rdp.native_enabled'', CBool False),
     (''proxy.rdp.native_addr'', CString '':33890''),
     (''proxy.rdp.native_public_host'', CString ''''),
     (''proxy.rdp.native_public_port'', CInt 33890),
     (''proxy.rdp.native_cert_path'', CString ''''),
     (''proxy.rdp.native_key_path'', CString ''''),
     (''proxy.rdp.native_engine_path'', CString ''freerdp-proxy''),
     (''proxy.rdp.native_work_dir'', CString ''./run/rdp-native''),
     (''totp.issuer'', CString ''Turjmp''),
     (''logging.level'', CString ''info''),
     (''logging.encoding'', CString ''json''),
     (''rate_limit.enabled'', CBool True),
     (''rate_limit.requests_per_second'', CFloat 20)]"

definition legacyEnvKeys :: "(string \<times> string) list" where
  "legacyEnvKeys =
    [(''app_name'', ''app.name''),
     (''app_environment'', ''app.environment''),
     (''http_addr'', ''http.addr''),
     (''http_shutdown_timeout_seconds'', ''http.shutdown_timeout_seconds''),
     (''database_driver'', ''database.driver''),
     (''database_dsn'', ''database.dsn''),
     (''database_migrations_dir'', ''database.migrations_dir''),
     (''security_encryption_key'', ''security.encryption_key''),
     (''security_password_min_length'', ''security.password_min_length''),
     (''jwt_private_key_path'', ''jwt.private_key_path''),
     (''jwt_public_key_path'', ''jwt.public_key_path''),
     (''jwt_access_ttl_seconds'', ''jwt.access_ttl_seconds''),
     (''jwt_refresh_ttl_seconds'', ''jwt.refresh_ttl_seconds''),
     (''proxy_auth_secret'', ''proxy_auth.secret''),
     (''proxy_auth_allowed_ips'', ''proxy_auth.allowed_ips''),
     (''proxy_api_base_url'', ''proxy.api_base_url''),
     (''proxy_ssh_addr'', ''proxy.ssh.addr''),
     (''proxy_ssh_max_connections'', ''proxy.ssh.max_connections''),
     (''proxy_ssh_idle_timeout_seconds'', ''proxy.ssh.idle_timeout_seconds''),
     (''proxy_ssh_connect_timeout_seconds'', ''proxy.ssh.connect_timeout_seconds''),
     (''proxy_db_mysql_addr'', ''proxy.db.mysql_addr''),
     (''proxy_db_postgres_addr'', ''proxy.db.postgres_addr''),
     (''proxy_db_max_connections'', ''proxy.db.max_connections''),
     (''proxy_db_idle_timeout_seconds'', ''proxy.db.idle_timeout_seconds''),
     (''proxy_db_connect_timeout_seconds'', ''proxy.db.connect_timeout_seconds''),
     (''proxy_db_usql_path'', ''proxy.db.usql_path''),
     (''proxy_rdp_addr'', ''proxy.rdp.addr''),
     (''proxy_rdp_guacd_addr'', ''proxy.rdp.guacd_addr''),
     (''proxy_rdp_recording_path'', ''proxy.rdp.recording_path''),
     (''proxy_rdp_max_connections'', ''proxy.rdp.max_connections''),
     (''proxy_rdp_idle_timeout_seconds'', ''proxy.rdp.idle_timeout_seconds''),
     (''proxy_rdp_connect_timeout_seconds'', ''proxy.rdp.connect_timeout_seconds''),
     (''proxy_rdp_native_enabled'', ''proxy.rdp.native_enabled''),
     (''proxy_rdp_native_addr'', ''proxy.rdp.native_addr''),
     (''proxy_rdp_native_public_host'', ''proxy.rdp.native_public_host''),
     (''proxy_rdp_native_public_port'', ''proxy.rdp.native_public_port''),
     (''proxy_rdp_native_cert_path'', ''proxy.rdp.native_cert_path''),
     (''proxy_rdp_native_key_path'', ''proxy.rdp.native_key_path''),
     (''proxy_rdp_native_engine_path'', ''proxy.rdp.native_engine_path''),
     (''proxy_rdp_native_work_dir'', ''proxy.rdp.native_work_dir''),
     (''totp_issuer'', ''totp.issuer''),
     (''logging_level'', ''logging.level''),
     (''logging_encoding'', ''logging.encoding''),
     (''rate_limit_enabled'', ''rate_limit.enabled''),
     (''rate_limit_requests_per_second'', ''rate_limit.requests_per_second'')]"

definition envConfigKey :: "string \<Rightarrow> string" where
  "envConfigKey s =
     (let key = to_lower (if has_prefix ''TURJMP_'' s then drop 7 s else s)
      in if contains ''__'' key then replace_all ''__'' ''.'' key
         else case map_of legacyEnvKeys key of
                Some mapped \<Rightarrow> mapped
              | None \<Rightarrow> replace_char (CHR ''_'') ''.'' key)"

text \<open>
  What \<open>Load\<close> asks of koanf: \<open>load_layer\<close> merges a layer into the store, \<open>read_yaml\<close> is the
  file provider with the YAML parser, \<open>unmarshal\<close> decodes the merged store.
\<close>

record 'k koanf =
  new_store :: 'k
  load_layer :: "layer \<Rightarrow> 'k \<Rightarrow> error + 'k"
  read_yaml :: "string \<Rightarrow> error + layer"
  unmarshal :: "'k \<Rightarrow> error + config"

text \<open>
  The variables of the environment that carry the prefix, in order; koanf skips a variable
  whose key comes out empty.
\<close>

definition env_layer :: "(string \<times> string) list \<Rightarrow> layer" where
  "env_layer environ =
     map (\<lambda>(name, value). (envConfigKey name, CString value))
       (filter (\<lambda>(name, value). has_prefix ''TURJMP_'' name \<and> envConfigKey name \<noteq> '''')
          environ)"

definition Load :: "'k koanf \<Rightarrow> (string \<times> string) list \<Rightarrow> string \<Rightarrow> error + config" where
  "Load kf environ path =
     rbind (load_layer kf defaults (new_store kf)) (\<lambda>k.
     rbind (if path = '''' then Inr k
            else case rbind (read_yaml kf path) (\<lambda>l. load_layer kf l k) of
                   Inl e \<Rightarrow> Inl (ErrOther ''load config'')
                 | Inr k' \<Rightarrow> Inr k') (\<lambda>k.
     rbind (load_layer kf (env_layer environ) k) (\<lambda>k.
     rbind (unmarshal kf k) (\<lambda>cfg.
       if dc_driver (c_database cfg) = '''' \<or> dc_dsn (c_database cfg) = ''''
       then Inl (ErrOther ''database.driver and database.dsn are required'')
       else let cfg = (if dc_migrations (c_database cfg) = ''''
                       then cfg\<lparr>c_database := (c_database cfg)
                              \<lparr>dc_migrations := ''migrations/'' @ dc_driver (c_database cfg)\<rparr>\<rparr>
                       else cfg)
       in if private_key_path (c_jwt cfg) = '''' \<or> public_key_path (c_jwt cfg) = ''''
          then Inl (ErrOther ''jwt private/public key paths are required'')
          else if pa_secret (c_proxy_auth cfg) = ''''
          then Inl (ErrOther ''proxy_auth.secret is required'')
          else Inr cfg))))"

section \<open>Properties\<close>

lemma seconds_literals [simp]:
  "seconds 30 = 30000000000" "seconds 900 = 900000000000" "seconds 604800 = 604800000000000"
  "seconds 15 = 15000000000" "seconds 1800 = 1800000000000" "seconds 3600 = 3600000000000"
  by (simp_all add: seconds_pos)

lemma seconds_sign: "0 < n \<Longrightarrow> n \<le> 9223372036 \<Longrightarrow> 0 < seconds n"
  by (simp add: seconds_pos)

lemmas timeout_defs = ShutdownTimeout_def AccessTTL_def RefreshTTL_def SSH_IdleTimeout_def
  SSH_ConnectTimeout_def DB_IdleTimeout_def DB_ConnectTimeout_def RDP_IdleTimeout_def
  RDP_ConnectTimeout_def

lemmas limit_defs = SSH_ConnectionLimit_def DB_ConnectionLimit_def RDP_ConnectionLimit_def
  NativeClientPort_def

text \<open>The timeouts of a configuration, with the numbers of seconds they are computed from.\<close>

definition timeouts :: "config \<Rightarrow> (int \<times> int) list" where
  "timeouts c =
     (let ssh = px_ssh (c_proxy c); db = px_db (c_proxy c); rdp = px_rdp (c_proxy c)
      in [(http_shutdown (c_http c), ShutdownTimeout (c_http c)),
          (access_ttl (c_jwt c), AccessTTL (c_jwt c)),
          (refresh_ttl (c_jwt c), RefreshTTL (c_jwt c)),
          (ssh_idle ssh, SSH_IdleTimeout ssh), (ssh_connect ssh, SSH_ConnectTimeout ssh),
          (dbp_idle db, DB_IdleTimeout db), (dbp_connect db, DB_ConnectTimeout db),
          (rdp_idle rdp, RDP_IdleTimeout rdp), (rdp_connect rdp, RDP_ConnectTimeout rdp)])"

text \<open>
  Whatever is configured, zero and negative numbers included, every connection limit and
  the launch port are positive; every timeout is positive as long as no configured number of
  seconds exceeds 9223372036.  The first number beyond that bound wraps around and gives a
  negative shutdown timeout.
\<close>

theorem settings_positive:
  "0 < SSH_ConnectionLimit s \<and> 0 < DB_ConnectionLimit d \<and> 0 < RDP_ConnectionLimit r \<and>
   0 < NativeClientPort r \<and>
   ((\<forall>(n, t) \<in> set (timeouts c). n \<le> 9223372036) \<longrightarrow> (\<forall>(n, t) \<in> set (timeouts c). 0 < t)) \<and>
   ShutdownTimeout \<lparr>http_addr = a, http_shutdown = 9223372037\<rparr> < 0"
proof -
  have "ShutdownTimeout \<lparr>http_addr = a, http_shutdown = 9223372037\<rparr> < 0"
    by (simp add: ShutdownTimeout_def seconds_def wrap64_def)
  thus ?thesis by (simp add: limit_defs timeouts_def timeout_defs Let_def seconds_sign)
qed

definition sample_config :: config where
  "sample_config =
     \<lparr>c_app = \<lparr>app_name = ''Turjmp'', app_environment = ''dev''\<rparr>,
      c_http = \<lparr>http_addr = '':8080'', http_shutdown = 0\<rparr>,
      c_database = \<lparr>dc_driver = ''sqlite'', dc_dsn = ''file:t.db'', dc_migrations = ''''\<rparr>,
      c_security = \<lparr>encryption_key = ''k'', password_min_length = 8\<rparr>,
      c_jwt = \<lparr>private_key_path = ''a'', public_key_path = ''b'', access_ttl = - 5, refresh_ttl = 60\<rparr>,
      c_proxy_auth = \<lparr>pa_secret = ''s'', pa_allowed_ips = []\<rparr>,
      c_proxy =
        \<lparr>api_base_url = ''http://127.0.0.1:8080'',
         px_ssh = \<lparr>ssh_addr = '':2222'', ssh_max = - 1, ssh_idle = 0, ssh_connect = 5\<rparr>,
         px_db = \<lparr>mysql_addr = '''', postgres_addr = '''', dbp_max = 0, dbp_idle = 0,
                  dbp_connect = 0, usql_path = ''''\<rparr>,
         px_rdp = \<lparr>rdp_addr = '''', guacd_addr = '''', recording_path = '''', rdp_max = 0,
                   rdp_idle = 9223372036, rdp_connect = 0, native_enabled = False,
                   native_addr = '''', native_public_host = '''', native_public_port = 0,
                   native_cert_path = '''', native_key_path = '''', native_engine_path = '''',
                   native_work_dir = ''''\<rparr>\<rparr>,
      c_totp = \<lparr>totp_issuer = ''Turjmp''\<rparr>,
      c_logging = \<lparr>log_level = ''info'', log_encoding = ''json''\<rparr>,
      c_rate_limit = \<lparr>rate_enabled = True, requests_per_second = 20\<rparr>\<rparr>"

theorem settings_positive_witness:
  "list_all (\<lambda>(n, t). 0 < t) (timeouts sample_config)"
proof -
  have "\<forall>(n, t) \<in> set (timeouts sample_config). n \<le> 9223372036"
    by (simp add: timeouts_def sample_config_def Let_def)
  thus ?thesis using settings_positive [of _ _ _ sample_config] unfolding list_all_iff by blast
qed

section \<open>Names of environment variables\<close>

definition key_char :: "char \<Rightarrow> bool" where
  "key_char c = (let n = of_char c :: nat in (48 \<le> n \<and> n \<le> 57) \<or> (97 \<le> n \<and> n \<le> 122) \<or> n = 95)"

text \<open>A segment of a configuration key: lower case, no trailing and no double underscore.\<close>

definition key_segment :: "string \<Rightarrow> bool" where
  "key_segment w =
     (w \<noteq> '''' \<and> list_all key_char w \<and> last w \<noteq> CHR ''_'' \<and> \<not> contains ''__'' w)"

definition env_name :: "string list \<Rightarrow> string" where
  "env_name segments = ''TURJMP_'' @ map upper_char (join ''__'' segments)"

lemma lower_upper_key: "key_char c \<Longrightarrow> lower_char (upper_char c) = c"
  by (auto simp: key_char_def lower_char_def upper_char_def Let_def)

lemma key_char_underscore: "key_char (CHR ''_'')"
  by (simp add: key_char_def)

lemma join_chars: "c \<in> set (join sep ws) \<Longrightarrow> c \<in> set sep \<or> (\<exists>w \<in> set ws. c \<in> set w)"
  by (induction sep ws rule: join.induct) auto

lemma to_lower_env:
  assumes "list_all key_char s"
  shows "to_lower (map upper_char s) = s"
proof -
  have "ascii (map upper_char s)"
    using assms by (auto simp: ascii_def list_all_iff key_char_def upper_char_def Let_def)
  hence "to_lower (map upper_char s) = map (\<lambda>c. lower_char (upper_char c)) s"
    by (simp add: to_lower_ascii)
  also have "\<dots> = s" using assms by (auto simp: list_all_iff lower_upper_key intro: map_idI)
  finally show ?thesis .
qed

lemma replace_all_segment:
  "\<not> contains ''__'' w \<Longrightarrow> w \<noteq> [] \<longrightarrow> last w \<noteq> CHR ''_'' \<Longrightarrow>
   replace_all ''__'' r (w @ t) = w @ replace_all ''__'' r t"
proof (induction w)
  case (Cons c w)
  have "\<not> contains ''__'' w" using Cons.prems(1) by (rule contrapos_nn) (simp add: contains_Cons)
  moreover have "\<not> has_prefix ''__'' (c # w @ t)"
  proof
    assume pre: "has_prefix ''__'' (c # w @ t)"
    show False
    proof (cases w)
      case Nil
      thus ?thesis using Cons.prems(2) pre by simp
    next
      case (Cons d v)
      hence "c # w = [] @ ''__'' @ v" using pre by auto
      thus ?thesis using Cons.prems(1) unfolding contains_iff by blast
    qed
  qed
  ultimately show ?case using Cons
    by (subst replace_all.simps) (auto split: if_splits)
qed simp

lemma replace_all_join:
  "list_all key_segment ws \<Longrightarrow> replace_all ''__'' ''.'' (join ''__'' ws) = join ''.'' ws"
proof (induction "''__''" ws rule: join.induct)
  case 1
  show ?case by (simp add: replace_all.simps)
next
  case (2 w)
  show ?case using 2 replace_all_segment [of w "''.''" "[]"]
    by (simp add: key_segment_def replace_all.simps)
next
  case (3 w v ws)
  have "replace_all ''__'' ''.'' (''__'' @ join ''__'' (v # ws)) = ''.'' @ join ''.'' (v # ws)"
    using 3 by (subst replace_all.simps) simp
  thus ?case using 3(2) replace_all_segment [of w "''.''"] by (simp add: key_segment_def)
qed

text \<open>
  Every nested configuration key can be set from the environment: joining the segments of
  the key by double underscores, in upper case and behind the prefix, names a variable that
  \<open>Load\<close> files under exactly that key.
\<close>

theorem env_name_round_trip:
  assumes "2 \<le> length segments" and "list_all key_segment segments"
  shows "envConfigKey (env_name segments) = join ''.'' segments"
proof -
  have "list_all key_char (join ''__'' segments)"
    using assms(2) join_chars [of _ "''__''" segments]
    by (fastforce simp: list_all_iff key_segment_def key_char_underscore)
  hence lower: "to_lower (map upper_char (join ''__'' segments)) = join ''__'' segments"
    by (rule to_lower_env)
  obtain w v ws where "segments = w # v # ws" using assms(1)
    by (metis Suc_le_length_iff numeral_2_eq_2)
  hence "contains ''__'' (join ''__'' segments)" unfolding contains_iff by auto
  thus ?thesis using lower replace_all_join [OF assms(2)]
    by (simp add: envConfigKey_def env_name_def Let_def)
qed

theorem env_name_round_trip_witness:
  "envConfigKey ''TURJMP_PROXY__RDP__NATIVE_ENABLED'' = ''proxy.rdp.native_enabled''"
proof -
  have "env_name [''proxy'', ''rdp'', ''native_enabled''] = ''TURJMP_PROXY__RDP__NATIVE_ENABLED''"
    by code_simp
  moreover have "list_all key_segment [''proxy'', ''rdp'', ''native_enabled'']" by code_simp
  ultimately show ?thesis
    using env_name_round_trip [of "[''proxy'', ''rdp'', ''native_enabled'']"] by simp
qed

end
