(* ===== verification/Crypto.thy ===== *)
theory Crypto
  imports Codec Domain
begin

text \<open>
  The encryption of stored credentials (\<open>crypto/secret.go\<close>).  AES-GCM and SHA-256 are
  parameters: \<open>seal nonce plain\<close> and \<open>open nonce sealed\<close>, the latter failing on data that
  was not sealed under that nonce.  Base64 is modelled as \<open>encoding/base64\<close> does it: line
  breaks are skipped, the unused low bits of the last character are ignored.
\<close>

section \<open>Base64\<close>

definition b64_alphabet :: "string \<Rightarrow> string" where
  "b64_alphabet extra =
     ''ABCDEFGHIJKLMNOPQRSTUVWXYZabcdefghijklmnopqrstuvwxyz0123456789'' @ extra"

definition b64_char :: "string \<Rightarrow> nat \<Rightarrow> char" where
  "b64_char extra n = b64_alphabet extra ! n"

definition b64_val :: "string \<Rightarrow> char \<Rightarrow> nat option" where
  "b64_val extra c = index_byte c (b64_alphabet extra)"

text \<open>Groups of three bytes are four numbers below 64.\<close>

fun sextets :: "nat list \<Rightarrow> nat list" where
  "sextets [] = []"
| "sextets [a] = [a div 4, a mod 4 * 16]"
| "sextets [a, b] = [a div 4, a mod 4 * 16 + b div 16, b mod 16 * 4]"
| "sextets (a # b # c # r) =
     [a div 4, a mod 4 * 16 + b div 16, b mod 16 * 4 + c div 64, c mod 64] @ sextets r"

fun octets :: "nat list \<Rightarrow> nat list option" where
  "octets [] = Some []"
| "octets [x] = None"
| "octets [x, y] = Some [x * 4 + y div 16]"
| "octets [x, y, z] = Some [x * 4 + y div 16, y mod 16 * 16 + z div 4]"
| "octets (x # y # z # w # r) =
     map_option (\<lambda>bs. [x * 4 + y div 16, y mod 16 * 16 + z div 4, z mod 4 * 64 + w] @ bs) (octets r)"

definition raw_encode :: "string \<Rightarrow> byte list \<Rightarrow> string" where
  "raw_encode extra bs = map (b64_char extra) (sextets (map unat bs))"

fun all_some :: "'a option list \<Rightarrow> 'a list option" where
  "all_some [] = Some []"
| "all_some (None # xs) = None"
| "all_some (Some x # xs) = map_option (Cons x) (all_some xs)"

definition unbroken :: "string \<Rightarrow> string" where
  "unbroken s = filter (\<lambda>c. c \<noteq> chr 10 \<and> c \<noteq> chr 13) s"

definition raw_decode :: "string \<Rightarrow> string \<Rightarrow> byte list option" where
  "raw_decode extra s =
     map_option (map of_nat)
       (Option.bind (all_some (map (b64_val extra) (unbroken s))) octets)"

text \<open>\<open>RawURLEncoding\<close> and \<open>RawStdEncoding\<close> differ in the last two characters.\<close>

abbreviation raw_url_encode :: "byte list \<Rightarrow> string" where
  "raw_url_encode \<equiv> raw_encode ''-_''"

abbreviation raw_url_decode :: "string \<Rightarrow> byte list option" where
  "raw_url_decode \<equiv> raw_decode ''-_''"

abbreviation raw_std_encode :: "byte list \<Rightarrow> string" where
  "raw_std_encode \<equiv> raw_encode ''+/''"

abbreviation raw_std_decode :: "string \<Rightarrow> byte list option" where
  "raw_std_decode \<equiv> raw_decode ''+/''"

text \<open>With padding: the last group of four characters may end in one or two \<open>=\<close>.\<close>

definition unpadded :: "string \<Rightarrow> string option" where
  "unpadded s =
     (if length s mod 4 \<noteq> 0 then None
      else if has_suffix ''=='' s then Some (take (length s - 2) s)
      else if has_suffix ''='' s then Some (take (length s - 1) s)
      else Some s)"

definition std_decode :: "string \<Rightarrow> byte list option" where
  "std_decode s =
     map_option (map of_nat)
       (Option.bind (unpadded (unbroken s)) (\<lambda>u. Option.bind (all_some (map (b64_val ''+/'') u)) octets))"

lemma byte_parts: "(a :: nat) < 256 \<Longrightarrow> a div 4 < 64 \<and> a div 16 < 16 \<and> a div 64 < 4"
  by (simp add: less_mult_imp_div_less)

lemma octets_sextets: "list_all (\<lambda>a. a < 256) as \<Longrightarrow> octets (sextets as) = Some as"
proof (induction as rule: sextets.induct)
  case (4 a b c r)
  have "b < 256" "a < 256" "c < 256" using 4 by simp_all
  moreover from this have "b div 16 < 16" "c div 64 < 4" by simp_all
  hence "(a mod 4 * 16 + b div 16) div 16 = a mod 4" "(a mod 4 * 16 + b div 16) mod 16 = b div 16"
    "(b mod 16 * 4 + c div 64) div 4 = b mod 16" "(b mod 16 * 4 + c div 64) mod 4 = c div 64"
    by simp_all
  ultimately show ?case using 4 by simp
next
  case (3 a b)
  hence "b div 16 < 16" using byte_parts [of b] by simp
  hence "(a mod 4 * 16 + b div 16) div 16 = a mod 4" "(a mod 4 * 16 + b div 16) mod 16 = b div 16"
    by simp_all
  thus ?case by simp
qed simp_all

lemma sextets_bound: "list_all (\<lambda>a. a < 256) as \<Longrightarrow> n \<in> set (sextets as) \<Longrightarrow> n < 64"
proof (induction as rule: sextets.induct)
  case (4 a b c r)
  hence "a < 256" "b < 256" "c < 256" by simp_all
  hence "a div 4 < 64" "a mod 4 * 16 + b div 16 < 64" "b mod 16 * 4 + c div 64 < 64" "c mod 64 < 64"
    by linarith+
  thus ?case using 4 by auto
next
  case (3 a b)
  hence "a div 4 < 64" "a mod 4 * 16 + b div 16 < 64" "b mod 16 * 4 < 64"
    using byte_parts [of a] byte_parts [of b] by (simp_all, linarith)
  thus ?case using 3 by auto
next
  case (2 a)
  hence "a div 4 < 64" "a mod 4 * 16 < 64" using byte_parts [of a] by simp_all
  thus ?case using 2 by auto
qed simp

lemma index_byte_nth: "distinct s \<Longrightarrow> i < length s \<Longrightarrow> index_byte (s ! i) s = Some i"
proof (induction s arbitrary: i)
  case (Cons x s)
  thus ?case by (cases i) auto
qed simp

definition good_alphabet :: "string \<Rightarrow> bool" where
  "good_alphabet extra =
     (length (b64_alphabet extra) = 64 \<and> distinct (b64_alphabet extra) \<and>
      (\<forall>c \<in> set (b64_alphabet extra). solid c \<and> c \<noteq> CHR ''$'' \<and> c \<noteq> CHR ''.''))"

lemma url_alphabet [simp]: "good_alphabet ''-_''" by code_simp

lemma std_alphabet [simp]: "good_alphabet ''+/''" by code_simp

lemma b64_char_in:
  assumes "good_alphabet extra" and "n < 64"
  shows "b64_char extra n \<in> set (b64_alphabet extra)"
  using assms unfolding b64_char_def good_alphabet_def by (metis nth_mem)

lemma b64_char_facts:
  assumes "good_alphabet extra" and "n < 64"
  shows "b64_val extra (b64_char extra n) = Some n"
    and "solid (b64_char extra n)" and "b64_char extra n \<noteq> CHR ''$''" and "b64_char extra n \<noteq> CHR ''.''"
proof -
  show "b64_val extra (b64_char extra n) = Some n"
    using assms unfolding b64_val_def b64_char_def good_alphabet_def by (intro index_byte_nth) simp_all
  show "solid (b64_char extra n)" "b64_char extra n \<noteq> CHR ''$''" "b64_char extra n \<noteq> CHR ''.''"
    using assms b64_char_in [OF assms] unfolding good_alphabet_def by metis+
qed

lemma all_some_map: "(\<And>x. x \<in> set xs \<Longrightarrow> f x = Some (g x)) \<Longrightarrow> all_some (map f xs) = Some (map g xs)"
  by (induction xs) auto

lemma unat_byte: "unat (b :: byte) < 256"
  by (rule order_less_le_trans [OF unsigned_less]) simp

lemma byte_list_bound: "list_all (\<lambda>a. a < 256) (map unat (bs :: byte list))"
  by (simp add: list_all_iff unat_byte)

lemma raw_encode_chars:
  assumes "good_alphabet extra" and "c \<in> set (raw_encode extra bs)"
  shows "solid c" and "c \<noteq> CHR ''$''" and "c \<noteq> CHR ''.''"
  using assms(2) b64_char_facts(2-4) [OF assms(1) sextets_bound [OF byte_list_bound]]
  by (auto simp: raw_encode_def)

lemma raw_round_trip:
  assumes "good_alphabet extra"
  shows "raw_decode extra (raw_encode extra bs) = Some bs"
proof -
  let ?n = "sextets (map unat bs)"
  have "solid (chr 10) = False" "solid (chr 13) = False" by (simp_all add: solid_def)
  hence "unbroken (raw_encode extra bs) = raw_encode extra bs"
    unfolding unbroken_def using raw_encode_chars(1) [OF assms] by (intro filter_True) metis
  moreover have "all_some (map (b64_val extra) (raw_encode extra bs)) = Some ?n"
    using all_some_map [of ?n "\<lambda>m. b64_val extra (b64_char extra m)" id]
      b64_char_facts(1) [OF assms sextets_bound [OF byte_list_bound]]
    by (simp add: raw_encode_def o_def)
  ultimately show ?thesis
    by (simp add: raw_decode_def octets_sextets [OF byte_list_bound] o_def)
qed

section \<open>The secret box\<close>

definition encryptedPrefix :: string where
  "encryptedPrefix = ''enc:v1:''"

definition NonceSize :: nat where
  "NonceSize = 12"

text \<open>The nonce is 12 random bytes; \<open>rand.Read\<close> does not fail.\<close>

definition EncryptString ::
    "(byte list \<Rightarrow> byte list \<Rightarrow> byte list) \<Rightarrow> byte list \<Rightarrow> string \<Rightarrow> string" where
  "EncryptString seal nonce value =
     (if value = '''' then ''''
      else encryptedPrefix @ raw_url_encode (nonce @ seal nonce (bytes_of value)))"

definition DecryptString ::
    "(byte list \<Rightarrow> byte list \<Rightarrow> byte list option) \<Rightarrow> string \<Rightarrow> error + string" where
  "DecryptString opn value =
     (if value = '''' then Inr ''''
      else if \<not> has_prefix encryptedPrefix value then Inr value
      else
        case raw_url_decode (drop (length encryptedPrefix) value) of
          None \<Rightarrow> Inl (ErrOther ''illegal base64 data'')
        | Some raw \<Rightarrow>
            if length raw < NonceSize then Inl (ErrOther ''encrypted value too short'')
            else (case opn (take NonceSize raw) (drop NonceSize raw) of
                    None \<Rightarrow> Inl (ErrOther ''cipher: message authentication failed'')
                  | Some plain \<Rightarrow> Inr (string_of plain)))"

definition validAESKeyLen :: "nat \<Rightarrow> bool" where
  "validAESKeyLen n = (n = 16 \<or> n = 24 \<or> n = 32)"

definition normalizeKey :: "(byte list \<Rightarrow> byte list) \<Rightarrow> string \<Rightarrow> byte list" where
  "normalizeKey sha256 key =
     (let fallback = (if validAESKeyLen (length key) then bytes_of key else sha256 (bytes_of key))
      in case std_decode key of
           Some raw \<Rightarrow> if validAESKeyLen (length raw) then raw else fallback
         | None \<Rightarrow> fallback)"

text \<open>
  What the box encrypts it decrypts again, whatever the nonce, the cipher being one
  that opens what it sealed; the stored text never equals the plain text's own encoding
  by accident, since it starts with the version prefix unless the plain text is empty.
\<close>

theorem decrypt_encrypt:
  assumes "\<And>n p. opn n (seal n p) = Some p" and "length nonce = NonceSize"
  shows "DecryptString opn (EncryptString seal nonce value) = Inr value \<and>
         (value = '''' \<or> has_prefix encryptedPrefix (EncryptString seal nonce value))"
  using assms
  by (simp add: DecryptString_def EncryptString_def raw_round_trip encryptedPrefix_def)

theorem decrypt_encrypt_witness:
  "DecryptString (\<lambda>n c. Some (map (\<lambda>b. b XOR hd n) c))
     (EncryptString (\<lambda>n p. map (\<lambda>b. b XOR hd n) p) (replicate 12 0x5a) ''s3cret'') = Inr ''s3cret''"
  using decrypt_encrypt [of "\<lambda>n c. Some (map (\<lambda>b. b XOR hd n) c)" "\<lambda>n p. map (\<lambda>b. b XOR hd n) p"
      "replicate 12 0x5a" "''s3cret''"]
  by (simp add: NonceSize_def o_def xor.assoc)

text \<open>
  Any configured text yields a key AES accepts, so a box is always built; texts that
  are 16 or 24 bytes long give AES-128 or AES-192, not AES-256.
\<close>

theorem normalizeKey_valid:
  assumes "\<And>bs. length (sha256 bs) = 32"
  shows "validAESKeyLen (length (normalizeKey sha256 key))"
  using assms by (auto simp: normalizeKey_def Let_def validAESKeyLen_def split: option.split)

theorem normalizeKey_valid_witness:
  "validAESKeyLen (length (normalizeKey (\<lambda>bs. replicate 32 0) ''change-me''))"
  by (rule normalizeKey_valid) simp

end
