(* ===== verification/Auth.thy ===== *)
theory Auth
  imports Crypto
begin

text \<open>
  Passwords (\<open>auth/password.go\<close>), one-time codes (\<open>auth/totp.go\<close>) and the tokens of
  \<open>auth/jwt.go\<close>.  Argon2id, HMAC-SHA1, SHA-256 and the JWT signature are parameters.
  Argon2id is a partial function: \<open>argon2.IDKey\<close> panics on zero rounds, zero lanes or an
  output of no bytes.
\<close>

section \<open>Passwords\<close>

type_synonym argon2id =
  "byte list \<Rightarrow> byte list \<Rightarrow> 32 word \<Rightarrow> 32 word \<Rightarrow> 8 word \<Rightarrow> 32 word \<Rightarrow> byte list option"

definition argonMemory :: int where "argonMemory = 64 * 1024"
definition argonIterations :: int where "argonIterations = 3"
definition argonParallelism :: int where "argonParallelism = 2"
definition argonKeyLength :: int where "argonKeyLength = 32"

text \<open>The salt is 16 random bytes; \<open>io.ReadFull\<close> on the system's source does not fail.\<close>

definition HashPassword :: "argon2id \<Rightarrow> byte list \<Rightarrow> string \<Rightarrow> error + string" where
  "HashPassword argon2 salt password =
     (case argon2 (bytes_of password) salt (word_of_int argonIterations) (word_of_int argonMemory)
             (word_of_int argonParallelism) (word_of_int argonKeyLength) of
        None \<Rightarrow> Inl (ErrPanic ''argon2'')
      | Some hash \<Rightarrow>
          Inr (''$argon2id$v=19$m='' @ show_int argonMemory @ '',t='' @ show_int argonIterations @
               '',p='' @ show_int argonParallelism @ ''$'' @ raw_std_encode salt @ ''$'' @
               raw_std_encode hash))"

definition parseParam :: "string \<Rightarrow> string \<Rightarrow> error + int" where
  "parseParam part key =
     (let prefix = key @ ''=''
      in if \<not> has_prefix prefix part then Inl (ErrOther ''missing argon2 parameter'')
         else case parse_int64 (drop (length prefix) part) of
                None \<Rightarrow> Inl (ErrOther ''strconv.Atoi'')
              | Some i \<Rightarrow> Inr i)"

definition decode_part :: "string \<Rightarrow> error + byte list" where
  "decode_part s =
     (case raw_std_decode s of None \<Rightarrow> Inl (ErrOther ''illegal base64 data'') | Some bs \<Rightarrow> Inr bs)"

definition VerifyPassword :: "argon2id \<Rightarrow> string \<Rightarrow> string \<Rightarrow> error + bool" where
  "VerifyPassword argon2 password encoded =
     (let parts = split_char (CHR ''$'') encoded
      in if length parts \<noteq> 6 \<or> parts ! 1 \<noteq> ''argon2id'' then Inl (ErrOther ''invalid hash format'')
         else let params = split_char (CHR '','') (parts ! 3)
         in if length params \<noteq> 3 then Inl (ErrOther ''invalid argon2 parameters'')
         else
           rbind (parseParam (params ! 0) ''m'') (\<lambda>memory.
           rbind (parseParam (params ! 1) ''t'') (\<lambda>iterations.
           rbind (parseParam (params ! 2) ''p'') (\<lambda>parallelism.
           rbind (decode_part (parts ! 4)) (\<lambda>salt.
           rbind (decode_part (parts ! 5)) (\<lambda>expected.
             case argon2 (bytes_of password) salt (word_of_int iterations) (word_of_int memory)
                    (word_of_int parallelism) (of_nat (length expected)) of
               None \<Rightarrow> Inl (ErrPanic ''argon2'')
             | Some actual \<Rightarrow> Inr (actual = expected)))))))"

text \<open>What the stored form splits into.\<close>

lemma split_char_pieces:
  "CHR ''$'' \<notin> set s1 \<Longrightarrow> CHR ''$'' \<notin> set s2 \<Longrightarrow>
   split_char (CHR ''$'') (''$argon2id$v=19$m=65536,t=3,p=2$'' @ s1 @ CHR ''$'' # s2) =
   ['''', ''argon2id'', ''v=19'', ''m=65536,t=3,p=2'', s1, s2]"
  by (simp add: split_char_app split_char_no_sep)

lemma show_params:
  "show_int argonMemory = ''65536''" "show_int argonIterations = ''3''" "show_int argonParallelism = ''2''"
  by (simp_all add: argonMemory_def argonIterations_def argonParallelism_def show_int_def
      show_nat.simps digit_def char_of_def bit_0)

lemma parse_params:
  "parseParam ''m=65536'' ''m'' = Inr argonMemory" "parseParam ''t=3'' ''t'' = Inr argonIterations"
  "parseParam ''p=2'' ''p'' = Inr argonParallelism"
  by (simp_all add: parseParam_def argonMemory_def argonIterations_def argonParallelism_def
      parse_int64_def parse_unsigned_def digit_val_def int64_range_def)

lemma decode_encoded [simp]: "decode_part (raw_std_encode bs) = Inr bs"
  by (simp add: decode_part_def raw_round_trip)

lemma VerifyPassword_stored:
  assumes "HashPassword argon2 salt password = Inr stored"
    and "\<And>p s h. argon2 p s (word_of_int argonIterations) (word_of_int argonMemory)
           (word_of_int argonParallelism) (word_of_int argonKeyLength) = Some h \<Longrightarrow> length h = 32"
  shows "VerifyPassword argon2 attempted stored =
     (case argon2 (bytes_of attempted) salt (word_of_int argonIterations) (word_of_int argonMemory)
             (word_of_int argonParallelism) (word_of_int argonKeyLength) of
        None \<Rightarrow> Inl (ErrPanic ''argon2'')
      | Some h \<Rightarrow> Inr (Some h = argon2 (bytes_of password) salt (word_of_int argonIterations)
           (word_of_int argonMemory) (word_of_int argonParallelism) (word_of_int argonKeyLength)))"
proof -
  obtain hash where hash: "argon2 (bytes_of password) salt (word_of_int argonIterations)
      (word_of_int argonMemory) (word_of_int argonParallelism) (word_of_int argonKeyLength) = Some hash"
    and stored: "stored = ''$argon2id$v=19$m='' @ show_int argonMemory @ '',t='' @ show_int argonIterations @
               '',p='' @ show_int argonParallelism @ ''$'' @ raw_std_encode salt @ ''$'' @ raw_std_encode hash"
    using assms(1) by (auto simp: HashPassword_def split: option.splits)
  have "CHR ''$'' \<notin> set (raw_std_encode bs)" for bs
    using raw_encode_chars(2) [OF std_alphabet] by blast
  hence split: "split_char (CHR ''$'') stored =
      ['''', ''argon2id'', ''v=19'', ''m=65536,t=3,p=2'', raw_std_encode salt, raw_std_encode hash]"
    using split_char_pieces by (simp add: stored show_params)
  have "(of_nat (length hash) :: 32 word) = word_of_int argonKeyLength"
    using assms(2) [OF hash] by (simp add: argonKeyLength_def)
  moreover have "split_char (CHR '','') ''m=65536,t=3,p=2'' = [''m=65536'', ''t=3'', ''p=2'']" by simp
  ultimately show ?thesis
    by (simp add: VerifyPassword_def split Let_def parse_params hash split: option.split)
qed

text \<open>
  A stored password verifies, and another text verifies against it exactly when
  Argon2id maps both to the same 32 bytes under the stored salt: the encoding of salt,
  cost and hash loses nothing.
\<close>

theorem VerifyPassword_HashPassword:
  assumes "\<And>p s. \<exists>h. argon2 p s (word_of_int argonIterations) (word_of_int argonMemory)
             (word_of_int argonParallelism) (word_of_int argonKeyLength) = Some h \<and> length h = 32"
  shows "\<exists>stored. HashPassword argon2 salt password = Inr stored \<and>
           VerifyPassword argon2 password stored = Inr True \<and>
           (\<forall>other. VerifyPassword argon2 other stored =
              Inr (argon2 (bytes_of other) salt 3 65536 2 32 = argon2 (bytes_of password) salt 3 65536 2 32))"
proof -
  have len: "length h = 32" if "argon2 p s (word_of_int argonIterations) (word_of_int argonMemory)
             (word_of_int argonParallelism) (word_of_int argonKeyLength) = Some h" for p s h
    using assms [of p s] that by auto
  obtain stored where st: "HashPassword argon2 salt password = Inr stored"
    using assms [of "bytes_of password" salt] by (auto simp: HashPassword_def)
  have "VerifyPassword argon2 other stored =
      Inr (argon2 (bytes_of other) salt 3 65536 2 32 = argon2 (bytes_of password) salt 3 65536 2 32)" for other
    using VerifyPassword_stored [OF st len] assms [of "bytes_of other" salt]
    by (auto simp: argonIterations_def argonMemory_def argonParallelism_def argonKeyLength_def)
  thus ?thesis using st by simp
qed

text \<open>A stand-in for Argon2id, for the witnesses.\<close>

definition sample_argon2 :: argon2id where
  "sample_argon2 p s t m l n = (if t = 0 \<or> l = 0 \<or> n = 0 then None else Some (take 32 (p @ replicate 32 0)))"

lemma sample_argon2_app [simp]: "sample_argon2 p s 3 65536 2 32 = Some (take 32 (p @ replicate 32 0))"
  by (simp add: sample_argon2_def)

lemma sample_argon2_total: "\<exists>h. sample_argon2 p s (word_of_int argonIterations) (word_of_int argonMemory)
             (word_of_int argonParallelism) (word_of_int argonKeyLength) = Some h \<and> length h = 32"
  by (simp add: argonIterations_def argonMemory_def argonParallelism_def argonKeyLength_def)

theorem VerifyPassword_HashPassword_witness:
  "\<exists>stored. HashPassword sample_argon2 [1, 2] ''pw'' = Inr stored \<and>
     VerifyPassword sample_argon2 ''pw'' stored = Inr True \<and>
     VerifyPassword sample_argon2 ''px'' stored = Inr False"
proof -
  obtain stored where "HashPassword sample_argon2 [1, 2] ''pw'' = Inr stored"
    "VerifyPassword sample_argon2 ''pw'' stored = Inr True"
    "VerifyPassword sample_argon2 ''px'' stored =
       Inr (sample_argon2 (bytes_of ''px'') [1, 2] 3 65536 2 32 = sample_argon2 (bytes_of ''pw'') [1, 2] 3 65536 2 32)"
    using VerifyPassword_HashPassword [of sample_argon2 "[1, 2]" "''pw''", OF sample_argon2_total] by blast
  thus ?thesis by (simp add: bytes_of_def)
qed

section \<open>One-time codes\<close>

text \<open>
  \<open>base32.StdEncoding.WithPadding(NoPadding)\<close>.  A last group of 1, 3 or 6 characters is
  not refused: the decoder drops what no whole byte can be made of.
\<close>

definition b32_alphabet :: string where
  "b32_alphabet = ''ABCDEFGHIJKLMNOPQRSTUVWXYZ234567''"

definition b32_val :: "char \<Rightarrow> nat option" where
  "b32_val c = index_byte c b32_alphabet"

fun b32_octets :: "nat list \<Rightarrow> nat list" where
  "b32_octets [a, b] = [a * 8 + b div 4]"
| "b32_octets [a, b, c, d] = [a * 8 + b div 4, b mod 4 * 64 + c * 2 + d div 16]"
| "b32_octets [a, b, c, d, e] =
     [a * 8 + b div 4, b mod 4 * 64 + c * 2 + d div 16, d mod 16 * 16 + e div 2]"
| "b32_octets [a, b, c, d, e, f, g] =
     [a * 8 + b div 4, b mod 4 * 64 + c * 2 + d div 16, d mod 16 * 16 + e div 2,
      e mod 2 * 128 + f * 4 + g div 8]"
| "b32_octets (a # b # c # d # e # f # g # h # r) =
     [a * 8 + b div 4, b mod 4 * 64 + c * 2 + d div 16, d mod 16 * 16 + e div 2,
      e mod 2 * 128 + f * 4 + g div 8, g mod 8 * 32 + h] @ b32_octets r"
| "b32_octets r = []"

definition b32_decode :: "string \<Rightarrow> byte list option" where
  "b32_decode s = map_option (\<lambda>ns. map of_nat (b32_octets ns)) (all_some (map b32_val (unbroken s)))"

text \<open>Encoding; the padding of a last partial group is what the caller trims.\<close>

fun quintets :: "nat list \<Rightarrow> nat list" where
  "quintets [] = []"
| "quintets [a] = [a div 8, a mod 8 * 4]"
| "quintets [a, b] = [a div 8, a mod 8 * 4 + b div 64, b mod 64 div 2, b mod 2 * 16]"
| "quintets [a, b, c] =
     [a div 8, a mod 8 * 4 + b div 64, b mod 64 div 2, b mod 2 * 16 + c div 16, c mod 16 * 2]"
| "quintets [a, b, c, d] =
     [a div 8, a mod 8 * 4 + b div 64, b mod 64 div 2, b mod 2 * 16 + c div 16,
      c mod 16 * 2 + d div 128, d mod 128 div 4, d mod 4 * 8]"
| "quintets (a # b # c # d # e # r) =
     [a div 8, a mod 8 * 4 + b div 64, b mod 64 div 2, b mod 2 * 16 + c div 16,
      c mod 16 * 2 + d div 128, d mod 128 div 4, d mod 4 * 8 + e div 32, e mod 32] @ quintets r"

definition b32_encode :: "byte list \<Rightarrow> string" where
  "b32_encode bs = map (\<lambda>n. b32_alphabet ! n) (quintets (map unat bs))"

record totp_setup =
  ts_secret :: string
  ts_url :: string

text \<open>\<open>url.PathEscape\<close> and \<open>url.QueryEscape\<close>; \<open>Values.Encode\<close> sorts by key.\<close>

definition unreserved :: "char \<Rightarrow> bool" where
  "unreserved c = (let n = of_char c :: nat in
     (48 \<le> n \<and> n \<le> 57) \<or> (65 \<le> n \<and> n \<le> 90) \<or> (97 \<le> n \<and> n \<le> 122) \<or> c \<in> set ''-_.~'')"

definition percent :: "char \<Rightarrow> string" where
  "percent c = (let n = of_char c :: nat in
     [CHR ''%'', ''0123456789ABCDEF'' ! (n div 16), ''0123456789ABCDEF'' ! (n mod 16)])"

definition path_escape :: "string \<Rightarrow> string" where
  "path_escape s = concat (map (\<lambda>c. if unreserved c \<or> c \<in> set ''$&+=:@'' then [c] else percent c) s)"

definition query_escape :: "string \<Rightarrow> string" where
  "query_escape s =
     concat (map (\<lambda>c. if unreserved c then [c] else if c = CHR '' '' then ''+'' else percent c) s)"

definition BuildTOTPSetup :: "string \<Rightarrow> string \<Rightarrow> string \<Rightarrow> totp_setup" where
  "BuildTOTPSetup issuer accountName secret =
     \<lparr>ts_secret = secret,
      ts_url = ''otpauth://totp/'' @ path_escape (issuer @ '':'' @ accountName) @ ''?algorithm=SHA1&digits=6'' @
               ''&issuer='' @ query_escape issuer @ ''&period=30&secret='' @ query_escape secret\<rparr>"

definition GenerateTOTP :: "byte list \<Rightarrow> string \<Rightarrow> string \<Rightarrow> totp_setup" where
  "GenerateTOTP secretBytes issuer accountName =
     BuildTOTPSetup issuer accountName (b32_encode secretBytes)"

text \<open>\<open>%06s\<close> pads with zeros on the left.\<close>

definition pad6 :: "string \<Rightarrow> string" where
  "pad6 s = replicate (6 - length s) (CHR ''0'') @ s"

definition generateCode :: "(byte list \<Rightarrow> byte list \<Rightarrow> byte list) \<Rightarrow> string \<Rightarrow> int \<Rightarrow> string" where
  "generateCode hmac secret counter =
     (case b32_decode (to_upper secret) of
        None \<Rightarrow> ''''
      | Some key \<Rightarrow>
          let sum = hmac key (be 8 (word_of_int counter :: 64 word));
              offset = unat (last sum AND 0x0f);
              binCode = push_bit 24 (ucast (sum ! offset) AND 0x7f) OR
                        push_bit 16 (ucast (sum ! (offset + 1)) AND 0xff) OR
                        push_bit 8 (ucast (sum ! (offset + 2)) AND 0xff) OR
                        (ucast (sum ! (offset + 3)) AND (0xff :: 32 word));
              otp = binCode mod 1000000
          in pad6 (show_nat (unat otp)))"

text \<open>Seconds divided by 30 as Go divides, towards zero.\<close>

definition go_div :: "int \<Rightarrow> int \<Rightarrow> int" where
  "go_div a b = sgn a * sgn b * (\<bar>a\<bar> div \<bar>b\<bar>)"

definition ValidateTOTP :: "(byte list \<Rightarrow> byte list \<Rightarrow> byte list) \<Rightarrow> int \<Rightarrow> string \<Rightarrow> string \<Rightarrow> bool" where
  "ValidateTOTP hmac unix code secret =
     (let code = trim_space code
      in if length code \<noteq> 6 then False
         else let now = go_div unix 30
              in list_ex (\<lambda>offset. generateCode hmac secret (now + offset) = code) [-1, 0, 1])"

lemma byte_quotients:
  assumes "(n :: nat) < 256"
  shows "n div 64 div 4 = 0" "n div 64 mod 4 = n div 64" "n div 16 div 16 = 0" "n div 16 mod 16 = n div 16"
    "n div 128 div 2 = 0" "n div 128 mod 2 = n div 128" "n div 32 div 8 = 0" "n div 32 mod 8 = n div 32"
  using assms by simp_all

lemma rejoin: "(n :: nat) div 64 * 64 + n mod 64 div 2 * 2 + n mod 2 = n"
  "n div 128 * 128 + n mod 128 div 4 * 4 + n mod 4 = n"
proof -
  have "n mod 2 = n mod 64 mod 2" "n mod 4 = n mod 128 mod 4" by (simp_all add: mod_mod_cancel)
  thus "n div 64 * 64 + n mod 64 div 2 * 2 + n mod 2 = n" "n div 128 * 128 + n mod 128 div 4 * 4 + n mod 4 = n"
    by (metis add.assoc div_mult_mod_eq)+
qed

lemma b32_octets_quintets: "list_all (\<lambda>a. a < 256) as \<Longrightarrow> b32_octets (quintets as) = as"
  by (induction as rule: quintets.induct) (simp_all add: byte_quotients rejoin)

lemma quintet_parts:
  assumes "(a :: nat) < 256" and "b < 256"
  shows "a div 8 < 32" "b div 64 < 4" "a mod 64 div 2 < 32" "b div 16 < 16" "b div 128 < 2"
    "a mod 128 div 4 < 32" "b div 32 < 8"
    "a mod 8 * 4 + b div 64 < 32" "a mod 2 * 16 + b div 16 < 32" "a mod 16 * 2 + b div 128 < 32"
    "a mod 4 * 8 + b div 32 < 32" "a mod 8 * 4 < 32" "a mod 2 * 16 < 32" "a mod 16 * 2 < 32" "a mod 4 * 8 < 32"
  using assms by linarith+

lemma quintets_bound: "list_all (\<lambda>a. a < 256) as \<Longrightarrow> n \<in> set (quintets as) \<Longrightarrow> n < 32"
  by (induction as rule: quintets.induct) (auto simp: quintet_parts)

lemma b32_alphabet_facts:
  "length b32_alphabet = 32" "distinct b32_alphabet"
  "\<forall>c \<in> set b32_alphabet. solid c \<and> upper_char c = c \<and> (of_char c :: nat) < 128"
  by code_simp+

lemma to_upper_ascii: "ascii s \<Longrightarrow> to_upper s = map upper_char s"
proof -
  assume "ascii s"
  hence "ascii (map upper_char s)" by (auto simp: ascii_def list_all_iff of_char_upper)
  thus "to_upper s = map upper_char s"
    using not_in_ascii [of "map upper_char s" 197] not_in_ascii [of "map upper_char s" 196]
    by (simp add: to_upper_def replace_all_absent)
qed

lemma b32_encode_chars: "c \<in> set (b32_encode bs) \<Longrightarrow> c \<in> set b32_alphabet"
  using quintets_bound [OF byte_list_bound, of _ bs] b32_alphabet_facts(1)
  by (auto simp: b32_encode_def)

lemma b32_round_trip: "b32_decode (to_upper (b32_encode bs)) = Some bs"
proof -
  let ?n = "quintets (map unat bs)"
  have chars: "solid c \<and> upper_char c = c \<and> (of_char c :: nat) < 128" if "c \<in> set (b32_encode bs)" for c
    using b32_encode_chars [OF that] b32_alphabet_facts(3) by blast
  have "ascii (b32_encode bs)" using chars by (auto simp: ascii_def list_all_iff)
  hence up: "to_upper (b32_encode bs) = b32_encode bs"
    using chars by (simp add: to_upper_ascii map_idI)
  have "solid (chr 10) = False" "solid (chr 13) = False" by (simp_all add: solid_def)
  hence "unbroken (b32_encode bs) = b32_encode bs"
    unfolding unbroken_def using chars by (intro filter_True) metis
  moreover have "all_some (map b32_val (b32_encode bs)) = Some ?n"
    using all_some_map [of ?n "\<lambda>m. b32_val (b32_alphabet ! m)" id]
      index_byte_nth [OF b32_alphabet_facts(2)] quintets_bound [OF byte_list_bound, of _ bs] b32_alphabet_facts(1)
    by (simp add: b32_encode_def o_def b32_val_def)
  ultimately show ?thesis
    by (simp add: up b32_decode_def b32_octets_quintets [OF byte_list_bound] o_def)
qed

lemma go_div_pos: "0 \<le> a \<Longrightarrow> 0 < b \<Longrightarrow> go_div a b = a div b"
  by (cases "a = 0") (simp_all add: go_div_def sgn_if)

lemma show_nat_length: "n < 10 ^ k \<Longrightarrow> 0 < k \<Longrightarrow> length (show_nat n) \<le> k"
proof (induction n arbitrary: k rule: show_nat.induct)
  case (1 n)
  show ?case
  proof (cases "n < 10")
    case True
    thus ?thesis using 1 by (simp add: show_nat.simps [of n])
  next
    case False
    then obtain j where k: "k = Suc j" "0 < j"
      using 1 by (cases k; cases "k - 1") auto
    hence "n div 10 < 10 ^ j" using "1.prems" by (simp add: less_mult_imp_div_less)
    hence "length (show_nat (n div 10)) \<le> j" using "1.IH" False k by simp
    thus ?thesis using False k by (simp add: show_nat.simps [of n])
  qed
qed

lemma digit_is_digit: "digit_val c = Some d \<Longrightarrow> solid c"
  by (auto simp: digit_val_def solid_def Let_def split: if_splits)

lemma pad6_facts:
  assumes "n < 1000000"
  shows "length (pad6 (show_nat n)) = 6" and "\<forall>c \<in> set (pad6 (show_nat n)). digit_val c \<noteq> None"
proof -
  show "length (pad6 (show_nat n)) = 6" using show_nat_length [of n 6] assms by (simp add: pad6_def)
  have "digit_val (CHR ''0'') = Some 0" by (simp add: digit_val_def)
  thus "\<forall>c \<in> set (pad6 (show_nat n)). digit_val c \<noteq> None"
    using show_nat_digit_val by (auto simp: pad6_def simp del: not_None_eq)
qed

lemma generateCode_digits:
  assumes "b32_decode (to_upper secret) \<noteq> None"
  shows "length (generateCode hmac secret i) = 6 \<and> (\<forall>c \<in> set (generateCode hmac secret i). digit_val c \<noteq> None)"
proof -
  obtain key where key: "b32_decode (to_upper secret) = Some key" using assms by blast
  define otp where "otp = (let sum = hmac key (be 8 (word_of_int i :: 64 word)); offset = unat (last sum AND 0x0f) in
      (push_bit 24 (ucast (sum ! offset) AND 0x7f) OR push_bit 16 (ucast (sum ! (offset + 1)) AND 0xff) OR
       push_bit 8 (ucast (sum ! (offset + 2)) AND 0xff) OR (ucast (sum ! (offset + 3)) AND (0xff :: 32 word))) mod 1000000)"
  have "generateCode hmac secret i = pad6 (show_nat (unat otp))"
    by (simp add: generateCode_def key otp_def Let_def)
  moreover have "unat otp < 1000000"
    unfolding otp_def Let_def by (simp add: unat_mod)
  ultimately show ?thesis using pad6_facts by metis
qed

lemma digits_trim: "\<forall>c \<in> set s. digit_val c \<noteq> None \<Longrightarrow> trim_space s = s"
  by (rule trim_space_solid) (metis digit_is_digit not_None_eq hd_in_set last_in_set)

lemma ValidateTOTP_window:
  assumes "b32_decode (to_upper secret) \<noteq> None" and "go_div unix 30 + d = n" and "d \<in> {-1, 0, 1}"
  shows "ValidateTOTP hmac unix (generateCode hmac secret n) secret"
  using generateCode_digits [OF assms(1), of hmac n] assms(2,3)
  by (auto simp: ValidateTOTP_def digits_trim Let_def)

lemma ValidateTOTP_iff:
  "ValidateTOTP hmac unix code secret \<longleftrightarrow>
   b32_decode (to_upper secret) \<noteq> None \<and>
   (\<exists>d \<in> {-1, 0, 1}. trim_space code = generateCode hmac secret (go_div unix 30 + d))"
proof (cases "b32_decode (to_upper secret)")
  case None
  hence "generateCode hmac secret n = ''''" for n by (simp add: generateCode_def)
  thus ?thesis using None by (auto simp: ValidateTOTP_def Let_def)
next
  case (Some key)
  hence "length (generateCode hmac secret n) = 6" for n using generateCode_digits [of secret] by simp
  thus ?thesis using Some by (auto simp: ValidateTOTP_def Let_def)
qed

text \<open>
  A code the user's device computed is accepted during its own thirty seconds and the
  thirty after them, whatever white space surrounds it, and nothing is ever accepted that
  is not six decimal digits: a secret that does not decode locks the account, it does not
  open it to the empty code.
\<close>

theorem TOTP_window:
  assumes "0 \<le> t" and "t \<le> t'" and "t' div 30 \<le> t div 30 + 1"
    and "b32_decode (to_upper secret) \<noteq> None"
  shows "ValidateTOTP hmac t' (generateCode hmac secret (t div 30)) secret \<and>
         (\<forall>code s. ValidateTOTP hmac t' code s \<longrightarrow>
            length (trim_space code) = 6 \<and> (\<forall>c \<in> set (trim_space code). digit_val c \<noteq> None))"
proof -
  have "t div 30 \<le> t' div 30" using assms(2) by (simp add: zdiv_mono1)
  moreover have "go_div t' 30 = t' div 30" using assms by (simp add: go_div_pos)
  ultimately have "go_div t' 30 + (t div 30 - t' div 30) = t div 30" "t div 30 - t' div 30 \<in> {-1, 0, 1}"
    using assms(3) by auto
  hence "ValidateTOTP hmac t' (generateCode hmac secret (t div 30)) secret"
    by (rule ValidateTOTP_window [OF assms(4)])
  moreover have "length (trim_space code) = 6 \<and> (\<forall>c \<in> set (trim_space code). digit_val c \<noteq> None)"
    if "ValidateTOTP hmac t' code s" for code s
    using that generateCode_digits [of s hmac] unfolding ValidateTOTP_iff by metis
  ultimately show ?thesis by blast
qed

theorem TOTP_window_witness:
  "ValidateTOTP (\<lambda>k m. replicate 20 7) 119 (generateCode (\<lambda>k m. replicate 20 7) ''MZXW6YQ'' (61 div 30)) ''MZXW6YQ''"
proof -
  have "b32_decode (to_upper ''MZXW6YQ'') \<noteq> None" by code_simp
  thus ?thesis using TOTP_window [of 61 119 "''MZXW6YQ''" "\<lambda>k m. replicate 20 7"] by simp
qed

section \<open>Tokens of a login\<close>

record claims =
  cl_user_id :: int
  cl_username :: string
  cl_roles :: "string list"
  cl_id :: string
  cl_subject :: string
  cl_issued_at :: time
  cl_expires_at :: time

record jwt_manager =
  sign_jwt :: "claims \<Rightarrow> string"
  sha256 :: "byte list \<Rightarrow> byte list"
  access_ttl :: int
  refresh_ttl :: int

definition hex_digit :: "nat \<Rightarrow> char" where
  "hex_digit n = ''0123456789abcdef'' ! n"

definition hex_encode :: "byte list \<Rightarrow> string" where
  "hex_encode bs = concat (map (\<lambda>b. [hex_digit (unat b div 16), hex_digit (unat b mod 16)]) bs)"

text \<open>Signing with the key pair does not fail; \<open>jti\<close> is a fresh UUID.\<close>

definition SignAccessToken ::
    "jwt_manager \<Rightarrow> string \<Rightarrow> time \<Rightarrow> int \<Rightarrow> string \<Rightarrow> string list \<Rightarrow> string \<times> time" where
  "SignAccessToken m jti now userID username roles =
     (let expires = now + access_ttl m
      in (sign_jwt m \<lparr>cl_user_id = userID, cl_username = username, cl_roles = roles, cl_id = jti,
            cl_subject = show_int userID, cl_issued_at = now, cl_expires_at = expires\<rparr>, expires))"

definition HashRefreshToken :: "jwt_manager \<Rightarrow> string \<Rightarrow> string" where
  "HashRefreshToken m raw = hex_encode (sha256 m (bytes_of raw))"

definition NewRefreshToken ::
    "jwt_manager \<Rightarrow> string \<Rightarrow> byte list \<Rightarrow> time \<Rightarrow> string \<times> string \<times> string \<times> time" where
  "NewRefreshToken m uuid buf now =
     (let raw = uuid @ ''.'' @ raw_url_encode buf
      in (uuid, raw, HashRefreshToken m raw, now + refresh_ttl m))"

end
