(* ===== verification/Dsn.thy ===== *)
theory Dsn
  imports NetAddr Config DbTypes Auth
begin

text \<open>
  Connection strings (\<open>proxy/db/dsn.go\<close>): the URL with which the PostgreSQL proxy opens its
  target, and the URLs with which the web terminal starts \<open>usql\<close>, either on the target or on
  the proxies of the same machine.
\<close>

section \<open>Escapes of a URL\<close>

definition escape_with :: "(char \<Rightarrow> bool) \<Rightarrow> string \<Rightarrow> string" where
  "escape_with keep s = concat (map (\<lambda>c. if keep c then [c] else percent c) s)"

text \<open>The characters \<open>net/url\<close> leaves alone in user information, in a host and in a path.\<close>

definition user_char :: "char \<Rightarrow> bool" where
  "user_char c = (unreserved c \<or> c \<in> set ''$&+,;='')"

definition host_char :: "char \<Rightarrow> bool" where
  "host_char c = (unreserved c \<or> c \<in> set ''!$&()*+,;=:[]<>'' \<or> c = chr 39 \<or> c = chr 34)"

definition path_char :: "char \<Rightarrow> bool" where
  "path_char c = (unreserved c \<or> c \<in> set ''$&+,/:;=@'')"

text \<open>\<open>Values.Encode\<close>, the pairs in the order of their keys.\<close>

definition encode_values :: "(string \<times> string) list \<Rightarrow> string" where
  "encode_values kvs = join ''&'' (map (\<lambda>(k, v). query_escape k @ ''='' @ query_escape v) kvs)"

section \<open>Building connection strings\<close>

definition formatURLDSN ::
  "string \<Rightarrow> string \<Rightarrow> string \<Rightarrow> string \<Rightarrow> int \<Rightarrow> string \<Rightarrow> (string \<times> string) list \<Rightarrow> string" where
  "formatURLDSN scheme username password host port dbName q =
     (let userinfo =
            (if username = '''' then ''''
             else escape_with user_char username @
                  (if password = '''' then '''' else '':'' @ escape_with user_char password) @ ''@'')
      in scheme @ ''://'' @ userinfo @ escape_with host_char (JoinHostPort host (show_int port)) @
         escape_with path_char (''/'' @ dbName) @
         (if q = [] then '''' else ''?'' @ encode_values q))"

definition buildPostgresDSN :: "authResult \<Rightarrow> int \<Rightarrow> string" where
  "buildPostgresDSN auth timeout =
     (let timeout_pair =
            (if 0 < timeout
             then let s = timeout div 1000000000 in [(''connect_timeout'', show_int (if s \<le> 0 then 1 else s))]
             else [])
      in formatURLDSN ''postgres'' (AccUsername (Account auth)) (Secret (Account auth))
           (Address (Target auth)) (targetPort (Target auth)) (DBName (Account auth))
           ([(''application_name'', ''turjmp'')] @ timeout_pair @ [(''sslmode'', ''disable'')]))"

definition unsupported_terminal :: "string \<Rightarrow> error" where
  "unsupported_terminal protocol = ErrOther (''unsupported database terminal protocol: '' @ protocol)"

definition buildUSQLDSN :: "authResult \<Rightarrow> error + string" where
  "buildUSQLDSN auth =
     (let protocol = normalizeDBProtocol (Protocol (Target auth)); port = targetPort (Target auth);
          make = (\<lambda>q. formatURLDSN protocol (AccUsername (Account auth)) (Secret (Account auth))
                    (Address (Target auth)) port (DBName (Account auth)) q)
      in if protocol = ''mysql'' then Inr (make [])
         else if protocol = ''postgres'' then Inr (make [(''sslmode'', ''disable'')])
         else Inl (unsupported_terminal (Protocol (Target auth))))"

definition proxyListenHostPort :: "string \<Rightarrow> int \<Rightarrow> error + string \<times> int" where
  "proxyListenHostPort addr defaultPort =
     rbind (case SplitHostPort addr of
              Inr hp \<Rightarrow> Inr hp
            | Inl e \<Rightarrow> if has_prefix ''missing port in address'' e then Inr (addr, show_int defaultPort)
                       else Inl (ErrOther e))
       (\<lambda>(host, portText).
          let host = (if host \<in> {'''', ''::'', ''0.0.0.0'', ''[::]''} then ''127.0.0.1'' else host)
          in case parse_int64 portText of
               None \<Rightarrow> Inl (ErrOther ''invalid proxy listen port'')
             | Some port \<Rightarrow> if port \<le> 0 then Inl (ErrOther ''invalid proxy listen port'')
                            else Inr (host, port))"

definition buildUSQLProxyDSN :: "string \<Rightarrow> string \<Rightarrow> db_config \<Rightarrow> error + string" where
  "buildUSQLProxyDSN protocol token cfg =
     (let protocol = normalizeDBProtocol protocol; username = ''web#'' @ token
      in if token = '''' then Inl (ErrOther ''connection token required'')
         else if protocol = ''mysql''
         then rbind (proxyListenHostPort (MySQLListenAddr cfg) 3307) (\<lambda>(host, port).
                Inr (formatURLDSN ''mysql'' username '''' host port '''' []))
         else if protocol = ''postgres''
         then rbind (proxyListenHostPort (PostgresListenAddr cfg) 5437) (\<lambda>(host, port).
                Inr (formatURLDSN ''postgres'' username '''' host port ''postgres''
                       [(''sslmode'', ''disable'')]))
         else Inl (unsupported_terminal protocol))"

section \<open>Reading a connection string\<close>

text \<open>
  A reference reader, after \<open>url.Parse\<close>: the scheme ends at the first colon, the query and the
  fragment are cut off, the authority ends at the first slash, the user information at the
  last at sign, and the password starts at the first colon.
\<close>

definition hex_value :: "char \<Rightarrow> nat option" where
  "hex_value c = index_byte c ''0123456789ABCDEF''"

fun unescape :: "string \<Rightarrow> string option" where
  "unescape [] = Some []"
| "unescape (c # s) =
     (if c = CHR ''%''
      then (case s of
              a # b # t \<Rightarrow>
                (case (hex_value a, hex_value b) of
                   (Some h, Some l) \<Rightarrow> map_option (Cons (chr (16 * h + l))) (unescape t)
                 | _ \<Rightarrow> None)
            | _ \<Rightarrow> None)
      else map_option (Cons c) (unescape s))"

record dsn_parts =
  dn_scheme :: string
  dn_user :: string
  dn_password :: "string option"
  dn_host_port :: string
  dn_path :: string

definition read_userinfo :: "string \<Rightarrow> (string \<times> string option) option" where
  "read_userinfo u =
     (case index_byte (CHR '':'') u of
        None \<Rightarrow> map_option (\<lambda>name. (name, None)) (unescape u)
      | Some i \<Rightarrow>
          (case (unescape (take i u), unescape (drop (i + 1) u)) of
             (Some name, Some pw) \<Rightarrow> Some (name, Some pw)
           | _ \<Rightarrow> None))"

definition read_dsn :: "string \<Rightarrow> dsn_parts option" where
  "read_dsn dsn =
     (case index_byte (CHR '':'') dsn of
        None \<Rightarrow> None
      | Some i \<Rightarrow>
          let rest = takeWhile (\<lambda>c. c \<noteq> CHR ''?'' \<and> c \<noteq> CHR ''#'') (drop (i + 1) dsn)
          in if \<not> has_prefix ''//'' rest then None
             else
               let authority = takeWhile (\<lambda>c. c \<noteq> CHR ''/'') (drop 2 rest);
                   path = dropWhile (\<lambda>c. c \<noteq> CHR ''/'') (drop 2 rest)
               in case last_index_byte (CHR ''@'') authority of
                    None \<Rightarrow> None
                  | Some j \<Rightarrow>
                      (case (read_userinfo (take j authority), unescape (drop (j + 1) authority), unescape path) of
                         (Some (name, pw), Some hp, Some p) \<Rightarrow>
                           Some \<lparr>dn_scheme = take i dsn, dn_user = name, dn_password = pw,
                                 dn_host_port = hp, dn_path = p\<rparr>
                       | _ \<Rightarrow> None))"

definition hexes :: string where
  "hexes = ''0123456789ABCDEF''"

lemma hex_digits_back: "list_all (\<lambda>k. hex_value (hexes ! k) = Some k \<and> hexes ! k \<in> set hexes) [0..<16]"
  by code_simp

lemma hex_value_digit: "k < 16 \<Longrightarrow> hex_value (hexes ! k) = Some k"
  and hex_digit_in: "k < 16 \<Longrightarrow> hexes ! k \<in> set hexes"
  using hex_digits_back unfolding list_all_iff by simp_all

lemmas percent_hexes = percent_def [folded hexes_def]

lemma escape_with_simps [simp]:
  "escape_with keep [] = []"
  "escape_with keep (c # s) = (if keep c then [c] else percent c) @ escape_with keep s"
  by (simp_all add: escape_with_def)

lemma nibbles: "(of_char c :: nat) div 16 < 16" "(of_char c :: nat) mod 16 < 16"
proof -
  have "(of_char c :: nat) < 256" using unat_of_char [of c] unat_byte [of "of_char c :: byte"] by simp
  hence "(of_char c :: nat) < 16 * 16" by simp
  thus "(of_char c :: nat) div 16 < 16" by (rule less_mult_imp_div_less)
  show "(of_char c :: nat) mod 16 < 16" by simp
qed

lemma unescape_percent: "unescape (percent c @ s) = map_option (Cons c) (unescape s)"
  using nibbles [of c] by (simp add: percent_hexes Let_def hex_value_digit)

lemma unescape_escape: "\<not> keep (CHR ''%'') \<Longrightarrow> unescape (escape_with keep s) = Some s"
  by (induction s) (auto simp: unescape_percent)

lemma percent_chars: "c \<in> set (percent d) \<Longrightarrow> c = CHR ''%'' \<or> c \<in> set hexes"
  using nibbles [of d] hex_digit_in by (auto simp: percent_hexes Let_def)

lemma escape_chars:
  "c \<in> set (escape_with keep s) \<Longrightarrow> keep c \<or> c = CHR ''%'' \<or> c \<in> set hexes"
proof (induction s)
  case (Cons d s)
  thus ?case using percent_chars [of c d] by (auto split: if_splits)
qed simp

lemma escape_keeps: "list_all keep s \<Longrightarrow> escape_with keep s = s"
  by (induction s) simp_all

lemma kept_out:
  "list_all (\<lambda>c. \<not> user_char c \<and> c \<noteq> CHR ''%'' \<and> c \<notin> set hexes) ''@:/?#''"
  "list_all (\<lambda>c. \<not> host_char c \<and> c \<noteq> CHR ''%'' \<and> c \<notin> set hexes) ''@/?#''"
  "list_all (\<lambda>c. \<not> path_char c \<and> c \<noteq> CHR ''%'' \<and> c \<notin> set hexes) ''?#''"
  "\<not> user_char (CHR ''%'')" "\<not> host_char (CHR ''%'')" "\<not> path_char (CHR ''%'')" "path_char (CHR ''/'')"
  by code_simp+

lemma escaped_user: "c \<in> set ''@:/?#'' \<Longrightarrow> c \<notin> set (escape_with user_char s)"
  using kept_out(1) escape_chars [of c user_char s] unfolding list_all_iff by metis

lemma escaped_host: "c \<in> set ''@/?#'' \<Longrightarrow> c \<notin> set (escape_with host_char s)"
  using kept_out(2) escape_chars [of c host_char s] unfolding list_all_iff by metis

lemma escaped_path: "c \<in> set ''?#'' \<Longrightarrow> c \<notin> set (escape_with path_char s)"
  using kept_out(3) escape_chars [of c path_char s] unfolding list_all_iff by metis

lemma takeWhile_stop: "\<forall>c \<in> set u. P c \<Longrightarrow> \<not> P d \<Longrightarrow> takeWhile P (u @ d # v) = u"
  by (simp add: takeWhile_append2)

lemma dropWhile_stop: "\<forall>c \<in> set u. P c \<Longrightarrow> \<not> P d \<Longrightarrow> dropWhile P (u @ d # v) = d # v"
  by (simp add: dropWhile_append2)

definition userinfo_of :: "string \<Rightarrow> string \<Rightarrow> string" where
  "userinfo_of username password =
     escape_with user_char username @
     (if password = '''' then '''' else '':'' @ escape_with user_char password)"

lemma read_userinfo_of:
  "read_userinfo (userinfo_of username password) =
     Some (username, if password = '''' then None else Some password)"
proof (cases "password = ''''")
  case True
  have "index_byte (CHR '':'') (escape_with user_char username) = None"
    using escaped_user [of "CHR '':''" username] by simp
  hence "read_userinfo (escape_with user_char username) = Some (username, None)"
    by (simp only: read_userinfo_def option.case unescape_escape [of user_char, OF kept_out(4)] option.map)
  thus ?thesis using True by (simp add: userinfo_of_def)
next
  case False
  have "index_byte (CHR '':'') (escape_with user_char username @ CHR '':'' # escape_with user_char password) =
      Some (length (escape_with user_char username))"
    using escaped_user [of "CHR '':''" username] by (intro index_byte_app) simp
  thus ?thesis using False kept_out(4) by (simp add: read_userinfo_def userinfo_of_def unescape_escape)
qed

lemma userinfo_chars: "c \<in> set ''@/?#'' \<Longrightarrow> c \<notin> set (userinfo_of username password)"
  using escaped_user [of c username] escaped_user [of c password] by (auto simp: userinfo_of_def)

lemma read_formatted:
  assumes scheme: "CHR '':'' \<notin> set scheme" and user: "username \<noteq> ''''"
  shows "read_dsn (formatURLDSN scheme username password host port dbName q) =
     Some \<lparr>dn_scheme = scheme, dn_user = username,
           dn_password = (if password = '''' then None else Some password),
           dn_host_port = JoinHostPort host (show_int port), dn_path = ''/'' @ dbName\<rparr>"
proof -
  define U where "U = userinfo_of username password"
  define H where "H = escape_with host_char (JoinHostPort host (show_int port))"
  define P where "P = escape_with path_char dbName"
  define Q where "Q = (if q = [] then '''' else ''?'' @ encode_values q)"
  define dsn where "dsn = formatURLDSN scheme username password host port dbName q"
  have dsn: "dsn = scheme @ CHR '':'' # ''//'' @ U @ ''@'' @ H @ ''/'' @ P @ Q"
    using user kept_out(7) by (simp add: dsn_def formatURLDSN_def U_def H_def P_def Q_def userinfo_of_def Let_def)
  have i: "index_byte (CHR '':'') dsn = Some (length scheme)" using scheme unfolding dsn by (rule index_byte_app)
  have out: "c \<notin> set U \<and> c \<notin> set H" if "c \<in> set ''@/?#''" for c
    using userinfo_chars [OF that] escaped_host [OF that] by (simp add: U_def H_def)
  have pout: "c \<notin> set P" if "c \<in> set ''?#''" for c using escaped_path [OF that] by (simp add: P_def)
  let ?body = "''//'' @ U @ ''@'' @ H @ ''/'' @ P"
  have plain: "\<forall>c \<in> set ?body. c \<noteq> CHR ''?'' \<and> c \<noteq> CHR ''#''"
    using out [of "CHR ''?''"] out [of "CHR ''#''"] pout [of "CHR ''?''"] pout [of "CHR ''#''"] by auto
  have "takeWhile (\<lambda>c. c \<noteq> CHR ''?'' \<and> c \<noteq> CHR ''#'') (?body @ Q) = ?body"
  proof (cases "q = []")
    case True
    thus ?thesis using plain by (simp add: Q_def)
  next
    case False
    thus ?thesis using takeWhile_stop [OF plain, of "CHR ''?''" "encode_values q"] by (simp add: Q_def)
  qed
  moreover have "drop (length scheme + 1) dsn = ?body @ Q" by (simp add: dsn)
  ultimately have rest: "takeWhile (\<lambda>c. c \<noteq> CHR ''?'' \<and> c \<noteq> CHR ''#'') (drop (length scheme + 1) dsn) = ?body"
    by simp
  have slash: "\<forall>c \<in> set (U @ ''@'' @ H). c \<noteq> CHR ''/''" using out [of "CHR ''/''"] by auto
  have auth: "takeWhile (\<lambda>c. c \<noteq> CHR ''/'') (drop 2 ?body) = U @ CHR ''@'' # H"
    "dropWhile (\<lambda>c. c \<noteq> CHR ''/'') (drop 2 ?body) = CHR ''/'' # P"
    using takeWhile_stop [OF slash, of "CHR ''/''" P] dropWhile_stop [OF slash, of "CHR ''/''" P] by simp_all
  have j: "last_index_byte (CHR ''@'') (U @ CHR ''@'' # H) = Some (length U)"
    using out [of "CHR ''@''"] by (intro last_index_app) simp
  have p: "unescape (CHR ''/'' # P) = Some (CHR ''/'' # dbName)"
    using kept_out(6) by (simp add: P_def unescape_escape)
  have h: "unescape H = Some (JoinHostPort host (show_int port))"
    using kept_out(5) by (simp add: H_def unescape_escape)
  show ?thesis unfolding dsn_def [symmetric] read_dsn_def i option.case rest Let_def auth j
    using read_userinfo_of [of username password] h p by (simp add: U_def [symmetric] dsn)
qed

text \<open>
  A connection string means what was put into it: a reader of the URL finds exactly the
  user, the password, the host with its port, and the database the proxy was given, whatever
  bytes they consist of.  No stored password or database name can move the connection to
  another host or add a parameter.
\<close>

theorem dsn_round_trip:
  assumes "AccUsername (Account auth) \<noteq> ''''"
  shows "read_dsn (buildPostgresDSN auth timeout) =
     Some \<lparr>dn_scheme = ''postgres'', dn_user = AccUsername (Account auth),
           dn_password = (if Secret (Account auth) = '''' then None else Some (Secret (Account auth))),
           dn_host_port = JoinHostPort (Address (Target auth)) (show_int (targetPort (Target auth))),
           dn_path = ''/'' @ DBName (Account auth)\<rparr> \<and>
     (\<forall>dsn. buildUSQLDSN auth = Inr dsn \<longrightarrow>
        read_dsn dsn =
          Some \<lparr>dn_scheme = normalizeDBProtocol (Protocol (Target auth)), dn_user = AccUsername (Account auth),
                dn_password = (if Secret (Account auth) = '''' then None else Some (Secret (Account auth))),
                dn_host_port = JoinHostPort (Address (Target auth)) (show_int (targetPort (Target auth))),
                dn_path = ''/'' @ DBName (Account auth)\<rparr>)"
  using assms by (auto simp: buildPostgresDSN_def buildUSQLDSN_def Let_def read_formatted split: if_splits)

definition sample_target :: authResult where
  "sample_target =
     \<lparr>Target = \<lparr>Address = ''db1'', Port = 5432, Protocol = ''postgres''\<rparr>,
      Account = \<lparr>AccUsername = ''app'', Secret = ''p@evil:1/x?y#z'', SecretType = ''password'', DBName = ''a/b''\<rparr>,
      AuthUserID = 7, AuthAssetID = 3, AuthAccountID = 4, AuthConnectMethod = ''''\<rparr>"

theorem dsn_round_trip_witness:
  "read_dsn (buildPostgresDSN sample_target 15000000000) =
     Some \<lparr>dn_scheme = ''postgres'', dn_user = ''app'', dn_password = Some ''p@evil:1/x?y#z'',
           dn_host_port = ''db1:'' @ show_int 5432, dn_path = ''/a/b''\<rparr>"
  using dsn_round_trip [of sample_target 15000000000, THEN conjunct1]
  by (simp add: sample_target_def targetPort_def JoinHostPort_def)

lemma proxy_dsn_user:
  assumes "buildUSQLProxyDSN protocol token cfg = Inr dsn"
  shows "\<exists>parts. read_dsn dsn = Some parts \<and> dn_user parts = ''web#'' @ token \<and> dn_password parts = None"
proof -
  have made: ?thesis if r: "rbind m (\<lambda>(host, port). Inr (formatURLDSN scheme (''web#'' @ token) '''' host port db q)) = Inr dsn"
    and s: "CHR '':'' \<notin> set scheme" for m scheme db q
  proof -
    obtain hp where "dsn = formatURLDSN scheme (''web#'' @ token) '''' (fst hp) (snd hp) db q"
      using r by (auto simp: rbind_Inr_iff split_def)
    thus ?thesis using read_formatted [OF s, of "''web#'' @ token" "''''" "fst hp" "snd hp" db q] by simp
  qed
  consider "normalizeDBProtocol protocol = ''mysql''" | "normalizeDBProtocol protocol = ''postgres''"
    using assms by (auto simp: buildUSQLProxyDSN_def Let_def split: if_splits)
  thus ?thesis
  proof cases
    case 1
    thus ?thesis using assms by (intro made [of _ "''mysql''"])
      (simp_all add: buildUSQLProxyDSN_def Let_def split: if_split_asm)
  next
    case 2
    thus ?thesis using assms by (intro made [of _ "''postgres''"])
      (simp_all add: buildUSQLProxyDSN_def Let_def split: if_split_asm)
  qed
qed


text \<open>
  The web terminal reaches the proxy with a user name from which the proxy extracts the
  token, so its statements are audited like those of a native client.  The port to fall back
  on is never used: a listen address without a port is an error, whatever the default, because
  the text of the address error starts with the word address.
\<close>

theorem proxy_dsn_token:
  assumes "buildUSQLProxyDSN protocol token cfg = Inr dsn" and "list_all token_char token"
  shows "(\<exists>parts. read_dsn dsn = Some parts \<and> extractConnectionToken (dn_user parts) '''' = token) \<and>
         (addr \<noteq> '''' \<longrightarrow> proxyListenHostPort addr p1 = proxyListenHostPort addr p2)"
proof -
  have "token \<noteq> ''''" using assms(1) by (auto simp: buildUSQLProxyDSN_def Let_def)
  hence "extractConnectionToken (''web'' @ CHR ''#'' # token) '''' = token"
    using extract_username_token [of token "''web''" "''''"] assms(2) by blast
  moreover have "proxyListenHostPort addr p1 = proxyListenHostPort addr p2" if "addr \<noteq> ''''"
  proof (cases "SplitHostPort addr")
    case (Inl e)
    have "\<exists>why. e = addr_error addr why"
      using Inl by (auto simp: SplitHostPort_def Let_def split: option.splits if_splits)
    hence "\<not> has_prefix ''missing port in address'' e" using that by (auto simp: addr_error_def)
    thus ?thesis using Inl by (simp add: proxyListenHostPort_def)
  qed (simp add: proxyListenHostPort_def)
  ultimately show ?thesis using proxy_dsn_user [OF assms(1)] by auto
qed

theorem proxy_dsn_token_witness:
  "\<exists>dsn parts. buildUSQLProxyDSN ''mysql'' ''3f2a'' (px_db (c_proxy sample_config)) = Inr dsn \<and>
     read_dsn dsn = Some parts \<and> extractConnectionToken (dn_user parts) '''' = ''3f2a''"
proof -
  have n: "normalizeDBProtocol ''mysql'' = ''mysql''"
    by (simp add: normalizeDBProtocol_def literal_words_trimmed literal_words_lower)
  have "proxyListenHostPort '':3307'' 3307 = Inr (''127.0.0.1'', 3307)"
    by (simp add: proxyListenHostPort_def literal_addresses literal_numbers)
  hence "\<exists>dsn. buildUSQLProxyDSN ''mysql'' ''3f2a'' (px_db (c_proxy sample_config)) = Inr dsn"
    using n by (simp add: buildUSQLProxyDSN_def MySQLListenAddr_def sample_config_def Let_def)
  then obtain dsn where d: "buildUSQLProxyDSN ''mysql'' ''3f2a'' (px_db (c_proxy sample_config)) = Inr dsn" by blast
  have "list_all token_char ''3f2a''" by (simp add: token_char_def solid_def)
  from proxy_dsn_token [OF d this] d show ?thesis by blast
qed

end
