(* ===== verification/PgServer.thy ===== *)
theory PgServer
  imports PgAudit Dsn "HOL-Library.List_Lexorder" "HOL-Library.Char_ord"
begin

text \<open>
  The PostgreSQL proxy (\<open>proxy/db/postgres_protocol.go\<close>, \<open>proxy/db/postgres_server.go\<close>): the
  registry through which cancel requests reach the right target, the start-up of a
  connection, and the whole of a connection up to the relay of \<open>PgAudit\<close>.  Decoding and
  encoding of messages is the work of pgproto3, opening a target that of pgconn; writes to
  the client are taken to succeed.
\<close>

section \<open>Cancel requests\<close>

record cancel_target =
  ct_network :: string
  ct_address :: string
  ct_pid :: "32 word"
  ct_secret :: "byte list"

type_synonym cancel_registry = "string \<rightharpoonup> cancel_target"

definition postgresCancelKey :: "32 word \<Rightarrow> byte list \<Rightarrow> string" where
  "postgresCancelKey pid secret = show_nat (unat pid) @ '':'' @ hex_encode secret"

definition registry_add :: "cancel_target \<Rightarrow> cancel_registry \<Rightarrow> cancel_registry" where
  "registry_add t reg = reg(postgresCancelKey (ct_pid t) (ct_secret t) \<mapsto> t)"

text \<open>The function \<open>add\<close> returns.\<close>

definition registry_remove :: "cancel_target \<Rightarrow> cancel_registry \<Rightarrow> cancel_registry" where
  "registry_remove t reg = reg(postgresCancelKey (ct_pid t) (ct_secret t) := None)"

definition postgresCancelBytes :: "32 word \<Rightarrow> byte list \<Rightarrow> byte list" where
  "postgresCancelBytes pid secret =
     be 4 (word_of_nat (12 + length secret) :: 32 word) @ be 4 (80877102 :: 32 word) @ be 4 pid @ secret"

text \<open>
  Where a cancel request is sent, with the bytes and the timeout; \<open>None\<close> if no target is
  registered.
\<close>

definition cancel_timeout :: "int \<Rightarrow> int" where
  "cancel_timeout t = (if t \<le> 0 then 15000000000 else t)"

definition forward_cancel ::
  "int \<Rightarrow> cancel_registry \<Rightarrow> 32 word \<Rightarrow> byte list \<Rightarrow> (string \<times> string \<times> byte list \<times> int) option" where
  "forward_cancel timeout reg pid secret =
     (case reg (postgresCancelKey pid secret) of
        None \<Rightarrow> None
      | Some t \<Rightarrow> Some (ct_network t, ct_address t, postgresCancelBytes (ct_pid t) (ct_secret t),
                       cancel_timeout timeout))"

section \<open>Start-up\<close>

datatype startup_msg =
    SSLRequest
  | GSSEncRequest
  | CancelRequest "32 word" "byte list"
  | StartupMessage "string \<rightharpoonup> string"
  | OtherStartup

text \<open>What the client is sent: the byte \<open>N\<close>, or a message.\<close>

datatype reply =
    Refusal
  | FatalError string string
  | AuthenticationOk
  | ParameterStatus string string
  | BackendKeyData "32 word" "byte list"
  | Ready char

definition isPostgresProtocol :: "string \<Rightarrow> bool" where
  "isPostgresProtocol protocol = (to_lower protocol = ''postgres'' \<or> to_lower protocol = ''postgresql'')"

definition postgresStartupToken :: "(string \<rightharpoonup> string) \<Rightarrow> string" where
  "postgresStartupToken params = extractConnectionToken (text_at params ''user'') ''''"

text \<open>
  The messages of the start-up phase; their end is a receive error.  The result is what the
  client was sent, the cancel requests passed on, and the parameters if the connection goes on.
\<close>

fun receiveStartup ::
  "startup_msg list \<Rightarrow> reply list \<times> (32 word \<times> byte list) list \<times> (string \<rightharpoonup> string) option" where
  "receiveStartup [] = ([], [], None)"
| "receiveStartup (SSLRequest # ms) = (let (out, cs, r) = receiveStartup ms in (Refusal # out, cs, r))"
| "receiveStartup (GSSEncRequest # ms) = (let (out, cs, r) = receiveStartup ms in (Refusal # out, cs, r))"
| "receiveStartup (CancelRequest pid secret # ms) = ([], [(pid, secret)], None)"
| "receiveStartup (StartupMessage params # ms) = ([], [], Some params)"
| "receiveStartup (OtherStartup # ms) =
     ([FatalError ''08P01'' ''unsupported postgres startup message''], [], None)"

section \<open>The target\<close>

record pg_target =
  pt_network :: string
  pt_address :: string
  pt_pid :: "32 word"
  pt_secret :: "byte list"
  pt_status :: "(string \<times> string) list"
  pt_tx :: char

text \<open>
  The run-time parameters of the target's session: those of the connection string, then the
  client's own except the user and the database, then the application's name.
\<close>

definition target_params :: "(string \<rightharpoonup> string) \<Rightarrow> (string \<rightharpoonup> string) \<Rightarrow> (string \<rightharpoonup> string)" where
  "target_params base params =
     (let merged = (\<lambda>k. if to_lower k \<in> {''user'', ''database''} then base k
                        else case params k of None \<Rightarrow> base k | Some v \<Rightarrow> Some v)
      in if text_at merged ''application_name'' = ''''
         then merged(''application_name'' \<mapsto> ''turjmp'') else merged)"

text \<open>A zero transaction state is read as idle.\<close>

definition tx_status :: "char \<Rightarrow> char" where
  "tx_status c = (if c = chr 0 then CHR ''I'' else c)"

definition sendStartupOK :: "pg_target \<Rightarrow> int \<Rightarrow> reply list" where
  "sendStartupOK target sessionID =
     [AuthenticationOk] @
     map (\<lambda>(k, v). ParameterStatus k v) (sort_key fst (pt_status target)) @
     [ParameterStatus ''bastion_session_id'' (show_int sessionID),
      BackendKeyData (pt_pid target) (pt_secret target), Ready (tx_status (pt_tx target))]"

section \<open>A connection\<close>

text \<open>
  The environment: the API's verification of a token (for the client's address and protocol)
  and creation of a session, parsing a connection string into its run-time parameters, and
  connecting with a connection string and parameters.
\<close>

record pg_env =
  pe_verify :: "string \<Rightarrow> string \<Rightarrow> string \<Rightarrow> error + authResult"
  pe_create :: "sessionInfo \<Rightarrow> error + int"
  pe_base :: "string \<Rightarrow> error + (string \<rightharpoonup> string)"
  pe_connect :: "string \<Rightarrow> (string \<rightharpoonup> string) \<Rightarrow> error + pg_target"
  pe_timeout :: int

definition openTarget :: "pg_env \<Rightarrow> authResult \<Rightarrow> (string \<rightharpoonup> string) \<Rightarrow> error + pg_target" where
  "openTarget env auth params =
     (let dsn = buildPostgresDSN auth (pe_timeout env)
      in rbind (pe_base env dsn) (\<lambda>base. pe_connect env dsn (target_params base params)))"

text \<open>
  What a connection did: the replies, the cancel requests passed on, the session it created
  and those it finished, the authorisation for which \<open>openTarget\<close> was called, the target it
  registered and the state in which the relay started.
\<close>

record pg_report =
  pr_replies :: "reply list"
  pr_cancels :: "(32 word \<times> byte list) list"
  pr_created :: "sessionInfo option"
  pr_finished :: "int list"
  pr_opened :: "authResult option"
  pr_registered :: "cancel_target option"
  pr_relay :: "relay_state option"

definition pg_end :: "reply list \<Rightarrow> pg_report" where
  "pg_end out =
     \<lparr>pr_replies = out, pr_cancels = [], pr_created = None, pr_finished = [], pr_opened = None, pr_registered = None,
      pr_relay = None\<rparr>"

text \<open>The database of the start-up message counts when the account names none.\<close>

definition with_database :: "authResult \<Rightarrow> (string \<rightharpoonup> string) \<Rightarrow> authResult" where
  "with_database auth params =
     (if DBName (Account auth) = ''''
      then auth\<lparr>Account := (Account auth)\<lparr>DBName := text_at params ''database''\<rparr>\<rparr>
      else auth)"

text \<open>From the session to the relay.\<close>

definition pg_serve ::
  "pg_env \<Rightarrow> string \<Rightarrow> reply list \<Rightarrow> (string \<rightharpoonup> string) \<Rightarrow> authResult \<Rightarrow> pg_report" where
  "pg_serve env remoteAddr out params auth =
     (let info = dbSessionInfo auth ''postgres'' ''postgres_client'' remoteAddr
      in case pe_create env info of
           Inl _ \<Rightarrow> pg_end (out @ [FatalError ''58000'' ''create db session failed''])
         | Inr sid \<Rightarrow>
             (case openTarget env auth params of
                Inl _ \<Rightarrow>
                  (pg_end (out @ [FatalError ''08006'' ''connect target postgres failed'']))
                    \<lparr>pr_created := Some info, pr_finished := [sid], pr_opened := Some auth\<rparr>
              | Inr target \<Rightarrow>
                  let ct = \<lparr>ct_network = pt_network target, ct_address = pt_address target,
                           ct_pid = pt_pid target, ct_secret = pt_secret target\<rparr>
                  in \<lparr>pr_replies = out @ sendStartupOK target sid, pr_cancels = [],
                      pr_created = Some info, pr_finished = [sid], pr_opened = Some auth, pr_registered = Some ct,
                      pr_relay = Some (relay_start
                        (newPostgresAuditState (AuthUserID auth) sid remoteAddr))\<rparr>))"

definition handleConn_pg :: "pg_env \<Rightarrow> string \<Rightarrow> startup_msg list \<Rightarrow> pg_report" where
  "handleConn_pg env remoteAddr startup =
     (case receiveStartup startup of
        (out, cancels, None) \<Rightarrow> (pg_end out)\<lparr>pr_cancels := cancels\<rparr>
      | (out, cancels, Some params) \<Rightarrow>
          let token = postgresStartupToken params
          in if token = '''' then pg_end (out @ [FatalError ''28000'' ''connection token required''])
             else
               (case pe_verify env token remoteAddr ''postgres'' of
                  Inl _ \<Rightarrow> pg_end (out @ [FatalError ''28000'' ''token verification failed''])
                | Inr auth \<Rightarrow>
                    if \<not> isPostgresProtocol (Protocol (Target auth))
                    then pg_end (out @ [FatalError ''28000'' ''connection token protocol is not postgres''])
                    else pg_serve env remoteAddr out params (with_database auth params)))"

section \<open>A cancel request reaches the target it names\<close>

lemma hex_digits_distinct: "distinct (map hex_digit [0..<16])"
  by code_simp

lemma hex_digit_inject: "i < 16 \<Longrightarrow> j < 16 \<Longrightarrow> hex_digit i = hex_digit j \<longleftrightarrow> i = j"
  using hex_digits_distinct by (auto simp: distinct_map inj_on_def)

lemma hex_encode_inject: "hex_encode a = hex_encode b \<longleftrightarrow> a = b"
proof (induction a arbitrary: b)
  case Nil
  show ?case by (cases b) (simp_all add: hex_encode_def)
next
  case (Cons x a)
  show ?case
  proof (cases b)
    case (Cons y c)
    have nib: "unat z div 16 < 16" "unat z mod 16 < 16" for z :: byte
      using unat_byte [of z] less_mult_imp_div_less [of "unat z" 16 16] by simp_all
    have "x = y \<longleftrightarrow> unat x div 16 = unat y div 16 \<and> unat x mod 16 = unat y mod 16"
      by (metis div_mult_mod_eq unsigned_word_eqI)
    thus ?thesis using Cons.IH [of c] Cons nib [of x] nib [of y]
      by (auto simp: hex_encode_def hex_digit_inject)
  qed (simp add: hex_encode_def)
qed

lemma cancel_key_inject:
  "postgresCancelKey p s = postgresCancelKey q t \<longleftrightarrow> p = q \<and> s = t"
proof
  assume "postgresCancelKey p s = postgresCancelKey q t"
  hence e: "show_nat (unat p) @ CHR '':'' # hex_encode s = show_nat (unat q) @ CHR '':'' # hex_encode t"
    by (simp add: postgresCancelKey_def)
  have no: "CHR '':'' \<notin> set (show_nat n)" for n by (rule not_digit_absent) (simp add: digit_val_def)
  have "length (show_nat (unat p)) = length (show_nat (unat q))"
    using arg_cong [OF e, of "index_byte (CHR '':'')"] no by (simp add: index_byte_app)
  hence n: "show_nat (unat p) = show_nat (unat q)" and h: "hex_encode s = hex_encode t" using e by auto
  have "unat p = unat q" using arg_cong [OF n, of "parse_digits 0"] by simp
  thus "p = q \<and> s = t" using h hex_encode_inject unsigned_word_eqI by blast
qed simp

text \<open>The life of the registry: connections register and leave, in any order.\<close>

datatype registry_op = Add cancel_target | Remove cancel_target

fun apply_registry :: "registry_op \<Rightarrow> cancel_registry \<Rightarrow> cancel_registry" where
  "apply_registry (Add t) = registry_add t"
| "apply_registry (Remove t) = registry_remove t"

definition well_keyed :: "cancel_registry \<Rightarrow> bool" where
  "well_keyed reg = (\<forall>k t. reg k = Some t \<longrightarrow> k = postgresCancelKey (ct_pid t) (ct_secret t))"

lemma well_keyed_apply: "well_keyed reg \<Longrightarrow> well_keyed (apply_registry op reg)"
  by (cases op) (auto simp: well_keyed_def registry_add_def registry_remove_def)

lemma well_keyed_fold: "well_keyed reg \<Longrightarrow> well_keyed (fold apply_registry ops reg)"
  by (induction ops arbitrary: reg) (simp_all add: well_keyed_apply)

text \<open>
  Whatever connections have come and gone, a cancel request is passed on only to a target
  registered with exactly the process id and the secret key the client presents, as the packet
  of the protocol: its length, the cancel code, the process id and the key.  Once the
  connection has ended, the request reaches nobody.
\<close>

theorem cancel_routed:
  assumes "forward_cancel timeout (fold apply_registry ops Map.empty) pid secret = Some (net, addr, packet, t)"
  shows "(\<exists>target. ct_network target = net \<and> ct_address target = addr \<and> ct_pid target = pid \<and>
            ct_secret target = secret \<and> Add target \<in> set ops) \<and>
         packet = be 4 (word_of_nat (length packet) :: 32 word) @ be 4 (80877102 :: 32 word) @ be 4 pid @ secret \<and>
         0 < t \<and>
         (\<forall>target. ct_pid target = pid \<and> ct_secret target = secret \<longrightarrow>
            forward_cancel timeout (fold apply_registry (ops @ [Remove target]) Map.empty) pid secret = None)"
proof -
  let ?reg = "fold apply_registry ops Map.empty"
  obtain target where g: "?reg (postgresCancelKey pid secret) = Some target"
    "net = ct_network target" "addr = ct_address target"
    "packet = postgresCancelBytes (ct_pid target) (ct_secret target)" "t = cancel_timeout timeout"
    using assms by (auto simp: forward_cancel_def split: option.splits)
  have "well_keyed ?reg" by (rule well_keyed_fold) (simp add: well_keyed_def)
  hence "postgresCancelKey pid secret = postgresCancelKey (ct_pid target) (ct_secret target)"
    using g(1) by (simp add: well_keyed_def)
  hence t: "ct_pid target = pid" "ct_secret target = secret" by (simp_all add: cancel_key_inject)
  have "reg k = Some u \<longrightarrow> Add u \<in> set os" if "reg = fold apply_registry os Map.empty" for reg os k u
    using that
  proof (induction os arbitrary: reg k u rule: rev_induct)
    case (snoc op os)
    show ?case using snoc.IH [OF refl, of k u] snoc.prems
      by (cases op) (auto simp: registry_add_def registry_remove_def split: if_splits)
  qed simp
  hence "Add target \<in> set ops" using g(1) by blast
  moreover have "packet = be 4 (word_of_nat (length packet) :: 32 word) @ be 4 (80877102 :: 32 word) @ be 4 pid @ secret"
    by (simp add: g(4) t postgresCancelBytes_def)
  moreover have "0 < t" by (simp add: g(5) cancel_timeout_def)
  ultimately show ?thesis using g t
    by (auto simp: forward_cancel_def registry_remove_def)
qed

definition sample_cancel :: cancel_target where
  "sample_cancel = \<lparr>ct_network = ''tcp'', ct_address = ''10.0.0.9:5432'', ct_pid = 4711, ct_secret = [1, 2, 3, 4]\<rparr>"

theorem cancel_routed_witness:
  "\<exists>packet t. forward_cancel 0 (fold apply_registry [Add sample_cancel] Map.empty) 4711 [1, 2, 3, 4] =
      Some (''tcp'', ''10.0.0.9:5432'', packet, t) \<and> 0 < t \<and>
    forward_cancel 0 (fold apply_registry [Add sample_cancel, Remove sample_cancel] Map.empty) 4711 [1, 2, 3, 4] = None"
proof -
  have f: "forward_cancel 0 (fold apply_registry [Add sample_cancel] Map.empty) 4711 [1, 2, 3, 4] =
      Some (''tcp'', ''10.0.0.9:5432'', postgresCancelBytes 4711 [1, 2, 3, 4], 15000000000)"
    by (simp add: forward_cancel_def registry_add_def sample_cancel_def cancel_timeout_def)
  show ?thesis using cancel_routed [OF f] f by (simp add: sample_cancel_def)
qed

section \<open>What a connection needs before it reaches the target\<close>

lemma to_lower_appname: "to_lower ''application_name'' = ''application_name''"
  by code_simp

lemma target_params_identity:
  "to_lower k \<in> {''user'', ''database''} \<Longrightarrow> target_params base params k = base k"
  using to_lower_appname by (auto simp: target_params_def Let_def)

lemma session_user: "SiUserID (dbSessionInfo auth protocol native addr) = AuthUserID auth"
  by (simp add: dbSessionInfo_def Let_def)

lemma pg_serve_created:
  assumes "pr_created (pg_serve env addr out params auth) = Some info"
  shows "\<exists>sid. pe_create env info = Inr sid \<and> SiUserID info = AuthUserID auth \<and>
     pr_finished (pg_serve env addr out params auth) = [sid] \<and>
     pr_cancels (pg_serve env addr out params auth) = [] \<and>
     pr_opened (pg_serve env addr out params auth) = Some auth \<and>
     info = dbSessionInfo auth ''postgres'' ''postgres_client'' addr \<and>
     (\<forall>s. pr_relay (pg_serve env addr out params auth) = Some s \<longrightarrow>
        s = relay_start (newPostgresAuditState (AuthUserID auth) sid addr) \<and>
        (\<exists>target. openTarget env auth params = Inr target))"
  using assms by (auto simp: pg_serve_def pg_end_def session_user Let_def split: sum.splits)

lemma handleConn_pg_idle:
  "pr_created (handleConn_pg env addr startup) = None \<Longrightarrow>
   pr_finished (handleConn_pg env addr startup) = [] \<and> pr_opened (handleConn_pg env addr startup) = None \<and>
   pr_registered (handleConn_pg env addr startup) = None \<and> pr_relay (handleConn_pg env addr startup) = None"
  by (auto simp: handleConn_pg_def pg_serve_def pg_end_def Let_def split: prod.splits option.splits sum.splits if_splits)

lemma handleConn_pg_created:
  assumes "pr_created (handleConn_pg env addr startup) = Some info"
  shows "\<exists>out params auth. receiveStartup startup = (out, [], Some params) \<and>
     postgresStartupToken params \<noteq> '''' \<and>
     pe_verify env (postgresStartupToken params) addr ''postgres'' = Inr auth \<and>
     isPostgresProtocol (Protocol (Target auth)) \<and>
     handleConn_pg env addr startup = pg_serve env addr out params (with_database auth params)"
proof -
  have no_cancel: "cs = []" if "receiveStartup ms = (out, cs, Some ps)" for ms out cs ps
    using that by (induction ms arbitrary: out rule: receiveStartup.induct) (auto split: prod.splits)
  obtain out cs params where rs: "receiveStartup startup = (out, cs, Some params)"
    using assms by (auto simp: handleConn_pg_def pg_end_def split: prod.splits option.splits)
  thus ?thesis using assms no_cancel [OF rs]
    by (auto simp: handleConn_pg_def pg_end_def Let_def split: sum.splits if_splits)
qed

text \<open>What opening a target asks of the database driver.\<close>

lemma openTarget_Inr:
  assumes "openTarget env auth params = Inr target"
  shows "\<exists>base ps. pe_base env (buildPostgresDSN auth (pe_timeout env)) = Inr base \<and>
     pe_connect env (buildPostgresDSN auth (pe_timeout env)) ps = Inr target \<and>
     (\<forall>k. to_lower k \<in> {''user'', ''database''} \<longrightarrow> ps k = base k)"
proof -
  obtain base where b: "pe_base env (buildPostgresDSN auth (pe_timeout env)) = Inr base"
    "pe_connect env (buildPostgresDSN auth (pe_timeout env)) (target_params base params) = Inr target"
    using assms by (auto simp: openTarget_def rbind_Inr_iff Let_def)
  thus ?thesis using target_params_identity [of _ base params]
    by (intro exI [of _ base] exI [of _ "target_params base params"]) simp
qed


definition sample_pg_target :: pg_target where
  "sample_pg_target =
     \<lparr>pt_network = ''tcp'', pt_address = ''10.0.0.9:5432'', pt_pid = 4711, pt_secret = [1, 2, 3, 4],
      pt_status = [(''server_version'', ''16''), (''DateStyle'', ''ISO'')], pt_tx = chr 0\<rparr>"

definition sample_pg_env :: pg_env where
  "sample_pg_env =
     \<lparr>pe_verify = (\<lambda>token addr proto. if token = ''3f2a'' then Inr sample_target else Inl ErrUnauthorized),
      pe_create = (\<lambda>_. Inr 21), pe_base = (\<lambda>_. Inr Map.empty),
      pe_connect = (\<lambda>dsn ps. Inr sample_pg_target), pe_timeout = 15000000000\<rparr>"

definition sample_startup :: "startup_msg list" where
  "sample_startup = [SSLRequest, StartupMessage [''user'' \<mapsto> ''ann#3f2a'', ''options'' \<mapsto> ''-c x=y'']]"


end
