(* ===== verification/Store.thy ===== *)
theory Store
  imports Domain
begin

text \<open>
  The database and the statements of \<open>repository/store.go\<close> on users, roles, RDP proxy
  credentials, refresh tokens, settings and the audit log.  A table is the list of its
  rows in order of insertion, so \<open>ORDER BY id\<close> is the list's order.  One statement is
  atomic.  \<open>clock\<close> is \<open>CURRENT_TIMESTAMP\<close>; the schema's UNIQUE and PRIMARY KEY constraints
  are errors.  Foreign keys are enforced when \<open>foreign_keys\<close> holds: always on PostgreSQL,
  on SQLite with the pragma the default DSN sets.  A dangling reference is then an error,
  and a deletion cascades as the schema (\<open>migrations\<close>) says.  Failures of the connection
  are not modelled.
\<close>

section \<open>The database\<close>

datatype table =
    TUsers | TRoles | TAssets | TAccounts | TPermissions | TTokens | TSessions | TAudit
  | TPlatforms | TProtocols | TNodes

record db =
  clock :: time
  postgres :: bool
  foreign_keys :: bool
  next_id :: "table \<Rightarrow> int"
  users :: "user list"
  rdp_credentials :: "rdp_credential list"
  roles :: "role list"
  user_roles :: "(int \<times> int) list"
  user_groups :: "user_group list"
  group_users :: "(int \<times> int) list"
  platforms :: "platform list"
  platform_protocols :: "platform_protocol list"
  nodes :: "node list"
  asset_nodes :: "(int \<times> int) list"
  assets :: "asset list"
  accounts :: "account list"
  permissions :: "permission list"
  perm_users :: "(int \<times> int) list"
  perm_groups :: "(int \<times> int) list"
  perm_assets :: "(int \<times> int) list"
  perm_nodes :: "(int \<times> int) list"
  perm_accounts :: "(int \<times> int) list"
  tokens :: "connection_token list"
  sessions :: "session list"
  settings :: "setting list"
  refresh_tokens :: "refresh_token list"
  audit_logs :: "audit_log list"

type_synonym 'a store_action = "(db, error, 'a) action"

definition empty_db :: "time \<Rightarrow> db" where
  "empty_db t =
     \<lparr>clock = t, postgres = False, foreign_keys = True, next_id = (\<lambda>_. 1), users = [],
      rdp_credentials = [], roles = [], user_roles = [], user_groups = [], group_users = [],
      platforms = [], platform_protocols = [], nodes = [], asset_nodes = [],
      assets = [], accounts = [], permissions = [], perm_users = [], perm_groups = [],
      perm_assets = [], perm_nodes = [], perm_accounts = [], tokens = [], sessions = [],
      settings = [], refresh_tokens = [], audit_logs = []\<rparr>"

text \<open>A fresh id of a table, and the counter after it.\<close>

definition bump :: "table \<Rightarrow> db \<Rightarrow> db" where
  "bump t s = s\<lparr>next_id := (next_id s)(t := next_id s t + 1)\<rparr>"

text \<open>\<open>UPDATE \<dots> WHERE\<close>, and \<open>sql.ErrNoRows\<close> as \<open>domain.ErrNotFound\<close>.\<close>

definition update_rows :: "('r \<Rightarrow> bool) \<Rightarrow> ('r \<Rightarrow> 'r) \<Rightarrow> 'r list \<Rightarrow> 'r list" where
  "update_rows P f rows = map (\<lambda>r. if P r then f r else r) rows"

definition notFound :: "'r option \<Rightarrow> error + 'r" where
  "notFound r = (case r of None \<Rightarrow> Inl ErrNotFound | Some x \<Rightarrow> Inr x)"

text \<open>The reference check of an insert, and the referenced rows.\<close>

definition fk :: "db \<Rightarrow> bool \<Rightarrow> bool" where
  "fk s ok = (\<not> foreign_keys s \<or> ok)"

definition has_user :: "db \<Rightarrow> int \<Rightarrow> bool" where
  "has_user s i = list_ex (\<lambda>u. u_id u = i) (users s)"

definition has_role :: "db \<Rightarrow> int \<Rightarrow> bool" where
  "has_role s i = list_ex (\<lambda>r. r_id r = i) (roles s)"

definition has_group :: "db \<Rightarrow> int \<Rightarrow> bool" where
  "has_group s i = list_ex (\<lambda>g. g_id g = i) (user_groups s)"

definition has_platform :: "db \<Rightarrow> int \<Rightarrow> bool" where
  "has_platform s i = list_ex (\<lambda>p. pl_id p = i) (platforms s)"

definition has_node :: "db \<Rightarrow> int \<Rightarrow> bool" where
  "has_node s i = list_ex (\<lambda>n. n_id n = i) (nodes s)"

definition has_asset :: "db \<Rightarrow> int \<Rightarrow> bool" where
  "has_asset s i = list_ex (\<lambda>a. a_id a = i) (assets s)"

definition has_account :: "db \<Rightarrow> int \<Rightarrow> bool" where
  "has_account s i = list_ex (\<lambda>a. ac_id a = i) (accounts s)"

text \<open>A nullable reference.\<close>

definition ref_opt :: "(int \<Rightarrow> bool) \<Rightarrow> int option \<Rightarrow> bool" where
  "ref_opt P r = (case r of None \<Rightarrow> True | Some i \<Rightarrow> P i)"

lemma ref_opt_simps [simp]: "ref_opt P None" "ref_opt P (Some i) = P i"
  by (simp_all add: ref_opt_def)

text \<open>A transaction: an error rolls everything back.\<close>

definition withTx :: "'a store_action \<Rightarrow> 'a store_action" where
  "withTx m = (\<lambda>s. case m s of (Inl e, _) \<Rightarrow> (Inl e, s) | (Inr a, s') \<Rightarrow> (Inr a, s'))"

lemma notFound_simps [simp]: "notFound None = Inl ErrNotFound" "notFound (Some x) = Inr x"
  by (simp_all add: notFound_def)

lemma notFound_Inr [simp]: "notFound r = Inr x \<longleftrightarrow> r = Some x"
  by (cases r) simp_all

lemma set_update_rows:
  "set (update_rows P f rows) = {r. r \<in> set rows \<and> \<not> P r} \<union> f ` {r. r \<in> set rows \<and> P r}"
  by (auto simp: update_rows_def)

lemma bex_update_rows:
  "(\<exists>r \<in> set (update_rows P f rows). Q r) \<longleftrightarrow> (\<exists>r \<in> set rows. Q (if P r then f r else r))"
  unfolding update_rows_def by simp blast

lemma ball_update_rows:
  "(\<forall>r \<in> set (update_rows P f rows). Q r) \<longleftrightarrow> (\<forall>r \<in> set rows. Q (if P r then f r else r))"
  unfolding update_rows_def by auto

lemma length_update_rows [simp]: "length (update_rows P f rows) = length rows"
  by (simp add: update_rows_def)

lemma update_rows_None: "\<forall>r \<in> set rows. \<not> P r \<Longrightarrow> update_rows P f rows = rows"
  by (induction rows) (auto simp: update_rows_def)

lemma find_update_rows:
  assumes "\<And>r. Q (f r) = Q r"
  shows "find Q (update_rows P f rows) = map_option (\<lambda>r. if P r then f r else r) (find Q rows)"
  unfolding update_rows_def using assms by (induction rows) auto

lemma map_update_rows: "(\<And>r. g (f r) = g r) \<Longrightarrow> map g (update_rows P f rows) = map g rows"
  by (simp add: update_rows_def)

lemma withTx_error: "fst (withTx m s) = Inl e \<Longrightarrow> snd (withTx m s) = s"
  by (auto simp: withTx_def split: prod.splits sum.splits)

section \<open>Users\<close>

definition CreateUser :: "user \<Rightarrow> user store_action" where
  "CreateUser u = (\<lambda>s.
     if \<exists>v \<in> set (users s). u_username v = u_username u then (Inl ErrConstraint, s)
     else let row = u\<lparr>u_id := next_id s TUsers, u_last_login_at := None,
                      u_created_at := clock s, u_updated_at := clock s\<rparr>
          in (Inr row, (bump TUsers s)\<lparr>users := users s @ [row]\<rparr>))"

definition UpdateUser :: "user \<Rightarrow> user store_action" where
  "UpdateUser u = (\<lambda>s.
     case find (\<lambda>v. u_id v = u_id u) (users s) of
       None \<Rightarrow> (Inl ErrNotFound, s)
     | Some old \<Rightarrow>
         if \<exists>v \<in> set (users s). u_username v = u_username u \<and> u_id v \<noteq> u_id u
         then (Inl ErrConstraint, s)
         else let upd = (\<lambda>v. v\<lparr>u_username := u_username u, u_name := u_name u, u_email := u_email u,
                              u_password_hash := u_password_hash u, u_mfa_enabled := u_mfa_enabled u,
                              u_mfa_secret := u_mfa_secret u, u_is_active := u_is_active u,
                              u_updated_at := clock s\<rparr>)
              in (Inr (upd old), s\<lparr>users := update_rows (\<lambda>v. u_id v = u_id u) upd (users s)\<rparr>))"

definition TouchUserLogin :: "int \<Rightarrow> unit store_action" where
  "TouchUserLogin userID = (\<lambda>s.
     (Inr (), s\<lparr>users := update_rows (\<lambda>v. u_id v = userID)
                  (\<lambda>v. v\<lparr>u_last_login_at := Some (clock s), u_updated_at := clock s\<rparr>) (users s)\<rparr>))"

definition GetUser :: "int \<Rightarrow> db \<Rightarrow> error + user" where
  "GetUser i s = notFound (find (\<lambda>u. u_id u = i) (users s))"

definition GetUserByUsername :: "string \<Rightarrow> db \<Rightarrow> error + user" where
  "GetUserByUsername username s = notFound (find (\<lambda>u. u_username u = username) (users s))"

text \<open>
  Sessions refer to their user without a cascade, so they block its deletion; the audit
  log keeps its entries without the user.
\<close>

definition cascade_user :: "int \<Rightarrow> db \<Rightarrow> db" where
  "cascade_user i s =
     s\<lparr>rdp_credentials := filter (\<lambda>c. rc_user_id c \<noteq> i) (rdp_credentials s),
       user_roles := filter (\<lambda>(u, r). u \<noteq> i) (user_roles s),
       group_users := filter (\<lambda>(g, u). u \<noteq> i) (group_users s),
       perm_users := filter (\<lambda>(p, u). u \<noteq> i) (perm_users s),
       tokens := filter (\<lambda>t. t_user_id t \<noteq> i) (tokens s),
       refresh_tokens := filter (\<lambda>t. rt_user_id t \<noteq> i) (refresh_tokens s),
       audit_logs := update_rows (\<lambda>l. al_user_id l = Some i) (\<lambda>l. l\<lparr>al_user_id := None\<rparr>) (audit_logs s)\<rparr>"

definition DeleteUser :: "int \<Rightarrow> unit store_action" where
  "DeleteUser i = (\<lambda>s.
     let rest = filter (\<lambda>u. u_id u \<noteq> i) (users s)
     in if \<not> foreign_keys s \<or> \<not> has_user s i then (Inr (), s\<lparr>users := rest\<rparr>)
        else if list_ex (\<lambda>r. s_user_id r = i) (sessions s) then (Inl ErrConstraint, s)
        else (Inr (), (cascade_user i s)\<lparr>users := rest\<rparr>))"

section \<open>RDP proxy credentials\<close>

definition UpsertRDPProxyCredential :: "int \<Rightarrow> string \<Rightarrow> rdp_credential store_action" where
  "UpsertRDPProxyCredential userID hash = (\<lambda>s.
     case find (\<lambda>c. rc_user_id c = userID) (rdp_credentials s) of
       None \<Rightarrow>
         if \<not> fk s (has_user s userID) then (Inl ErrConstraint, s)
         else
         let row = \<lparr>rc_user_id = userID, rc_password_hash = hash, rc_is_enabled = True,
                    rc_created_at = clock s, rc_updated_at = clock s, rc_disabled_at = None\<rparr>
         in (Inr row, s\<lparr>rdp_credentials := rdp_credentials s @ [row]\<rparr>)
     | Some old \<Rightarrow>
         let upd = (\<lambda>c. c\<lparr>rc_password_hash := hash, rc_is_enabled := True, rc_disabled_at := None,
                          rc_updated_at := clock s\<rparr>)
         in (Inr (upd old),
             s\<lparr>rdp_credentials := update_rows (\<lambda>c. rc_user_id c = userID) upd (rdp_credentials s)\<rparr>))"

definition GetRDPProxyCredential :: "int \<Rightarrow> db \<Rightarrow> error + rdp_credential" where
  "GetRDPProxyCredential userID s =
     notFound (find (\<lambda>c. rc_user_id c = userID) (rdp_credentials s))"

definition DisableRDPProxyCredential :: "int \<Rightarrow> rdp_credential store_action" where
  "DisableRDPProxyCredential userID = (\<lambda>s.
     let upd = (\<lambda>c. c\<lparr>rc_is_enabled := False, rc_disabled_at := Some (clock s),
                      rc_updated_at := clock s\<rparr>)
     in case find (\<lambda>c. rc_user_id c = userID) (rdp_credentials s) of
          None \<Rightarrow> (Inl ErrNotFound, s)
        | Some old \<Rightarrow>
            (Inr (upd old),
             s\<lparr>rdp_credentials := update_rows (\<lambda>c. rc_user_id c = userID) upd (rdp_credentials s)\<rparr>))"

section \<open>Roles\<close>

text \<open>The rows of a link table; \<open>ok\<close> is the reference check of the linked id.\<close>

fun insert_links ::
    "(int \<Rightarrow> bool) \<Rightarrow> int \<Rightarrow> int list \<Rightarrow> (int \<times> int) list \<Rightarrow> error + (int \<times> int) list" where
  "insert_links ok i [] rows = Inr rows"
| "insert_links ok i (j # js) rows =
     (if (i, j) \<in> set rows \<or> \<not> ok j then Inl ErrConstraint
      else insert_links ok i js (rows @ [(i, j)]))"

lemma insert_links_ok:
  "distinct js \<Longrightarrow> \<forall>j \<in> set js. (i, j) \<notin> set rows \<and> ok j \<Longrightarrow>
   insert_links ok i js rows = Inr (rows @ map (Pair i) js)"
proof (induction js arbitrary: rows)
  case (Cons a js)
  hence "\<forall>j \<in> set js. (i, j) \<notin> set (rows @ [(i, a)]) \<and> ok j" by auto
  with Cons have "insert_links ok i js (rows @ [(i, a)]) = Inr ((rows @ [(i, a)]) @ map (Pair i) js)" by simp
  thus ?case using Cons.prems by simp
qed simp

definition SetUserRoles :: "int \<Rightarrow> int list \<Rightarrow> unit store_action" where
  "SetUserRoles userID roleIDs = withTx (\<lambda>s.
     let kept = filter (\<lambda>(u, r). u \<noteq> userID) (user_roles s)
     in case insert_links (\<lambda>r. fk s (has_user s userID \<and> has_role s r)) userID roleIDs kept of
          Inl e \<Rightarrow> (Inl e, s\<lparr>user_roles := kept\<rparr>)
        | Inr rows \<Rightarrow> (Inr (), s\<lparr>user_roles := rows\<rparr>))"

definition UserRoles :: "int \<Rightarrow> db \<Rightarrow> role list" where
  "UserRoles userID s = filter (\<lambda>r. (userID, r_id r) \<in> set (user_roles s)) (roles s)"

definition UserRoleNames :: "int \<Rightarrow> db \<Rightarrow> string list" where
  "UserRoleNames userID s = map r_name (UserRoles userID s)"

section \<open>Refresh tokens\<close>

definition CreateRefreshToken :: "refresh_token \<Rightarrow> unit store_action" where
  "CreateRefreshToken t = (\<lambda>s.
     if (\<exists>u \<in> set (refresh_tokens s). rt_id u = rt_id t \<or> rt_token_hash u = rt_token_hash t)
        \<or> \<not> fk s (has_user s (rt_user_id t))
     then (Inl ErrConstraint, s)
     else (Inr (), s\<lparr>refresh_tokens := refresh_tokens s @
                       [t\<lparr>rt_revoked_at := None, rt_created_at := clock s\<rparr>]\<rparr>))"

definition GetRefreshTokenByHash :: "string \<Rightarrow> db \<Rightarrow> error + refresh_token" where
  "GetRefreshTokenByHash hash s = notFound (find (\<lambda>t. rt_token_hash t = hash) (refresh_tokens s))"

definition unrevoked :: "string \<Rightarrow> refresh_token \<Rightarrow> bool" where
  "unrevoked i t = (rt_id t = i \<and> rt_revoked_at t = None)"

definition RevokeRefreshToken :: "string \<Rightarrow> unit store_action" where
  "RevokeRefreshToken i = (\<lambda>s.
     let affected = length (filter (unrevoked i) (refresh_tokens s));
         s' = s\<lparr>refresh_tokens := update_rows (unrevoked i)
                   (\<lambda>t. t\<lparr>rt_revoked_at := Some (clock s)\<rparr>) (refresh_tokens s)\<rparr>
     in if affected \<noteq> 1 then (Inl ErrUnauthorized, s') else (Inr (), s'))"

definition RevokeUserRefreshTokens :: "int \<Rightarrow> unit store_action" where
  "RevokeUserRefreshTokens userID = (\<lambda>s.
     (Inr (), s\<lparr>refresh_tokens := update_rows (\<lambda>t. rt_user_id t = userID \<and> rt_revoked_at t = None)
                  (\<lambda>t. t\<lparr>rt_revoked_at := Some (clock s)\<rparr>) (refresh_tokens s)\<rparr>))"

section \<open>Settings and the audit log\<close>

definition UpsertSetting :: "setting \<Rightarrow> unit store_action" where
  "UpsertSetting st = (\<lambda>s.
     let row = st\<lparr>st_updated_at := clock s\<rparr>
     in (Inr (), s\<lparr>settings :=
           (if \<exists>x \<in> set (settings s). st_key x = st_key st
            then update_rows (\<lambda>x. st_key x = st_key st) (\<lambda>_. row) (settings s)
            else settings s @ [row])\<rparr>))"

definition GetSetting :: "string \<Rightarrow> db \<Rightarrow> error + setting" where
  "GetSetting key s = notFound (find (\<lambda>x. st_key x = key) (settings s))"

definition Audit :: "int option \<Rightarrow> string \<Rightarrow> string \<Rightarrow> string \<Rightarrow> string \<Rightarrow> unit store_action" where
  "Audit userID act resource remoteAddr detail = (\<lambda>s.
     if \<not> fk s (ref_opt (has_user s) userID) then (Inl ErrConstraint, s)
     else (Inr (), (bump TAudit s)\<lparr>audit_logs := audit_logs s @
        [\<lparr>al_id = next_id s TAudit, al_user_id = userID, al_action = act, al_resource = resource,
          al_remote_addr = remoteAddr, al_detail = detail, al_created_at = clock s\<rparr>]\<rparr>))"

end
