(* ===== verification/StoreTokens.thy ===== *)
theory StoreTokens
  imports Store
begin

text \<open>
  Connection tokens and sessions of \<open>repository/store.go\<close>, and the contract the one-time
  operations share: however often and in whatever interleaving something is claimed, one
  claim at most succeeds.  Consuming a connection token, revoking a refresh token and
  finishing a session all satisfy it.
\<close>

section \<open>Operations that succeed once\<close>

text \<open>
  A run of requests, interleaved with other operations of the state, and the log of which
  requests succeeded.  A request may carry more than the key of what it claims.
\<close>

datatype ('r, 's) step = Claim 'r | Other "'s \<Rightarrow> 's"

fun run_steps :: "('r \<Rightarrow> 's \<Rightarrow> bool \<times> 's) \<Rightarrow> ('r, 's) step list \<Rightarrow> 's \<Rightarrow> ('r \<times> bool) list \<times> 's" where
  "run_steps claim [] s = ([], s)"
| "run_steps claim (Claim r # es) s =
     (let (ok, s1) = claim r s; (log, s2) = run_steps claim es s1 in ((r, ok) # log, s2))"
| "run_steps claim (Other f # es) s = run_steps claim es (f s)"

definition successes :: "('r \<Rightarrow> 'k) \<Rightarrow> 'k \<Rightarrow> ('r \<times> bool) list \<Rightarrow> nat" where
  "successes key k log = length (filter (\<lambda>(r, ok). key r = k \<and> ok) log)"

lemma successes_simps [simp]:
  "successes key k [] = 0"
  "successes key k ((r, ok) # log) = (if key r = k \<and> ok then Suc else id) (successes key k log)"
  by (simp_all add: successes_def)

text \<open>
  The contract: a request succeeds only while what it claims is live, a success ends its
  life, and no request brings anything back to life.
\<close>

locale one_shot =
  fixes claim :: "'r \<Rightarrow> 's \<Rightarrow> bool \<times> 's"
    and key :: "'r \<Rightarrow> 'k"
    and live :: "'k \<Rightarrow> 's \<Rightarrow> bool"
  assumes claim_live: "fst (claim r s) \<Longrightarrow> live (key r) s"
    and claim_kills: "fst (claim r s) \<Longrightarrow> \<not> live (key r) (snd (claim r s))"
    and claim_dead: "\<not> live k s \<Longrightarrow> \<not> live k (snd (claim r s))"
begin

lemma dead_forever:
  assumes "\<not> live k s"
    and "\<And>f t. Other f \<in> set es \<Longrightarrow> \<not> live k t \<Longrightarrow> \<not> live k (f t)"
  shows "successes key k (fst (run_steps claim es s)) = 0"
  using assms
proof (induction es arbitrary: s)
  case (Cons e es)
  show ?case
  proof (cases e)
    case (Claim r)
    obtain ok s1 where c: "claim r s = (ok, s1)" by force
    hence "\<not> live k s1" using claim_dead [OF Cons.prems(1), of r] by simp
    moreover have "\<not> (key r = k \<and> ok)" using claim_live [of r s] c Cons.prems(1) by auto
    moreover obtain log s2 where "run_steps claim es s1 = (log, s2)" by force
    ultimately show ?thesis using Cons.IH [of s1] Cons.prems(2) Claim c by auto
  qed (use Cons in simp)
qed simp

lemma at_most_once:
  assumes "\<And>f t. Other f \<in> set es \<Longrightarrow> \<not> live k t \<Longrightarrow> \<not> live k (f t)"
  shows "successes key k (fst (run_steps claim es s)) \<le> 1"
  using assms
proof (induction es arbitrary: s)
  case (Cons e es)
  show ?case
  proof (cases e)
    case (Claim r)
    obtain ok s1 where c: "claim r s = (ok, s1)" by force
    obtain log s2 where l: "run_steps claim es s1 = (log, s2)" by force
    show ?thesis
    proof (cases "key r = k \<and> ok")
      case True
      hence "\<not> live k s1" using claim_kills [of r s] c by auto
      hence "successes key k log = 0" using dead_forever [of k s1 es] Cons.prems l by simp
      thus ?thesis using Claim c l by simp
    next
      case False
      have "successes key k log \<le> 1" using Cons.IH [of s1] Cons.prems l by simp
      thus ?thesis using Claim c l False by auto
    qed
  qed (use Cons in simp)
qed simp

end

section \<open>Connection tokens\<close>

definition CreateConnectionToken :: "connection_token \<Rightarrow> connection_token store_action" where
  "CreateConnectionToken t = (\<lambda>s.
     if (\<exists>u \<in> set (tokens s). t_value u = t_value t)
        \<or> \<not> fk s (has_user s (t_user_id t) \<and> has_asset s (t_asset_id t) \<and> has_account s (t_account_id t))
     then (Inl ErrConstraint, s)
     else let row = t\<lparr>t_id := next_id s TTokens, t_used_at := None, t_created_at := clock s\<rparr>
          in (Inr row, (bump TTokens s)\<lparr>tokens := tokens s @ [row]\<rparr>))"

definition GetConnectionToken :: "string \<Rightarrow> db \<Rightarrow> error + connection_token" where
  "GetConnectionToken value s = notFound (find (\<lambda>t. t_value t = value) (tokens s))"

definition claimable :: "time \<Rightarrow> string \<Rightarrow> connection_token \<Rightarrow> bool" where
  "claimable now v t =
     (t_value t = v \<and> \<not> t_is_reusable t \<and> t_used_at t = None \<and> now < t_expires_at t)"

definition ConsumeConnectionToken :: "string \<Rightarrow> connection_token store_action" where
  "ConsumeConnectionToken v = (\<lambda>s.
     let P = claimable (clock s) v; upd = (\<lambda>t. t\<lparr>t_used_at := Some (clock s)\<rparr>)
     in (notFound (map_option upd (find P (tokens s))), s\<lparr>tokens := update_rows P upd (tokens s)\<rparr>))"

definition succeeded :: "('e + 'a) \<times> 's \<Rightarrow> bool \<times> 's" where
  "succeeded r = (case r of (Inl _, s) \<Rightarrow> (False, s) | (Inr _, s) \<Rightarrow> (True, s))"

definition token_live :: "string \<Rightarrow> db \<Rightarrow> bool" where
  "token_live v s = (\<exists>t \<in> set (tokens s). claimable (clock s) v t)"

lemma snd_succeeded [simp]: "snd (succeeded r) = snd r"
  by (simp add: succeeded_def split: prod.split sum.split)

lemma fst_succeeded [simp]: "fst (succeeded r) \<longleftrightarrow> \<not> isl (fst r)"
  by (simp add: succeeded_def split: prod.split sum.split)

lemma Consume_fst: "isl (fst (ConsumeConnectionToken v s)) \<longleftrightarrow> \<not> token_live v s"
proof (cases "find (claimable (clock s) v) (tokens s)")
  case None
  moreover from None have "\<not> token_live v s" by (simp add: token_live_def find_None_set)
  ultimately show ?thesis by (simp add: ConsumeConnectionToken_def Let_def)
next
  case (Some t)
  thus ?thesis using find_Some_iff [OF Some]
    by (auto simp: ConsumeConnectionToken_def Let_def token_live_def)
qed

lemma Consume_live:
  "token_live v (snd (ConsumeConnectionToken w s)) \<longleftrightarrow> token_live v s \<and> v \<noteq> w"
proof -
  have "claimable n v (if claimable n w t then t\<lparr>t_used_at := Some n\<rparr> else t) \<longleftrightarrow>
        claimable n v t \<and> v \<noteq> w" for n t
    by (auto simp: claimable_def)
  thus ?thesis
    by (simp add: ConsumeConnectionToken_def Let_def token_live_def bex_update_rows)
qed

interpretation token_claim: one_shot "\<lambda>v s. succeeded (ConsumeConnectionToken v s)" id token_live
  by unfold_locales (simp_all add: Consume_fst Consume_live)

section \<open>Refresh tokens\<close>

definition refresh_live :: "string \<Rightarrow> db \<Rightarrow> bool" where
  "refresh_live i s = (length (filter (unrevoked i) (refresh_tokens s)) = 1)"

lemma filter_update_rows_other:
  assumes "\<And>r. P r \<Longrightarrow> \<not> Q r" and "\<And>r. P r \<Longrightarrow> \<not> Q (f r)"
  shows "filter Q (update_rows P f rows) = filter Q rows"
  using assms by (induction rows) (auto simp: update_rows_def)

lemma filter_update_rows_self:
  "(\<And>r. \<not> P (f r)) \<Longrightarrow> filter P (update_rows P f rows) = []"
  by (auto simp: update_rows_def filter_empty_conv)

lemma RevokeRefreshToken_rows:
  "filter (unrevoked i) (refresh_tokens (snd (RevokeRefreshToken j s))) =
   (if i = j then [] else filter (unrevoked i) (refresh_tokens s))"
proof (cases "i = j")
  case True
  thus ?thesis
    by (simp add: RevokeRefreshToken_def Let_def filter_update_rows_self unrevoked_def)
next
  case False
  hence "filter (unrevoked i) (update_rows (unrevoked j) f rows) = filter (unrevoked i) rows"
    if "\<And>r. rt_id (f r) = rt_id r" for f and rows :: "refresh_token list"
    using that by (intro filter_update_rows_other) (auto simp: unrevoked_def)
  thus ?thesis using False by (simp add: RevokeRefreshToken_def Let_def)
qed

interpretation refresh_claim: one_shot "\<lambda>i s. succeeded (RevokeRefreshToken i s)" id refresh_live
proof unfold_locales
  fix i s
  assume "fst (succeeded (RevokeRefreshToken i s))"
  thus "refresh_live (id i) s"
    by (auto simp: RevokeRefreshToken_def Let_def refresh_live_def split: if_splits)
qed (simp_all add: refresh_live_def RevokeRefreshToken_rows)

section \<open>Sessions\<close>

definition CreateSession :: "session \<Rightarrow> session store_action" where
  "CreateSession sess = (\<lambda>s.
     if \<not> fk s (has_user s (s_user_id sess) \<and> has_asset s (s_asset_id sess) \<and> has_account s (s_account_id sess))
     then (Inl ErrConstraint, s)
     else let row = sess\<lparr>s_id := next_id s TSessions, s_date_start := clock s, s_date_end := None,
                    s_created_at := clock s, s_updated_at := clock s\<rparr>
     in (Inr row, (bump TSessions s)\<lparr>sessions := sessions s @ [row]\<rparr>))"

definition active_like :: "session \<Rightarrow> session \<Rightarrow> bool" where
  "active_like sess r =
     (\<not> s_is_finished r \<and> s_protocol r = s_protocol sess \<and> s_login_from r = s_login_from sess)"

text \<open>The session as stored, or \<open>None\<close> when the limit is reached.\<close>

definition CreateSessionUnderActiveLimit :: "session \<Rightarrow> int \<Rightarrow> session option store_action" where
  "CreateSessionUnderActiveLimit sess limit = (\<lambda>s.
     let limit = (if limit \<le> 0 then 1 else limit)
     in if int (length (filter (active_like sess) (sessions s))) < limit
        then (case CreateSession sess s of
                (Inr row, s') \<Rightarrow> (Inr (Some row), s')
              | (Inl e, s') \<Rightarrow> (Inl e, s'))
        else (Inr None, s))"

definition UpdateSession :: "session \<Rightarrow> session store_action" where
  "UpdateSession sess = (\<lambda>s.
     let upd = (\<lambda>r. r\<lparr>s_is_finished := s_is_finished sess, s_date_end := s_date_end sess,
                      s_recording_path := s_recording_path sess, s_updated_at := clock s\<rparr>)
     in case find (\<lambda>r. s_id r = s_id sess) (sessions s) of
          None \<Rightarrow> (Inl ErrNotFound, s)
        | Some old \<Rightarrow>
            (Inr (upd old), s\<lparr>sessions := update_rows (\<lambda>r. s_id r = s_id sess) upd (sessions s)\<rparr>))"

definition GetSession :: "int \<Rightarrow> db \<Rightarrow> error + session" where
  "GetSession i s = notFound (find (\<lambda>r. s_id r = i) (sessions s))"

definition unfinished :: "int \<Rightarrow> session \<Rightarrow> bool" where
  "unfinished i r = (s_id r = i \<and> \<not> s_is_finished r)"

definition FinishSessionOnce :: "int \<Rightarrow> string \<Rightarrow> (session \<times> bool) store_action" where
  "FinishSessionOnce i recordingPath = (\<lambda>s.
     let upd = (\<lambda>r. r\<lparr>s_is_finished := True,
                      s_date_end := (case s_date_end r of None \<Rightarrow> Some (clock s) | Some d \<Rightarrow> Some d),
                      s_recording_path := (if recordingPath \<noteq> '''' then recordingPath else s_recording_path r),
                      s_updated_at := clock s\<rparr>)
     in case find (unfinished i) (sessions s) of
          Some old \<Rightarrow>
            (Inr (upd old, True), s\<lparr>sessions := update_rows (unfinished i) upd (sessions s)\<rparr>)
        | None \<Rightarrow> (rbind (GetSession i s) (\<lambda>existing. Inr (existing, False)), s))"

definition ListActiveNativeRDPSessionIDs :: "db \<Rightarrow> int list" where
  "ListActiveNativeRDPSessionIDs s =
     map s_id (filter (\<lambda>r. \<not> s_is_finished r \<and> s_protocol r = ''rdp'' \<and> s_type r = ''rdp''
                          \<and> s_login_from r = ''rdp_client'') (sessions s))"

text \<open>Finishing as a claim: it succeeds when this call changed the session.\<close>

definition finish_claim :: "int \<times> string \<Rightarrow> db \<Rightarrow> bool \<times> db" where
  "finish_claim r s =
     (case FinishSessionOnce (fst r) (snd r) s of
        (Inr (_, changed), s') \<Rightarrow> (changed, s') | (Inl _, s') \<Rightarrow> (False, s'))"

definition session_live :: "int \<Rightarrow> db \<Rightarrow> bool" where
  "session_live i s = (\<exists>r \<in> set (sessions s). unfinished i r)"

lemma session_live_find: "session_live i s \<longleftrightarrow> find (unfinished i) (sessions s) \<noteq> None"
  by (simp add: session_live_def find_None_set)

lemma finish_claim_dead: "\<not> session_live (fst r) s \<Longrightarrow> finish_claim r s = (False, s)"
  by (simp add: session_live_find finish_claim_def FinishSessionOnce_def rbind_def split: sum.split)

lemma finish_claim_live:
  assumes "session_live (fst r) s"
  shows "\<exists>t. finish_claim r s = (True, t) \<and>
             (\<forall>j. session_live j t \<longleftrightarrow> session_live j s \<and> j \<noteq> fst r)"
proof -
  obtain x where x: "find (unfinished (fst r)) (sessions s) = Some x"
    using assms by (auto simp: session_live_find)
  define upd :: "session \<Rightarrow> session" where "upd = (\<lambda>x. x\<lparr>s_is_finished := True,
      s_date_end := (case s_date_end x of None \<Rightarrow> Some (clock s) | Some d \<Rightarrow> Some d),
      s_recording_path := (if snd r \<noteq> '''' then snd r else s_recording_path x),
      s_updated_at := clock s\<rparr>)"
  let ?t = "s\<lparr>sessions := update_rows (unfinished (fst r)) upd (sessions s)\<rparr>"
  have t: "finish_claim r s = (True, ?t)"
    unfolding finish_claim_def FinishSessionOnce_def Let_def x upd_def by simp
  have "unfinished j (if unfinished (fst r) y then upd y else y) \<longleftrightarrow> unfinished j y \<and> j \<noteq> fst r" for j y
    by (auto simp: unfinished_def upd_def)
  hence "session_live j ?t \<longleftrightarrow> session_live j s \<and> j \<noteq> fst r" for j
    by (simp add: session_live_def bex_update_rows)
  thus ?thesis using t by blast
qed

interpretation session_finish: one_shot finish_claim fst session_live
proof unfold_locales
  fix k r s
  show "fst (finish_claim r s) \<Longrightarrow> session_live (fst r) s"
    using finish_claim_dead by (metis fst_conv)
  show "fst (finish_claim r s) \<Longrightarrow> \<not> session_live (fst r) (snd (finish_claim r s))"
    using finish_claim_dead finish_claim_live by (metis fst_conv snd_conv)
  show "\<not> session_live k s \<Longrightarrow> \<not> session_live k (snd (finish_claim r s))"
    using finish_claim_dead finish_claim_live by (metis snd_conv)
qed

text \<open>
  Of all the requests that try to finish one session, whatever recording path they
  carry and whatever else happens to the database between them as long as nothing reopens
  the session, one at most is told that it changed it.
\<close>

theorem finish_at_most_once:
  assumes "\<And>f t. Other f \<in> set es \<Longrightarrow> \<not> session_live i t \<Longrightarrow> \<not> session_live i (f t)"
  shows "successes fst i (fst (run_steps finish_claim es s)) \<le> 1"
  using session_finish.at_most_once [of es i s] assms by blast

definition sample_session :: session where
  "sample_session =
     \<lparr>s_id = 1, s_user_id = 1, s_asset_id = 1, s_account_id = 1, s_protocol = ''rdp'', s_type = ''rdp'',
      s_login_from = ''rdp_client'', s_remote_addr = '''', s_recording_path = '''', s_is_finished = False,
      s_date_start = 0, s_date_end = None, s_created_at = 0, s_updated_at = 0\<rparr>"

theorem finish_at_most_once_witness:
  "successes fst 1 (fst (run_steps finish_claim
     [Claim (1, ''a.cast''), Other (\<lambda>s. s\<lparr>clock := clock s + 1\<rparr>), Claim (1, '''')]
     ((empty_db 5)\<lparr>sessions := [sample_session]\<rparr>))) = 1"
proof -
  let ?es = "[Claim (1, ''a.cast''), Other (\<lambda>s. s\<lparr>clock := clock s + 1\<rparr>), Claim (1, '''')]"
  let ?s = "(empty_db 5)\<lparr>sessions := [sample_session]\<rparr>"
  have "successes fst 1 (fst (run_steps finish_claim ?es ?s)) \<le> 1"
    by (rule finish_at_most_once) (auto simp: session_live_def)
  moreover have "fst (finish_claim (1, ''a.cast'') ?s)"
    by (simp add: finish_claim_def FinishSessionOnce_def unfinished_def sample_session_def)
  ultimately show ?thesis by (auto split: prod.splits)
qed

section \<open>The limit on active sessions\<close>

datatype session_op = Start session | Finish int string

text \<open>
  Starting under the limit and finishing, the ways in which the service of native RDP changes its
  sessions.  The general update of a session, which can also open a finished one again, is not
  among them.
\<close>

fun apply_op :: "int \<Rightarrow> session_op \<Rightarrow> db \<Rightarrow> db" where
  "apply_op limit (Start sess) s = snd (CreateSessionUnderActiveLimit sess limit s)"
| "apply_op limit (Finish i path) s = snd (FinishSessionOnce i path s)"

definition active_count :: "string \<Rightarrow> string \<Rightarrow> db \<Rightarrow> nat" where
  "active_count proto orig s =
     length (filter (\<lambda>r. \<not> s_is_finished r \<and> s_protocol r = proto \<and> s_login_from r = orig) (sessions s))"

lemma active_count_start:
  "active_count proto orig (apply_op limit (Start sess) s) \<le>
   max (nat (max 1 limit)) (active_count proto orig s)"
proof -
  have "active_like sess = (\<lambda>r. \<not> s_is_finished r \<and> s_protocol r = s_protocol sess
                               \<and> s_login_from r = s_login_from sess)"
    by (rule ext) (simp add: active_like_def)
  thus ?thesis
    by (auto simp: CreateSessionUnderActiveLimit_def CreateSession_def Let_def active_count_def bump_def
        max_def)
qed

lemma length_filter_update_le:
  "(\<And>r. P r \<Longrightarrow> Q (f r) \<Longrightarrow> Q r) \<Longrightarrow> length (filter Q (update_rows P f rows)) \<le> length (filter Q rows)"
  by (induction rows) (auto simp: update_rows_def)

lemma active_count_finish:
  "active_count proto orig (apply_op limit (Finish i path) s) \<le> active_count proto orig s"
  by (auto simp: FinishSessionOnce_def Let_def active_count_def
      split: option.split intro!: length_filter_update_le)

text \<open>
  C27: However native RDP sessions are started under the limit and finished, never more of them
  are active at once than the configured limit allows (at least one).
\<close>

theorem active_sessions_bounded:
  assumes "active_count proto orig s \<le> nat (max 1 limit)"
  shows "active_count proto orig (fold (apply_op limit) ops s) \<le> nat (max 1 limit)"
  using assms
proof (induction ops arbitrary: s)
  case (Cons op ops)
  have "active_count proto orig (apply_op limit op s) \<le> nat (max 1 limit)"
    using Cons.prems active_count_start [of proto orig limit _ s] active_count_finish [of proto orig limit _ _ s]
    by (cases op) (metis max.absorb1, meson le_trans)
  thus ?case using Cons.IH by simp
qed simp

text \<open>Two starts and a finish between them, on a database that does not enforce foreign keys.\<close>

theorem active_sessions_bounded_witness:
  "active_count ''rdp'' ''rdp_client''
     (fold (apply_op 1) [Start sample_session, Start sample_session, Finish 1 '''', Start sample_session]
        ((empty_db 0)\<lparr>foreign_keys := False\<rparr>)) \<le> nat (max 1 1) \<and>
   active_count ''rdp'' ''rdp_client''
     (fold (apply_op 1) [Start sample_session, Start sample_session] ((empty_db 0)\<lparr>foreign_keys := False\<rparr>)) = 1"
proof
  show "active_count ''rdp'' ''rdp_client''
     (fold (apply_op 1) [Start sample_session, Start sample_session, Finish 1 '''', Start sample_session]
        ((empty_db 0)\<lparr>foreign_keys := False\<rparr>)) \<le> nat (max 1 1)"
    by (rule active_sessions_bounded) (simp add: active_count_def empty_db_def)
  show "active_count ''rdp'' ''rdp_client''
     (fold (apply_op 1) [Start sample_session, Start sample_session] ((empty_db 0)\<lparr>foreign_keys := False\<rparr>)) = 1"
    by (simp add: active_count_def CreateSessionUnderActiveLimit_def CreateSession_def active_like_def fk_def Let_def
        sample_session_def empty_db_def bump_def)
qed

end
