(* ===== verification/AuthService.thy ===== *)
theory AuthService
  imports Auth StoreTokens DbTypes
begin

text \<open>
  Logging in (\<open>service/auth.go\<close>): passwords, one-time codes, the two tokens of a login and
  the rotation of the refresh token, with the settings they read
  (\<open>service/settings_policy.go\<close>).  What is drawn at random or read from the clock during
  a call is an argument of it.
\<close>

section \<open>Settings that steer policies\<close>

definition json_bool :: "string \<Rightarrow> bool option" where
  "json_bool s =
     (if s = ''true'' then Some True
      else if s = ''false'' \<or> s = ''null'' then Some False else None)"

definition ParseBool :: "string \<Rightarrow> bool option" where
  "ParseBool s =
     (if s \<in> set [''1'', ''t'', ''T'', ''true'', ''TRUE'', ''True''] then Some True
      else if s \<in> set [''0'', ''f'', ''F'', ''false'', ''FALSE'', ''False''] then Some False
      else None)"

definition settingBool :: "db \<Rightarrow> string \<Rightarrow> bool \<Rightarrow> bool" where
  "settingBool s key fallback =
     (case GetSetting key s of
        Inl e \<Rightarrow> fallback
      | Inr st \<Rightarrow>
          let raw = trim_space (st_value st)
          in if raw = '''' then fallback
             else case json_bool raw of
                    Some b \<Rightarrow> b
                  | None \<Rightarrow> (case ParseBool (trim_set (\<lambda>c. c = chr 34) raw) of
                              Some b \<Rightarrow> b | None \<Rightarrow> fallback))"

definition settingInt :: "db \<Rightarrow> string \<Rightarrow> int \<Rightarrow> int" where
  "settingInt s key fallback =
     (case GetSetting key s of
        Inl e \<Rightarrow> fallback
      | Inr st \<Rightarrow>
          let raw = trim_space (st_value st)
          in if raw = '''' then fallback
             else case json_int raw of
                    Some n \<Rightarrow> n
                  | None \<Rightarrow> (case parse_int64 (trim_set (\<lambda>c. c = chr 34) raw) of
                              Some n \<Rightarrow> n | None \<Rightarrow> fallback))"

section \<open>Signing in\<close>

record auth_env =
  ae_argon2 :: argon2id
  ae_hmac :: "byte list \<Rightarrow> byte list \<Rightarrow> byte list"
  ae_jwt :: jwt_manager
  ae_issuer :: string

text \<open>What one call draws: the ids, the 32 bytes of the refresh token and the times.\<close>

record fresh =
  f_jti :: string
  f_uuid :: string
  f_bytes :: "byte list"
  f_now :: time

record login_result =
  lr_require_mfa :: bool
  lr_require_mfa_setup :: bool
  lr_access_token :: string
  lr_access_expires :: time
  lr_refresh_token :: string
  lr_refresh_expires :: time
  lr_user :: "user option"
  lr_roles :: "string list"

definition mfa_challenge :: login_result where
  "mfa_challenge =
     \<lparr>lr_require_mfa = True, lr_require_mfa_setup = False, lr_access_token = '''', lr_access_expires = 0,
      lr_refresh_token = '''', lr_refresh_expires = 0, lr_user = None, lr_roles = []\<rparr>"

definition issueTokensWithRoles ::
    "auth_env \<Rightarrow> fresh \<Rightarrow> user \<Rightarrow> string list \<Rightarrow> bool \<Rightarrow> login_result store_action" where
  "issueTokensWithRoles env fr user names requireMFASetup =
     (let (access, accessExpires) =
            SignAccessToken (ae_jwt env) (f_jti fr) (f_now fr) (u_id user) (u_username user) names;
          (refreshID, refreshRaw, refreshHash, refreshExpires) =
            NewRefreshToken (ae_jwt env) (f_uuid fr) (f_bytes fr) (f_now fr)
      in abind (CreateRefreshToken
                  \<lparr>rt_id = refreshID, rt_user_id = u_id user, rt_token_hash = refreshHash,
                   rt_expires_at = refreshExpires, rt_revoked_at = None, rt_created_at = 0\<rparr>) (\<lambda>_.
         ret \<lparr>lr_require_mfa = False, lr_require_mfa_setup = requireMFASetup, lr_access_token = access,
              lr_access_expires = accessExpires, lr_refresh_token = refreshRaw,
              lr_refresh_expires = refreshExpires, lr_user = Some user, lr_roles = names\<rparr>))"

definition issueTokens :: "auth_env \<Rightarrow> fresh \<Rightarrow> user \<Rightarrow> login_result store_action" where
  "issueTokens env fr user = (\<lambda>s.
     issueTokensWithRoles env fr user (UserRoleNames (u_id user) s) False s)"

definition issueSetupTokens :: "auth_env \<Rightarrow> fresh \<Rightarrow> user \<Rightarrow> login_result store_action" where
  "issueSetupTokens env fr user = issueTokensWithRoles env fr user [] True"

definition Login :: "auth_env \<Rightarrow> fresh \<Rightarrow> int \<Rightarrow> string \<Rightarrow> string \<Rightarrow> string \<Rightarrow> login_result store_action" where
  "Login env fr unix username password mfaCode = (\<lambda>s.
     case GetUserByUsername username s of
       Inl e \<Rightarrow> (Inl ErrUnauthorized, s)
     | Inr user \<Rightarrow>
         if \<not> u_is_active user then (Inl ErrUnauthorized, s)
         else
           case VerifyPassword (ae_argon2 env) password (u_password_hash user) of
             Inl (ErrPanic p) \<Rightarrow> (Inl (ErrPanic p), s)
           | Inl e \<Rightarrow> (Inl ErrUnauthorized, s)
           | Inr ok \<Rightarrow>
               if \<not> ok then (Inl ErrUnauthorized, s)
               else
                 let mfaRequired = u_mfa_enabled user \<or> settingBool s ''security.mfa_required'' False;
                     proceed = abind (attempt (TouchUserLogin (u_id user))) (\<lambda>_. issueTokens env fr user)
                 in if mfaRequired then
                      if \<not> u_mfa_enabled user then issueSetupTokens env fr user s
                      else if trim_space mfaCode = '''' then (Inr mfa_challenge, s)
                      else if \<not> ValidateTOTP (ae_hmac env) unix mfaCode (u_mfa_secret user)
                           then (Inl ErrUnauthorized, s)
                      else proceed s
                    else proceed s)"

definition Refresh :: "auth_env \<Rightarrow> fresh \<Rightarrow> time \<Rightarrow> string \<Rightarrow> login_result store_action" where
  "Refresh env fr now refreshToken = (\<lambda>s.
     case GetRefreshTokenByHash (HashRefreshToken (ae_jwt env) refreshToken) s of
       Inl e \<Rightarrow> (Inl ErrUnauthorized, s)
     | Inr stored \<Rightarrow>
         if rt_revoked_at stored \<noteq> None \<or> rt_expires_at stored < now then (Inl ErrUnauthorized, s)
         else
           abind (RevokeRefreshToken (rt_id stored)) (\<lambda>_.
           abind (query (GetUser (rt_user_id stored))) (\<lambda>user s.
             if \<not> u_is_active user then (Inl ErrUnauthorized, s)
             else if settingBool s ''security.mfa_required'' False \<and> \<not> u_mfa_enabled user
             then issueSetupTokens env fr user s
             else issueTokens env fr user s)) s)"

definition Logout :: "int \<Rightarrow> unit store_action" where
  "Logout userID = RevokeUserRefreshTokens userID"

definition SetupMFA :: "auth_env \<Rightarrow> byte list \<Rightarrow> int \<Rightarrow> totp_setup store_action" where
  "SetupMFA env secretBytes userID =
     abind (query (GetUser userID)) (\<lambda>user.
       if u_mfa_enabled user then throw ErrConflict
       else let setup = GenerateTOTP secretBytes (ae_issuer env) (u_username user)
            in abind (UpdateUser (user\<lparr>u_mfa_secret := ts_secret setup\<rparr>)) (\<lambda>_. ret setup))"

definition VerifyMFA :: "auth_env \<Rightarrow> int \<Rightarrow> int \<Rightarrow> string \<Rightarrow> unit store_action" where
  "VerifyMFA env unix userID code =
     abind (query (GetUser userID)) (\<lambda>user.
       if trim_space (u_mfa_secret user) = '''' \<or> \<not> ValidateTOTP (ae_hmac env) unix code (u_mfa_secret user)
       then throw ErrUnauthorized
       else abind (UpdateUser (user\<lparr>u_mfa_enabled := True\<rparr>)) (\<lambda>_. ret ()))"

section \<open>What a login proves\<close>

lemma GetUser_cong: "users s = users t \<Longrightarrow> GetUser i s = GetUser i t"
  by (simp add: GetUser_def)

lemma issueTokensWithRoles_Inr:
  assumes "issueTokensWithRoles env fr user names mark s = (Inr r, s')"
  shows "\<not> lr_require_mfa r" and "lr_require_mfa_setup r = mark" and "lr_user r = Some user"
    and "lr_roles r = names"
    and "users s' = users s"
  using assms
  by (auto simp: issueTokensWithRoles_def SignAccessToken_def NewRefreshToken_def Let_def abind_Inr_iff
      CreateRefreshToken_def split: if_splits)

lemma TouchUserLogin_names: "UserRoleNames i (snd (TouchUserLogin u s)) = UserRoleNames i s"
  by (simp add: TouchUserLogin_def UserRoleNames_def UserRoles_def)

text \<open>What must hold for \<open>r\<close> to be handed out to \<open>username\<close>.\<close>

definition signed_in :: "auth_env \<Rightarrow> int \<Rightarrow> string \<Rightarrow> string \<Rightarrow> string \<Rightarrow> db \<Rightarrow> login_result \<Rightarrow> user \<Rightarrow> bool" where
  "signed_in env unix username password mfaCode s r user =
     (GetUserByUsername username s = Inr user \<and> u_is_active user \<and>
      VerifyPassword (ae_argon2 env) password (u_password_hash user) = Inr True \<and> lr_user r = Some user \<and>
      (if lr_require_mfa_setup r
       then \<not> u_mfa_enabled user \<and> settingBool s ''security.mfa_required'' False \<and> lr_roles r = []
       else (u_mfa_enabled user \<longrightarrow> ValidateTOTP (ae_hmac env) unix mfaCode (u_mfa_secret user)) \<and>
            (settingBool s ''security.mfa_required'' False \<longrightarrow> u_mfa_enabled user) \<and>
            lr_roles r = UserRoleNames (u_id user) s))"

lemma Login_Inr:
  assumes "Login env fr unix username password mfaCode s = (Inr r, s')" and "\<not> lr_require_mfa r"
  shows "\<exists>user. signed_in env unix username password mfaCode s r user"
proof -
  obtain user where user: "GetUserByUsername username s = Inr user" "u_is_active user"
    and pw: "VerifyPassword (ae_argon2 env) password (u_password_hash user) = Inr True"
    using assms(1) by (auto simp: Login_def split: sum.splits if_splits error.splits)
  have *: "signed_in env unix username password mfaCode s r user"
    if "abind (attempt (TouchUserLogin (u_id user))) (\<lambda>_. issueTokens env fr user) s = (Inr r, s')"
      and "u_mfa_enabled user \<longrightarrow> ValidateTOTP (ae_hmac env) unix mfaCode (u_mfa_secret user)"
      and "settingBool s ''security.mfa_required'' False \<longrightarrow> u_mfa_enabled user"
    using that user pw issueTokensWithRoles_Inr(2-4) [of env fr user _ False _ r s']
      TouchUserLogin_names [of "u_id user" "u_id user" s]
    by (auto simp: signed_in_def issueTokens_def abind_app attempt_app)
  have "signed_in env unix username password mfaCode s r user"
  proof (cases "u_mfa_enabled user \<or> settingBool s ''security.mfa_required'' False")
    case False
    thus ?thesis using assms(1) user pw by (intro *) (simp_all add: Login_def Let_def)
  next
    case required: True
    show ?thesis
    proof (cases "u_mfa_enabled user")
      case False
      hence "issueSetupTokens env fr user s = (Inr r, s')"
        using assms(1) user pw required by (simp add: Login_def Let_def)
      thus ?thesis using issueTokensWithRoles_Inr(2-4) user pw required False
        unfolding issueSetupTokens_def signed_in_def by auto
    next
      case True
      hence "trim_space mfaCode \<noteq> ''''"
        using assms user pw by (auto simp: Login_def Let_def mfa_challenge_def)
      moreover from this True have "ValidateTOTP (ae_hmac env) unix mfaCode (u_mfa_secret user)"
        using assms(1) user pw by (auto simp: Login_def Let_def split: if_splits)
      ultimately show ?thesis using assms(1) user pw True by (intro *) (simp_all add: Login_def Let_def)
    qed
  qed
  thus ?thesis by blast
qed

text \<open>
  C7: Whoever is handed tokens proved it: the user exists and is active, the password
  matches the stored hash and, where the user enrolled a second factor or the
  installation demands one, the code is right.  A user who must enrol but has not is
  given tokens without any role, marked for the enrolment.
\<close>

theorem Login_sound:
  assumes "Login env fr unix username password mfaCode s = (Inr r, s')" and "\<not> lr_require_mfa r"
  shows "\<exists>user. signed_in env unix username password mfaCode s r user"
  using Login_Inr [OF assms] .

section \<open>Rotation of the refresh token\<close>

text \<open>
  A refresh is not one transaction.  It is the statements below, and the statements of
  requests that are served at the same time take turns on the database in any order.
  Where a request stands: just arrived; the row read and found good; the row revoked; the
  user read; about to read the role names; about to insert the new row; answered.
\<close>

datatype refresh_at =
    Arrived
  | Looked_up refresh_token
  | Revoked refresh_token
  | Known user
  | Entitled user
  | Named user "string list" bool
  | Answered "error + login_result"

record refresh_request =
  rq_fresh :: fresh
  rq_now :: time
  rq_token :: string

fun refresh_statement :: "auth_env \<Rightarrow> refresh_request \<Rightarrow> refresh_at \<Rightarrow> db \<Rightarrow> refresh_at \<times> db" where
  "refresh_statement env r Arrived s =
     (case GetRefreshTokenByHash (HashRefreshToken (ae_jwt env) (rq_token r)) s of
        Inl e \<Rightarrow> (Answered (Inl ErrUnauthorized), s)
      | Inr stored \<Rightarrow>
          if rt_revoked_at stored \<noteq> None \<or> rt_expires_at stored < rq_now r
          then (Answered (Inl ErrUnauthorized), s)
          else (Looked_up stored, s))"
| "refresh_statement env r (Looked_up stored) s =
     (case RevokeRefreshToken (rt_id stored) s of
        (Inl e, s') \<Rightarrow> (Answered (Inl e), s')
      | (Inr u, s') \<Rightarrow> (Revoked stored, s'))"
| "refresh_statement env r (Revoked stored) s =
     (case GetUser (rt_user_id stored) s of
        Inl e \<Rightarrow> (Answered (Inl e), s)
      | Inr user \<Rightarrow>
          if \<not> u_is_active user then (Answered (Inl ErrUnauthorized), s) else (Known user, s))"
| "refresh_statement env r (Known user) s =
     (if settingBool s ''security.mfa_required'' False \<and> \<not> u_mfa_enabled user
      then (Named user [] True, s) else (Entitled user, s))"
| "refresh_statement env r (Entitled user) s = (Named user (UserRoleNames (u_id user) s) False, s)"
| "refresh_statement env r (Named user names mark) s =
     (let (res, s') = issueTokensWithRoles env (rq_fresh r) user names mark s in (Answered res, s'))"
| "refresh_statement env r (Answered res) s = (Answered res, s)"

fun statements :: "nat \<Rightarrow> auth_env \<Rightarrow> refresh_request \<Rightarrow> refresh_at \<Rightarrow> db \<Rightarrow> refresh_at \<times> db" where
  "statements 0 env r p s = (p, s)"
| "statements (Suc n) env r p s = (let (p', s') = refresh_statement env r p s in statements n env r p' s')"

lemma statements_Answered [simp]: "statements n env r (Answered res) s = (Answered res, s)"
  by (induction n) simp_all

text \<open>Run without interruption, the statements are \<open>Refresh\<close>; six always suffice.\<close>

lemma statements_Refresh:
  "statements 6 env r Arrived s =
   (Answered (fst (Refresh env (rq_fresh r) (rq_now r) (rq_token r) s)),
    snd (Refresh env (rq_fresh r) (rq_now r) (rq_token r) s))"
proof -
  have six: "(6::nat) = Suc (Suc (Suc (Suc (Suc (Suc 0)))))" by simp
  show ?thesis unfolding six
    by (simp add: Refresh_def abind_app issueTokens_def issueSetupTokens_def Let_def
        split: sum.splits prod.splits)
qed

text \<open>The requests in flight, and what may happen next: a statement of one of them, or anything else.\<close>

datatype turn = Turn nat | Elsewhere "db \<Rightarrow> db"

fun take_turn :: "auth_env \<Rightarrow> refresh_request list \<Rightarrow> turn \<Rightarrow> refresh_at list \<times> db \<Rightarrow> refresh_at list \<times> db" where
  "take_turn env rqs (Turn i) (ps, s) =
     (if i < length ps
      then let (p, s') = refresh_statement env (rqs ! i) (ps ! i) s in (ps[i := p], s')
      else (ps, s))"
| "take_turn env rqs (Elsewhere f) (ps, s) = (ps, f s)"

definition interleaved :: "auth_env \<Rightarrow> refresh_request list \<Rightarrow> turn list \<Rightarrow> db \<Rightarrow> refresh_at list \<times> db" where
  "interleaved env rqs ts s = fold (take_turn env rqs) ts (map (\<lambda>_. Arrived) rqs, s)"

fun handed_out :: "refresh_at \<Rightarrow> bool" where
  "handed_out (Answered (Inr r)) = True"
| "handed_out p = False"

subsection \<open>What a revocation leaves behind\<close>

definition token_row :: "string \<Rightarrow> db \<Rightarrow> refresh_token option" where
  "token_row h s = find (\<lambda>t. rt_token_hash t = h) (refresh_tokens s)"

text \<open>A token is spent when its row is there and no row of its id is live.\<close>

definition spent :: "string \<Rightarrow> db \<Rightarrow> bool" where
  "spent h s =
     (case token_row h s of
        None \<Rightarrow> False
      | Some row \<Rightarrow> filter (unrevoked (rt_id row)) (refresh_tokens s) = [])"

text \<open>What the rest of the program does to the row: it stays, under its id, and stays revoked.\<close>

definition keeps_token :: "string \<Rightarrow> (db \<Rightarrow> db) \<Rightarrow> bool" where
  "keeps_token h f =
     (\<forall>s. (token_row h s \<noteq> None \<longrightarrow> map_option rt_id (token_row h (f s)) = map_option rt_id (token_row h s)) \<and>
          (spent h s \<longrightarrow> spent h (f s)))"

lemma keeps_tokenD:
  "keeps_token h f \<Longrightarrow> map_option rt_id (token_row h s) = Some i \<Longrightarrow> map_option rt_id (token_row h (f s)) = Some i"
  "keeps_token h f \<Longrightarrow> spent h s \<Longrightarrow> spent h (f s)"
  by (auto simp: keeps_token_def)

lemma keeps_token_updI:
  assumes "\<And>s. refresh_tokens (f s) = update_rows (P s) (\<lambda>t. t\<lparr>rt_revoked_at := Some (clock s)\<rparr>) (refresh_tokens s)"
  shows "keeps_token h f"
proof -
  have row: "token_row h (f s) = map_option (\<lambda>t. if P s t then t\<lparr>rt_revoked_at := Some (clock s)\<rparr> else t) (token_row h s)" for s
    by (simp add: token_row_def assms find_update_rows)
  have live: "filter (unrevoked i) rows = [] \<Longrightarrow>
      filter (unrevoked i) (update_rows Q (\<lambda>t. t\<lparr>rt_revoked_at := Some c\<rparr>) rows) = []" for i Q c rows
    by (induction rows) (auto simp: update_rows_def unrevoked_def split: if_splits)
  have "spent h s \<Longrightarrow> spent h (f s)" for s
    using live by (auto simp: spent_def row assms split: option.splits)
  thus ?thesis by (auto simp: keeps_token_def row option.map_comp o_def intro: option.map_cong)
qed

lemma keeps_token_Revoke: "keeps_token h (\<lambda>s. snd (RevokeRefreshToken i s))"
  by (rule keeps_token_updI [where P = "\<lambda>s. unrevoked i"]) (simp add: RevokeRefreshToken_def Let_def)

lemma keeps_token_Logout: "keeps_token h (\<lambda>s. snd (Logout u s))"
  by (rule keeps_token_updI [where P = "\<lambda>s t. rt_user_id t = u \<and> rt_revoked_at t = None"])
    (simp add: Logout_def RevokeUserRefreshTokens_def)

lemma token_row_append:
  "token_row h s = Some row \<Longrightarrow> token_row h (s\<lparr>refresh_tokens := refresh_tokens s @ rows\<rparr>) = Some row"
  by (simp add: token_row_def find_append)

lemma keeps_token_Create: "keeps_token h (\<lambda>s. snd (CreateRefreshToken t s))"
proof -
  have "token_row h s \<noteq> None \<Longrightarrow> token_row h (snd (CreateRefreshToken t s)) = token_row h s" for s
    using token_row_append [of h s] by (auto simp: CreateRefreshToken_def)
  moreover have "spent h (snd (CreateRefreshToken t s))" if sp: "spent h s" for s
  proof -
    obtain row where row: "token_row h s = Some row" using sp by (auto simp: spent_def split: option.splits)
    hence "row \<in> set (refresh_tokens s)"
      using find_Some_iff [of "\<lambda>t. rt_token_hash t = h" "refresh_tokens s" row] by (simp add: token_row_def)
    thus ?thesis
      using sp row token_row_append [OF row] by (auto simp: spent_def CreateRefreshToken_def unrevoked_def)
  qed
  ultimately show ?thesis by (simp add: keeps_token_def)
qed

lemma keeps_token_issue: "keeps_token h (\<lambda>s. snd (issueTokensWithRoles env fr user names mark s))"
proof -
  define t where "t = \<lparr>rt_id = f_uuid fr, rt_user_id = u_id user,
      rt_token_hash = HashRefreshToken (ae_jwt env) (f_uuid fr @ CHR ''.'' # raw_url_encode (f_bytes fr)),
      rt_expires_at = f_now fr + refresh_ttl (ae_jwt env), rt_revoked_at = None, rt_created_at = 0\<rparr>"
  have "snd (issueTokensWithRoles env fr user names mark s) = snd (CreateRefreshToken t s)" for s
    by (simp add: issueTokensWithRoles_def SignAccessToken_def NewRefreshToken_def Let_def abind_app
        t_def [symmetric] split: sum.splits prod.splits)
  thus ?thesis using keeps_token_Create by simp
qed

lemma keeps_token_id: "keeps_token h (\<lambda>s. s)"
  by (simp add: keeps_token_def)

lemma Revoke_claims:
  assumes "RevokeRefreshToken i s = (Inr u, s')" and "map_option rt_id (token_row h s) = Some i"
  shows "\<not> spent h s" and "spent h s'" and "map_option rt_id (token_row h s') = Some i"
proof -
  show "\<not> spent h s"
    using assms by (auto simp: RevokeRefreshToken_def Let_def spent_def split: if_splits option.splits)
  show row: "map_option rt_id (token_row h s') = Some i"
    using keeps_tokenD(1) [OF keeps_token_Revoke [of h i] assms(2)] assms(1) by simp
  have "filter (unrevoked i) (refresh_tokens s') = []"
    using RevokeRefreshToken_rows [of i i s] assms(1) by simp
  thus "spent h s'" using row by (auto simp: spent_def split: option.splits)
qed

fun past_revocation :: "refresh_at \<Rightarrow> bool" where
  "past_revocation (Revoked t) = True"
| "past_revocation (Known u) = True"
| "past_revocation (Entitled u) = True"
| "past_revocation (Named u names mark) = True"
| "past_revocation (Answered (Inr r)) = True"
| "past_revocation p = False"

lemma handed_out_past: "handed_out p \<Longrightarrow> past_revocation p"
  by (cases p rule: handed_out.cases) simp_all

lemma keeps_token_statement: "keeps_token h (\<lambda>s. snd (refresh_statement env r p s))"
proof (cases p)
  case (Looked_up t)
  have "snd (refresh_statement env r p s) = snd (RevokeRefreshToken (rt_id t) s)" for s
    by (simp add: Looked_up split: sum.split prod.split)
  thus ?thesis using keeps_token_Revoke by simp
next
  case (Named user names mark)
  thus ?thesis using keeps_token_issue by (simp add: split_beta)
next
  case Arrived
  have "snd (refresh_statement env r p s) = s" for s by (simp add: Arrived split: sum.split)
  thus ?thesis using keeps_token_id by simp
next
  case (Revoked t)
  have "snd (refresh_statement env r p s) = s" for s by (simp add: Revoked split: sum.split)
  thus ?thesis using keeps_token_id by simp
next
  case (Known u)
  have "snd (refresh_statement env r p s) = s" for s by (simp add: Known)
  thus ?thesis using keeps_token_id by simp
qed (simp_all add: keeps_token_id)

lemma statement_Looked_up:
  assumes "refresh_statement env r p s = (Looked_up t, s')"
  shows "map_option rt_id (token_row (HashRefreshToken (ae_jwt env) (rq_token r)) s') = Some (rt_id t)"
  using assms
  by (cases p)
    (auto simp: GetRefreshTokenByHash_def token_row_def Let_def
      split: sum.splits prod.splits if_splits option.splits)

lemma statement_past:
  assumes "refresh_statement env r p s = (p', s')" and "past_revocation p'" and "\<not> past_revocation p"
  obtains t u where "p = Looked_up t" and "RevokeRefreshToken (rt_id t) s = (Inr u, s')"
  using assms
  by (cases "(env, r, p, s)" rule: refresh_statement.cases)
    (auto split: sum.splits prod.splits if_splits)

subsection \<open>The invariant of the requests in flight\<close>

definition at_most_one_past :: "auth_env \<Rightarrow> refresh_request list \<Rightarrow> string \<Rightarrow> refresh_at list \<times> db \<Rightarrow> bool" where
  "at_most_one_past env rqs h x =
     (case x of (ps, s) \<Rightarrow>
        length ps = length rqs \<and>
        (\<forall>i t. i < length ps \<longrightarrow> HashRefreshToken (ae_jwt env) (rq_token (rqs ! i)) = h \<longrightarrow>
               ps ! i = Looked_up t \<longrightarrow> map_option rt_id (token_row h s) = Some (rt_id t)) \<and>
        (\<forall>i. i < length ps \<longrightarrow> HashRefreshToken (ae_jwt env) (rq_token (rqs ! i)) = h \<longrightarrow>
             past_revocation (ps ! i) \<longrightarrow> spent h s) \<and>
        (\<forall>i j. i < length ps \<longrightarrow> j < length ps \<longrightarrow>
               HashRefreshToken (ae_jwt env) (rq_token (rqs ! i)) = h \<longrightarrow>
               HashRefreshToken (ae_jwt env) (rq_token (rqs ! j)) = h \<longrightarrow>
               past_revocation (ps ! i) \<longrightarrow> past_revocation (ps ! j) \<longrightarrow> i = j))"

lemma at_most_one_past_keeps:
  assumes "at_most_one_past env rqs h (ps, s)" and "keeps_token h f"
  shows "at_most_one_past env rqs h (ps, f s)"
  unfolding at_most_one_past_def prod.case
proof (intro conjI)
  show "\<forall>i t. i < length ps \<longrightarrow> HashRefreshToken (ae_jwt env) (rq_token (rqs ! i)) = h \<longrightarrow>
      ps ! i = Looked_up t \<longrightarrow> map_option rt_id (token_row h (f s)) = Some (rt_id t)"
    using assms(1) keeps_tokenD(1) [OF assms(2)] unfolding at_most_one_past_def by blast
  show "\<forall>i. i < length ps \<longrightarrow> HashRefreshToken (ae_jwt env) (rq_token (rqs ! i)) = h \<longrightarrow>
      past_revocation (ps ! i) \<longrightarrow> spent h (f s)"
    using assms(1) keeps_tokenD(2) [OF assms(2)] unfolding at_most_one_past_def by blast
qed (use assms(1) in \<open>simp_all add: at_most_one_past_def\<close>)

lemma at_most_one_past_Turn:
  assumes inv: "at_most_one_past env rqs h (ps, s)" and k: "k < length ps"
    and st: "refresh_statement env (rqs ! k) (ps ! k) s = (p', s')"
  shows "at_most_one_past env rqs h (ps[k := p'], s')"
proof (cases "HashRefreshToken (ae_jwt env) (rq_token (rqs ! k)) = h")
  case other: False
  have "at_most_one_past env rqs h (ps, s')"
    using at_most_one_past_keeps [OF inv keeps_token_statement] st by (metis snd_conv)
  moreover have "ps[k := p'] ! i = ps ! i" if "HashRefreshToken (ae_jwt env) (rq_token (rqs ! i)) = h" for i
    using other that by (metis nth_list_update_neq)
  ultimately show ?thesis unfolding at_most_one_past_def by (simp cong: conj_cong imp_cong)
next
  case same: True
  have kept: "at_most_one_past env rqs h (ps, s')"
    using at_most_one_past_keeps [OF inv keeps_token_statement] st by (metis snd_conv)
  have nth: "ps[k := p'] ! i = (if i = k then p' else ps ! i)" for i
    using k by (cases "i = k") simp_all
  have looked: "map_option rt_id (token_row h s') = Some (rt_id t)" if "p' = Looked_up t" for t
    using statement_Looked_up [of env "rqs ! k" "ps ! k" s t s'] st same that by simp
  show ?thesis
  proof (cases "past_revocation p' \<and> \<not> past_revocation (ps ! k)")
    case False
    thus ?thesis using kept looked unfolding at_most_one_past_def
      by (auto simp: nth split: if_splits)
  next
    case True
    then obtain t u where t: "ps ! k = Looked_up t" "RevokeRefreshToken (rt_id t) s = (Inr u, s')"
      using statement_past [OF st] by blast
    have row: "map_option rt_id (token_row h s) = Some (rt_id t)"
      using inv k same t(1) unfolding at_most_one_past_def by blast
    note claims = Revoke_claims [OF t(2) row]
    have none: "\<not> past_revocation (ps ! i)"
      if "i < length ps" "HashRefreshToken (ae_jwt env) (rq_token (rqs ! i)) = h" for i
      using inv that claims(1) unfolding at_most_one_past_def by blast
    show ?thesis using kept looked claims(2) none unfolding at_most_one_past_def
      by (auto simp: nth split: if_splits)
  qed
qed

lemma at_most_one_past_interleaved:
  assumes "\<And>f. Elsewhere f \<in> set ts \<Longrightarrow> keeps_token h f" and "at_most_one_past env rqs h x"
  shows "at_most_one_past env rqs h (fold (take_turn env rqs) ts x)"
  using assms
proof (induction ts arbitrary: x)
  case (Cons t ts)
  obtain ps s where x: "x = (ps, s)" by force
  have "at_most_one_past env rqs h (take_turn env rqs t x)"
  proof (cases t)
    case (Turn k)
    obtain p' s' where st: "refresh_statement env (rqs ! k) (ps ! k) s = (p', s')" by force
    show ?thesis using Cons.prems(2) at_most_one_past_Turn [OF _ _ st] by (simp add: Turn x st)
  next
    case (Elsewhere f)
    thus ?thesis using Cons.prems at_most_one_past_keeps x by simp
  qed
  thus ?case using Cons by simp
qed simp

text \<open>
  C8: A refresh token is exchanged at most once.  However many requests present it,
  and however their statements (the lookup, the conditional update that revokes the row,
  the reads of the user, the insertion of the new row) interleave with one another and
  with the rest of the program, as long as that neither removes the row of the token nor
  takes a revocation back, at most one of the requests is answered with new tokens.
\<close>

theorem refresh_token_exchanged_once:
  assumes "\<And>f. Elsewhere f \<in> set ts \<Longrightarrow> keeps_token (HashRefreshToken (ae_jwt env) raw) f"
  shows "card {i. i < length rqs \<and> rq_token (rqs ! i) = raw \<and>
                  handed_out (fst (interleaved env rqs ts s) ! i)} \<le> 1"
proof -
  have "at_most_one_past env rqs (HashRefreshToken (ae_jwt env) raw) (map (\<lambda>_. Arrived) rqs, s)"
    by (simp add: at_most_one_past_def)
  hence "at_most_one_past env rqs (HashRefreshToken (ae_jwt env) raw) (interleaved env rqs ts s)"
    unfolding interleaved_def by (intro at_most_one_past_interleaved assms)
  hence "\<forall>i j. i < length rqs \<longrightarrow> j < length rqs \<longrightarrow> rq_token (rqs ! i) = raw \<longrightarrow> rq_token (rqs ! j) = raw \<longrightarrow>
      handed_out (fst (interleaved env rqs ts s) ! i) \<longrightarrow> handed_out (fst (interleaved env rqs ts s) ! j) \<longrightarrow> i = j"
    using handed_out_past unfolding at_most_one_past_def by (auto split: prod.splits)
  thus ?thesis by (auto simp: card_le_Suc0_iff_eq)
qed

section \<open>Enrolling a second factor\<close>

lemma update_rows_cong:
  "(\<And>r. r \<in> set rows \<Longrightarrow> P r \<Longrightarrow> f r = g r) \<Longrightarrow> update_rows P f rows = update_rows P g rows"
  by (simp add: update_rows_def)

definition with_mfa :: "bool \<Rightarrow> string \<Rightarrow> time \<Rightarrow> user \<Rightarrow> user" where
  "with_mfa b x now v = v\<lparr>u_mfa_enabled := b, u_mfa_secret := x, u_updated_at := now\<rparr>"

lemma with_mfa_simps [simp]:
  "u_id (with_mfa b x n v) = u_id v" "u_username (with_mfa b x n v) = u_username v"
  "u_mfa_enabled (with_mfa b x n v) = b" "u_mfa_secret (with_mfa b x n v) = x"
  "u_is_active (with_mfa b x n v) = u_is_active v" "u_password_hash (with_mfa b x n v) = u_password_hash v"
  by (simp_all add: with_mfa_def)

text \<open>The keys of the table: ids and user names name one row.\<close>

definition user_keys :: "db \<Rightarrow> bool" where
  "user_keys s = (distinct (map u_id (users s)) \<and> distinct (map u_username (users s)))"

lemma user_keys_id:
  assumes "user_keys s" and "GetUser i s = Inr u" and "v \<in> set (users s)"
  shows "u_id v = i \<longleftrightarrow> v = u" and "u_username v = u_username u \<longleftrightarrow> v = u"
proof -
  have u: "u \<in> set (users s)" "u_id u = i"
    using find_Some_iff [of "\<lambda>u. u_id u = i" "users s" u] assms(2) by (auto simp: GetUser_def)
  have "inj_on u_id (set (users s))" "inj_on u_username (set (users s))"
    using assms(1) by (simp_all add: user_keys_def distinct_map)
  thus "u_id v = i \<longleftrightarrow> v = u" "u_username v = u_username u \<longleftrightarrow> v = u"
    using u assms(3) by (auto dest: inj_onD)
qed

lemma UpdateUser_mfa:
  fixes b x
  assumes keys: "user_keys s" and u: "GetUser i s = Inr u"
  defines "t \<equiv> s\<lparr>users := update_rows (\<lambda>v. u_id v = i) (with_mfa b x (clock s)) (users s)\<rparr>"
  shows "UpdateUser (u\<lparr>u_mfa_enabled := b, u_mfa_secret := x\<rparr>) s = (Inr (with_mfa b x (clock s) u), t)"
    and "user_keys t" and "GetUser i t = Inr (with_mfa b x (clock s) u)"
    and "GetUserByUsername (u_username u) t = Inr (with_mfa b x (clock s) u)"
proof -
  have f: "find (\<lambda>v. u_id v = i) (users s) = Some u" using u by (simp add: GetUser_def)
  hence in_u: "u \<in> set (users s)" "u_id u = i" using find_Some_iff [OF f] by simp_all
  have same: "u_username v = u_username u \<Longrightarrow> u_id v = i" if "v \<in> set (users s)" for v
    using user_keys_id [OF keys u that] in_u by auto
  show "UpdateUser (u\<lparr>u_mfa_enabled := b, u_mfa_secret := x\<rparr>) s = (Inr (with_mfa b x (clock s) u), t)"
  proof -
    have "update_rows (\<lambda>v. u_id v = i) (\<lambda>v. v\<lparr>u_username := u_username u, u_name := u_name u,
        u_email := u_email u, u_password_hash := u_password_hash u, u_mfa_enabled := b, u_mfa_secret := x,
        u_is_active := u_is_active u, u_updated_at := clock s\<rparr>) (users s) =
      update_rows (\<lambda>v. u_id v = i) (with_mfa b x (clock s)) (users s)"
      by (rule update_rows_cong) (use user_keys_id [OF keys u] in \<open>auto simp: with_mfa_def\<close>)
    moreover have "\<not> (\<exists>v \<in> set (users s). u_username v = u_username u \<and> u_id v \<noteq> i)" using same by blast
    ultimately show ?thesis using f in_u by (simp add: UpdateUser_def Let_def t_def with_mfa_def)
  qed
  show "user_keys t" using keys by (simp add: user_keys_def t_def map_update_rows)
  show "GetUser i t = Inr (with_mfa b x (clock s) u)"
    using f in_u by (simp add: GetUser_def t_def find_update_rows)
  have "find (\<lambda>v. u_username v = u_username u) (users s) = Some u"
  proof (cases "find (\<lambda>v. u_username v = u_username u) (users s)")
    case None
    thus ?thesis using in_u by (auto simp: find_None_set)
  next
    case (Some v)
    thus ?thesis using find_Some_iff [OF Some] user_keys_id(2) [OF keys u] by auto
  qed
  thus "GetUserByUsername (u_username u) t = Inr (with_mfa b x (clock s) u)"
    using in_u by (simp add: GetUserByUsername_def t_def find_update_rows)
qed

lemma quintets_Nil [simp]: "quintets as = [] \<longleftrightarrow> as = []"
  by (cases as rule: quintets.cases) simp_all

lemma enrolled_secret:
  assumes "bytes \<noteq> []"
  shows "trim_space (b32_encode bytes) = b32_encode bytes" and "b32_encode bytes \<noteq> ''''"
proof -
  show ne: "b32_encode bytes \<noteq> ''''" using assms by (simp add: b32_encode_def)
  have "solid c" if "c \<in> set (b32_encode bytes)" for c
    using b32_encode_chars [OF that] b32_alphabet_facts(3) by blast
  thus "trim_space (b32_encode bytes) = b32_encode bytes"
    using ne by (intro trim_space_solid) simp
qed

text \<open>
  C14: Enrolment works and binds.  The secret handed out by \<open>SetupMFA\<close> is the one
  \<open>VerifyMFA\<close> checks: the code a device computes from it completes the enrolment; from
  then on the password alone only earns the challenge, and the secret cannot be
  replaced by another set-up.
\<close>

theorem mfa_enrolment:
  assumes keys: "user_keys s" and user: "GetUser i s = Inr user" "u_is_active user" "\<not> u_mfa_enabled user"
    and pw: "VerifyPassword (ae_argon2 env) password (u_password_hash user) = Inr True"
    and bytes: "bytes \<noteq> []" and t: "0 \<le> t"
  shows "\<exists>ts s1 s2. SetupMFA env bytes i s = (Inr ts, s1) \<and>
           VerifyMFA env t i (generateCode (ae_hmac env) (ts_secret ts) (t div 30)) s1 = (Inr (), s2) \<and>
           (\<forall>fr unix code. trim_space code = '''' \<longrightarrow>
              Login env fr unix (u_username user) password code s2 = (Inr mfa_challenge, s2)) \<and>
           (\<forall>bytes'. SetupMFA env bytes' i s2 = (Inl ErrConflict, s2))"
proof -
  define ts where "ts = GenerateTOTP bytes (ae_issuer env) (u_username user)"
  have secret: "ts_secret ts = b32_encode bytes"
    by (simp add: ts_def GenerateTOTP_def BuildTOTPSetup_def)
  define u1 where "u1 = with_mfa False (ts_secret ts) (clock s) user"
  define s1 where "s1 = s\<lparr>users := update_rows (\<lambda>v. u_id v = i) (with_mfa False (ts_secret ts) (clock s)) (users s)\<rparr>"
  have upd: "user\<lparr>u_mfa_secret := ts_secret ts\<rparr> =
      user\<lparr>u_mfa_enabled := False, u_mfa_secret := ts_secret ts\<rparr>" using user(3) by simp
  note st = UpdateUser_mfa [OF keys user(1), where b = False and x = "ts_secret ts", folded s1_def u1_def]
  have setup_ok: "SetupMFA env bytes i s = (Inr ts, s1)"
    using user st(1) by (simp add: SetupMFA_def abind_app ts_def [symmetric] upd)
  have "b32_decode (to_upper (ts_secret ts)) \<noteq> None" by (simp add: secret b32_round_trip)
  hence code: "ValidateTOTP (ae_hmac env) t (generateCode (ae_hmac env) (ts_secret ts) (t div 30)) (ts_secret ts)"
    by (rule ValidateTOTP_window [where d = 0]) (use t in \<open>simp_all add: go_div_pos\<close>)
  define s2 where "s2 = s1\<lparr>users := update_rows (\<lambda>v. u_id v = i) (with_mfa True (ts_secret ts) (clock s1)) (users s1)\<rparr>"
  define u2 where "u2 = with_mfa True (ts_secret ts) (clock s1) u1"
  have u1: "u1\<lparr>u_mfa_enabled := True\<rparr> = u1\<lparr>u_mfa_enabled := True, u_mfa_secret := ts_secret ts\<rparr>"
    "u_mfa_secret u1 = ts_secret ts" "u_username u1 = u_username user"
    by (simp_all add: u1_def with_mfa_def)
  note st2 = UpdateUser_mfa [OF st(2,3), where b = True and x = "ts_secret ts", folded s2_def u2_def]
  have verify: "VerifyMFA env t i (generateCode (ae_hmac env) (ts_secret ts) (t div 30)) s1 = (Inr (), s2)"
    using st(3) st2(1) [folded u1(1)] code enrolled_secret [OF bytes]
    by (simp add: VerifyMFA_def abind_app u1(2) secret)
  have u2: "u_mfa_enabled u2" "u_is_active u2 = u_is_active user" "u_password_hash u2 = u_password_hash user"
    by (simp_all add: u2_def u1_def)
  have "Login env fr unix (u_username user) password c s2 = (Inr mfa_challenge, s2)" if "trim_space c = ''''" for fr unix c
    using st2(4) u2 user(2) pw that by (simp add: Login_def Let_def u1(3))
  moreover have "SetupMFA env bytes' i s2 = (Inl ErrConflict, s2)" for bytes'
    using st2(3) u2 by (simp add: SetupMFA_def abind_app)
  ultimately show ?thesis using setup_ok verify by blast
qed

section \<open>A small installation, for the witnesses\<close>

definition auth_user :: "string \<Rightarrow> user" where
  "auth_user stored =
     \<lparr>u_id = 7, u_username = ''ann'', u_name = ''Ann'', u_email = '''', u_password_hash = stored,
      u_mfa_enabled = False, u_mfa_secret = '''', u_is_active = True, u_last_login_at = None,
      u_created_at = 0, u_updated_at = 0\<rparr>"

definition auth_db :: "string \<Rightarrow> db" where
  "auth_db stored = (empty_db 100)\<lparr>users := [auth_user stored]\<rparr>"

definition sample_auth_env :: auth_env where
  "sample_auth_env =
     \<lparr>ae_argon2 = sample_argon2, ae_hmac = (\<lambda>k m. replicate 20 7),
      ae_jwt = \<lparr>sign_jwt = cl_username, sha256 = id, access_ttl = 900, refresh_ttl = 86400\<rparr>,
      ae_issuer = ''turjmp''\<rparr>"

definition sample_fresh :: fresh where
  "sample_fresh = \<lparr>f_jti = ''j'', f_uuid = ''u'', f_bytes = [1, 2, 3], f_now = 50\<rparr>"

lemma sample_stored:
  "\<exists>stored. HashPassword sample_argon2 [1, 2] ''pw'' = Inr stored \<and> VerifyPassword sample_argon2 ''pw'' stored = Inr True"
proof -
  obtain stored where st: "HashPassword sample_argon2 [1, 2] ''pw'' = Inr stored"
    using sample_argon2_total [of "bytes_of ''pw''" "[1, 2]"] by (auto simp: HashPassword_def)
  have "length h = 32" if "sample_argon2 p s (word_of_int argonIterations) (word_of_int argonMemory)
             (word_of_int argonParallelism) (word_of_int argonKeyLength) = Some h" for p s h
    using sample_argon2_total [of p s] that by auto
  from VerifyPassword_stored [OF st this, where attempted = "''pw''"] sample_argon2_total [of "bytes_of ''pw''" "[1, 2]"] st
  show ?thesis by auto
qed

lemma auth_db_facts:
  "user_keys (auth_db h)" "GetUser 7 (auth_db h) = Inr (auth_user h)"
  "GetUserByUsername ''ann'' (auth_db h) = Inr (auth_user h)" "GetSetting k (auth_db h) = Inl ErrNotFound"
  "refresh_tokens (auth_db h) = []" "user_roles (auth_db h) = []" "roles (auth_db h) = []"
  by (simp_all add: user_keys_def auth_db_def empty_db_def GetUser_def GetUserByUsername_def GetSetting_def auth_user_def)

theorem Login_sound_witness:
  "\<exists>stored r s' user. Login sample_auth_env sample_fresh 60 ''ann'' ''pw'' '''' (auth_db stored) = (Inr r, s') \<and>
     \<not> lr_require_mfa r \<and> signed_in sample_auth_env 60 ''ann'' ''pw'' '''' (auth_db stored) r user"
proof -
  obtain stored where v: "VerifyPassword sample_argon2 ''pw'' stored = Inr True" using sample_stored by blast
  have "\<exists>r s'. Login sample_auth_env sample_fresh 60 ''ann'' ''pw'' '''' (auth_db stored) = (Inr r, s') \<and>
          \<not> lr_require_mfa r"
    using v auth_db_facts(3-5)
    by (simp add: fk_def has_user_def auth_db_def empty_db_def update_rows_def Login_def sample_auth_env_def auth_user_def settingBool_def Let_def abind_app attempt_app
        issueTokens_def issueTokensWithRoles_def SignAccessToken_def NewRefreshToken_def CreateRefreshToken_def
        TouchUserLogin_def)
  thus ?thesis using Login_sound by blast
qed

text \<open>Two requests with one token: both look it up before either revokes it, and a third user logs out.\<close>

definition rotation_db :: db where
  "rotation_db = (auth_db ''h'')\<lparr>refresh_tokens :=
     [\<lparr>rt_id = ''u'', rt_user_id = 7, rt_token_hash = HashRefreshToken (ae_jwt sample_auth_env) ''u.AQID'',
       rt_expires_at = 1000, rt_revoked_at = None, rt_created_at = 50\<rparr>]\<rparr>"

definition rotation_requests :: "refresh_request list" where
  "rotation_requests =
     [\<lparr>rq_fresh = sample_fresh\<lparr>f_uuid := ''v''\<rparr>, rq_now = 60, rq_token = ''u.AQID''\<rparr>,
      \<lparr>rq_fresh = sample_fresh\<lparr>f_uuid := ''w''\<rparr>, rq_now = 61, rq_token = ''u.AQID''\<rparr>]"

definition rotation_turns :: "turn list" where
  "rotation_turns =
     [Turn 0, Turn 1, Elsewhere (\<lambda>s. snd (Logout 99 s)), Turn 1, Turn 0, Turn 1, Turn 1, Turn 1, Turn 1]"

theorem refresh_token_exchanged_once_witness:
  "card {i. i < length rotation_requests \<and> rq_token (rotation_requests ! i) = ''u.AQID'' \<and>
            handed_out (fst (interleaved sample_auth_env rotation_requests rotation_turns rotation_db) ! i)} \<le> 1 \<and>
   handed_out (fst (interleaved sample_auth_env rotation_requests rotation_turns rotation_db) ! 1) \<and>
   fst (interleaved sample_auth_env rotation_requests rotation_turns rotation_db) ! 0 =
     Answered (Inl ErrUnauthorized)"
proof -
  have h: "HashRefreshToken (ae_jwt sample_auth_env) ''w.AQID'' \<noteq> HashRefreshToken (ae_jwt sample_auth_env) ''u.AQID''"
    by code_simp
  have raw: "raw_url_encode [1, 2, 3] = ''AQID''" by code_simp
  have "keeps_token h f" if "Elsewhere f \<in> set rotation_turns" for h f
    using that keeps_token_Logout by (auto simp: rotation_turns_def)
  note once = refresh_token_exchanged_once [OF this, where env = sample_auth_env and rqs = rotation_requests]
  have "handed_out (fst (interleaved sample_auth_env rotation_requests rotation_turns rotation_db) ! 1) \<and>
     fst (interleaved sample_auth_env rotation_requests rotation_turns rotation_db) ! 0 =
     Answered (Inl ErrUnauthorized)"
    using h raw
    by (simp add: interleaved_def rotation_requests_def rotation_turns_def rotation_db_def auth_db_def empty_db_def
        auth_user_def GetRefreshTokenByHash_def Logout_def RevokeUserRefreshTokens_def RevokeRefreshToken_def
        unrevoked_def update_rows_def GetUser_def settingBool_def GetSetting_def UserRoleNames_def UserRoles_def
        issueTokensWithRoles_def SignAccessToken_def NewRefreshToken_def CreateRefreshToken_def sample_fresh_def
        fk_def has_user_def Let_def abind_app)
  thus ?thesis using once by blast
qed

theorem mfa_enrolment_witness:
  "\<exists>stored ts s1 s2. SetupMFA sample_auth_env [9, 9] 7 (auth_db stored) = (Inr ts, s1) \<and>
     VerifyMFA sample_auth_env 61 7 (generateCode (ae_hmac sample_auth_env) (ts_secret ts) (61 div 30)) s1 = (Inr (), s2)"
proof -
  obtain stored where "VerifyPassword sample_argon2 ''pw'' stored = Inr True" using sample_stored by blast
  thus ?thesis
    using mfa_enrolment [of "auth_db stored" 7 "auth_user stored" sample_auth_env "''pw''" "[9, 9]" 61] auth_db_facts
    by (auto simp: auth_user_def sample_auth_env_def)
qed

end
