(* ===== verification/RdpCredentials.thy ===== *)
theory RdpCredentials
  imports AuthService
begin

text \<open>
  The separate password of the native RDP front (\<open>service/rdp_proxy_credentials.go\<close>) and
  the user name that routes a client to an asset and an account.
\<close>

section \<open>The credential of a user\<close>

record credential_status =
  cs_user_id :: int
  cs_configured :: bool
  cs_enabled :: bool
  cs_updated_at :: "time option"
  cs_disabled_at :: "time option"

definition credentialStatus :: "rdp_credential \<Rightarrow> credential_status" where
  "credentialStatus c =
     \<lparr>cs_user_id = rc_user_id c, cs_configured = True, cs_enabled = rc_is_enabled c,
      cs_updated_at = Some (rc_updated_at c), cs_disabled_at = rc_disabled_at c\<rparr>"

definition credentialMinLength :: "int \<Rightarrow> db \<Rightarrow> int" where
  "credentialMinLength passwordMinLength s =
     (let minLength = settingInt s ''security.password_min_length'' passwordMinLength
      in if minLength \<le> 0 then passwordMinLength else minLength)"

definition Credentials_Status :: "int \<Rightarrow> db \<Rightarrow> error + credential_status" where
  "Credentials_Status userID s =
     (if userID \<le> 0 then Inl ErrInvalidArgument
      else rbind (GetUser userID s) (\<lambda>_.
        case GetRDPProxyCredential userID s of
          Inr c \<Rightarrow> Inr (credentialStatus c)
        | Inl e \<Rightarrow>
            if error_is e ErrNotFound
            then Inr \<lparr>cs_user_id = userID, cs_configured = False, cs_enabled = False,
                      cs_updated_at = None, cs_disabled_at = None\<rparr>
            else Inl e))"

definition Credentials_Set ::
    "argon2id \<Rightarrow> byte list \<Rightarrow> int \<Rightarrow> int \<Rightarrow> string \<Rightarrow> credential_status store_action" where
  "Credentials_Set argon2 salt minLength userID password = (\<lambda>s.
     if userID \<le> 0 \<or> int (length password) < credentialMinLength minLength s
     then (Inl ErrInvalidArgument, s)
     else abind (query (GetUser userID)) (\<lambda>_.
          abind (query (\<lambda>_. HashPassword argon2 salt password)) (\<lambda>hash.
          abind (UpsertRDPProxyCredential userID hash) (\<lambda>c. ret (credentialStatus c)))) s)"

definition Credentials_Disable :: "int \<Rightarrow> credential_status store_action" where
  "Credentials_Disable userID =
     (if userID \<le> 0 then throw ErrInvalidArgument
      else abind (DisableRDPProxyCredential userID) (\<lambda>c. ret (credentialStatus c)))"

definition Credentials_Verify :: "argon2id \<Rightarrow> string \<Rightarrow> string \<Rightarrow> db \<Rightarrow> error + user" where
  "Credentials_Verify argon2 username password s =
     (let username = trim_space username
      in if username = '''' \<or> password = '''' then Inl ErrUnauthorized
         else
           case GetUserByUsername username s of
             Inl e \<Rightarrow> Inl ErrUnauthorized
           | Inr user \<Rightarrow>
               if \<not> u_is_active user then Inl ErrUnauthorized
               else
                 case GetRDPProxyCredential (u_id user) s of
                   Inl e \<Rightarrow> Inl ErrUnauthorized
                 | Inr c \<Rightarrow>
                     if \<not> rc_is_enabled c then Inl ErrUnauthorized
                     else
                       case VerifyPassword argon2 password (rc_password_hash c) of
                         Inl (ErrPanic p) \<Rightarrow> Inl (ErrPanic p)
                       | Inl e \<Rightarrow> Inl ErrUnauthorized
                       | Inr ok \<Rightarrow> if ok then Inr user else Inl ErrUnauthorized)"

lemma Verify_Inr:
  assumes "Credentials_Verify argon2 username password s = Inr user"
  shows "GetUserByUsername (trim_space username) s = Inr user" and "u_is_active user"
    and "\<exists>c. GetRDPProxyCredential (u_id user) s = Inr c \<and> rc_is_enabled c \<and>
             VerifyPassword argon2 password (rc_password_hash c) = Inr True"
  using assms
  by (auto simp: Credentials_Verify_def Let_def split: if_splits sum.splits error.splits)

lemma GetRDPProxyCredential_users [simp]:
  "GetRDPProxyCredential i (s\<lparr>rdp_credentials := cs\<rparr>) = notFound (find (\<lambda>c. rc_user_id c = i) cs)"
  by (simp add: GetRDPProxyCredential_def)

text \<open>
  The proxy password is a credential of its own.  After it is set, the user verifies
  with it, and with another text only if Argon2id cannot tell the two apart; after it is
  disabled nothing verifies any more, until it is set again.
\<close>

theorem credential_life:
  assumes user: "GetUser i s = Inr u" "GetUserByUsername name s = Inr u" "u_is_active u" "0 < i"
    and name: "trim_space name = name" "name \<noteq> ''''"
    and long: "credentialMinLength m s \<le> int (length password)" "password \<noteq> ''''"
    and argon: "\<And>p s. \<exists>h. argon2 p s (word_of_int argonIterations) (word_of_int argonMemory)
             (word_of_int argonParallelism) (word_of_int argonKeyLength) = Some h \<and> length h = 32"
  shows "\<exists>st t st2 t2. Credentials_Set argon2 salt m i password s = (Inr st, t) \<and>
           (\<forall>other. other \<noteq> '''' \<longrightarrow>
              (Credentials_Verify argon2 name other t = Inr u \<longleftrightarrow>
               argon2 (bytes_of other) salt 3 65536 2 32 = argon2 (bytes_of password) salt 3 65536 2 32)) \<and>
           Credentials_Disable i t = (Inr st2, t2) \<and>
           (\<forall>other. Credentials_Verify argon2 name other t2 = Inl ErrUnauthorized)"
proof -
  have len: "length h = 32" if "argon2 p s (word_of_int argonIterations) (word_of_int argonMemory)
             (word_of_int argonParallelism) (word_of_int argonKeyLength) = Some h" for p s h
    using argon [of p s] that by auto
  obtain hash where hash: "HashPassword argon2 salt password = Inr hash"
    using argon [of "bytes_of password" salt] by (auto simp: HashPassword_def)
  have vp: "VerifyPassword argon2 other hash =
      Inr (argon2 (bytes_of other) salt 3 65536 2 32 = argon2 (bytes_of password) salt 3 65536 2 32)" for other
    using VerifyPassword_stored [OF hash len, where attempted = other] argon [of "bytes_of other" salt]
    by (auto simp: argonIterations_def argonMemory_def argonParallelism_def argonKeyLength_def)
  have u: "u_id u = i" using user(1) by (auto simp: GetUser_def dest: find_Some_iff)
  have has: "has_user s i"
    using user(1) by (auto simp: GetUser_def has_user_def list_ex_iff dest: find_Some_iff)
  obtain c cs where up: "UpsertRDPProxyCredential i hash s = (Inr c, s\<lparr>rdp_credentials := cs\<rparr>)"
    and c: "find (\<lambda>c. rc_user_id c = i) cs = Some c" "rc_is_enabled c" "rc_password_hash c = hash"
  proof (cases "find (\<lambda>c. rc_user_id c = i) (rdp_credentials s)")
    case None
    let ?row = "\<lparr>rc_user_id = i, rc_password_hash = hash, rc_is_enabled = True, rc_created_at = clock s,
        rc_updated_at = clock s, rc_disabled_at = None\<rparr>"
    show ?thesis using has None
      by (intro that [of ?row "rdp_credentials s @ [?row]"])
        (simp_all add: UpsertRDPProxyCredential_def fk_def find_append Let_def)
  next
    case (Some old)
    let ?upd = "\<lambda>c. c\<lparr>rc_password_hash := hash, rc_is_enabled := True, rc_disabled_at := None,
        rc_updated_at := clock s\<rparr>"
    show ?thesis using Some find_Some_iff [OF Some]
      by (intro that [of "?upd old" "update_rows (\<lambda>c. rc_user_id c = i) ?upd (rdp_credentials s)"])
        (simp_all add: UpsertRDPProxyCredential_def find_update_rows Let_def)
  qed
  define t where "t = s\<lparr>rdp_credentials := cs\<rparr>"
  have set_ok: "Credentials_Set argon2 salt m i password s = (Inr (credentialStatus c), t)"
    using user(1,4) long hash up by (simp add: Credentials_Set_def abind_app t_def)
  have cid: "rc_user_id c = i" using find_Some_iff [OF c(1)] by simp
  have look: "GetUserByUsername name (s\<lparr>rdp_credentials := xs\<rparr>) = Inr u" for xs
    using user(2) by (simp add: GetUserByUsername_def)
  have "Credentials_Verify argon2 name other t = Inr u \<longleftrightarrow>
      argon2 (bytes_of other) salt 3 65536 2 32 = argon2 (bytes_of password) salt 3 65536 2 32"
    if "other \<noteq> ''''" for other
    using that name user(3) u c look by (simp add: Credentials_Verify_def t_def vp)
  moreover define ds where "ds = update_rows (\<lambda>c. rc_user_id c = i)
      (\<lambda>c. c\<lparr>rc_is_enabled := False, rc_disabled_at := Some (clock s), rc_updated_at := clock s\<rparr>) cs"
  have "\<exists>st2. Credentials_Disable i t = (Inr st2, s\<lparr>rdp_credentials := ds\<rparr>)"
    using user(4) c by (simp add: Credentials_Disable_def DisableRDPProxyCredential_def t_def ds_def abind_app)
  moreover have "Credentials_Verify argon2 name other (s\<lparr>rdp_credentials := ds\<rparr>) = Inl ErrUnauthorized" for other
    using name user(3) u c cid look by (simp add: Credentials_Verify_def ds_def find_update_rows)
  ultimately show ?thesis using set_ok by blast
qed

theorem credential_life_witness:
  "\<exists>st t. Credentials_Set sample_argon2 [1] 2 7 ''pw'' (auth_db ''h'') = (Inr st, t) \<and>
     Credentials_Verify sample_argon2 ''ann'' ''pw'' t = Inr (auth_user ''h'')"
proof -
  have "trim_space ''ann'' = ''ann''" by (rule trim_space_solid) (simp add: solid_def)
  moreover have "credentialMinLength 2 (auth_db ''h'') = 2"
    by (simp add: credentialMinLength_def settingInt_def auth_db_facts)
  ultimately show ?thesis
    using credential_life [of 7 "auth_db ''h''" "auth_user ''h''" "''ann''" 2 "''pw''" sample_argon2 "[1]"]
      auth_db_facts(2,3) sample_argon2_total
    by (auto simp: auth_user_def)
qed

section \<open>The routing user name\<close>

record rdp_route =
  ro_username :: string
  ro_asset_id :: int
  ro_account_id :: int

definition parsePositiveRouteID :: "string \<Rightarrow> error + int" where
  "parsePositiveRouteID raw =
     (let raw = trim_space raw
      in if raw = '''' then Inl ErrInvalidArgument
         else case parse_int64 raw of
                None \<Rightarrow> Inl ErrInvalidArgument
              | Some i \<Rightarrow> if i \<le> 0 then Inl ErrInvalidArgument else Inr i)"

definition ParseRDPRouteUsername :: "string \<Rightarrow> error + rdp_route" where
  "ParseRDPRouteUsername raw =
     (let parts = split_char (CHR ''#'') raw
      in if length parts \<noteq> 3 then Inl ErrInvalidArgument
         else let username = trim_space (parts ! 0)
         in case parsePositiveRouteID (parts ! 1) of
              Inl e \<Rightarrow> Inl ErrInvalidArgument
            | Inr assetID \<Rightarrow>
                if username = '''' then Inl ErrInvalidArgument
                else case parsePositiveRouteID (parts ! 2) of
                       Inl e \<Rightarrow> Inl ErrInvalidArgument
                     | Inr accountID \<Rightarrow>
                         Inr \<lparr>ro_username = username, ro_asset_id = assetID, ro_account_id = accountID\<rparr>)"

text \<open>How a launch URL writes the route.\<close>

definition route_username :: "string \<Rightarrow> int \<Rightarrow> int \<Rightarrow> string" where
  "route_username name assetID accountID =
     name @ ''#'' @ show_int assetID @ ''#'' @ show_int accountID"

lemma show_pos: "0 < i \<Longrightarrow> show_int i = show_nat (nat i)"
  by (simp add: show_int_def)

lemma digit_solid: "d < 10 \<Longrightarrow> solid (digit d)"
  by (simp add: digit_def solid_def)

lemma show_nat_solid: "c \<in> set (show_nat n) \<Longrightarrow> solid c \<and> c \<noteq> CHR ''#''"
  using show_nat_digits [of c n] not_digit_absent [of "CHR ''#''" n]
  by (auto simp: digit_solid digit_val_def)

lemma show_nat_trim: "trim_space (show_nat n) = show_nat n"
  by (rule trim_space_solid) (metis show_nat_solid show_nat_not_Nil hd_in_set last_in_set)

lemma parse_route_id:
  assumes "0 < i" and "i < 2 ^ 63"
  shows "parsePositiveRouteID (show_int i) = Inr i"
proof -
  have "parse_int64 (show_nat (nat i)) = Some i"
    using parse_show_int64 [of i] assms by (simp add: int64_range_def show_pos)
  thus ?thesis using assms by (simp add: parsePositiveRouteID_def show_pos show_nat_trim)
qed

lemma parse_route_username:
  assumes "CHR ''#'' \<notin> set name" and "trim_space name = name" and "name \<noteq> ''''"
    and "0 < a" and "a < 2 ^ 63" and "0 < c" and "c < 2 ^ 63"
  shows "ParseRDPRouteUsername (route_username name a c) =
     Inr \<lparr>ro_username = name, ro_asset_id = a, ro_account_id = c\<rparr>"
proof -
  have no: "CHR ''#'' \<notin> set (show_int a)" "CHR ''#'' \<notin> set (show_int c)"
    using assms show_nat_solid by (auto simp: show_pos)
  have "split_char (CHR ''#'') (route_username name a c) = [name, show_int a, show_int c]"
    using no assms(1) by (simp add: route_username_def split_char_app split_char_no_sep)
  thus ?thesis using assms by (simp add: ParseRDPRouteUsername_def parse_route_id)
qed

text \<open>
  The routing user name is read back as it was written, for every user name without
  \<open>#\<close> and every pair of ids; and whatever a client sends, a route that is accepted has
  positive ids and a user name.
\<close>

theorem route_round_trip:
  assumes "CHR ''#'' \<notin> set name" and "trim_space name = name" and "name \<noteq> ''''"
    and "0 < a" and "a < 2 ^ 63" and "0 < c" and "c < 2 ^ 63"
  shows "ParseRDPRouteUsername (route_username name a c) =
           Inr \<lparr>ro_username = name, ro_asset_id = a, ro_account_id = c\<rparr> \<and>
         (\<forall>raw r. ParseRDPRouteUsername raw = Inr r \<longrightarrow>
            0 < ro_asset_id r \<and> 0 < ro_account_id r \<and> ro_username r \<noteq> '''')"
  using parse_route_username [OF assms]
  by (auto simp: ParseRDPRouteUsername_def parsePositiveRouteID_def Let_def
      split: if_splits sum.splits option.splits)

theorem route_round_trip_witness:
  "ParseRDPRouteUsername (route_username ''ann'' 12 7) =
     Inr \<lparr>ro_username = ''ann'', ro_asset_id = 12, ro_account_id = 7\<rparr>"
proof -
  have "trim_space ''ann'' = ''ann''" by (rule trim_space_solid) (simp add: solid_def)
  thus ?thesis using route_round_trip [of "''ann''" 12 7] by simp
qed

end
