(* ===== verification/StorePerm.thy ===== *)
theory StorePerm
  imports Store
begin

text \<open>
  Assets, accounts and access permissions of \<open>repository/store.go\<close>: the recursive query
  that decides whether a user may connect, with the \<open>LIKE\<close> match on the stored action list
  and the climb through the node tree.
\<close>

section \<open>Assets and accounts\<close>

definition CreateAsset :: "asset \<Rightarrow> asset store_action" where
  "CreateAsset a = (\<lambda>s.
     if \<not> fk s (has_platform s (a_platform_id a) \<and> ref_opt (has_node s) (a_node_id a))
     then (Inl ErrConstraint, s)
     else let row = a\<lparr>a_id := next_id s TAssets, a_created_at := clock s, a_updated_at := clock s\<rparr>
     in (Inr row, (bump TAssets s)\<lparr>assets := assets s @ [row]\<rparr>))"

definition UpdateAsset :: "asset \<Rightarrow> asset store_action" where
  "UpdateAsset a = (\<lambda>s.
     let upd = (\<lambda>b. b\<lparr>a_name := a_name a, a_address := a_address a, a_platform_id := a_platform_id a,
                      a_node_id := a_node_id a, a_comment := a_comment a, a_is_active := a_is_active a,
                      a_updated_at := clock s\<rparr>)
     in case find (\<lambda>b. a_id b = a_id a) (assets s) of
          None \<Rightarrow> (Inl ErrNotFound, s)
        | Some old \<Rightarrow>
            if \<not> fk s (has_platform s (a_platform_id a) \<and> ref_opt (has_node s) (a_node_id a))
            then (Inl ErrConstraint, s)
            else (Inr (upd old), s\<lparr>assets := update_rows (\<lambda>b. a_id b = a_id a) upd (assets s)\<rparr>))"

definition GetAsset :: "int \<Rightarrow> db \<Rightarrow> error + asset" where
  "GetAsset i s = notFound (find (\<lambda>a. a_id a = i) (assets s))"

text \<open>
  Deleting accounts removes their links and tokens and clears the references of other
  accounts to them; sessions block the deletion.
\<close>

definition cascade_accounts :: "(int \<Rightarrow> bool) \<Rightarrow> db \<Rightarrow> db" where
  "cascade_accounts P s =
     s\<lparr>accounts := map (\<lambda>a. if (case ac_su_account_id a of Some j \<Rightarrow> P j | None \<Rightarrow> False)
                              then a\<lparr>ac_su_account_id := None\<rparr> else a)
                     (filter (\<lambda>a. \<not> P (ac_id a)) (accounts s)),
       perm_accounts := filter (\<lambda>(p, a). \<not> P a) (perm_accounts s),
       tokens := filter (\<lambda>t. \<not> P (t_account_id t)) (tokens s)\<rparr>"

definition cascade_asset :: "int \<Rightarrow> db \<Rightarrow> db" where
  "cascade_asset i s =
     (let s = cascade_accounts (\<lambda>j. list_ex (\<lambda>a. ac_id a = j \<and> ac_asset_id a = i) (accounts s)) s
      in s\<lparr>asset_nodes := filter (\<lambda>(a, n). a \<noteq> i) (asset_nodes s),
           perm_assets := filter (\<lambda>(p, a). a \<noteq> i) (perm_assets s),
           tokens := filter (\<lambda>t. t_asset_id t \<noteq> i) (tokens s)\<rparr>)"

definition DeleteAsset :: "int \<Rightarrow> unit store_action" where
  "DeleteAsset i = (\<lambda>s.
     let rest = filter (\<lambda>a. a_id a \<noteq> i) (assets s)
     in if \<not> foreign_keys s \<or> \<not> has_asset s i then (Inr (), s\<lparr>assets := rest\<rparr>)
        else if list_ex (\<lambda>r. s_asset_id r = i \<or>
                  list_ex (\<lambda>a. ac_id a = s_account_id r \<and> ac_asset_id a = i) (accounts s)) (sessions s)
        then (Inl ErrConstraint, s)
        else (Inr (), (cascade_asset i s)\<lparr>assets := rest\<rparr>))"

definition protocolAliases :: "string \<Rightarrow> string list" where
  "protocolAliases protocol =
     (let p = to_lower (trim_space protocol)
      in if p = ''postgres'' \<or> p = ''postgresql'' then [''postgres'', ''postgresql''] else [p])"

definition GetAssetProtocolPort :: "int \<Rightarrow> string \<Rightarrow> db \<Rightarrow> error + int" where
  "GetAssetProtocolPort assetID protocol s =
     notFound (map_option pp_port
       (find (\<lambda>pp. pp_name pp \<in> set (protocolAliases protocol) \<and>
                   (\<exists>a \<in> set (assets s). a_id a = assetID \<and> a_platform_id a = pp_platform_id pp))
         (platform_protocols s)))"

definition CreateAccount :: "account \<Rightarrow> account store_action" where
  "CreateAccount a = (\<lambda>s.
     if \<not> fk s (has_asset s (ac_asset_id a) \<and> ref_opt (has_account s) (ac_su_account_id a))
     then (Inl ErrConstraint, s)
     else let row = a\<lparr>ac_id := next_id s TAccounts, ac_created_at := clock s, ac_updated_at := clock s\<rparr>
     in (Inr row, (bump TAccounts s)\<lparr>accounts := accounts s @ [row]\<rparr>))"

definition UpdateAccount :: "account \<Rightarrow> account store_action" where
  "UpdateAccount a = (\<lambda>s.
     let this = (\<lambda>b. ac_id b = ac_id a \<and> ac_asset_id b = ac_asset_id a);
         upd = (\<lambda>b. b\<lparr>ac_name := ac_name a, ac_username := ac_username a, ac_secret := ac_secret a,
                      ac_secret_type := ac_secret_type a, ac_ssh_key_type := ac_ssh_key_type a,
                      ac_passphrase := ac_passphrase a, ac_su_enabled := ac_su_enabled a,
                      ac_su_method := ac_su_method a, ac_su_account_id := ac_su_account_id a,
                      ac_db_name := ac_db_name a, ac_is_active := ac_is_active a,
                      ac_updated_at := clock s\<rparr>)
     in case find this (accounts s) of
          None \<Rightarrow> (Inl ErrNotFound, s)
        | Some old \<Rightarrow>
            if \<not> fk s (ref_opt (has_account s) (ac_su_account_id a)) then (Inl ErrConstraint, s)
            else (Inr (upd old), s\<lparr>accounts := update_rows this upd (accounts s)\<rparr>))"

definition GetAccount :: "int \<Rightarrow> db \<Rightarrow> error + account" where
  "GetAccount i s = notFound (find (\<lambda>a. ac_id a = i) (accounts s))"

definition GetAssetAccount :: "int \<Rightarrow> int \<Rightarrow> db \<Rightarrow> error + account" where
  "GetAssetAccount assetID accountID s =
     notFound (find (\<lambda>a. ac_id a = accountID \<and> ac_asset_id a = assetID) (accounts s))"

definition DeleteAccount :: "int \<Rightarrow> int \<Rightarrow> unit store_action" where
  "DeleteAccount assetID accountID = (\<lambda>s.
     let hit = list_ex (\<lambda>a. ac_id a = accountID \<and> ac_asset_id a = assetID) (accounts s)
     in if \<not> hit then (Inr (), s)
        else if \<not> foreign_keys s
        then (Inr (), s\<lparr>accounts := filter (\<lambda>a. \<not> (ac_id a = accountID \<and> ac_asset_id a = assetID)) (accounts s)\<rparr>)
        else if list_ex (\<lambda>r. s_account_id r = accountID) (sessions s) then (Inl ErrConstraint, s)
        else (Inr (), cascade_accounts (\<lambda>j. j = accountID) s))"

section \<open>Permissions and their links\<close>

fun normalize_loop :: "string list \<Rightarrow> string list \<Rightarrow> string list" where
  "normalize_loop out [] = out"
| "normalize_loop out (act # acts) =
     (let act = trim_space act
      in if act = '''' \<or> act \<in> set out then normalize_loop out acts
         else normalize_loop (out @ [act]) acts)"

definition NormalizeActions :: "string list \<Rightarrow> string" where
  "NormalizeActions acts =
     (let out = normalize_loop [] acts in if out = [] then ''connect'' else join '','' out)"

definition insertPermissionLinks :: "int \<Rightarrow> permission_links \<Rightarrow> unit store_action" where
  "insertPermissionLinks i links = (\<lambda>s.
     case insert_links (\<lambda>j. fk s (has_user s j)) i (l_user_ids links) (perm_users s) of
       Inl e \<Rightarrow> (Inl e, s)
     | Inr us \<Rightarrow>
    (case insert_links (\<lambda>j. fk s (has_group s j)) i (l_group_ids links) (perm_groups s) of
       Inl e \<Rightarrow> (Inl e, s)
     | Inr gs \<Rightarrow>
    (case insert_links (\<lambda>j. fk s (has_asset s j)) i (l_asset_ids links) (perm_assets s) of
       Inl e \<Rightarrow> (Inl e, s)
     | Inr as \<Rightarrow>
    (case insert_links (\<lambda>j. fk s (has_node s j)) i (l_node_ids links) (perm_nodes s) of
       Inl e \<Rightarrow> (Inl e, s)
     | Inr ns \<Rightarrow>
    (case insert_links (\<lambda>j. fk s (has_account s j)) i (l_account_ids links) (perm_accounts s) of
       Inl e \<Rightarrow> (Inl e, s)
     | Inr acs \<Rightarrow>
         (Inr (), s\<lparr>perm_users := us, perm_groups := gs, perm_assets := as,
                    perm_nodes := ns, perm_accounts := acs\<rparr>))))))"

definition CreatePermission :: "permission \<Rightarrow> permission_links \<Rightarrow> permission store_action" where
  "CreatePermission p links = withTx (\<lambda>s.
     let row = p\<lparr>p_id := next_id s TPermissions, p_created_at := clock s, p_updated_at := clock s\<rparr>
     in abind (insertPermissionLinks (p_id row) links) (\<lambda>_. ret row)
          ((bump TPermissions s)\<lparr>permissions := permissions s @ [row]\<rparr>))"

text \<open>
  The five \<open>DELETE\<close> statements keep the \<open>?\<close> placeholder, which PostgreSQL rejects; the
  statement is not passed through \<open>Rebind\<close>.
\<close>

definition clear_links :: "int \<Rightarrow> unit store_action" where
  "clear_links i = (\<lambda>s.
     if postgres s then (Inl (ErrOther ''syntax error''), s)
     else let keep = filter (\<lambda>(p, x). p \<noteq> i)
          in (Inr (), s\<lparr>perm_users := keep (perm_users s), perm_groups := keep (perm_groups s),
                        perm_assets := keep (perm_assets s), perm_nodes := keep (perm_nodes s),
                        perm_accounts := keep (perm_accounts s)\<rparr>))"

definition UpdatePermission :: "permission \<Rightarrow> permission_links \<Rightarrow> permission store_action" where
  "UpdatePermission p links = withTx (\<lambda>s.
     let upd = (\<lambda>q. q\<lparr>p_name := p_name p, p_actions := p_actions p, p_date_start := p_date_start p,
                      p_date_expired := p_date_expired p, p_is_active := p_is_active p,
                      p_updated_at := clock s\<rparr>)
     in case find (\<lambda>q. p_id q = p_id p) (permissions s) of
          None \<Rightarrow> (Inl (ErrOther ''sql: no rows in result set''), s)
        | Some old \<Rightarrow>
            abind (clear_links (p_id p)) (\<lambda>_.
              abind (insertPermissionLinks (p_id p) links) (\<lambda>_. ret (upd old)))
              (s\<lparr>permissions := update_rows (\<lambda>q. p_id q = p_id p) upd (permissions s)\<rparr>))"

definition links_of :: "int \<Rightarrow> (int \<times> int) list \<Rightarrow> int list" where
  "links_of i rows = map snd (filter (\<lambda>(p, x). p = i) rows)"

definition PermissionLinks :: "int \<Rightarrow> db \<Rightarrow> permission_links" where
  "PermissionLinks i s =
     \<lparr>l_user_ids = links_of i (perm_users s), l_group_ids = links_of i (perm_groups s),
      l_asset_ids = links_of i (perm_assets s), l_node_ids = links_of i (perm_nodes s),
      l_account_ids = links_of i (perm_accounts s)\<rparr>"

definition GetPermission :: "int \<Rightarrow> db \<Rightarrow> error + permission \<times> permission_links" where
  "GetPermission i s =
     rbind (notFound (find (\<lambda>p. p_id p = i) (permissions s))) (\<lambda>p. Inr (p, PermissionLinks i s))"

definition DeletePermission :: "int \<Rightarrow> unit store_action" where
  "DeletePermission i = (\<lambda>s.
     let rest = filter (\<lambda>p. p_id p \<noteq> i) (permissions s); keep = filter (\<lambda>(p, x). p \<noteq> i)
     in if \<not> foreign_keys s \<or> \<not> list_ex (\<lambda>p. p_id p = i) (permissions s)
        then (Inr (), s\<lparr>permissions := rest\<rparr>)
        else (Inr (), s\<lparr>permissions := rest, perm_users := keep (perm_users s),
                perm_groups := keep (perm_groups s), perm_assets := keep (perm_assets s),
                perm_nodes := keep (perm_nodes s), perm_accounts := keep (perm_accounts s)\<rparr>))"

section \<open>The permission query\<close>

text \<open>
  \<open>LIKE\<close>: SQLite ignores the case of ASCII letters, PostgreSQL does not; \<open>f\<close> is what both
  sides are compared under.
\<close>

fun like :: "(char \<Rightarrow> char) \<Rightarrow> string \<Rightarrow> string \<Rightarrow> bool" where
  "like f [] s = (s = [])"
| "like f (p # ps) [] = (p = CHR ''%'' \<and> like f ps [])"
| "like f (p # ps) (c # s) =
     (if p = CHR ''%'' then like f ps (c # s) \<or> like f (p # ps) s
      else (p = CHR ''_'' \<or> f p = f c) \<and> like f ps s)"

definition like_case :: "db \<Rightarrow> char \<Rightarrow> char" where
  "like_case s = (if postgres s then id else lower_char)"

definition action_matches :: "db \<Rightarrow> string \<Rightarrow> string \<Rightarrow> bool" where
  "action_matches s act acts = like (like_case s) (''%,'' @ act @ '',%'') ('','' @ acts @ '','')"

text \<open>The recursive part: the nodes of the asset and all their ancestors.\<close>

definition start_nodes :: "int \<Rightarrow> db \<Rightarrow> int list" where
  "start_nodes assetID s =
     filter (\<lambda>n. (\<exists>a \<in> set (assets s). a_id a = assetID \<and> a_node_id a = Some n)
                 \<or> (assetID, n) \<in> set (asset_nodes s))
       (map n_id (nodes s))"

definition parents_of :: "node list \<Rightarrow> int list \<Rightarrow> int list" where
  "parents_of ns ids =
     filter (\<lambda>p. \<exists>c \<in> set ns. n_id c \<in> set ids \<and> n_parent_id c = Some p) (map n_id ns)"

definition new_parents :: "node list \<Rightarrow> int list \<Rightarrow> int list" where
  "new_parents ns ids = remdups (filter (\<lambda>p. p \<notin> set ids) (parents_of ns ids))"

lemma new_parents_facts:
  "set (new_parents ns ids) \<subseteq> n_id ` set ns" "set (new_parents ns ids) \<inter> set ids = {}"
  by (auto simp: new_parents_def parents_of_def)

function climb :: "node list \<Rightarrow> int list \<Rightarrow> int list" where
  "climb ns ids = (if new_parents ns ids = [] then ids else climb ns (ids @ new_parents ns ids))"
  by pat_completeness auto
termination
proof (relation "measure (\<lambda>(ns, ids). card (n_id ` set ns - set ids))")
  fix ns :: "node list" and ids
  assume "new_parents ns ids \<noteq> []"
  then obtain p where p: "p \<in> set (new_parents ns ids)" by (cases "new_parents ns ids") auto
  hence "p \<in> n_id ` set ns - set ids" "p \<notin> n_id ` set ns - set (ids @ new_parents ns ids)"
    using new_parents_facts [of ns ids] by auto
  hence "n_id ` set ns - set (ids @ new_parents ns ids) \<subset> n_id ` set ns - set ids" by auto
  thus "((ns, ids @ new_parents ns ids), ns, ids) \<in> measure (\<lambda>(ns, ids). card (n_id ` set ns - set ids))"
    by (simp add: psubset_card_mono)
qed simp

declare climb.simps [simp del]

definition asset_node_ids :: "int \<Rightarrow> db \<Rightarrow> int list" where
  "asset_node_ids assetID s = climb (nodes s) (start_nodes assetID s)"

definition HasAssetPermission :: "int \<Rightarrow> int \<Rightarrow> int \<Rightarrow> string \<Rightarrow> db \<Rightarrow> bool" where
  "HasAssetPermission userID assetID accountID act s =
     (\<exists>p \<in> set (permissions s).
        p_is_active p
        \<and> (case p_date_start p of None \<Rightarrow> True | Some d \<Rightarrow> d \<le> clock s)
        \<and> (case p_date_expired p of None \<Rightarrow> True | Some d \<Rightarrow> clock s < d)
        \<and> action_matches s act (p_actions p)
        \<and> ((p_id p, userID) \<in> set (perm_users s)
           \<or> (\<exists>(q, g) \<in> set (perm_groups s). q = p_id p \<and> (g, userID) \<in> set (group_users s)))
        \<and> ((p_id p, assetID) \<in> set (perm_assets s)
           \<or> (\<exists>(q, n) \<in> set (perm_nodes s). q = p_id p \<and> n \<in> set (asset_node_ids assetID s)))
        \<and> ((p_id p, accountID) \<in> set (perm_accounts s)
           \<or> \<not> (\<exists>(q, c) \<in> set (perm_accounts s). q = p_id p)))"

section \<open>The climb reaches exactly the asset's place in the tree\<close>

inductive in_tree :: "node list \<Rightarrow> int list \<Rightarrow> int \<Rightarrow> bool" for ns start where
  placed: "n \<in> set start \<Longrightarrow> in_tree ns start n"
| parent: "in_tree ns start (n_id c) \<Longrightarrow> c \<in> set ns \<Longrightarrow> n_parent_id c = Some p \<Longrightarrow>
           p \<in> n_id ` set ns \<Longrightarrow> in_tree ns start p"

lemma parents_in_tree: "p \<in> set (parents_of ns ids) \<Longrightarrow> (\<And>i. i \<in> set ids \<Longrightarrow> in_tree ns start i) \<Longrightarrow> in_tree ns start p"
  by (auto simp: parents_of_def intro: in_tree.parent)

lemma climb_sound: "i \<in> set (climb ns ids) \<Longrightarrow> (\<And>j. j \<in> set ids \<Longrightarrow> in_tree ns start j) \<Longrightarrow> in_tree ns start i"
proof (induction ns ids rule: climb.induct)
  case (1 ns ids)
  show ?case
  proof (cases "new_parents ns ids = []")
    case True
    thus ?thesis using 1 by (simp add: climb.simps [of ns ids])
  next
    case False
    have "in_tree ns start j" if "j \<in> set (ids @ new_parents ns ids)" for j
      using that "1.prems"(2) parents_in_tree [of j ns ids start] by (auto simp: new_parents_def)
    thus ?thesis using False 1 by (simp add: climb.simps [of ns ids])
  qed
qed

lemma climb_closed:
  "set ids \<subseteq> set (climb ns ids) \<and> set (parents_of ns (climb ns ids)) \<subseteq> set (climb ns ids)"
proof (induction ns ids rule: climb.induct)
  case (1 ns ids)
  show ?case
  proof (cases "new_parents ns ids = []")
    case True
    hence "set (parents_of ns ids) \<subseteq> set ids"
      by (auto simp: new_parents_def filter_empty_conv remdups_eq_nil_iff)
    thus ?thesis using True by (simp add: climb.simps [of ns ids])
  next
    case False
    thus ?thesis using 1 by (simp add: climb.simps [of ns ids])
  qed
qed

lemma climb_iff: "i \<in> set (climb ns ids) \<longleftrightarrow> in_tree ns ids i"
proof
  assume "i \<in> set (climb ns ids)"
  thus "in_tree ns ids i" by (rule climb_sound) (rule in_tree.placed)
next
  assume "in_tree ns ids i"
  thus "i \<in> set (climb ns ids)"
  proof induction
    case (placed n)
    thus ?case using climb_closed by blast
  next
    case (parent c p)
    hence "p \<in> set (parents_of ns (climb ns ids))" by (auto simp: parents_of_def)
    thus ?case using climb_closed by blast
  qed
qed

section \<open>The match on the action list\<close>

definition plain :: "string \<Rightarrow> bool" where
  "plain w = list_all (\<lambda>c. c \<noteq> CHR ''%'' \<and> c \<noteq> CHR ''_'') w"

lemma like_percent: "like f ''%'' s"
  by (induction s) simp_all

lemma like_plain_percent:
  "plain w \<Longrightarrow> like f (w @ ''%'') s \<longleftrightarrow> has_prefix (map f w) (map f s)"
proof (induction w arbitrary: s)
  case Nil
  show ?case by (simp add: like_percent)
next
  case (Cons p w)
  thus ?case by (cases s) (auto simp: plain_def)
qed

lemma like_contains:
  assumes "plain w" and "w \<noteq> []"
  shows "like f (''%'' @ w @ ''%'') s \<longleftrightarrow> contains (map f w) (map f s)"
proof (induction s)
  case Nil
  obtain p v where "w = p # v" "p \<noteq> CHR ''%''" using assms by (cases w) (auto simp: plain_def)
  thus ?case by (simp add: contains_def)
next
  case (Cons c s)
  have "like f (''%'' @ w @ ''%'') (c # s) \<longleftrightarrow>
        like f (w @ ''%'') (c # s) \<or> like f (''%'' @ w @ ''%'') s" by simp
  also have "\<dots> \<longleftrightarrow> has_prefix (map f w) (map f (c # s)) \<or> contains (map f w) (map f s)"
    using Cons.IH like_plain_percent [OF assms(1)] by blast
  also have "\<dots> \<longleftrightarrow> contains (map f w) (map f (c # s))"
    by (auto simp: contains_def)
  finally show ?case .
qed

lemma prefix_before_sep:
  assumes "c \<notin> set a" and "c \<notin> set w"
  shows "has_prefix (a @ [c]) (w @ c # t) \<longleftrightarrow> a = w"
  using assms
proof (induction a arbitrary: w)
  case Nil
  thus ?case by (cases w) auto
next
  case (Cons x a)
  thus ?case by (cases w) auto
qed

lemma contains_after_word:
  "c \<notin> set w \<Longrightarrow> contains (c # p) (w @ s) \<longleftrightarrow> contains (c # p) s"
  by (induction w) (auto simp: contains_Cons)

lemma contains_between_seps:
  assumes "c \<notin> set a"
  shows "contains (c # a @ [c]) (c # s @ [c]) \<longleftrightarrow> a \<in> set (split_char c s)"
proof (induction s rule: length_induct)
  case (1 s)
  show ?case
  proof (cases "c \<in> set s")
    case False
    have "\<not> contains (c # a @ [c]) [c]" by (simp add: contains_def)
    hence "contains (c # a @ [c]) (c # s @ [c]) \<longleftrightarrow> has_prefix (a @ [c]) (s @ [c])"
      using False contains_after_word [of c s "a @ [c]" "[c]"] by (simp add: contains_Cons)
    also have "\<dots> \<longleftrightarrow> a = s" by (rule prefix_before_sep [OF assms False])
    finally show ?thesis using False by (auto simp: split_char_no_sep)
  next
    case True
    then obtain w t where s: "s = w @ c # t" "c \<notin> set w" by (metis split_list_first)
    have "contains (c # a @ [c]) (c # s @ [c]) \<longleftrightarrow>
          has_prefix (a @ [c]) (w @ c # t @ [c]) \<or> contains (c # a @ [c]) (c # t @ [c])"
      using s contains_after_word [of c w "a @ [c]" "c # t @ [c]"] by (simp add: contains_Cons)
    also have "\<dots> \<longleftrightarrow> a = w \<or> a \<in> set (split_char c t)"
      using prefix_before_sep [OF assms s(2)] 1 s(1) by simp
    finally show ?thesis using s by (simp add: split_char_app)
  qed
qed

lemma lower_comma [simp]: "lower_char c = CHR '','' \<longleftrightarrow> c = CHR '',''"
proof
  assume a: "lower_char c = CHR '',''"
  show "c = CHR '',''"
  proof (rule ccontr)
    assume ne: "c \<noteq> CHR '',''"
    with a have "65 \<le> (of_char c :: nat) \<and> (of_char c :: nat) \<le> 90 \<and> chr (of_char c + 32) = CHR '',''"
      by (auto simp: lower_char_def Let_def split: if_splits)
    moreover have "(of_char (CHR '','') :: nat) = 44" by simp
    ultimately have "(of_char c + 32) mod 256 = (44 :: nat)" by (metis of_char_of)
    thus False using \<open>65 \<le> (of_char c :: nat) \<and> _\<close> by simp
  qed
qed (simp add: lower_char_def)

lemma like_case_comma [simp]: "like_case s c = CHR '','' \<longleftrightarrow> c = CHR '',''"
  by (simp add: like_case_def)

text \<open>An action matches exactly if it is one of the comma-separated words of the list.\<close>

lemma action_matches_iff:
  assumes "plain act" and "CHR '','' \<notin> set act"
  shows "action_matches s act acts \<longleftrightarrow>
         map (like_case s) act \<in> set (split_char (CHR '','') (map (like_case s) acts))"
proof -
  let ?f = "like_case s"
  have "plain ('','' @ act @ '','')" using assms(1) by (simp add: plain_def)
  moreover have "''%,'' @ act @ '',%'' = ''%'' @ ('','' @ act @ '','') @ ''%''" by simp
  ultimately have
    "action_matches s act acts \<longleftrightarrow> contains (map ?f ('','' @ act @ '','')) (map ?f ('','' @ acts @ '',''))"
    using like_contains [of "'','' @ act @ '',''" ?f "'','' @ acts @ '',''"]
    by (simp only: action_matches_def) simp
  moreover have "?f (CHR '','') = CHR '',''" by simp
  moreover have "CHR '','' \<notin> set (map ?f act)"
    using assms(2) by (metis (no_types, lifting) image_iff like_case_comma list.set_map)
  ultimately show ?thesis
    using contains_between_seps [of "CHR '',''" "map ?f act" "map ?f acts"] by simp
qed

section \<open>What the permission query decides\<close>

lemma mem_links_of: "x \<in> set (links_of i rows) \<longleftrightarrow> (i, x) \<in> set rows"
  by (force simp: links_of_def)

lemma links_of_Nil: "links_of i rows = [] \<longleftrightarrow> \<not> (\<exists>(q, c) \<in> set rows. q = i)"
  by (auto simp: links_of_def filter_empty_conv)

definition in_force :: "permission \<Rightarrow> time \<Rightarrow> bool" where
  "in_force p t =
     (p_is_active p \<and> (p_date_start p = None \<or> the (p_date_start p) \<le> t)
                    \<and> (p_date_expired p = None \<or> t < the (p_date_expired p)))"

definition names_user :: "db \<Rightarrow> permission_links \<Rightarrow> int \<Rightarrow> bool" where
  "names_user s l userID =
     (userID \<in> set (l_user_ids l) \<or> (\<exists>g \<in> set (l_group_ids l). (g, userID) \<in> set (group_users s)))"

lemma connect_iff:
  "HasAssetPermission userID assetID accountID ''connect'' s \<longleftrightarrow>
   (\<exists>p \<in> set (permissions s).
      let l = PermissionLinks (p_id p) s in
      in_force p (clock s) \<and>
      ''connect'' \<in> set (split_char (CHR '','') (map (like_case s) (p_actions p))) \<and>
      names_user s l userID \<and>
      (assetID \<in> set (l_asset_ids l) \<or>
       (\<exists>n \<in> set (l_node_ids l). in_tree (nodes s) (start_nodes assetID s) n)) \<and>
      (accountID \<in> set (l_account_ids l) \<or> l_account_ids l = []))"
proof -
  have low: "map (like_case s) ''connect'' = ''connect''"
    by (simp add: like_case_def lower_char_def)
  have "plain ''connect''" and "CHR '','' \<notin> set ''connect''" by (simp_all add: plain_def)
  note act = action_matches_iff [OF this, of s, unfolded low]
  show ?thesis
    unfolding HasAssetPermission_def act asset_node_ids_def climb_iff
    by (intro bex_cong [OF refl])
       (auto simp: PermissionLinks_def Let_def in_force_def names_user_def mem_links_of links_of_Nil
         split: option.splits)
qed

text \<open>
  C3: A user may connect exactly when some permission is active, within its dates, lists
  the action \<open>connect\<close> as one of its comma-separated words (in any case on SQLite), names
  the user or one of its groups, covers the asset by itself or by a node the asset is in
  or under, at any depth and also when the tree has a cycle, and names the account or no
  account at all.
\<close>

theorem HasAssetPermission_connect_iff:
  "HasAssetPermission userID assetID accountID ''connect'' s \<longleftrightarrow>
   (\<exists>p \<in> set (permissions s).
      let l = PermissionLinks (p_id p) s in
      in_force p (clock s) \<and>
      ''connect'' \<in> set (split_char (CHR '','') (map (like_case s) (p_actions p))) \<and>
      names_user s l userID \<and>
      (assetID \<in> set (l_asset_ids l) \<or>
       (\<exists>n \<in> set (l_node_ids l). in_tree (nodes s) (start_nodes assetID s) n)) \<and>
      (accountID \<in> set (l_account_ids l) \<or> l_account_ids l = []))"
  by (rule connect_iff)

section \<open>Deleting an account\<close>

lemma DeleteAccount_cascades:
  assumes "DeleteAccount assetID a s = (Inr (), t)" and "foreign_keys s"
    and "\<exists>x \<in> set (accounts s). ac_id x = a \<and> ac_asset_id x = assetID"
  shows "t = cascade_accounts (\<lambda>j. j = a) s"
  using assms by (auto simp: DeleteAccount_def Let_def list_ex_iff split: if_splits)

lemma cascade_accounts_links:
  "perm_accounts (cascade_accounts P s) = filter (\<lambda>(p, x). \<not> P x) (perm_accounts s)"
  "perm_users (cascade_accounts P s) = perm_users s" "perm_groups (cascade_accounts P s) = perm_groups s"
  "perm_assets (cascade_accounts P s) = perm_assets s" "perm_nodes (cascade_accounts P s) = perm_nodes s"
  "nodes (cascade_accounts P s) = nodes s" "assets (cascade_accounts P s) = assets s"
  "asset_nodes (cascade_accounts P s) = asset_nodes s" "permissions (cascade_accounts P s) = permissions s"
  "clock (cascade_accounts P s) = clock s" "postgres (cascade_accounts P s) = postgres s"
  "group_users (cascade_accounts P s) = group_users s"
  by (simp_all add: cascade_accounts_def)

text \<open>
  C32: Deleting an account can widen what others may do.  A permission that named this
  account and no other names none afterwards, the reference having cascaded away, and a
  permission that names no account covers every account of its assets.
\<close>

theorem deleting_an_account_widens:
  assumes del: "DeleteAccount assetID a s = (Inr (), t)" "foreign_keys s"
      "\<exists>x \<in> set (accounts s). ac_id x = a \<and> ac_asset_id x = assetID"
    and p: "p \<in> set (permissions s)" "in_force p (clock s)"
      "''connect'' \<in> set (split_char (CHR '','') (map (like_case s) (p_actions p)))"
    and user: "names_user s (PermissionLinks (p_id p) s) userID"
    and asset: "other \<in> set (l_asset_ids (PermissionLinks (p_id p) s))"
    and only: "set (l_account_ids (PermissionLinks (p_id p) s)) \<subseteq> {a}"
  shows "HasAssetPermission userID other anyAccount ''connect'' t"
proof -
  have t: "t = cascade_accounts (\<lambda>j. j = a) s" by (rule DeleteAccount_cascades [OF del])
  have "x = a" if "(p_id p, x) \<in> set (perm_accounts s)" for x
    using only that by (auto simp: PermissionLinks_def mem_links_of)
  hence "l_account_ids (PermissionLinks (p_id p) t) = []"
    by (auto simp: t PermissionLinks_def cascade_accounts_links links_of_Nil)
  moreover have "like_case t = like_case s" by (simp add: like_case_def t cascade_accounts_links)
  ultimately show ?thesis
    using p user asset unfolding connect_iff Let_def
    by (intro bexI [of _ p]) (auto simp: t names_user_def PermissionLinks_def cascade_accounts_links)
qed

theorem deleting_an_account_widens_witness:
  "\<exists>s t. \<not> HasAssetPermission 1 5 8 ''connect'' s \<and> DeleteAccount 5 7 s = (Inr (), t) \<and>
         HasAssetPermission 1 5 8 ''connect'' t"
proof -
  define p where "p = \<lparr>p_id = 1, p_name = ''ops'', p_actions = ''connect'', p_date_start = None,
      p_date_expired = None, p_is_active = True, p_created_at = 0, p_updated_at = 0\<rparr>"
  define acc where "acc = \<lparr>ac_id = 7, ac_asset_id = 5, ac_name = '''', ac_username = '''', ac_secret = '''',
      ac_secret_type = '''', ac_ssh_key_type = '''', ac_passphrase = '''', ac_su_enabled = False,
      ac_su_method = '''', ac_su_account_id = None, ac_db_name = '''', ac_is_active = True,
      ac_created_at = 0, ac_updated_at = 0\<rparr>"
  define s where "s = (empty_db 3)\<lparr>accounts := [acc], permissions := [p], perm_users := [(1, 1)],
      perm_assets := [(1, 5)], perm_accounts := [(1, 7)]\<rparr>"
  obtain t where t: "DeleteAccount 5 7 s = (Inr (), t)"
    by (simp add: DeleteAccount_def s_def empty_db_def acc_def)
  have "map (like_case s) ''connect'' = ''connect''" by (simp add: like_case_def lower_char_def)
  hence "HasAssetPermission 1 5 8 ''connect'' t"
    by (intro deleting_an_account_widens [OF t, of p])
       (simp_all add: s_def empty_db_def acc_def p_def in_force_def names_user_def PermissionLinks_def links_of_def)
  moreover have "\<not> HasAssetPermission 1 5 8 ''connect'' s"
    by (simp add: connect_iff Let_def s_def empty_db_def p_def PermissionLinks_def links_of_def)
  ultimately show ?thesis using t by blast
qed

end
