(* ===== verification/AssetService.thy ===== *)
theory AssetService
  imports StorePerm Crypto "HOL-Library.List_Lexorder" "HOL-Library.Char_ord"
begin

text \<open>
  The services for assets and their accounts (\<open>service/assets.go\<close>) and for the system
  settings (\<open>service/settings.go\<close>): what they encrypt before it is stored and blank or mask
  before it is shown.  The nonces drawn by the secret box are arguments.
\<close>

section \<open>Assets\<close>

record secret_box =
  bx_seal :: "byte list \<Rightarrow> byte list \<Rightarrow> byte list"
  bx_open :: "byte list \<Rightarrow> byte list \<Rightarrow> byte list option"

record asset_input =
  ai_name :: string
  ai_address :: string
  ai_platform_id :: int
  ai_node_id :: "int option"
  ai_comment :: string
  ai_is_active :: "bool option"

record account_input =
  ci_name :: string
  ci_username :: string
  ci_secret :: string
  ci_secret_type :: string
  ci_ssh_key_type :: string
  ci_passphrase :: string
  ci_su_enabled :: bool
  ci_su_method :: string
  ci_su_account_id :: "int option"
  ci_db_name :: string
  ci_is_active :: "bool option"

definition Assets_CreateAsset :: "asset_input \<Rightarrow> asset store_action" where
  "Assets_CreateAsset input =
     CreateAsset \<lparr>a_id = 0, a_name = ai_name input, a_address = ai_address input,
       a_platform_id = ai_platform_id input, a_node_id = ai_node_id input, a_comment = ai_comment input,
       a_is_active = (case ai_is_active input of None \<Rightarrow> True | Some b \<Rightarrow> b),
       a_created_at = 0, a_updated_at = 0\<rparr>"

definition Assets_UpdateAsset :: "int \<Rightarrow> asset \<Rightarrow> asset store_action" where
  "Assets_UpdateAsset i input =
     abind (query (GetAsset i)) (\<lambda>a.
       UpdateAsset (a\<lparr>a_name := a_name input, a_address := a_address input,
         a_platform_id := a_platform_id input, a_node_id := a_node_id input,
         a_comment := a_comment input, a_is_active := a_is_active input\<rparr>))"

definition blank :: "account \<Rightarrow> account" where
  "blank a = a\<lparr>ac_secret := '''', ac_passphrase := ''''\<rparr>"

text \<open>\<open>store.ListAccounts\<close> and the blanking of its rows.\<close>

definition Store_ListAccounts :: "int \<Rightarrow> db \<Rightarrow> account list" where
  "Store_ListAccounts assetID s = filter (\<lambda>a. ac_asset_id a = assetID) (accounts s)"

definition Assets_ListAccounts :: "int \<Rightarrow> db \<Rightarrow> account list" where
  "Assets_ListAccounts assetID s = map blank (Store_ListAccounts assetID s)"

definition secret_type :: "string \<Rightarrow> string" where
  "secret_type ty = (if ty = '''' then ''password'' else ty)"

definition Assets_CreateAccount ::
    "secret_box \<Rightarrow> byte list \<Rightarrow> byte list \<Rightarrow> int \<Rightarrow> account_input \<Rightarrow> account store_action" where
  "Assets_CreateAccount box n1 n2 assetID input =
     (let secret = EncryptString (bx_seal box) n1 (ci_secret input);
          passphrase = EncryptString (bx_seal box) n2 (ci_passphrase input)
      in abind (CreateAccount
           \<lparr>ac_id = 0, ac_asset_id = assetID, ac_name = ci_name input, ac_username = ci_username input,
            ac_secret = secret, ac_secret_type = secret_type (ci_secret_type input),
            ac_ssh_key_type = ci_ssh_key_type input, ac_passphrase = passphrase,
            ac_su_enabled = ci_su_enabled input, ac_su_method = ci_su_method input,
            ac_su_account_id = ci_su_account_id input, ac_db_name = ci_db_name input,
            ac_is_active = (case ci_is_active input of None \<Rightarrow> True | Some b \<Rightarrow> b),
            ac_created_at = 0, ac_updated_at = 0\<rparr>) (\<lambda>a. ret (blank a)))"

definition Assets_UpdateAccount ::
    "secret_box \<Rightarrow> byte list \<Rightarrow> byte list \<Rightarrow> int \<Rightarrow> int \<Rightarrow> account_input \<Rightarrow> account store_action" where
  "Assets_UpdateAccount box n1 n2 assetID accountID input =
     abind (query (GetAssetAccount assetID accountID)) (\<lambda>a.
       let a = a\<lparr>ac_name := ci_name input, ac_username := ci_username input,
                 ac_secret_type := secret_type (ci_secret_type input),
                 ac_ssh_key_type := ci_ssh_key_type input, ac_su_enabled := ci_su_enabled input,
                 ac_su_method := ci_su_method input, ac_su_account_id := ci_su_account_id input,
                 ac_db_name := ci_db_name input\<rparr>;
           a = (case ci_is_active input of None \<Rightarrow> a | Some b \<Rightarrow> a\<lparr>ac_is_active := b\<rparr>);
           a = (if ci_secret input \<noteq> ''''
                then a\<lparr>ac_secret := EncryptString (bx_seal box) n1 (ci_secret input)\<rparr> else a);
           a = (if ci_passphrase input \<noteq> ''''
                then a\<lparr>ac_passphrase := EncryptString (bx_seal box) n2 (ci_passphrase input)\<rparr> else a)
       in abind (UpdateAccount a) (\<lambda>a. ret (blank a)))"

text \<open>A box whose cipher opens what it sealed.\<close>

definition good_box :: "secret_box \<Rightarrow> bool" where
  "good_box box = (\<forall>n p. bx_open box n (bx_seal box n p) = Some p)"

lemma box_round_trip:
  assumes "good_box box" and "length n = NonceSize"
  shows "DecryptString (bx_open box) (EncryptString (bx_seal box) n v) = Inr v"
  using assms by (simp add: good_box_def DecryptString_def EncryptString_def raw_round_trip encryptedPrefix_def)

lemma blank_simps [simp]: "ac_secret (blank a) = ''''" "ac_passphrase (blank a) = ''''" "ac_id (blank a) = ac_id a"
  by (simp_all add: blank_def)

text \<open>
  A credential survives storage and stays out of sight.  The stored secret of a new
  account decrypts to what was entered; an update that leaves the secret empty keeps it,
  one that enters another replaces it; and neither the answers nor the account list carry
  a secret or a passphrase.
\<close>

theorem account_secret_kept:
  assumes box: "good_box box" "length n1 = NonceSize" "length n3 = NonceSize"
    and new: "\<forall>a \<in> set (accounts s). ac_id a \<noteq> next_id s TAccounts"
    and create: "Assets_CreateAccount box n1 n2 assetID input s = (Inr a, s1)"
    and update: "Assets_UpdateAccount box n3 n4 assetID (ac_id a) input2 s1 = (Inr b, s2)"
  shows "(\<exists>row. GetAccount (ac_id a) s1 = Inr row \<and> DecryptString (bx_open box) (ac_secret row) = Inr (ci_secret input)) \<and>
         (\<exists>row. GetAccount (ac_id a) s2 = Inr row \<and> DecryptString (bx_open box) (ac_secret row) =
            Inr (if ci_secret input2 = '''' then ci_secret input else ci_secret input2)) \<and>
         (\<forall>x \<in> {a, b} \<union> set (Assets_ListAccounts assetID s2). ac_secret x = '''' \<and> ac_passphrase x = '''')"
proof -
  obtain row0 row where a: "a = blank row" and made: "CreateAccount row0 s = (Inr row, s1)"
      "ac_asset_id row0 = assetID" "ac_secret row0 = EncryptString (bx_seal box) n1 (ci_secret input)"
    using create by (force simp: Assets_CreateAccount_def Let_def abind_Inr_iff)
  hence row: "ac_id row = next_id s TAccounts" "ac_asset_id row = assetID"
      "ac_secret row = EncryptString (bx_seal box) n1 (ci_secret input)"
    and s1: "accounts s1 = accounts s @ [row]"
    by (auto simp: CreateAccount_def bump_def Let_def split: if_splits)
  have id: "ac_id a = next_id s TAccounts" using row a by simp
  have none: "find (\<lambda>x. ac_id x = ac_id a) (accounts s) = None"
    "find (\<lambda>x. ac_id x = ac_id a \<and> ac_asset_id x = assetID) (accounts s) = None"
    using new by (simp_all add: find_None_set id)
  have g1: "GetAccount (ac_id a) s1 = Inr row" "GetAssetAccount assetID (ac_id a) s1 = Inr row"
    using none row id by (simp_all add: GetAccount_def GetAssetAccount_def s1 find_append)
  obtain c where c: "ac_id c = ac_id a" "ac_asset_id c = assetID"
      "ac_secret c = (if ci_secret input2 = '''' then ac_secret row
                      else EncryptString (bx_seal box) n3 (ci_secret input2))"
    and upd: "abind (UpdateAccount c) (\<lambda>a. ret (blank a)) s1 = (Inr b, s2)"
  proof
    let ?c0 = "row\<lparr>ac_name := ci_name input2, ac_username := ci_username input2,
                 ac_secret_type := secret_type (ci_secret_type input2),
                 ac_ssh_key_type := ci_ssh_key_type input2, ac_su_enabled := ci_su_enabled input2,
                 ac_su_method := ci_su_method input2, ac_su_account_id := ci_su_account_id input2,
                 ac_db_name := ci_db_name input2\<rparr>"
    let ?c1 = "case ci_is_active input2 of None \<Rightarrow> ?c0 | Some b \<Rightarrow> ?c0\<lparr>ac_is_active := b\<rparr>"
    let ?c2 = "if ci_secret input2 \<noteq> '''' then ?c1\<lparr>ac_secret := EncryptString (bx_seal box) n3 (ci_secret input2)\<rparr> else ?c1"
    let ?c3 = "if ci_passphrase input2 \<noteq> ''''
               then ?c2\<lparr>ac_passphrase := EncryptString (bx_seal box) n4 (ci_passphrase input2)\<rparr> else ?c2"
    show "abind (UpdateAccount ?c3) (\<lambda>a. ret (blank a)) s1 = (Inr b, s2)"
      using update g1 by (simp only: Assets_UpdateAccount_def Let_def abind_app query_app prod.case sum.case)
    show "ac_id ?c3 = ac_id a" "ac_asset_id ?c3 = assetID"
      using row id by (simp_all split: option.split)
    show "ac_secret ?c3 = (if ci_secret input2 = '''' then ac_secret row
                      else EncryptString (bx_seal box) n3 (ci_secret input2))"
      by (simp split: option.split)
  qed
  obtain d where d: "UpdateAccount c s1 = (Inr d, s2)" and b: "b = blank d"
    using upd by (auto simp: abind_Inr_iff)
  have "accounts s2 = update_rows (\<lambda>x. ac_id x = ac_id c \<and> ac_asset_id x = ac_asset_id c)
      (\<lambda>x. x\<lparr>ac_name := ac_name c, ac_username := ac_username c, ac_secret := ac_secret c,
                      ac_secret_type := ac_secret_type c, ac_ssh_key_type := ac_ssh_key_type c,
                      ac_passphrase := ac_passphrase c, ac_su_enabled := ac_su_enabled c,
                      ac_su_method := ac_su_method c, ac_su_account_id := ac_su_account_id c,
                      ac_db_name := ac_db_name c, ac_is_active := ac_is_active c,
                      ac_updated_at := clock s1\<rparr>) (accounts s1)"
    using d by (auto simp: UpdateAccount_def Let_def split: option.splits if_splits)
  hence "\<exists>r. GetAccount (ac_id a) s2 = Inr r \<and> ac_secret r = ac_secret c"
    using none row id c by (simp add: GetAccount_def s1 find_update_rows find_append)
  moreover have "DecryptString (bx_open box) (ac_secret c) =
      Inr (if ci_secret input2 = '''' then ci_secret input else ci_secret input2)"
    using c(3) row(3) box_round_trip [OF box(1)] box(2,3) by simp
  ultimately show ?thesis
    using g1(1) row(3) box_round_trip [OF box(1,2)] by (auto simp: a b Assets_ListAccounts_def)
qed

section \<open>Settings\<close>

text \<open>The service keeps a cache it writes on every access and never reads.\<close>

record settings_svc =
  sv_db :: db
  sv_cache :: "string \<rightharpoonup> setting"

type_synonym 'a settings_action = "(settings_svc, error, 'a) action"

definition isSecretSetting :: "setting \<Rightarrow> bool" where
  "isSecretSetting st =
     (st_input_type st = ''secret'' \<or> contains ''secret'' (st_key st) \<or> contains ''access_key'' (st_key st))"

definition quoted_empty :: string where
  "quoted_empty = [chr 34, chr 34]"

definition maskSecret :: "string \<Rightarrow> string" where
  "maskSecret v = (if v = '''' \<or> v = quoted_empty then v else ''******'')"

definition masked :: "setting \<Rightarrow> setting" where
  "masked st = (if isSecretSetting st then st\<lparr>st_value := maskSecret (st_value st)\<rparr> else st)"

definition remember :: "setting \<Rightarrow> settings_svc \<Rightarrow> settings_svc" where
  "remember st sv = sv\<lparr>sv_cache := (sv_cache sv)(st_key st \<mapsto> st)\<rparr>"

definition Settings_Load :: "unit settings_action" where
  "Settings_Load = (\<lambda>sv. (Inr (), fold remember (settings (sv_db sv)) sv))"

text \<open>The rows grouped by category; the order within a group is that of the key.\<close>

definition Settings_List :: "(string \<Rightarrow> setting list) settings_action" where
  "Settings_List = (\<lambda>sv.
     let shown = map masked (settings (sv_db sv))
     in (Inr (\<lambda>category. sort_key st_key (filter (\<lambda>st. st_category st = category) shown)),
         fold remember shown sv))"

definition Settings_Get :: "string \<Rightarrow> setting settings_action" where
  "Settings_Get key = (\<lambda>sv.
     case GetSetting key (sv_db sv) of
       Inl e \<Rightarrow> (Inl e, sv)
     | Inr st \<Rightarrow> (Inr (masked st), remember (masked st) sv))"

definition Settings_Update :: "secret_box \<Rightarrow> byte list \<Rightarrow> string \<Rightarrow> string \<Rightarrow> setting settings_action" where
  "Settings_Update box nonce key val = (\<lambda>sv.
     case GetSetting key (sv_db sv) of
       Inl e \<Rightarrow> (Inl e, sv)
     | Inr st \<Rightarrow>
         let val = (if isSecretSetting st \<and> val \<noteq> '''' \<and> val \<noteq> ''******''
                    then EncryptString (bx_seal box) nonce val
                    else if isSecretSetting st \<and> val = ''******'' then st_value st else val);
             st = st\<lparr>st_value := val\<rparr>
         in case UpsertSetting st (sv_db sv) of
              (Inl e, s) \<Rightarrow> (Inl e, sv\<lparr>sv_db := s\<rparr>)
            | (Inr _, s) \<Rightarrow> (Inr (masked st), remember st (sv\<lparr>sv_db := s\<rparr>)))"

lemma remember_db [simp]: "sv_db (remember st sv) = sv_db sv"
  by (simp add: remember_def)

lemma fold_remember_db [simp]: "sv_db (fold remember sts sv) = sv_db sv"
  by (induction sts arbitrary: sv) simp_all

definition shown_safe :: "setting \<Rightarrow> bool" where
  "shown_safe st = (isSecretSetting st \<longrightarrow> st_value st \<in> {'''', quoted_empty, ''******''})"

lemma masked_safe: "shown_safe (masked st)"
  by (simp add: shown_safe_def masked_def maskSecret_def isSecretSetting_def)

lemma isSecret_value [simp]: "isSecretSetting (st\<lparr>st_value := v\<rparr>) = isSecretSetting st"
  by (simp add: isSecretSetting_def)

text \<open>
  Whatever the settings service answers, a secret setting shows no more than that it
  is set: listing, reading and updating all return the mask.
\<close>

theorem secret_settings_masked:
  "(\<forall>key st sv'. Settings_Get key sv = (Inr st, sv') \<longrightarrow> shown_safe st) \<and>
   (\<forall>key val st sv'. Settings_Update box nonce key val sv = (Inr st, sv') \<longrightarrow> shown_safe st) \<and>
   (\<forall>f sv'. Settings_List sv = (Inr f, sv') \<longrightarrow> (\<forall>category. \<forall>st \<in> set (f category). shown_safe st))"
  using masked_safe
  by (auto simp: Settings_Get_def Settings_Update_def Settings_List_def Let_def split: sum.splits prod.splits)

lemma GetSetting_Upsert:
  assumes "GetSetting key s = Inr st" and "UpsertSetting (st\<lparr>st_value := v\<rparr>) s = (r, t)"
  shows "\<exists>st'. GetSetting key t = Inr st' \<and> st_value st' = v"
proof -
  have f: "find (\<lambda>x. st_key x = key) (settings s) = Some st" using assms(1) by (simp add: GetSetting_def)
  hence st: "st \<in> set (settings s)" "st_key st = key" using find_Some_iff [OF f] by simp_all
  have "settings t = update_rows (\<lambda>x. st_key x = key) (\<lambda>_. st\<lparr>st_value := v, st_updated_at := clock s\<rparr>) (settings s)"
    using assms(2) st by (auto simp: UpsertSetting_def Let_def)
  thus ?thesis using f st
    by (induction "settings s" arbitrary: t) (auto simp: GetSetting_def update_rows_def find_map_update)
qed

lemma Decrypt_empty: "DecryptString opn '''' = Inr ''''"
  by (simp add: DecryptString_def)

lemma Settings_Update_stored:
  assumes "GetSetting key (sv_db sv) = Inr st" and "Settings_Update box nonce key val sv = (Inr r, sv')"
  shows "\<exists>st'. GetSetting key (sv_db sv') = Inr st' \<and> st_value st' =
     (if isSecretSetting st \<and> val \<noteq> '''' \<and> val \<noteq> ''******'' then EncryptString (bx_seal box) nonce val
      else if isSecretSetting st \<and> val = ''******'' then st_value st else val)"
proof -
  let ?v = "if isSecretSetting st \<and> val \<noteq> '''' \<and> val \<noteq> ''******'' then EncryptString (bx_seal box) nonce val
      else if isSecretSetting st \<and> val = ''******'' then st_value st else val"
  obtain e s where up: "UpsertSetting (st\<lparr>st_value := ?v\<rparr>) (sv_db sv) = (e, s)" by force
  hence "sv_db sv' = s"
    using assms by (auto simp: Settings_Update_def Let_def split: sum.splits)
  thus ?thesis using GetSetting_Upsert [OF assms(1) up] by simp
qed

lemma Settings_Update_total:
  "GetSetting key (sv_db sv) = Inr st \<Longrightarrow> \<exists>r sv'. Settings_Update box n key v sv = (Inr r, sv')"
  by (simp add: Settings_Update_def UpsertSetting_def Let_def)

text \<open>
  Saving a settings form.  A new value of a secret setting is stored encrypted and
  decrypts to what was entered.  Saving back the value that was shown changes nothing,
  with one exception: a secret setting that still has its default, the JSON text of the
  empty string, is replaced by the encryption of that text and from then on shows as set.
\<close>

theorem settings_save:
  assumes stored: "GetSetting key (sv_db sv) = Inr st" and box: "good_box box" "length nonce = NonceSize"
    and get: "Settings_Get key sv = (Inr shown, sv1)"
  shows "(\<forall>r sv2. Settings_Update box nonce key (st_value shown) sv1 = (Inr r, sv2) \<longrightarrow>
            (\<exists>st'. GetSetting key (sv_db sv2) = Inr st' \<and>
               (if isSecretSetting st \<and> st_value st = quoted_empty
                then st_value st' = EncryptString (bx_seal box) nonce quoted_empty
                else st_value st' = st_value st))) \<and>
         (\<forall>v r sv2. isSecretSetting st \<and> v \<noteq> ''******'' \<and> Settings_Update box nonce key v sv1 = (Inr r, sv2) \<longrightarrow>
            (\<exists>st'. GetSetting key (sv_db sv2) = Inr st' \<and> DecryptString (bx_open box) (st_value st') = Inr v))"
proof -
  have sv1: "GetSetting key (sv_db sv1) = Inr st" and shown: "shown = masked st"
    using stored get by (auto simp: Settings_Get_def)
  have "quoted_empty \<noteq> '''' \<and> quoted_empty \<noteq> ''******''" by (simp add: quoted_empty_def)
  hence "\<exists>st'. GetSetting key (sv_db sv2) = Inr st' \<and>
      (if isSecretSetting st \<and> st_value st = quoted_empty
       then st_value st' = EncryptString (bx_seal box) nonce quoted_empty else st_value st' = st_value st)"
    if "Settings_Update box nonce key (st_value shown) sv1 = (Inr r, sv2)" for r sv2
    using Settings_Update_stored [OF sv1 that] by (auto simp: shown masked_def maskSecret_def)
  moreover have "\<exists>st'. GetSetting key (sv_db sv2) = Inr st' \<and> DecryptString (bx_open box) (st_value st') = Inr v"
    if "isSecretSetting st \<and> v \<noteq> ''******'' \<and> Settings_Update box nonce key v sv1 = (Inr r, sv2)" for v r sv2
    using Settings_Update_stored [OF sv1, of box nonce v r sv2] that box_round_trip [OF box]
    by (cases "v = ''''") (auto simp: Decrypt_empty)
  ultimately show ?thesis by blast
qed

section \<open>Witnesses\<close>

definition xor_box :: secret_box where
  "xor_box = \<lparr>bx_seal = (\<lambda>n p. map (\<lambda>b. b XOR hd n) p), bx_open = (\<lambda>n c. Some (map (\<lambda>b. b XOR hd n) c))\<rparr>"

lemma xor_box_good: "good_box xor_box"
  by (simp add: good_box_def xor_box_def o_def xor.assoc)

definition sample_account_input :: account_input where
  "sample_account_input =
     \<lparr>ci_name = ''root'', ci_username = ''root'', ci_secret = ''pw'', ci_secret_type = '''', ci_ssh_key_type = '''',
      ci_passphrase = '''', ci_su_enabled = False, ci_su_method = '''', ci_su_account_id = None, ci_db_name = '''',
      ci_is_active = None\<rparr>"

definition asset_db :: db where
  "asset_db = (empty_db 9)\<lparr>assets := [\<lparr>a_id = 3, a_name = ''h'', a_address = '''', a_platform_id = 1,
     a_node_id = None, a_comment = '''', a_is_active = True, a_created_at = 0, a_updated_at = 0\<rparr>]\<rparr>"

theorem account_secret_kept_witness:
  "\<exists>a s1 b s2 row. Assets_CreateAccount xor_box (replicate 12 5) [] 3 sample_account_input asset_db = (Inr a, s1) \<and>
     Assets_UpdateAccount xor_box (replicate 12 6) [] 3 (ac_id a) (sample_account_input\<lparr>ci_secret := ''''\<rparr>) s1 = (Inr b, s2) \<and>
     GetAccount (ac_id a) s2 = Inr row \<and> DecryptString (bx_open xor_box) (ac_secret row) = Inr ''pw''"
proof -
  let ?e = "EncryptString (bx_seal xor_box) (replicate 12 5) ''pw''"
  define row where "row = \<lparr>ac_id = 1, ac_asset_id = 3, ac_name = ''root'', ac_username = ''root'', ac_secret = ?e,
      ac_secret_type = ''password'', ac_ssh_key_type = '''', ac_passphrase = '''', ac_su_enabled = False,
      ac_su_method = '''', ac_su_account_id = None, ac_db_name = '''', ac_is_active = True,
      ac_created_at = 9, ac_updated_at = 9\<rparr>"
  define s1 where "s1 = (bump TAccounts asset_db)\<lparr>accounts := [row]\<rparr>"
  have create: "Assets_CreateAccount xor_box (replicate 12 5) [] 3 sample_account_input asset_db = (Inr (blank row), s1)"
    by (simp add: Assets_CreateAccount_def sample_account_input_def CreateAccount_def Let_def abind_app fk_def
        has_asset_def asset_db_def empty_db_def row_def s1_def bump_def secret_type_def EncryptString_def)
  have "GetAssetAccount 3 1 s1 = Inr row" by (simp add: GetAssetAccount_def s1_def row_def)
  then obtain b s2 where "Assets_UpdateAccount xor_box (replicate 12 6) [] 3 (ac_id (blank row))
      (sample_account_input\<lparr>ci_secret := ''''\<rparr>) s1 = (Inr b, s2)"
    by (simp add: Assets_UpdateAccount_def abind_app sample_account_input_def UpdateAccount_def Let_def row_def
        s1_def fk_def blank_def)
  note run = create this
  have len: "length (replicate 12 b :: byte list) = NonceSize" for b by (simp add: NonceSize_def)
  have new: "\<forall>a \<in> set (accounts asset_db). ac_id a \<noteq> next_id asset_db TAccounts"
    by (simp add: asset_db_def empty_db_def)
  have "ci_secret (sample_account_input\<lparr>ci_secret := ''''\<rparr>) = ''''" "ci_secret sample_account_input = ''pw''"
    by (simp_all add: sample_account_input_def)
  hence "\<exists>x. GetAccount (ac_id (blank row)) s2 = Inr x \<and> DecryptString (bx_open xor_box) (ac_secret x) = Inr ''pw''"
    using account_secret_kept [OF xor_box_good len len new run] by (simp only: if_True refl simp_thms)
  thus ?thesis using run by blast
qed

definition secret_setting :: setting where
  "secret_setting = \<lparr>st_key = ''recording.s3.access_key'', st_value = quoted_empty, st_category = ''recording'',
     st_label = '''', st_description = '''', st_input_type = ''secret'', st_options = '''', st_updated_at = 0\<rparr>"

definition settings_db :: settings_svc where
  "settings_db = \<lparr>sv_db = (empty_db 9)\<lparr>settings := [secret_setting]\<rparr>, sv_cache = Map.empty\<rparr>"

theorem secret_settings_masked_witness:
  "\<exists>st sv'. Settings_Get ''recording.s3.access_key'' settings_db = (Inr st, sv') \<and> shown_safe st"
proof -
  obtain st sv' where "Settings_Get ''recording.s3.access_key'' settings_db = (Inr st, sv')"
    by (simp add: Settings_Get_def settings_db_def empty_db_def GetSetting_def secret_setting_def)
  thus ?thesis using secret_settings_masked [of settings_db xor_box "[]"] by blast
qed

theorem settings_save_witness:
  "\<exists>shown sv1 r sv2 st'. Settings_Get ''recording.s3.access_key'' settings_db = (Inr shown, sv1) \<and>
     Settings_Update xor_box (replicate 12 5) ''recording.s3.access_key'' (st_value shown) sv1 = (Inr r, sv2) \<and>
     GetSetting ''recording.s3.access_key'' (sv_db sv2) = Inr st' \<and>
     st_value st' = EncryptString (bx_seal xor_box) (replicate 12 5) quoted_empty"
proof -
  have stored: "GetSetting ''recording.s3.access_key'' (sv_db settings_db) = Inr secret_setting"
    by (simp add: settings_db_def empty_db_def GetSetting_def secret_setting_def)
  obtain shown sv1 where get: "Settings_Get ''recording.s3.access_key'' settings_db = (Inr shown, sv1)"
    using stored by (simp add: Settings_Get_def)
  have "GetSetting ''recording.s3.access_key'' (sv_db sv1) = Inr secret_setting"
    using stored get by (auto simp: Settings_Get_def)
  then obtain r sv2 where upd: "Settings_Update xor_box (replicate 12 5) ''recording.s3.access_key'' (st_value shown) sv1 = (Inr r, sv2)"
    using Settings_Update_total by blast
  have n: "length (replicate 12 5 :: byte list) = NonceSize" by (simp add: NonceSize_def)
  have "isSecretSetting secret_setting" "st_value secret_setting = quoted_empty"
    unfolding isSecretSetting_def by (rule disjI1, simp add: secret_setting_def, simp add: secret_setting_def)
  hence "\<exists>st'. GetSetting ''recording.s3.access_key'' (sv_db sv2) = Inr st' \<and>
      st_value st' = EncryptString (bx_seal xor_box) (replicate 12 5) quoted_empty"
    using settings_save [OF stored xor_box_good n get, THEN conjunct1, rule_format, OF upd] by simp
  thus ?thesis using get upd by blast
qed

end
