(* ===== verification/RdpNative.thy ===== *)
theory RdpNative
  imports RdpCredentials AssetService
begin

text \<open>
  Native RDP sessions (\<open>service/rdp_native.go\<close>): resolving a client's routing name and
  proxy password into the credentials of a managed account, starting a session under the
  connection limit, and finishing it once, all with their audit entries.
\<close>

section \<open>Resolving\<close>

record native_env =
  ne_argon2 :: argon2id
  ne_box :: secret_box
  ne_limit :: int

record native_input =
  ni_route_username :: string
  ni_password :: string
  ni_remote_addr :: string

record native_resolved =
  nr_user_id :: int
  nr_asset_id :: int
  nr_account_id :: int
  nr_address :: string
  nr_port :: int
  nr_protocol :: string
  nr_username :: string
  nr_secret :: string
  nr_secret_type :: string

text \<open>\<open>strings.EqualFold\<close> with an ASCII word: the Kelvin sign and the long s fold into it.\<close>

definition fold_case :: "string \<Rightarrow> string" where
  "fold_case s =
     replace_all (map chr [197, 191]) ''s''
       (replace_all (map chr [226, 132, 170]) ''k'' (map lower_char s))"

definition equal_fold :: "string \<Rightarrow> string \<Rightarrow> bool" where
  "equal_fold s t = (fold_case s = fold_case t)"

definition denied :: "string \<Rightarrow> error \<Rightarrow> error + 'a" where
  "denied reason e = Inl (ErrDenied reason e)"

text \<open>A lookup whose absence denies the request.\<close>

definition found_or :: "string \<Rightarrow> error + 'a \<Rightarrow> error + 'a" where
  "found_or reason r =
     (case r of
        Inr a \<Rightarrow> Inr a
      | Inl e \<Rightarrow> if error_is e ErrNotFound then denied reason ErrForbidden else Inl e)"

definition Resolve :: "native_env \<Rightarrow> native_input \<Rightarrow> db \<Rightarrow> error + native_resolved" where
  "Resolve env input s =
     (case ParseRDPRouteUsername (ni_route_username input) of
        Inl e \<Rightarrow> denied ''malformed_route_username'' ErrUnauthorized
      | Inr route \<Rightarrow>
          case Credentials_Verify (ne_argon2 env) (ro_username route) (ni_password input) s of
            Inl (ErrPanic p) \<Rightarrow> Inl (ErrPanic p)
          | Inl e \<Rightarrow> denied ''front_auth_failed'' ErrUnauthorized
          | Inr user \<Rightarrow>
              rbind (found_or ''asset_not_found'' (GetAsset (ro_asset_id route) s)) (\<lambda>a.
              rbind (found_or ''account_not_found''
                       (GetAssetAccount (ro_asset_id route) (ro_account_id route) s)) (\<lambda>acc.
              if \<not> a_is_active a then denied ''asset_inactive'' ErrForbidden
              else if \<not> ac_is_active acc then denied ''account_inactive'' ErrForbidden
              else if \<not> HasAssetPermission (u_id user) (ro_asset_id route) (ro_account_id route) ''connect'' s
              then denied ''missing_connect_permission'' ErrForbidden
              else
                rbind (found_or ''rdp_protocol_not_available''
                         (GetAssetProtocolPort (ro_asset_id route) ''rdp'' s)) (\<lambda>port.
                if \<not> equal_fold (trim_space (ac_secret_type acc)) ''password''
                then denied ''target_secret_type_not_password'' ErrForbidden
                else
                  rbind (DecryptString (bx_open (ne_box env)) (ac_secret acc)) (\<lambda>secret.
                  if secret = '''' then denied ''target_password_empty'' ErrForbidden
                  else Inr \<lparr>nr_user_id = u_id user, nr_asset_id = a_id a, nr_account_id = ac_id acc,
                            nr_address = a_address a, nr_port = port, nr_protocol = ''rdp'',
                            nr_username = ac_username acc, nr_secret = secret,
                            nr_secret_type = ''password''\<rparr>)))))"

section \<open>Audit\<close>

record native_payload =
  np_session_id :: int
  np_asset_id :: int
  np_account_id :: int
  np_reason :: string

text \<open>
  The JSON of the payload, absent when zero or empty.  The reasons are built from the
  characters of identifiers, so they need no escapes.
\<close>

definition json_quote :: "string \<Rightarrow> string" where
  "json_quote s = [chr 34] @ s @ [chr 34]"

definition json_int_field :: "string \<Rightarrow> int \<Rightarrow> string list" where
  "json_int_field name i = (if i = 0 then [] else [json_quote name @ '':'' @ show_int i])"

definition json_string_field :: "string \<Rightarrow> string \<Rightarrow> string list" where
  "json_string_field name v = (if v = '''' then [] else [json_quote name @ '':'' @ json_quote v])"

definition nativeRDPAuditDetail :: "native_payload \<Rightarrow> string" where
  "nativeRDPAuditDetail p =
     ''{'' @ join '','' (json_int_field ''session_id'' (np_session_id p) @
                      json_int_field ''asset_id'' (np_asset_id p) @
                      json_int_field ''account_id'' (np_account_id p) @
                      json_string_field ''reason'' (np_reason p) @
                      json_string_field ''protocol'' ''rdp'' @
                      json_string_field ''source'' ''rdp_client'') @ ''}''"

definition auditNativeRDP :: "int option \<Rightarrow> string \<Rightarrow> string \<Rightarrow> native_payload \<Rightarrow> db \<Rightarrow> db" where
  "auditNativeRDP userID act remoteAddr p s =
     snd (Audit userID act ''rdp'' remoteAddr (nativeRDPAuditDetail p) s)"

definition auditNativeRDPDenied :: "native_input \<Rightarrow> error \<Rightarrow> db \<Rightarrow> db" where
  "auditNativeRDPDenied input e s =
     (let reason = (case e of ErrDenied r _ \<Rightarrow> if r \<noteq> '''' then r else ''denied'' | _ \<Rightarrow> ''denied'')
      in case ParseRDPRouteUsername (ni_route_username input) of
           Inl _ \<Rightarrow>
             auditNativeRDP None ''rdp.native.denied'' (ni_remote_addr input)
               \<lparr>np_session_id = 0, np_asset_id = 0, np_account_id = 0, np_reason = reason\<rparr> s
         | Inr route \<Rightarrow>
             auditNativeRDP
               (case GetUserByUsername (ro_username route) s of Inl _ \<Rightarrow> None | Inr u \<Rightarrow> Some (u_id u))
               ''rdp.native.denied'' (ni_remote_addr input)
               \<lparr>np_session_id = 0, np_asset_id = ro_asset_id route, np_account_id = ro_account_id route,
                np_reason = reason\<rparr> s)"

section \<open>Starting a session\<close>

definition StartSession :: "native_env \<Rightarrow> native_input \<Rightarrow> (int \<times> native_resolved) store_action" where
  "StartSession env input = (\<lambda>s.
     case Resolve env input s of
       Inl (ErrPanic p) \<Rightarrow> (Inl (ErrPanic p), s)
     | Inl e \<Rightarrow> (Inl e, auditNativeRDPDenied input e s)
     | Inr r \<Rightarrow>
         let sess = \<lparr>s_id = 0, s_user_id = nr_user_id r, s_asset_id = nr_asset_id r,
                     s_account_id = nr_account_id r, s_protocol = ''rdp'', s_type = ''rdp'',
                     s_login_from = ''rdp_client'', s_remote_addr = ni_remote_addr input,
                     s_recording_path = '''', s_is_finished = False, s_date_start = 0,
                     s_date_end = None, s_created_at = 0, s_updated_at = 0\<rparr>
         in case CreateSessionUnderActiveLimit sess (ne_limit env) s of
              (Inl e, s1) \<Rightarrow> (Inl e, s1)
            | (Inr None, s1) \<Rightarrow>
                (denied ''max_connections'' ErrForbidden,
                 auditNativeRDP (Some (nr_user_id r)) ''rdp.native.denied'' (ni_remote_addr input)
                   \<lparr>np_session_id = 0, np_asset_id = nr_asset_id r, np_account_id = nr_account_id r,
                    np_reason = ''max_connections''\<rparr> s1)
            | (Inr (Some row), s1) \<Rightarrow>
                (Inr (s_id row, r),
                 auditNativeRDP (Some (nr_user_id r)) ''rdp.native.start'' (ni_remote_addr input)
                   \<lparr>np_session_id = s_id row, np_asset_id = nr_asset_id r, np_account_id = nr_account_id r,
                    np_reason = ''started''\<rparr> s1))"

section \<open>Finishing\<close>

definition reason_char :: "char \<Rightarrow> char option" where
  "reason_char c =
     (let n = of_char c :: nat in
      if 97 \<le> n \<and> n \<le> 122 then Some c
      else if 48 \<le> n \<and> n \<le> 57 then Some c
      else if c = CHR ''_'' \<or> c = CHR ''-'' \<or> c = CHR ''.'' then Some c
      else if c = CHR '' '' then Some (CHR ''_'')
      else None)"

fun sanitize_loop :: "string \<Rightarrow> string \<Rightarrow> string" where
  "sanitize_loop b [] = b"
| "sanitize_loop b (c # cs) =
     (let b = (case reason_char c of Some d \<Rightarrow> b @ [d] | None \<Rightarrow> b)
      in if 64 \<le> length b then b else sanitize_loop b cs)"

definition sanitizeNativeRDPReason :: "string \<Rightarrow> string" where
  "sanitizeNativeRDPReason reason =
     (let reason = trim_space (to_lower reason)
      in if reason = '''' then ''disconnect''
         else let b = sanitize_loop '''' reason in if b = '''' then ''disconnect'' else b)"

definition nativeRDPFinishAction :: "string \<Rightarrow> string" where
  "nativeRDPFinishAction reason =
     (if reason \<in> set [''target_login_failed'', ''target_connect_failed'', ''target_dial_failed'',
                      ''idle_timeout'', ''proxy_shutdown'']
      then ''rdp.native.'' @ reason
      else if has_prefix ''target_'' reason then ''rdp.native.target_failure''
      else if parse_int64 reason \<noteq> None then ''rdp.native.disconnect''
      else ''rdp.native.complete'')"

definition native_session :: "session \<Rightarrow> bool" where
  "native_session r = (s_protocol r = ''rdp'' \<and> s_type r = ''rdp'' \<and> s_login_from r = ''rdp_client'')"

definition FinishSession :: "int \<Rightarrow> string \<Rightarrow> (bool \<times> string) store_action" where
  "FinishSession sessionID rawReason = (\<lambda>s.
     if sessionID \<le> 0 then (Inl ErrInvalidArgument, s)
     else
       let reason = sanitizeNativeRDPReason rawReason
       in case GetSession sessionID s of
            Inl e \<Rightarrow> (Inl e, s)
          | Inr existing \<Rightarrow>
              if \<not> native_session existing then (Inl ErrForbidden, s)
              else
                case FinishSessionOnce sessionID '''' s of
                  (Inl e, s1) \<Rightarrow> (Inl e, s1)
                | (Inr (row, changed), s1) \<Rightarrow>
                    (Inr (changed, reason),
                     if changed then
                       auditNativeRDP (Some (s_user_id row)) (nativeRDPFinishAction reason) (s_remote_addr row)
                         \<lparr>np_session_id = s_id row, np_asset_id = s_asset_id row,
                          np_account_id = s_account_id row, np_reason = reason\<rparr> s1
                     else s1))"

fun finish_all :: "string \<Rightarrow> int list \<Rightarrow> int list \<Rightarrow> int list \<Rightarrow> (int list \<times> int list) store_action" where
  "finish_all reason [] finished skipped s = (Inr (finished, skipped), s)"
| "finish_all reason (i # ids) finished skipped s =
     (case FinishSession i reason s of
        (Inl e, s1) \<Rightarrow> (Inl e, s1)
      | (Inr (changed, _), s1) \<Rightarrow>
          if changed then finish_all reason ids (finished @ [i]) skipped s1
          else finish_all reason ids finished (skipped @ [i]) s1)"

definition FinishActiveSessions :: "string \<Rightarrow> (string \<times> int list \<times> int list) store_action" where
  "FinishActiveSessions rawReason = (\<lambda>s.
     let reason = sanitizeNativeRDPReason rawReason
     in abind (finish_all reason (ListActiveNativeRDPSessionIDs s) [] [])
          (\<lambda>(finished, skipped). ret (reason, finished, skipped)) s)"

section \<open>What a resolved login implies\<close>

lemma found_or_Inr [simp]: "found_or reason r = Inr a \<longleftrightarrow> r = Inr a"
  by (auto simp: found_or_def denied_def split: sum.split)

lemma denied_not_Inr [simp]: "denied reason e \<noteq> Inr a" "Inr a \<noteq> denied reason e"
  by (simp_all add: denied_def)

definition resolved :: "native_env \<Rightarrow> native_input \<Rightarrow> db \<Rightarrow> native_resolved \<Rightarrow> bool" where
  "resolved env input s r =
     (\<exists>route user a acc.
        ParseRDPRouteUsername (ni_route_username input) = Inr route \<and>
        Credentials_Verify (ne_argon2 env) (ro_username route) (ni_password input) s = Inr user \<and>
        u_is_active user \<and> nr_user_id r = u_id user \<and>
        GetAsset (ro_asset_id route) s = Inr a \<and> a_is_active a \<and> nr_asset_id r = a_id a \<and>
        GetAssetAccount (ro_asset_id route) (ro_account_id route) s = Inr acc \<and> ac_is_active acc \<and>
        nr_account_id r = ac_id acc \<and>
        HasAssetPermission (u_id user) (ro_asset_id route) (ro_account_id route) ''connect'' s \<and>
        GetAssetProtocolPort (ro_asset_id route) ''rdp'' s = Inr (nr_port r) \<and>
        DecryptString (bx_open (ne_box env)) (ac_secret acc) = Inr (nr_secret r) \<and> nr_secret r \<noteq> '''')"

lemma Resolve_Inr:
  assumes "Resolve env input s = Inr r"
  shows "resolved env input s r"
proof -
  obtain route where route: "ParseRDPRouteUsername (ni_route_username input) = Inr route"
    using assms by (auto simp: Resolve_def split: sum.splits)
  obtain user where user: "Credentials_Verify (ne_argon2 env) (ro_username route) (ni_password input) s = Inr user"
    using assms by (auto simp: Resolve_def route split: sum.splits error.splits)
  show ?thesis
    using assms user Verify_Inr(2) [OF user]
    by (auto simp: Resolve_def route resolved_def rbind_Inr_iff split: if_splits)
qed

text \<open>
  C28: Target credentials leave the resolver only for a client that proved the proxy
  password of an active user, who may connect to that account of that asset, both active,
  over a platform that offers RDP; and the secret is the stored one, decrypted, not empty.
\<close>

theorem Resolve_sound:
  assumes "Resolve env input s = Inr r"
  shows "resolved env input s r"
  using Resolve_Inr [OF assms] .

section \<open>Every attempt is audited\<close>

lemma GetUser_has: "GetUser i s = Inr u \<Longrightarrow> has_user s i"
  by (auto simp: GetUser_def has_user_def list_ex_iff dest: find_Some_iff)

lemma GetUserByUsername_has: "GetUserByUsername n s = Inr u \<Longrightarrow> has_user s (u_id u)"
  by (auto simp: GetUserByUsername_def has_user_def list_ex_iff dest: find_Some_iff)

lemma GetAsset_has: "GetAsset i s = Inr a \<Longrightarrow> has_asset s (a_id a)"
  by (auto simp: GetAsset_def has_asset_def list_ex_iff dest: find_Some_iff)

lemma GetAssetAccount_has: "GetAssetAccount i j s = Inr a \<Longrightarrow> has_account s (ac_id a)"
  by (auto simp: GetAssetAccount_def has_account_def list_ex_iff dest: find_Some_iff)

lemma Audit_ok:
  assumes "ref_opt (has_user s) u"
  shows "\<exists>l. auditNativeRDP u act addr p s = (bump TAudit s)\<lparr>audit_logs := audit_logs s @ [l]\<rparr> \<and>
             al_user_id l = u \<and> al_action l = act \<and> al_resource l = ''rdp'' \<and> al_remote_addr l = addr"
  using assms
  by (intro exI [of _ "\<lparr>al_id = next_id s TAudit, al_user_id = u, al_action = act, al_resource = ''rdp'',
        al_remote_addr = addr, al_detail = nativeRDPAuditDetail p, al_created_at = clock s\<rparr>"])
     (simp add: auditNativeRDP_def Audit_def fk_def)

lemma auditNativeRDPDenied_ok:
  "\<exists>l. auditNativeRDPDenied input e s = (bump TAudit s)\<lparr>audit_logs := audit_logs s @ [l]\<rparr> \<and>
       al_action l = ''rdp.native.denied'' \<and> al_resource l = ''rdp'' \<and> al_remote_addr l = ni_remote_addr input"
proof -
  have "\<exists>u p. auditNativeRDPDenied input e s = auditNativeRDP u ''rdp.native.denied'' (ni_remote_addr input) p s \<and>
          ref_opt (has_user s) u"
    by (auto simp: auditNativeRDPDenied_def Let_def GetUserByUsername_has split: sum.split intro!: exI)
  thus ?thesis using Audit_ok by metis
qed

lemma has_user_bump [simp]: "has_user (bump t s) = has_user s" "has_user (s\<lparr>sessions := x\<rparr>) = has_user s"
  by (simp_all add: has_user_def bump_def fun_eq_iff)

lemma StartSession_Inr:
  assumes r: "Resolve env input s = Inr r"
  shows "(\<exists>row l t. StartSession env input s = (Inr (s_id row, r), t) \<and> sessions t = sessions s @ [row] \<and>
            audit_logs t = audit_logs s @ [l] \<and> al_action l = ''rdp.native.start'' \<and>
            al_user_id l = Some (nr_user_id r) \<and> al_remote_addr l = ni_remote_addr input \<and>
            s_user_id row = nr_user_id r \<and> s_asset_id row = nr_asset_id r \<and>
            s_account_id row = nr_account_id r \<and> \<not> s_is_finished row \<and> native_session row) \<or>
         (\<exists>l t. StartSession env input s = (denied ''max_connections'' ErrForbidden, t) \<and>
            sessions t = sessions s \<and> audit_logs t = audit_logs s @ [l] \<and>
            al_action l = ''rdp.native.denied'' \<and> al_remote_addr l = ni_remote_addr input)"
proof -
  have refs: "has_user s (nr_user_id r)" "has_asset s (nr_asset_id r)" "has_account s (nr_account_id r)"
    using Resolve_Inr [OF r] Verify_Inr(1) GetUserByUsername_has GetAsset_has GetAssetAccount_has
    unfolding resolved_def by metis+
  define sess where "sess = \<lparr>s_id = 0, s_user_id = nr_user_id r, s_asset_id = nr_asset_id r,
                     s_account_id = nr_account_id r, s_protocol = ''rdp'', s_type = ''rdp'',
                     s_login_from = ''rdp_client'', s_remote_addr = ni_remote_addr input,
                     s_recording_path = '''', s_is_finished = False, s_date_start = 0,
                     s_date_end = None, s_created_at = 0, s_updated_at = 0\<rparr>"
  define row where "row = sess\<lparr>s_id := next_id s TSessions, s_date_start := clock s, s_date_end := None,
                    s_created_at := clock s, s_updated_at := clock s\<rparr>"
  define s1 where "s1 = (bump TSessions s)\<lparr>sessions := sessions s @ [row]\<rparr>"
  have "has_user s1 (nr_user_id r)" using refs(1) by (simp add: s1_def)
  hence a1: "ref_opt (has_user s1) (Some (nr_user_id r))" by simp
  have a0: "ref_opt (has_user s) (Some (nr_user_id r))" using refs(1) by simp
  have created: "CreateSession sess s = (Inr row, s1)"
    using refs by (simp add: CreateSession_def Let_def fk_def sess_def row_def s1_def)
  show ?thesis
  proof (cases "CreateSessionUnderActiveLimit sess (ne_limit env) s = (Inr (Some row), s1)")
    case True
    obtain l where l: "auditNativeRDP (Some (nr_user_id r)) ''rdp.native.start'' (ni_remote_addr input)
        \<lparr>np_session_id = s_id row, np_asset_id = nr_asset_id r, np_account_id = nr_account_id r,
         np_reason = ''started''\<rparr> s1 = (bump TAudit s1)\<lparr>audit_logs := audit_logs s1 @ [l]\<rparr>"
      and facts: "al_user_id l = Some (nr_user_id r)" "al_action l = ''rdp.native.start''"
        "al_remote_addr l = ni_remote_addr input"
      using Audit_ok [OF a1] by metis
    have "StartSession env input s = (Inr (s_id row, r), (bump TAudit s1)\<lparr>audit_logs := audit_logs s1 @ [l]\<rparr>)"
      using True l by (simp add: StartSession_def r sess_def)
    thus ?thesis using facts
      by (intro disjI1 exI [of _ row] exI [of _ l] exI)
         (auto simp: s1_def bump_def row_def sess_def native_session_def)
  next
    case False
    hence full: "CreateSessionUnderActiveLimit sess (ne_limit env) s = (Inr None, s)"
      using created by (auto simp: CreateSessionUnderActiveLimit_def Let_def split: if_splits)
    obtain l where l: "auditNativeRDP (Some (nr_user_id r)) ''rdp.native.denied'' (ni_remote_addr input)
        \<lparr>np_session_id = 0, np_asset_id = nr_asset_id r, np_account_id = nr_account_id r,
         np_reason = ''max_connections''\<rparr> s = (bump TAudit s)\<lparr>audit_logs := audit_logs s @ [l]\<rparr>"
      and facts: "al_action l = ''rdp.native.denied''" "al_remote_addr l = ni_remote_addr input"
      using Audit_ok [OF a0] by metis
    have "StartSession env input s = (denied ''max_connections'' ErrForbidden,
        (bump TAudit s)\<lparr>audit_logs := audit_logs s @ [l]\<rparr>)"
      using full l by (simp add: StartSession_def r sess_def)
    thus ?thesis using facts by (intro disjI2 exI [of _ l] exI) (auto simp: bump_def)
  qed
qed

text \<open>
  Every attempt to start a native RDP session leaves exactly one audit entry with the
  client's address: a start when a session was opened, and then the session is the new
  row of the resolved user, or a denial, and then no session was touched.  Only a panic
  inside Argon2id, on a stored hash with a zero cost, leaves none.
\<close>

theorem StartSession_audited:
  "(\<exists>p. StartSession env input s = (Inl (ErrPanic p), s)) \<or>
   (\<exists>l t. snd (StartSession env input s) = t \<and> audit_logs t = audit_logs s @ [l] \<and>
      al_remote_addr l = ni_remote_addr input \<and>
      (case fst (StartSession env input s) of
         Inr (i, r) \<Rightarrow> al_action l = ''rdp.native.start'' \<and> al_user_id l = Some (nr_user_id r) \<and>
           (\<exists>row. sessions t = sessions s @ [row] \<and> s_id row = i \<and> s_user_id row = nr_user_id r \<and>
                  native_session row)
       | Inl e \<Rightarrow> al_action l = ''rdp.native.denied'' \<and> sessions t = sessions s))"
proof (cases "Resolve env input s")
  case (Inr r)
  from StartSession_Inr [OF Inr] show ?thesis by (elim disjE exE conjE) (auto simp: denied_def)
next
  case (Inl e)
  show ?thesis
  proof (cases "\<exists>p. e = ErrPanic p")
    case False
    hence "StartSession env input s = (Inl e, auditNativeRDPDenied input e s)"
      using Inl by (cases e) (simp_all add: StartSession_def)
    moreover obtain l where "auditNativeRDPDenied input e s = (bump TAudit s)\<lparr>audit_logs := audit_logs s @ [l]\<rparr>"
      "al_action l = ''rdp.native.denied''" "al_remote_addr l = ni_remote_addr input"
      using auditNativeRDPDenied_ok by metis
    ultimately show ?thesis by (intro disjI2 exI [of _ l]) (simp add: bump_def)
  qed (use Inl in \<open>auto simp: StartSession_def\<close>)
qed

section \<open>Finishing is final and audited once\<close>

text \<open>A session this service would still finish.\<close>

definition finishable :: "int \<Rightarrow> db \<Rightarrow> bool" where
  "finishable i s =
     (0 < i \<and> (\<exists>r. GetSession i s = Inr r \<and> native_session r) \<and> session_live i s)"

definition sessions_owned :: "db \<Rightarrow> bool" where
  "sessions_owned s = (\<forall>r \<in> set (sessions s). has_user s (s_user_id r))"

lemma FinishSession_idle: "\<not> finishable i s \<Longrightarrow> snd (FinishSession i raw s) = s"
  by (auto simp: FinishSession_def finishable_def session_live_find FinishSessionOnce_def rbind_def Let_def
      split: sum.split)

text \<open>The row a call closes.\<close>

definition closed :: "time \<Rightarrow> session \<Rightarrow> session" where
  "closed now r = r\<lparr>s_is_finished := True,
     s_date_end := (case s_date_end r of None \<Rightarrow> Some now | Some d \<Rightarrow> Some d), s_updated_at := now\<rparr>"

lemma closed_simps [simp]:
  "s_id (closed n r) = s_id r" "s_user_id (closed n r) = s_user_id r" "s_is_finished (closed n r)"
  "native_session (closed n r) = native_session r" "s_protocol (closed n r) = s_protocol r"
  "s_type (closed n r) = s_type r" "s_login_from (closed n r) = s_login_from r"
  by (simp_all add: closed_def native_session_def)

lemma FinishSession_live:
  assumes "finishable i s" and "sessions_owned s"
  shows "\<exists>l t. FinishSession i raw s = (Inr (True, sanitizeNativeRDPReason raw), t) \<and>
           sessions t = update_rows (unfinished i) (closed (clock s)) (sessions s) \<and>
           audit_logs t = audit_logs s @ [l] \<and> users t = users s \<and> clock t = clock s \<and>
           al_action l = nativeRDPFinishAction (sanitizeNativeRDPReason raw)"
proof -
  obtain ex where ex: "0 < i" "GetSession i s = Inr ex" "native_session ex"
    using assms(1) by (auto simp: finishable_def)
  obtain row where row: "find (unfinished i) (sessions s) = Some row"
    using assms(1) by (auto simp: finishable_def session_live_find)
  define s1 where "s1 = s\<lparr>sessions := update_rows (unfinished i) (closed (clock s)) (sessions s)\<rparr>"
  have once: "FinishSessionOnce i '''' s = (Inr (closed (clock s) row, True), s1)"
    using row by (simp add: FinishSessionOnce_def Let_def s1_def closed_def [abs_def])
  have "has_user s (s_user_id row)"
    using assms(2) find_Some_iff [OF row] by (simp add: sessions_owned_def)
  hence own: "ref_opt (has_user s1) (Some (s_user_id (closed (clock s) row)))" by (simp add: s1_def)
  let ?r = "sanitizeNativeRDPReason raw" and ?c = "closed (clock s) row"
  obtain l where l: "auditNativeRDP (Some (s_user_id ?c)) (nativeRDPFinishAction ?r) (s_remote_addr ?c)
      \<lparr>np_session_id = s_id ?c, np_asset_id = s_asset_id ?c, np_account_id = s_account_id ?c,
       np_reason = ?r\<rparr> s1 = (bump TAudit s1)\<lparr>audit_logs := audit_logs s1 @ [l]\<rparr>"
    and act: "al_action l = nativeRDPFinishAction ?r"
    using Audit_ok [OF own] by metis
  have "FinishSession i raw s = (Inr (True, ?r), (bump TAudit s1)\<lparr>audit_logs := audit_logs s1 @ [l]\<rparr>)"
    using ex once l by (simp add: FinishSession_def Let_def)
  thus ?thesis using act
    by (intro exI [of _ l] exI [of _ "(bump TAudit s1)\<lparr>audit_logs := audit_logs s1 @ [l]\<rparr>"])
       (simp add: s1_def bump_def)
qed

lemma closed_dead:
  "sessions t = update_rows (unfinished i) (closed n) (sessions s) \<Longrightarrow> \<not> session_live i t"
  by (simp add: session_live_def bex_update_rows unfinished_def)

lemma closed_owned:
  assumes "sessions t = update_rows (unfinished i) (closed n) (sessions s)" and "users t = users s"
    and "sessions_owned s"
  shows "sessions_owned t"
  using assms by (auto simp: sessions_owned_def ball_update_rows has_user_def)

definition finish_run :: "int \<Rightarrow> string list \<Rightarrow> db \<Rightarrow> db" where
  "finish_run i raws s = fold (\<lambda>raw s. snd (FinishSession i raw s)) raws s"

lemma finish_run_idle: "\<not> finishable i s \<Longrightarrow> finish_run i raws s = s"
  by (induction raws) (simp_all add: finish_run_def FinishSession_idle)

text \<open>
  C29: However often the end of a session is reported, and with whatever reasons, it is
  closed and audited by the first report only: a run of reports adds one entry to the
  audit log if the session could be finished at all, and none otherwise.
\<close>

theorem finish_audited_once:
  assumes "sessions_owned s"
  shows "length (audit_logs (finish_run i (raw # raws) s)) =
           length (audit_logs s) + (if finishable i s then 1 else 0) \<and>
         \<not> finishable i (finish_run i (raw # raws) s)"
proof (cases "finishable i s")
  case True
  obtain l t where t: "FinishSession i raw s = (Inr (True, sanitizeNativeRDPReason raw), t)"
    "sessions t = update_rows (unfinished i) (closed (clock s)) (sessions s)"
    "audit_logs t = audit_logs s @ [l]"
    using FinishSession_live [OF True assms] by blast
  have dead: "\<not> finishable i t" using closed_dead [OF t(2)] by (simp add: finishable_def)
  have "finish_run i (raw # raws) s = finish_run i raws t" by (simp add: finish_run_def t(1))
  thus ?thesis using True t(3) dead finish_run_idle [OF dead] by simp
qed (use finish_run_idle in simp)

section \<open>Clean-up on shutdown\<close>

lemma active_ids_closed:
  assumes "sessions t = update_rows (unfinished i) (closed n) (sessions s)"
  shows "ListActiveNativeRDPSessionIDs t = filter (\<lambda>j. j \<noteq> i) (ListActiveNativeRDPSessionIDs s)"
proof -
  have upd: "map s_id (filter act (update_rows (unfinished i) (closed n) rows)) =
        filter (\<lambda>j. j \<noteq> i) (map s_id (filter act rows))"
    if "\<And>r. act r \<Longrightarrow> \<not> s_is_finished r" for act and rows :: "session list"
  proof -
    have "\<not> act (closed n r)" for r using that [of "closed n r"] by auto
    thus ?thesis using that by (induction rows) (auto simp: update_rows_def unfinished_def)
  qed
  show ?thesis unfolding ListActiveNativeRDPSessionIDs_def assms by (rule upd) simp
qed

text \<open>Ids are positive and name one row.\<close>

definition session_keys :: "db \<Rightarrow> bool" where
  "session_keys s = (distinct (map s_id (sessions s)) \<and> (\<forall>r \<in> set (sessions s). 0 < s_id r))"

lemma active_finishable:
  assumes "session_keys s" and "i \<in> set (ListActiveNativeRDPSessionIDs s)"
  shows "finishable i s"
proof -
  obtain r where r: "r \<in> set (sessions s)" "s_id r = i" "\<not> s_is_finished r" "native_session r"
    using assms(2) by (auto simp: ListActiveNativeRDPSessionIDs_def native_session_def)
  have "inj_on s_id (set (sessions s))" using assms(1) by (simp add: session_keys_def distinct_map)
  moreover obtain x where x: "find (\<lambda>r. s_id r = i) (sessions s) = Some x"
    using r by (cases "find (\<lambda>r. s_id r = i) (sessions s)") (auto simp: find_None_set)
  ultimately have "x = r" using find_Some_iff [OF x] r by (auto dest: inj_onD)
  hence "GetSession i s = Inr r" using x by (simp add: GetSession_def)
  thus ?thesis using r assms(1)
    by (auto simp: finishable_def session_live_def unfinished_def session_keys_def)
qed

lemma finish_all_active:
  assumes "session_keys s" and "sessions_owned s" and "distinct ids"
    and "set ids \<subseteq> set (ListActiveNativeRDPSessionIDs s)"
  shows "\<exists>t. finish_all reason ids fin skip s = (Inr (fin @ ids, skip), t) \<and>
           ListActiveNativeRDPSessionIDs t = filter (\<lambda>j. j \<notin> set ids) (ListActiveNativeRDPSessionIDs s) \<and>
           length (audit_logs t) = length (audit_logs s) + length ids"
  using assms
proof (induction ids arbitrary: s fin)
  case (Cons i ids)
  obtain l t where t: "FinishSession i reason s = (Inr (True, sanitizeNativeRDPReason reason), t)"
    "sessions t = update_rows (unfinished i) (closed (clock s)) (sessions s)"
    "audit_logs t = audit_logs s @ [l]" "users t = users s"
    using FinishSession_live [OF active_finishable [OF Cons.prems(1)] Cons.prems(2), of i reason] Cons.prems(4)
    by auto
  have ids: "ListActiveNativeRDPSessionIDs t = filter (\<lambda>j. j \<noteq> i) (ListActiveNativeRDPSessionIDs s)"
    by (rule active_ids_closed [OF t(2)])
  have "session_keys t"
    using Cons.prems(1) by (auto simp: session_keys_def t(2) map_update_rows ball_update_rows)
  moreover have "sessions_owned t" by (rule closed_owned [OF t(2,4) Cons.prems(2)])
  moreover have "set ids \<subseteq> set (ListActiveNativeRDPSessionIDs t)" "distinct ids"
    using Cons.prems(3,4) ids by auto
  ultimately obtain u where "finish_all reason ids (fin @ [i]) skip t = (Inr ((fin @ [i]) @ ids, skip), u)"
    "ListActiveNativeRDPSessionIDs u = filter (\<lambda>j. j \<notin> set ids) (ListActiveNativeRDPSessionIDs t)"
    "length (audit_logs u) = length (audit_logs t) + length ids"
    using Cons.IH by blast
  thus ?case using t ids by (simp add: conj_commute)
qed simp

text \<open>
  The clean-up on shutdown closes exactly the native RDP sessions that are active,
  reports each of them as finished and none as skipped, audits each once, and leaves
  none active.
\<close>

theorem FinishActiveSessions_complete:
  assumes "session_keys s" and "sessions_owned s"
  shows "\<exists>t. FinishActiveSessions raw s =
             (Inr (sanitizeNativeRDPReason raw, ListActiveNativeRDPSessionIDs s, []), t) \<and>
           ListActiveNativeRDPSessionIDs t = [] \<and>
           length (audit_logs t) = length (audit_logs s) + length (ListActiveNativeRDPSessionIDs s)"
proof -
  have "distinct (ListActiveNativeRDPSessionIDs s)"
    using assms(1) unfolding session_keys_def ListActiveNativeRDPSessionIDs_def by (blast intro: distinct_map_filter)
  from finish_all_active [OF assms this subset_refl, of "sanitizeNativeRDPReason raw" "[]" "[]"]
  show ?thesis by (auto simp: FinishActiveSessions_def abind_app)
qed

section \<open>The reason\<close>

definition reason_ok :: "char \<Rightarrow> bool" where
  "reason_ok c = (reason_char c = Some c)"

lemma reason_char_ok: "reason_char c = Some d \<Longrightarrow> reason_ok d"
  by (auto simp: reason_char_def reason_ok_def Let_def split: if_splits)

lemma reason_ok_facts:
  assumes "reason_ok c"
  shows "solid c" and "lower_char c = c" and "(of_char c :: nat) < 128" and "c \<noteq> chr 34" and "c \<noteq> chr 92"
proof -
  show "solid c" "lower_char c = c" "(of_char c :: nat) < 128"
    using assms
    by (auto simp: reason_ok_def reason_char_def Let_def solid_def lower_char_def split: if_splits)
  have "reason_char (chr 34) = None" "reason_char (chr 92) = None" by code_simp+
  thus "c \<noteq> chr 34" "c \<noteq> chr 92" using assms by (auto simp: reason_ok_def)
qed

lemma sanitize_loop_facts:
  "list_all reason_ok b \<Longrightarrow> length b < 64 \<Longrightarrow>
   list_all reason_ok (sanitize_loop b s) \<and> length (sanitize_loop b s) \<le> 64"
proof (induction b s rule: sanitize_loop.induct)
  case (2 b c cs)
  thus ?case using reason_char_ok by (cases "reason_char c") (auto simp: Let_def)
qed simp

lemma sanitize_loop_id:
  "list_all reason_ok s \<Longrightarrow> length b + length s \<le> 64 \<Longrightarrow> length b < 64 \<Longrightarrow> sanitize_loop b s = b @ s"
proof (induction b s rule: sanitize_loop.induct)
  case (2 b c cs)
  thus ?case by (cases cs) (auto simp: Let_def reason_ok_def)
qed simp

lemma sanitize_facts:
  shows "list_all reason_ok (sanitizeNativeRDPReason s)" and "length (sanitizeNativeRDPReason s) \<le> 64"
    and "sanitizeNativeRDPReason s \<noteq> ''''"
proof -
  have d: "list_all reason_ok ''disconnect''" by (simp add: reason_ok_def reason_char_def)
  show "list_all reason_ok (sanitizeNativeRDPReason s)" "length (sanitizeNativeRDPReason s) \<le> 64"
    "sanitizeNativeRDPReason s \<noteq> ''''"
    using d sanitize_loop_facts [of "''''" "trim_space (to_lower s)"]
    by (auto simp: sanitizeNativeRDPReason_def Let_def)
qed

lemma sanitize_id:
  assumes "list_all reason_ok s" and "length s \<le> 64" and "s \<noteq> ''''"
  shows "sanitizeNativeRDPReason s = s"
proof -
  have ok: "reason_ok c" if "c \<in> set s" for c using assms(1) that by (simp add: list_all_iff)
  have "ascii s" unfolding ascii_def list_all_iff using ok reason_ok_facts(3) by blast
  moreover have "map lower_char s = s" using ok reason_ok_facts(2) by (simp add: map_idI)
  ultimately have "to_lower s = s" by (simp add: to_lower_ascii)
  moreover have "trim_space s = s"
    using ok reason_ok_facts(1) assms(3) by (intro trim_space_solid) simp
  ultimately show ?thesis using sanitize_loop_id [of s "''''"] assms by (simp add: sanitizeNativeRDPReason_def)
qed

text \<open>
  The reason a proxy reports is reduced to at most 64 characters that need no escape
  in the audit entry's JSON, is never empty, and is stable: the second pass that the
  clean-up makes changes nothing.
\<close>

theorem sanitize_stable:
  "sanitizeNativeRDPReason (sanitizeNativeRDPReason s) = sanitizeNativeRDPReason s \<and>
   length (sanitizeNativeRDPReason s) \<le> 64 \<and> sanitizeNativeRDPReason s \<noteq> '''' \<and>
   list_all (\<lambda>c. solid c \<and> c \<noteq> chr 34 \<and> c \<noteq> chr 92) (sanitizeNativeRDPReason s)"
proof -
  have "list_all (\<lambda>c. solid c \<and> c \<noteq> chr 34 \<and> c \<noteq> chr 92) (sanitizeNativeRDPReason s)"
    using sanitize_facts(1) [of s] reason_ok_facts unfolding list_all_iff by blast
  thus ?thesis using sanitize_id [OF sanitize_facts] sanitize_facts(2,3) by blast
qed

section \<open>Witnesses\<close>

definition native_db :: "string \<Rightarrow> db" where
  "native_db stored = (auth_db ''h'')
     \<lparr>rdp_credentials := [\<lparr>rc_user_id = 7, rc_password_hash = stored, rc_is_enabled = True,
        rc_created_at = 0, rc_updated_at = 0, rc_disabled_at = None\<rparr>],
      assets := [\<lparr>a_id = 3, a_name = ''win'', a_address = ''10.0.0.3'', a_platform_id = 1,
        a_node_id = None, a_comment = '''', a_is_active = True, a_created_at = 0, a_updated_at = 0\<rparr>],
      platform_protocols := [\<lparr>pp_id = 1, pp_platform_id = 1, pp_name = ''rdp'', pp_port = 3389\<rparr>],
      accounts := [\<lparr>ac_id = 4, ac_asset_id = 3, ac_name = ''adm'', ac_username = ''adm'', ac_secret = ''pw'',
        ac_secret_type = ''password'', ac_ssh_key_type = '''', ac_passphrase = '''', ac_su_enabled = False,
        ac_su_method = '''', ac_su_account_id = None, ac_db_name = '''', ac_is_active = True,
        ac_created_at = 0, ac_updated_at = 0\<rparr>],
      permissions := [\<lparr>p_id = 1, p_name = ''all'', p_actions = ''connect'', p_date_start = None,
        p_date_expired = None, p_is_active = True, p_created_at = 0, p_updated_at = 0\<rparr>],
      perm_users := [(1, 7)], perm_assets := [(1, 3)]\<rparr>"

definition sample_native_env :: native_env where
  "sample_native_env = \<lparr>ne_argon2 = sample_argon2, ne_box = xor_box, ne_limit = 2\<rparr>"

definition sample_native_input :: native_input where
  "sample_native_input =
     \<lparr>ni_route_username = route_username ''ann'' 3 4, ni_password = ''pw'', ni_remote_addr = ''10.1.1.1''\<rparr>"

lemma sample_route:
  "ParseRDPRouteUsername (route_username ''ann'' 3 4) =
     Inr \<lparr>ro_username = ''ann'', ro_asset_id = 3, ro_account_id = 4\<rparr>"
proof -
  have "trim_space ''ann'' = ''ann''" by (rule trim_space_solid) (simp add: solid_def)
  thus ?thesis using parse_route_username [of "''ann''" 3 4] by simp
qed

lemma native_permission: "HasAssetPermission 7 3 4 ''connect'' (native_db stored)"
proof -
  have "map (like_case (native_db stored)) ''connect'' = ''connect''"
    by (simp add: like_case_def lower_char_def)
  thus ?thesis
    by (simp add: connect_iff Let_def native_db_def auth_db_def empty_db_def in_force_def names_user_def
        PermissionLinks_def links_of_def)
qed

lemma native_port: "GetAssetProtocolPort 3 ''rdp'' (native_db stored) = Inr 3389"
proof -
  have "trim_space ''rdp'' = ''rdp''" by (rule trim_space_solid) (simp add: solid_def)
  hence "protocolAliases ''rdp'' = [''rdp'']"
    by (simp add: protocolAliases_def to_lower_ascii ascii_def lower_char_def)
  thus ?thesis by (simp add: GetAssetProtocolPort_def native_db_def)
qed

theorem Resolve_sound_witness:
  "\<exists>stored r. Resolve sample_native_env sample_native_input (native_db stored) = Inr r \<and>
     nr_secret r = ''pw'' \<and> resolved sample_native_env sample_native_input (native_db stored) r"
proof -
  obtain stored where v: "VerifyPassword sample_argon2 ''pw'' stored = Inr True" using sample_stored by blast
  have trim: "trim_space ''ann'' = ''ann''" "trim_space ''password'' = ''password''"
    by (rule trim_space_solid, simp add: solid_def)+
  have user: "Credentials_Verify sample_argon2 ''ann'' ''pw'' (native_db stored) = Inr (auth_user ''h'')"
    using v trim by (simp add: Credentials_Verify_def native_db_def auth_db_def empty_db_def auth_user_def
        GetUserByUsername_def GetRDPProxyCredential_def)
  have look: "\<exists>a. GetAsset 3 (native_db stored) = Inr a \<and> a_is_active a"
    "\<exists>c. GetAssetAccount 3 4 (native_db stored) = Inr c \<and> ac_is_active c \<and> ac_secret_type c = ''password'' \<and>
       ac_secret c = ''pw''"
    by (simp_all add: GetAsset_def GetAssetAccount_def native_db_def)
  have dec: "DecryptString f ''pw'' = Inr ''pw''" for f
    by (simp add: DecryptString_def encryptedPrefix_def)
  obtain r where "Resolve sample_native_env sample_native_input (native_db stored) = Inr r \<and> nr_secret r = ''pw''"
    using user look native_permission native_port sample_route dec trim
    by (auto simp: Resolve_def sample_native_env_def sample_native_input_def found_or_def equal_fold_def auth_user_def)
  thus ?thesis using Resolve_sound by blast
qed

definition active_db :: db where
  "active_db = (auth_db ''h'')\<lparr>sessions := [sample_session\<lparr>s_user_id := 7\<rparr>, sample_session\<lparr>s_id := 2, s_user_id := 7\<rparr>]\<rparr>"

lemma active_db_facts: "session_keys active_db" "sessions_owned active_db" "finishable 1 active_db"
  by (simp_all add: active_db_def session_keys_def sessions_owned_def sample_session_def auth_db_def auth_user_def
      has_user_def finishable_def GetSession_def native_session_def session_live_def unfinished_def)

theorem finish_audited_once_witness:
  "length (audit_logs (finish_run 1 [''idle_timeout'', ''x'', ''''] active_db)) = length (audit_logs active_db) + 1"
  using finish_audited_once [OF active_db_facts(2), of 1 "''idle_timeout''" "[''x'', '''']"] active_db_facts(3) by simp

theorem FinishActiveSessions_complete_witness:
  "\<exists>t. FinishActiveSessions ''proxy_shutdown'' active_db =
        (Inr (sanitizeNativeRDPReason ''proxy_shutdown'', [1, 2], []), t) \<and> ListActiveNativeRDPSessionIDs t = []"
proof -
  have "ListActiveNativeRDPSessionIDs active_db = [1, 2]"
    by (simp add: ListActiveNativeRDPSessionIDs_def active_db_def sample_session_def)
  thus ?thesis using FinishActiveSessions_complete [OF active_db_facts(1,2), of "''proxy_shutdown''"] by auto
qed

end
