(* ===== verification/Json.thy ===== *)
theory Json
  imports Codec
begin

text \<open>
  JSON strings as \<open>encoding/json\<close> writes and reads them.  The writer escapes quotes,
  backslashes, control characters and, for HTML, the angle brackets and the ampersand; a
  byte that starts no valid UTF-8 becomes the replacement character.  The reader is the one
  behind \<open>json.Unmarshal\<close> into a \<open>string\<close>.
\<close>

section \<open>Writing\<close>

definition hex_code :: "nat \<Rightarrow> char" where
  "hex_code n = ''0123456789abcdef'' ! n"

definition ascii_escape :: "nat \<Rightarrow> string" where
  "ascii_escape n =
     (if n = 34 \<or> n = 92 then [chr 92, chr n]
      else if n = 8 then [chr 92, CHR ''b'']
      else if n = 12 then [chr 92, CHR ''f'']
      else if n = 10 then [chr 92, CHR ''n'']
      else if n = 13 then [chr 92, CHR ''r'']
      else if n = 9 then [chr 92, CHR ''t'']
      else if n < 32 \<or> n \<in> {38, 60, 62}
      then [chr 92] @ ''u00'' @ [hex_code (n div 16), hex_code (n mod 16)]
      else [chr n])"

text \<open>The line separators U+2028 and U+2029 are written as escapes too.\<close>

definition rune_escape :: "string \<Rightarrow> string" where
  "rune_escape r =
     (if r = map chr [226, 128, 168] then [chr 92] @ ''u2028''
      else if r = map chr [226, 128, 169] then [chr 92] @ ''u2029''
      else r)"

function json_escape :: "string \<Rightarrow> string" where
  "json_escape s =
     (case s of
        [] \<Rightarrow> []
      | c # t \<Rightarrow>
          let n = utf8_len (bytes_of s)
          in if n = 0 then [chr 92] @ ''ufffd'' @ json_escape t
             else if n = 1 then ascii_escape (of_char c) @ json_escape t
             else rune_escape (take n s) @ json_escape (drop n s))"
  by pat_completeness auto
termination
  by (relation "measure length") auto

declare json_escape.simps [simp del]

definition json_text :: "string \<Rightarrow> string" where
  "json_text s = [chr 34] @ json_escape s @ [chr 34]"

section \<open>Reading\<close>

definition hex_number :: "char \<Rightarrow> nat option" where
  "hex_number c =
     (case index_byte c ''0123456789abcdef'' of
        Some k \<Rightarrow> Some k
      | None \<Rightarrow> (case index_byte c ''0123456789ABCDEF'' of Some k \<Rightarrow> Some k | None \<Rightarrow> None))"

text \<open>\<open>getu4\<close>, after the backslash and the letter.\<close>

fun hex4 :: "string \<Rightarrow> (nat \<times> string) option" where
  "hex4 (a # b # c # d # r) =
     (case (hex_number a, hex_number b, hex_number c, hex_number d) of
        (Some i, Some j, Some k, Some l) \<Rightarrow> Some (((i * 16 + j) * 16 + k) * 16 + l, r)
      | _ \<Rightarrow> None)"
| "hex4 _ = None"

definition encode_rune :: "nat \<Rightarrow> string" where
  "encode_rune n =
     map chr
       (if n < 0x80 then [n]
        else if n < 0x800 then [0xC0 + n div 64, 0x80 + n mod 64]
        else if n < 0x10000 then [0xE0 + n div 4096, 0x80 + n div 64 mod 64, 0x80 + n mod 64]
        else [0xF0 + n div 262144, 0x80 + n div 4096 mod 64, 0x80 + n div 64 mod 64, 0x80 + n mod 64])"

text \<open>A pair of surrogates is one rune, a lone one is replaced.\<close>

definition low_surrogate :: "string \<Rightarrow> (nat \<times> string) option" where
  "low_surrogate r =
     (if has_prefix ([chr 92] @ ''u'') r
      then case hex4 (drop 2 r) of
             Some (lo, r') \<Rightarrow> if 0xDC00 \<le> lo \<and> lo < 0xE000 then Some (lo, r') else None
           | None \<Rightarrow> None
      else None)"

definition unescape_u :: "string \<Rightarrow> (string \<times> string) option" where
  "unescape_u t =
     (case hex4 t of
        None \<Rightarrow> None
      | Some (n, r) \<Rightarrow>
          if 0xD800 \<le> n \<and> n < 0xE000 then
            (case (if n < 0xDC00 then low_surrogate r else None) of
               Some (lo, r') \<Rightarrow> Some (encode_rune (0x10000 + (n - 0xD800) * 1024 + (lo - 0xDC00)), r')
             | None \<Rightarrow> Some (encode_rune 0xFFFD, r))
          else Some (encode_rune n, r))"

definition unescape :: "string \<Rightarrow> (string \<times> string) option" where
  "unescape s =
     (case s of
        [] \<Rightarrow> None
      | e # t \<Rightarrow>
          if e = chr 34 \<or> e = chr 92 \<or> e = CHR ''/'' then Some ([e], t)
          else if e = CHR ''b'' then Some ([chr 8], t)
          else if e = CHR ''f'' then Some ([chr 12], t)
          else if e = CHR ''n'' then Some ([chr 10], t)
          else if e = CHR ''r'' then Some ([chr 13], t)
          else if e = CHR ''t'' then Some ([chr 9], t)
          else if e = CHR ''u'' then unescape_u t
          else None)"

lemma hex4_shorter: "hex4 s = Some (n, r) \<Longrightarrow> length r < length s"
  by (cases s rule: hex4.cases) (auto split: option.splits)

lemma unescape_shorter: "unescape s = Some (v, r) \<Longrightarrow> length r < length s"
proof -
  have "unescape_u t = Some (v, r) \<Longrightarrow> length r < length t" for t
  proof -
    assume u: "unescape_u t = Some (v, r)"
    then obtain n q where h: "hex4 t = Some (n, q)" by (auto simp: unescape_u_def split: option.splits)
    have "r = q \<or> (\<exists>lo. low_surrogate q = Some (lo, r))"
      using u h by (auto simp: unescape_u_def split: if_splits option.splits)
    moreover have "low_surrogate q = Some (lo, r) \<Longrightarrow> length r < length q" for lo
      by (auto simp: low_surrogate_def split: if_splits option.splits dest!: hex4_shorter)
    ultimately show ?thesis using hex4_shorter [OF h] by fastforce
  qed
  thus "unescape s = Some (v, r) \<Longrightarrow> length r < length s"
    by (auto simp: unescape_def less_Suc_eq split: list.splits if_splits)
qed

function unquote :: "string \<Rightarrow> (string \<times> string) option" where
  "unquote s =
     (case s of
        [] \<Rightarrow> None
      | c # t \<Rightarrow>
          if c = chr 34 then Some ([], t)
          else if c = chr 92 then
            (case unescape t of
               None \<Rightarrow> None
             | Some (v, r) \<Rightarrow> map_option (\<lambda>(u, q). (v @ u, q)) (unquote r))
          else if of_char c < (32 :: nat) then None
          else if utf8_len (bytes_of s) = 0
          then map_option (\<lambda>(u, q). (encode_rune 0xFFFD @ u, q)) (unquote t)
          else let n = utf8_len (bytes_of s)
               in map_option (\<lambda>(u, q). (take n s @ u, q)) (unquote (drop n s)))"
  by pat_completeness auto
termination
  by (relation "measure length") (auto dest: unescape_shorter)

declare unquote.simps [simp del]

text \<open>
  \<open>json.Unmarshal\<close> of a text without outer white space into a \<open>string\<close>; \<open>null\<close> leaves
  the variable empty.
\<close>

definition json_string :: "string \<Rightarrow> string option" where
  "json_string raw =
     (if raw = ''null'' then Some ''''
      else if has_prefix [chr 34] raw
      then case unquote (tl raw) of Some (v, []) \<Rightarrow> Some v | _ \<Rightarrow> None
      else None)"

section \<open>What is written is read back\<close>

lemma byte_val: "uint (of_char c :: byte) = int (of_char c)"
  using uint_nat [of "of_char c :: byte"] by (simp add: unat_of_char)

lemma utf8_len_ascii: "utf8_len (bytes_of (c # t)) = 1 \<longleftrightarrow> of_char c < (128 :: nat)"
  by (auto simp: utf8_len_def bytes_of_def byte_val Let_def)

text \<open>The number of bytes that follow a leading byte, and the range of the first of them.\<close>

definition lead :: "byte \<Rightarrow> (nat \<times> int \<times> int) option" where
  "lead b =
     (if in_range 0xC2 0xDF b then Some (1, 0x80, 0xBF)
      else if uint b = 0xE0 then Some (2, 0xA0, 0xBF)
      else if uint b = 0xED then Some (2, 0x80, 0x9F)
      else if in_range 0xE1 0xEF b then Some (2, 0x80, 0xBF)
      else if uint b = 0xF0 then Some (3, 0x90, 0xBF)
      else if in_range 0xF1 0xF3 b then Some (3, 0x80, 0xBF)
      else if uint b = 0xF4 then Some (3, 0x80, 0x8F) else None)"

lemma utf8_len_lead:
  "utf8_len (b # t) =
     (if uint b < 0x80 then 1
      else case lead b of
             None \<Rightarrow> 0
           | Some (k, lo, hi) \<Rightarrow>
               if k \<le> length t \<and> in_range lo hi (hd t) \<and>
                  list_all (in_range 0x80 0xBF) (take (k - 1) (tl t)) then k + 1 else 0)"
  by (simp add: utf8_len_def lead_def Let_def)

lemma lead_pos: "lead b = Some (k, lo, hi) \<Longrightarrow> 0 < k"
  by (auto simp: lead_def split: if_splits)

lemma utf8_len_prefix:
  assumes "0 < utf8_len s"
  shows "utf8_len s \<le> length s" and "utf8_len (take (utf8_len s) s @ x) = utf8_len s"
proof -
  obtain b t where s: "s = b # t" using assms by (cases s) (auto simp: utf8_len_def)
  have f: "hd (take k t @ x) = hd t \<and> take (k - 1) (tl (take k t @ x)) = take (k - 1) (tl t)"
    if "k \<le> length t" "0 < k" for k
    using that by (cases t; cases k) simp_all
  show "utf8_len s \<le> length s" using assms unfolding s utf8_len_lead
    by (auto split: if_splits option.splits)
  show "utf8_len (take (utf8_len s) s @ x) = utf8_len s"
  proof (cases "uint b < 0x80")
    case True
    thus ?thesis by (simp add: s utf8_len_lead)
  next
    case False
    then obtain k lo hi where l: "lead b = Some (k, lo, hi)" "k \<le> length t" "utf8_len s = k + 1"
      "in_range lo hi (hd t)" "list_all (in_range 0x80 0xBF) (take (k - 1) (tl t))"
      using assms unfolding s utf8_len_lead by (auto split: if_splits option.splits)
    show ?thesis using l False f [OF l(2) lead_pos [OF l(1)]] by (simp add: s utf8_len_lead)
  qed
qed

definition prefixed :: "string \<Rightarrow> (string \<times> string) option \<Rightarrow> (string \<times> string) option" where
  "prefixed v r = map_option (\<lambda>(u, q). (v @ u, q)) r"

lemma prefixed_Some [simp]: "prefixed v (Some (u, q)) = Some (v @ u, q)"
  by (simp add: prefixed_def)

lemma unquote_simps:
  "unquote (chr 34 # t) = Some ([], t)"
  "unquote (chr 92 # t) = (case unescape t of None \<Rightarrow> None | Some (v, r) \<Rightarrow> prefixed v (unquote r))"
  by (simp_all add: unquote.simps [of "_ # _"] prefixed_def split: option.split)

lemma unquote_rune:
  assumes "0 < utf8_len (bytes_of s)" and "hd s \<noteq> chr 34" and "hd s \<noteq> chr 92"
    and "32 \<le> (of_char (hd s) :: nat)"
  shows "unquote s = prefixed (take (utf8_len (bytes_of s)) s) (unquote (drop (utf8_len (bytes_of s)) s))"
proof -
  obtain c t where s: "s = c # t" using assms(1) by (cases s) (auto simp: utf8_len_def bytes_of_def)
  have "c \<noteq> chr 34" "c \<noteq> chr 92" "\<not> (of_char c :: nat) < 32" using assms unfolding s by simp_all
  moreover have "utf8_len (bytes_of (c # t)) \<noteq> 0" using assms(1) unfolding s by simp
  ultimately show ?thesis
    unfolding s by (subst unquote.simps) (simp only: list.case if_False Let_def prefixed_def)
qed

lemma special_codes: "chr 34 = CHR 0x22" "chr 92 = CHR 0x5C" "chr 8 = CHR 0x08" "chr 9 = CHR 0x09"
  "chr 10 = CHR 0x0A" "chr 12 = CHR 0x0C" "chr 13 = CHR 0x0D"
  by code_simp+

lemma hex_codes_back: "list_all (\<lambda>k. hex_number (hex_code k) = Some k) [0..<16]"
  by code_simp

lemma hex_number_code: "k < 16 \<Longrightarrow> hex_number (hex_code k) = Some k"
  using hex_codes_back unfolding list_all_iff by simp

lemma hex4_code:
  assumes "n < 256"
  shows "hex4 (''00'' @ [hex_code (n div 16), hex_code (n mod 16)] @ r) = Some (n, r)"
proof -
  have "hex_number (CHR ''0'') = Some 0" by code_simp
  moreover have "n div 16 < 16" "n mod 16 < 16" using assms by simp_all
  ultimately show ?thesis by (simp add: hex_number_code)
qed

lemma unquote_ascii:
  assumes "n < 128"
  shows "unquote (ascii_escape n @ x) = prefixed [chr n] (unquote x)"
proof -
  have small: "n < 256" using assms by simp
  have u: "unescape (CHR ''u'' # CHR ''0'' # CHR ''0'' # hex_code (n div 16) # hex_code (n mod 16) # x) =
      Some ([chr n], x)"
    using hex4_code [OF small, of x] assms
    by (simp del: hex4.simps add: unescape_def unescape_u_def encode_rune_def special_codes)
  have plain: "unquote (chr n # x) = prefixed [chr n] (unquote x)"
    if "n \<noteq> 34" "n \<noteq> 92" "\<not> n < 32"
  proof -
    have "of_char (chr n) = n" using small by simp
    moreover have "chr n \<noteq> chr 34" "chr n \<noteq> chr 92" using that small by (simp_all add: char_of_eq_iff take_bit_eq_mod)
    moreover have "utf8_len (bytes_of (chr n # x)) = 1" using assms by (simp only: utf8_len_ascii) simp
    ultimately show ?thesis using unquote_rune [of "chr n # x"] that by simp
  qed
  note q = unquote_simps(2) [unfolded special_codes] special_codes
  consider (lit) "n = 34 \<or> n = 92" | (b) "n = 8" | (f) "n = 12" | (n) "n = 10" | (r) "n = 13" | (t) "n = 9"
    | (hex) "n \<notin> {34, 92, 8, 12, 10, 13, 9}" "n < 32 \<or> n \<in> {38, 60, 62}"
    | (plain) "n \<notin> {34, 92, 8, 12, 10, 13, 9}" "\<not> (n < 32 \<or> n \<in> {38, 60, 62})" by blast
  thus ?thesis
  proof cases
    case lit
    thus ?thesis by (auto simp: ascii_escape_def unescape_def q)
  next
    case hex
    hence "ascii_escape n = [chr 92] @ ''u00'' @ [hex_code (n div 16), hex_code (n mod 16)]"
      by (simp add: ascii_escape_def)
    thus ?thesis using u by (simp add: q)
  next
    case plain
    hence "ascii_escape n = [chr n]" by (simp add: ascii_escape_def)
    thus ?thesis using \<open>n \<noteq> 34 \<Longrightarrow> n \<noteq> 92 \<Longrightarrow> \<not> n < 32 \<Longrightarrow> unquote (chr n # x) = prefixed [chr n] (unquote x)\<close> plain
      by simp
  qed (simp_all add: ascii_escape_def unescape_def q)
qed

lemma utf8_len_lead_byte:
  assumes "1 < utf8_len (bytes_of (c # t))"
  shows "128 \<le> (of_char c :: nat)"
  using assms utf8_len_ascii [of c t] by (cases "of_char c < (128 :: nat)") simp_all

lemma unquote_rune_escape:
  assumes "1 < utf8_len (bytes_of s)"
  shows "unquote (rune_escape (take (utf8_len (bytes_of s)) s) @ x) =
         prefixed (take (utf8_len (bytes_of s)) s) (unquote x)"
proof -
  let ?n = "utf8_len (bytes_of s)"
  let ?r = "take ?n s"
  obtain c t where s: "s = c # t" using assms by (cases s) (auto simp: utf8_len_def bytes_of_def)
  have n: "?n \<le> length s" using utf8_len_prefix(1) [of "bytes_of s"] assms by simp
  have "utf8_len (bytes_of (?r @ x)) = ?n"
    using utf8_len_prefix(2) [of "bytes_of s" "bytes_of x"] assms
    by (simp add: bytes_of_def take_map)
  moreover have "hd (?r @ x) = c" using assms s by (cases ?n) simp_all
  moreover have "128 \<le> (of_char c :: nat)" using utf8_len_lead_byte assms s by blast
  moreover have "(of_char (chr 34) :: nat) = 34" "(of_char (chr 92) :: nat) = 92" by simp_all
  ultimately have plain: "unquote (?r @ x) = prefixed ?r (unquote x)"
    using unquote_rune [of "?r @ x"] assms n by fastforce
  have sep: "unquote ([chr 92] @ ''u202'' @ [d] @ x) = prefixed (map chr [226, 128, k]) (unquote x)"
    if "d = CHR ''8'' \<and> k = 168 \<or> d = CHR ''9'' \<and> k = 169" for d k
  proof -
    have "unescape_u (''202'' @ [d] @ x) = Some (map chr [226, 128, k], x)"
    proof -
      have "hex_number (CHR ''2'') = Some 2" "hex_number (CHR ''0'') = Some 0"
        "hex_number (CHR ''8'') = Some 8" "hex_number (CHR ''9'') = Some 9" by code_simp+
      thus ?thesis using that by (auto simp: unescape_u_def encode_rune_def)
    qed
    thus ?thesis
      using unquote_simps(2) [of "CHR ''u'' # ''202'' @ [d] @ x"] by (simp add: unescape_def special_codes)
  qed
  show ?thesis using plain sep [of "CHR ''8''" 168] sep [of "CHR ''9''" 169]
    by (simp add: rune_escape_def)
qed

lemma json_text_read_back:
  assumes "utf8_valid (bytes_of s)"
  shows "unquote (json_escape s @ chr 34 # rest) = Some (s, rest)"
  using assms
proof (induction s rule: json_escape.induct)
  case (1 s)
  show ?case
  proof (cases s)
    case Nil
    thus ?thesis by (simp add: json_escape.simps unquote_simps)
  next
    case (Cons c t)
    let ?n = "utf8_len (bytes_of s)"
    have v: "?n \<noteq> 0" "utf8_valid (bytes_of (drop ?n s))"
      using 1(4) Cons unfolding utf8_valid.simps [of "bytes_of s"]
      by (auto simp: bytes_of_def drop_map [symmetric] split: if_splits)
    show ?thesis
    proof (cases "?n = 1")
      case True
      have "unquote (json_escape t @ chr 34 # rest) = Some (t, rest)"
        using 1(2) [OF Cons refl] True v Cons by simp
      moreover have "of_char c < (128 :: nat)" using True utf8_len_ascii Cons by blast
      moreover have "json_escape s = ascii_escape (of_char c) @ json_escape t"
        using True Cons by (simp add: json_escape.simps [of "c # t"])
      ultimately show ?thesis using Cons unquote_ascii [of "of_char c"] by simp
    next
      case False
      have "unquote (json_escape (drop ?n s) @ chr 34 # rest) = Some (drop ?n s, rest)"
        using 1(3) [OF Cons refl] False v Cons by simp
      moreover have "json_escape s = rune_escape (take ?n s) @ json_escape (drop ?n s)"
        using False v(1) Cons by (simp add: json_escape.simps [of "c # t"] Let_def)
      ultimately show ?thesis using unquote_rune_escape [of s] False v(1) by simp
    qed
  qed
qed

lemma json_string_text: "utf8_valid (bytes_of s) \<Longrightarrow> json_string (json_text s) = Some s"
  using json_text_read_back [of s "[]"]
  by (auto simp: json_string_def json_text_def has_prefix_def special_codes)

text \<open>What a string is after it was written and read: bytes that are no UTF-8 do not survive.\<close>

definition through_json :: "string \<Rightarrow> string" where
  "through_json s = (case json_string (json_text s) of Some v \<Rightarrow> v | None \<Rightarrow> s)"

lemma through_json_utf8 [simp]: "utf8_valid (bytes_of s) \<Longrightarrow> through_json s = s"
  by (simp add: through_json_def json_string_text)

lemma through_json_ascii: "ascii s \<Longrightarrow> through_json s = s"
  by (rule through_json_utf8, rule utf8_valid_ascii) (auto simp: ascii_def bytes_of_def byte_val list_all_iff)

lemma through_json_Nil [simp]: "through_json '''' = ''''"
  by (rule through_json_ascii) (simp add: ascii_def)

end
