(* ===== verification/ProxyAllow.thy ===== *)
theory ProxyAllow
  imports Json NetAddr
begin

text \<open>
  Which addresses may speak to the interface of the proxies: \<open>allowedIP\<close> of
  \<open>service/tokens.go\<close>, with the parsers and the matching of addresses and networks of the
  standard library's \<open>net\<close> and \<open>net/netip\<close>.  An address is the list of its bytes, four or
  sixteen; an IPv4 address also has a form of sixteen.
\<close>

unbundle bit_operations_syntax

section \<open>Addresses\<close>

type_synonym ip = "byte list"

definition v4_prefix :: ip where
  "v4_prefix = replicate 10 0 @ [255, 255]"

definition ip_octet :: "string \<Rightarrow> byte option" where
  "ip_octet s =
     (case parse_unsigned s of
        None \<Rightarrow> None
      | Some n \<Rightarrow> if 255 < n \<or> (1 < length s \<and> hd s = CHR ''0'') then None else Some (of_nat n))"

definition parseIPv4 :: "string \<Rightarrow> ip option" where
  "parseIPv4 s =
     (case map ip_octet (split_char (CHR ''.'') s) of
        [Some a, Some b, Some c, Some d] \<Rightarrow> Some [a, b, c, d]
      | _ \<Rightarrow> None)"

definition hex_digit :: "char \<Rightarrow> bool" where
  "hex_digit c = (hex_number c \<noteq> None)"

definition hex_value :: "string \<Rightarrow> nat" where
  "hex_value s = foldl (\<lambda>acc c. acc * 16 + the (hex_number c)) 0 s"

text \<open>
  The groups of an IPv6 address: the bytes so far, where the double colon stood, and the rest of
  the text.  The last four bytes may be written as an IPv4 address.
\<close>

function v6_groups :: "ip \<Rightarrow> nat option \<Rightarrow> string \<Rightarrow> (ip \<times> nat option \<times> string) option" where
  "v6_groups acc ell s =
     (if 16 \<le> length acc then Some (acc, ell, s)
      else let ds = takeWhile hex_digit s; rest = dropWhile hex_digit s
           in if ds = '''' \<or> 4 < length ds then None
              else if has_prefix ''.'' rest then
                if (ell = None \<and> length acc \<noteq> 12) \<or> 12 < length acc then None
                else map_option (\<lambda>b. (acc @ b, ell, '''')) (parseIPv4 s)
              else let acc = acc @ [of_nat (hex_value ds div 256), of_nat (hex_value ds)]
                   in case rest of
                        '''' \<Rightarrow> Some (acc, ell, '''')
                      | c # r \<Rightarrow>
                          if c \<noteq> CHR '':'' \<or> r = '''' then None
                          else if hd r = CHR '':'' then
                            if ell \<noteq> None then None
                            else if tl r = '''' then Some (acc, Some (length acc), '''')
                            else v6_groups acc (Some (length acc)) (tl r)
                          else v6_groups acc ell r)"
  by pat_completeness auto
termination
proof (relation "measure (\<lambda>(_, _, s). length s)", goal_cases)
  case (2 acc ell s ds rest acc' c r)
  hence "length (c # r) \<le> length s" by (metis length_dropWhile_le)
  thus ?case by simp
next
  case (3 acc ell s ds rest acc' c r)
  hence "length (c # r) \<le> length s" by (metis length_dropWhile_le)
  thus ?case by simp
qed simp

declare v6_groups.simps [simp del]

definition expand_v6 :: "ip \<times> nat option \<times> string \<Rightarrow> ip option" where
  "expand_v6 = (\<lambda>(acc, ell, s).
     if s \<noteq> '''' then None
     else case ell of
            None \<Rightarrow> if length acc < 16 then None else Some acc
          | Some e \<Rightarrow> if length acc < 16
                      then Some (take e acc @ replicate (16 - length acc) 0 @ drop e acc)
                      else None)"

definition parseIPv6 :: "string \<Rightarrow> ip option" where
  "parseIPv6 s =
     (if has_prefix ''::'' s
      then if length s = 2 then Some (replicate 16 0)
           else Option.bind (v6_groups [] (Some 0) (drop 2 s)) expand_v6
      else Option.bind (v6_groups [] None s) expand_v6)"

text \<open>
  The first dot, colon or percent sign decides.  Both callers refuse an address with a zone, so
  a percent sign is refused wherever it stands.
\<close>

definition ParseAddr :: "string \<Rightarrow> ip option" where
  "ParseAddr s =
     (if CHR ''%'' \<in> set s then None
      else case find (\<lambda>c. c = CHR ''.'' \<or> c = CHR '':'') s of
             None \<Rightarrow> None
           | Some c \<Rightarrow> if c = CHR ''.'' then parseIPv4 s else parseIPv6 s)"

definition As16 :: "ip \<Rightarrow> ip" where
  "As16 a = (if length a = 4 then v4_prefix @ a else a)"

definition ParseIP :: "string \<Rightarrow> ip option" where
  "ParseIP s = map_option As16 (ParseAddr s)"

definition To4 :: "ip \<Rightarrow> ip option" where
  "To4 a =
     (if length a = 4 then Some a
      else if length a = 16 \<and> take 12 a = v4_prefix then Some (drop 12 a)
      else None)"

section \<open>Networks\<close>

fun CIDRMask :: "nat \<Rightarrow> nat \<Rightarrow> ip" where
  "CIDRMask n 0 = []"
| "CIDRMask n (Suc k) = (if 8 \<le> n then 255 else NOT (drop_bit n 255)) # CIDRMask (n - 8) k"

definition ip_masked :: "ip \<Rightarrow> ip \<Rightarrow> ip" where
  "ip_masked m a = map2 (AND) a m"

text \<open>\<open>IP.Mask\<close>; the two masks made by \<open>ParseCIDR\<close> have the length of the address as written.\<close>

definition ip_mask :: "ip \<Rightarrow> ip \<Rightarrow> ip" where
  "ip_mask a m =
     ip_masked m (if length m = 4 \<and> length a = 16 \<and> take 12 a = v4_prefix then drop 12 a else a)"

text \<open>The address, the network's address, and its mask.\<close>

definition ParseCIDR :: "string \<Rightarrow> (ip \<times> ip \<times> ip) option" where
  "ParseCIDR s =
     (case index_byte (CHR ''/'') s of
        None \<Rightarrow> None
      | Some i \<Rightarrow>
          (case (ParseAddr (take i s), parse_unsigned (drop (i + 1) s)) of
             (Some a, Some n) \<Rightarrow>
               if 8 * length a < n then None
               else let m = CIDRMask n (length a) in Some (As16 a, ip_mask (As16 a) m, m)
           | _ \<Rightarrow> None))"

definition networkNumberAndMask :: "ip \<Rightarrow> ip \<Rightarrow> ip \<times> ip" where
  "networkNumberAndMask nip m =
     (case To4 nip of
        Some a \<Rightarrow> if length m = 4 then (a, m) else if length m = 16 then (a, drop 12 m) else ([], [])
      | None \<Rightarrow> if length nip = 16 \<and> length m = 16 then (nip, m) else ([], []))"

definition network_contains :: "ip \<Rightarrow> ip \<Rightarrow> ip \<Rightarrow> bool" where
  "network_contains nip m a =
     (let (nn, m) = networkNumberAndMask nip m;
          a = (case To4 a of Some x \<Rightarrow> x | None \<Rightarrow> a)
      in length a = length nn \<and> ip_masked m nn = ip_masked m a)"

section \<open>The check\<close>

definition remote_ip :: "string \<Rightarrow> ip option" where
  "remote_ip remoteIP =
     (case ParseIP remoteIP of
        Some a \<Rightarrow> Some a
      | None \<Rightarrow> (case SplitHostPort remoteIP of Inl _ \<Rightarrow> None | Inr (host, _) \<Rightarrow> ParseIP host))"

definition entry_allows :: "string \<Rightarrow> ip option \<Rightarrow> string \<Rightarrow> bool" where
  "entry_allows remoteIP ip allowed =
     (allowed = remoteIP \<or>
      (case ip of
         None \<Rightarrow> False
       | Some a \<Rightarrow>
           (case ParseCIDR allowed of
              Some (cidrIP, nip, m) \<Rightarrow> network_contains nip m a \<or> cidrIP = a
            | None \<Rightarrow> ParseIP allowed = Some a)))"

definition allowedIP :: "string list \<Rightarrow> string \<Rightarrow> bool" where
  "allowedIP allowed remoteIP =
     (allowed = [] \<or> list_ex (entry_allows remoteIP (remote_ip remoteIP)) allowed)"

section \<open>Networks as prefixes of bits\<close>

definition byte_bits :: "byte \<Rightarrow> bool list" where
  "byte_bits x = map (bit x) [7, 6, 5, 4, 3, 2, 1, 0]"

definition ip_bits :: "ip \<Rightarrow> bool list" where
  "ip_bits a = concat (map byte_bits a)"

definition same_prefix :: "nat \<Rightarrow> ip \<Rightarrow> ip \<Rightarrow> bool" where
  "same_prefix n a b = (take n (ip_bits a) = take n (ip_bits b))"

lemma length_byte_bits [simp]: "length (byte_bits x) = 8"
  by (simp add: byte_bits_def)

lemma bits_simps [simp]: "ip_bits [] = []" "ip_bits (x # a) = byte_bits x @ ip_bits a" "ip_bits (a @ b) = ip_bits a @ ip_bits b"
  by (simp_all add: ip_bits_def)

lemma length_bits [simp]: "length (ip_bits a) = 8 * length a"
  by (induction a) simp_all

lemma less_8: "k < 8 \<Longrightarrow> k \<in> {0, 1, 2, 3, 4, 5, 6, 7 :: nat}"
  by auto

lemma byte_eqI: "(\<And>k. k < 8 \<Longrightarrow> bit x k = bit y k) \<Longrightarrow> x = (y :: byte)"
  by (rule bit_word_eqI) simp

lemma byte_bits_nth: "i < 8 \<Longrightarrow> byte_bits x ! i = bit x (7 - i)"
  by (drule less_8) (auto simp: byte_bits_def)

lemma byte_bits_inj [simp]: "byte_bits x = byte_bits y \<longleftrightarrow> x = y"
proof
  assume e: "byte_bits x = byte_bits y"
  show "x = y"
  proof (rule byte_eqI)
    fix k :: nat assume "k < 8"
    thus "bit x k = bit y k" using arg_cong [OF e, of "\<lambda>l. l ! (7 - k)"] by (simp add: byte_bits_nth)
  qed
qed simp

lemma bits_inj: "length a = length b \<Longrightarrow> ip_bits a = ip_bits b \<longleftrightarrow> a = b"
  by (induction a b rule: list_induct2) (auto simp: append_eq_append_conv)

lemma same_prefix_Cons:
  "same_prefix n (x # a) (y # b) \<longleftrightarrow> take n (byte_bits x) = take n (byte_bits y) \<and> same_prefix (n - 8) a b"
  by (auto simp: same_prefix_def append_eq_append_conv)

lemma same_prefix_append:
  "length a = length b \<Longrightarrow> same_prefix (8 * length a + n) (a @ c) (b @ d) \<longleftrightarrow> a = b \<and> same_prefix n c d"
  by (auto simp: same_prefix_def bits_inj append_eq_append_conv)

lemma bit_255: "bit (255 :: int) k \<longleftrightarrow> k < 8"
proof -
  have "bit (mask 8 :: int) k \<longleftrightarrow> k < 8" unfolding bit_mask_iff by auto
  thus ?thesis by (simp add: mask_eq_exp_minus_1)
qed

text \<open>The top bits of a byte are what its mask keeps.\<close>

lemma mask_byte:
  assumes "n < 8"
  shows "x AND NOT (drop_bit n 255) = y AND NOT (drop_bit n 255) \<longleftrightarrow> take n (byte_bits x) = take n (byte_bits (y :: byte))"
proof -
  have m: "bit (NOT (drop_bit n 255) :: byte) k \<longleftrightarrow> 8 - n \<le> k" if "k < 8" for k
    using that assms by (auto simp: bit_not_iff bit_drop_bit_eq bit_255)
  have "x AND NOT (drop_bit n 255) = y AND NOT (drop_bit n 255) \<longleftrightarrow>
      (\<forall>k < 8. 8 - n \<le> k \<longrightarrow> bit x k = bit y k)"
    using m by (auto simp: bit_and_iff intro!: byte_eqI dest: arg_cong [where f = "\<lambda>w. bit w _"])
  also have "\<dots> \<longleftrightarrow> (\<forall>i < n. bit x (7 - i) = bit y (7 - i))"
  proof
    assume h: "\<forall>i < n. bit x (7 - i) = bit y (7 - i)"
    have "bit x k = bit y k" if "k < 8" "8 - n \<le> k" for k
      using h [rule_format, of "7 - k"] that assms by auto
    thus "\<forall>k < 8. 8 - n \<le> k \<longrightarrow> bit x k = bit y k" by blast
  qed (use assms in auto)
  also have "\<dots> \<longleftrightarrow> take n (byte_bits x) = take n (byte_bits y)"
    using assms by (simp add: list_eq_iff_nth_eq byte_bits_nth)
  finally show ?thesis .
qed

lemma and_255 [simp]: "x AND 255 = (x :: byte)"
  by (rule byte_eqI) (simp add: bit_and_iff bit_255)

lemma length_CIDRMask [simp]: "length (CIDRMask n k) = k"
  by (induction k arbitrary: n) simp_all

lemma length_masked [simp]: "length (ip_masked m a) = min (length a) (length m)"
  by (simp add: ip_masked_def)

lemma masked_Cons [simp]: "ip_masked (m # ms) (x # a) = (x AND m) # ip_masked ms a"
  by (simp add: ip_masked_def)

lemma masked_twice [simp]: "ip_masked m (ip_masked m a) = ip_masked m a"
  by (simp add: ip_masked_def list_eq_iff_nth_eq and.assoc)

lemma masked_same_prefix:
  "length a = k \<Longrightarrow> length b = k \<Longrightarrow> ip_masked (CIDRMask n k) a = ip_masked (CIDRMask n k) b \<longleftrightarrow> same_prefix n a b"
proof (induction k arbitrary: n a b)
  case 0
  thus ?case by (simp add: same_prefix_def)
next
  case (Suc k)
  then obtain x a' y b' where l: "a = x # a'" "b = y # b'" "length a' = k" "length b' = k"
    by (metis length_Suc_conv)
  show ?case using Suc.IH [OF l(3,4), of "n - 8"] mask_byte [of n x y] by (auto simp: l(1,2) same_prefix_Cons not_le)
qed

lemma CIDRMask_nth: "i < k \<Longrightarrow> CIDRMask n k ! i = (if 8 * i + 8 \<le> n then 255 else NOT (drop_bit (n - 8 * i) 255))"
proof (induction k arbitrary: n i)
  case (Suc k)
  note IH = Suc.IH and lt = Suc.prems
  show ?case
  proof (cases i)
    case (Suc j)
    thus ?thesis using IH [of j "n - 8"] lt by (auto simp: diff_diff_add)
  qed simp
qed simp

lemma masked_v4_prefix:
  assumes "length a = 16"
  shows "take 12 (ip_masked (CIDRMask n 16) a) = v4_prefix \<longleftrightarrow> 96 \<le> n \<and> take 12 a = v4_prefix"
proof (cases "96 \<le> n")
  case True
  hence "take 12 (ip_masked (CIDRMask n 16) a) = take 12 a"
    using assms by (intro nth_equalityI) (auto simp: ip_masked_def CIDRMask_nth)
  thus ?thesis using True by simp
next
  case False
  have "bit (ip_masked (CIDRMask n 16) a ! 11) 0 = False"
    using assms False by (auto simp: ip_masked_def CIDRMask_nth bit_and_iff bit_not_iff bit_drop_bit_eq bit_255)
  moreover have "bit (v4_prefix ! 11) 0" by (simp add: v4_prefix_def nth_append bit_255)
  moreover have "take 12 (ip_masked (CIDRMask n 16) a) ! 11 = ip_masked (CIDRMask n 16) a ! 11" by simp
  ultimately show ?thesis using False by metis
qed


text \<open>Addresses have four or sixteen bytes.\<close>

lemma parseIPv4_length: "parseIPv4 s = Some a \<Longrightarrow> length a = 4"
  by (auto simp: parseIPv4_def split: list.splits option.splits)

lemma v6_groups_length:
  "v6_groups acc ell s = Some (acc', ell', s') \<Longrightarrow> even (length acc) \<Longrightarrow> length acc \<le> 16 \<Longrightarrow>
   (\<forall>e. ell = Some e \<longrightarrow> e \<le> length acc) \<Longrightarrow>
   length acc' \<le> 16 \<and> (\<forall>e. ell' = Some e \<longrightarrow> e \<le> length acc')"
proof (induction "length s" arbitrary: acc ell s rule: less_induct)
  case less
  have le: "length acc + 2 \<le> 16" if "\<not> 16 \<le> length acc" using that less.prems(2) by presburger
  have shorter: "length r < length s" "length (tl r) < length s" if "dropWhile hex_digit s = c # r" for c r
    using length_dropWhile_le [of hex_digit s] that by auto
  show ?case
    using less.prems le
    by (subst (asm) v6_groups.simps)
       (auto simp: Let_def split: if_splits list.splits dest!: parseIPv4_length dest: less.hyps [OF shorter(1)] less.hyps [OF shorter(2)])
qed

lemma expand_v6_length:
  "expand_v6 (acc, ell, s) = Some a \<Longrightarrow> length acc \<le> 16 \<Longrightarrow> (\<forall>e. ell = Some e \<longrightarrow> e \<le> length acc) \<Longrightarrow> length a = 16"
  by (auto simp: expand_v6_def split: if_splits option.splits)

lemma parseIPv6_length: "parseIPv6 s = Some a \<Longrightarrow> length a = 16"
proof -
  have "Option.bind (v6_groups [] ell t) expand_v6 = Some a \<Longrightarrow> (\<forall>e. ell = Some e \<longrightarrow> e = 0) \<Longrightarrow> length a = 16" for ell t
    by (auto simp: Option.bind_eq_Some_conv dest: v6_groups_length expand_v6_length)
  thus "parseIPv6 s = Some a \<Longrightarrow> length a = 16" by (fastforce simp: parseIPv6_def split: if_splits)
qed

lemma ParseAddr_length: "ParseAddr s = Some a \<Longrightarrow> length a = 4 \<or> length a = 16"
  by (auto simp: ParseAddr_def split: if_splits option.splits dest: parseIPv4_length parseIPv6_length)

lemma ParseIP_length: "ParseIP s = Some a \<Longrightarrow> length a = 16"
  by (auto simp: ParseIP_def As16_def v4_prefix_def dest: ParseAddr_length)

lemma To4_16: "length a = 16 \<Longrightarrow> To4 a = (if take 12 a = v4_prefix then Some (drop 12 a) else None)"
  by (simp add: To4_def)

lemma length_v4_prefix [simp]: "length v4_prefix = 12"
  by (simp add: v4_prefix_def)

section \<open>What the check accepts\<close>

text \<open>
  A network is a number of leading bits of an address of sixteen bytes.  An address is in the
  network when it has these bits, except that no IPv4 address is in a network wider than all of
  IPv4.
\<close>

definition ip_network :: "string \<Rightarrow> (ip \<times> nat) option" where
  "ip_network s =
     (case (case index_byte (CHR ''/'') s of
              None \<Rightarrow> None
            | Some i \<Rightarrow>
                (case (ParseAddr (take i s), parse_unsigned (drop (i + 1) s)) of
                   (Some a, Some n) \<Rightarrow>
                     if n \<le> 8 * length a then Some (As16 a, 8 * (16 - length a) + n) else None
                 | _ \<Rightarrow> None)) of
        Some nw \<Rightarrow> Some nw
      | None \<Rightarrow> map_option (\<lambda>a. (a, 128)) (ParseIP s))"

definition in_network :: "ip \<Rightarrow> ip \<times> nat \<Rightarrow> bool" where
  "in_network a = (\<lambda>(base, n). a = base \<or> same_prefix n base a \<and> (To4 a = None \<or> 96 \<le> n))"

lemma same_prefix_96:
  assumes "length a = 16" and "length b = 16"
  shows "same_prefix (96 + n) a b \<longleftrightarrow> take 12 a = take 12 b \<and> same_prefix n (drop 12 a) (drop 12 b)"
  using same_prefix_append [of "take 12 a" "take 12 b" n "drop 12 a" "drop 12 b"] assms by simp

lemma contains_v4:
  assumes "length base = 4" and "n \<le> 32" and "length a = 16"
  shows "network_contains (ip_mask (As16 base) (CIDRMask n 4)) (CIDRMask n 4) a \<longleftrightarrow> same_prefix (96 + n) (As16 base) a"
proof -
  have "ip_mask (As16 base) (CIDRMask n 4) = ip_masked (CIDRMask n 4) base"
    using assms by (simp add: ip_mask_def As16_def)
  moreover have "same_prefix (96 + n) (As16 base) a \<longleftrightarrow> take 12 a = v4_prefix \<and> same_prefix n base (drop 12 a)"
    using same_prefix_96 [of "As16 base" a n] assms by (auto simp: As16_def)
  ultimately show ?thesis
    using assms masked_same_prefix [of base 4 "drop 12 a" n]
    by (auto simp: network_contains_def networkNumberAndMask_def To4_16 To4_def Let_def)
qed

lemma masked_split:
  assumes "length m = 16" and "length a = 16" and "length b = 16" and "take 12 (ip_masked m a) = take 12 (ip_masked m b)"
  shows "ip_masked m a = ip_masked m b \<longleftrightarrow> ip_masked (drop 12 m) (drop 12 a) = ip_masked (drop 12 m) (drop 12 b)"
  using assms append_take_drop_id [of 12 "ip_masked m a"] append_take_drop_id [of 12 "ip_masked m b"]
  by (metis (no_types, lifting) drop_map drop_zip ip_masked_def)

lemma contains_v6:
  assumes "length base = 16" and "n \<le> 128" and "length a = 16"
  shows "network_contains (ip_mask base (CIDRMask n 16)) (CIDRMask n 16) a \<longleftrightarrow>
    same_prefix n base a \<and> (To4 a = None \<or> 96 \<le> n)"
proof -
  let ?m = "CIDRMask n 16"
  have nip: "ip_mask base ?m = ip_masked ?m base" using assms by (simp add: ip_mask_def)
  have sp: "ip_masked ?m base = ip_masked ?m a \<longleftrightarrow> same_prefix n base a" using assms by (intro masked_same_prefix)
  have v4: "take 12 (ip_masked ?m x) = v4_prefix \<longleftrightarrow> 96 \<le> n \<and> take 12 x = v4_prefix" if "length x = 16" for x
    using masked_v4_prefix [OF that] .
  have same: "96 \<le> n \<Longrightarrow> same_prefix n base a \<Longrightarrow> take 12 base = take 12 a"
    using same_prefix_96 [of base a "n - 96"] assms by simp
  show ?thesis
  proof (cases "take 12 (ip_masked ?m base) = v4_prefix")
    case True
    hence n: "96 \<le> n" "take 12 base = v4_prefix" using v4 [OF assms(1)] by auto
    have "take 12 a = v4_prefix \<Longrightarrow>
        ip_masked (drop 12 ?m) (drop 12 (ip_masked ?m base)) = ip_masked (drop 12 ?m) (drop 12 a) \<longleftrightarrow> same_prefix n base a"
      using masked_split [of ?m "ip_masked ?m base" a] v4 [OF assms(3)] n True assms sp by simp
    thus ?thesis
      using n same True assms by (auto simp: nip network_contains_def networkNumberAndMask_def To4_16 Let_def)
  next
    case False
    hence "96 \<le> n \<Longrightarrow> same_prefix n base a \<Longrightarrow> take 12 a \<noteq> v4_prefix" using v4 [OF assms(1)] same by auto
    thus ?thesis
      using False assms sp by (auto simp: nip network_contains_def networkNumberAndMask_def To4_16 Let_def)
  qed
qed

lemma index_byte_found: "index_byte c s = Some i \<Longrightarrow> c \<in> set s"
  by (metis index_byte_Some nth_mem)

lemma entry_allows_iff:
  assumes "ip = None \<or> (\<exists>a. ip = Some a \<and> length a = 16)"
  shows "entry_allows remote ip s \<longleftrightarrow>
    s = remote \<or> (\<exists>a nw. ip = Some a \<and> ip_network s = Some nw \<and> in_network a nw)"
proof (cases "\<exists>a. ip = Some a \<and> length a = 16")
  case True
  then obtain a where a: "ip = Some a" "length a = 16" by blast
  have whole: "same_prefix 128 b a \<longleftrightarrow> b = a" if "length b = 16" for b
    using that a(2) by (simp add: same_prefix_def bits_inj)
  show ?thesis
  proof (cases "ParseCIDR s")
    case None
    hence "ip_network s = map_option (\<lambda>a. (a, 128)) (ParseIP s)"
      by (auto simp: ParseCIDR_def ip_network_def Let_def split: option.splits if_splits dest: index_byte_found)
    thus ?thesis using None a whole by (auto simp: entry_allows_def in_network_def dest: ParseIP_length)
  next
    case (Some c)
    then obtain i base n where p: "index_byte (CHR ''/'') s = Some i" "ParseAddr (take i s) = Some base"
        "parse_unsigned (drop (i + 1) s) = Some n" "n \<le> 8 * length base"
        "c = (As16 base, ip_mask (As16 base) (CIDRMask n (length base)), CIDRMask n (length base))"
      by (auto simp: ParseCIDR_def Let_def split: option.splits if_splits)
    hence b: "(length base = 4 \<or> length base = 16) \<and> n \<le> 8 * length base"
        "c = (As16 base, ip_mask (As16 base) (CIDRMask n (length base)), CIDRMask n (length base))"
        "ip_network s = Some (As16 base, 8 * (16 - length base) + n)"
      using ParseAddr_length [OF p(2)] by (simp_all add: ip_network_def)
    from b(1) show ?thesis
    proof (elim conjE disjE)
      assume l: "length base = 4" "n \<le> 8 * length base"
      thus ?thesis using Some a b(2,3) contains_v4 [of base n a] by (auto simp: entry_allows_def in_network_def)
    next
      assume l: "length base = 16" "n \<le> 8 * length base"
      thus ?thesis using Some a b(2,3) contains_v6 [of base n a]
        by (auto simp: entry_allows_def in_network_def As16_def)
    qed
  qed
next
  case False
  thus ?thesis using assms by (auto simp: entry_allows_def)
qed

lemma allowedIP_Nil [simp]: "allowedIP [] remote"
  by (simp add: allowedIP_def)

text \<open>An address is admitted when it is listed, literally or by a network it is in, or nothing is listed.\<close>

lemma allowedIP_iff:
  "allowedIP allowed remote \<longleftrightarrow>
    allowed = [] \<or>
    (\<exists>s \<in> set allowed.
       s = remote \<or> (\<exists>a nw. remote_ip remote = Some a \<and> ip_network s = Some nw \<and> in_network a nw))"
proof -
  have "remote_ip remote = None \<or> (\<exists>a. remote_ip remote = Some a \<and> length a = 16)"
    by (auto simp: remote_ip_def split: option.splits sum.splits dest: ParseIP_length)
       (metis ParseIP_length not_None_eq)
  from entry_allows_iff [OF this] show ?thesis by (auto simp: allowedIP_def list_ex_iff)
qed

end
