(* ===== verification/Tokens.thy ===== *)
theory Tokens
  imports StorePerm StoreTokens Crypto ProxyAllow
begin

text \<open>
  The connection tokens of \<open>service/tokens.go\<close>: a user who may connect is issued a token;
  a proxy that shares the secret verifies it, gets the decrypted credentials, and uses a
  one-time token up.  \<open>now\<close> is the API server's clock, the database has its own.  The
  check of the caller's address against the configured networks is \<open>ProxyAllow\<close>; the
  decryption of the credentials is the parameter \<open>decrypt\<close>.
\<close>

section \<open>Configuration and results\<close>

record token_env =
  proxy_secret :: string
  allowed_ips :: "string list"
  decrypt :: "string \<Rightarrow> error + string"

record issue_input =
  i_asset_id :: int
  i_account_id :: int
  i_protocol :: string
  i_connect_method :: string
  i_is_reusable :: bool
  i_connect_options :: string

record verify_options =
  o_expected_protocol :: string
  o_consume :: bool

text \<open>The account is returned with its secret and passphrase decrypted.\<close>

record verify_result =
  vr_token :: connection_token
  vr_user :: user
  vr_asset :: asset
  vr_account :: account
  vr_address :: string
  vr_port :: int
  vr_protocol :: string

section \<open>Operations\<close>

definition canonicalConnectionProtocol :: "string \<Rightarrow> string" where
  "canonicalConnectionProtocol protocol =
     (let p = to_lower (trim_space protocol)
      in if p = '''' then ''ssh'' else if p = ''postgresql'' then ''postgres'' else p)"

definition canonicalExpectedProtocol :: "string \<Rightarrow> string" where
  "canonicalExpectedProtocol protocol =
     (if trim_space protocol = '''' then '''' else canonicalConnectionProtocol protocol)"

definition AuthorizeProxy :: "token_env \<Rightarrow> string \<Rightarrow> string \<Rightarrow> bool" where
  "AuthorizeProxy env secret remoteIP =
     (secret \<noteq> '''' \<and> secret = proxy_secret env \<and> allowedIP (allowed_ips env) remoteIP)"

text \<open>
  C38: The interface of the proxies is open to a caller that has the shared secret, which must not be
  empty, and whose address is listed, literally or by a network it is in; an empty list admits
  every address.  An address is in a network when it is the address the network is written with,
  or has the network's leading bits, except that no IPv4 address is in a network wider than IPv4.
\<close>

theorem proxy_address_admitted:
  "AuthorizeProxy env secret remote \<longleftrightarrow>
    secret \<noteq> '''' \<and> secret = proxy_secret env \<and>
    (allowed_ips env = [] \<or>
     (\<exists>s \<in> set (allowed_ips env).
        s = remote \<or> (\<exists>a nw. remote_ip remote = Some a \<and> ip_network s = Some nw \<and> in_network a nw)))"
  by (auto simp: AuthorizeProxy_def allowedIP_iff)

definition five_minutes :: int where
  "five_minutes = 300000000000"

text \<open>The value is a fresh UUID.\<close>

definition Issue :: "string \<Rightarrow> time \<Rightarrow> int \<Rightarrow> issue_input \<Rightarrow> connection_token store_action" where
  "Issue uuid now userID input =
     abind (query (GetAsset (i_asset_id input))) (\<lambda>asset.
     abind (query (GetAssetAccount (i_asset_id input) (i_account_id input))) (\<lambda>account.
       if \<not> a_is_active asset \<or> \<not> ac_is_active account then throw ErrForbidden
       else (\<lambda>s.
         if \<not> HasAssetPermission userID (i_asset_id input) (i_account_id input) ''connect'' s
         then (Inl ErrForbidden, s)
         else CreateConnectionToken
                \<lparr>t_id = 0, t_value = uuid, t_user_id = userID, t_asset_id = i_asset_id input,
                 t_account_id = i_account_id input,
                 t_protocol = canonicalConnectionProtocol (i_protocol input),
                 t_connect_method =
                   (if i_connect_method input = '''' then ''web_cli'' else i_connect_method input),
                 t_is_reusable = i_is_reusable input,
                 t_connect_options =
                   (if i_connect_options input = '''' then ''{}'' else i_connect_options input),
                 t_used_at = None, t_expires_at = now + five_minutes, t_created_at = 0\<rparr> s)))"

text \<open>The port of the target: an SSH token falls back to 22.\<close>

definition target_port :: "connection_token \<Rightarrow> db \<Rightarrow> error + int" where
  "target_port token s =
     (case GetAssetProtocolPort (t_asset_id token) (t_protocol token) s of
        Inr port \<Rightarrow> Inr port
      | Inl e \<Rightarrow> if t_protocol token = ''ssh'' then Inr 22 else Inl e)"

text \<open>
  The last part of a verification: the port, the decrypted credentials, and the one-time
  token used up; a token that another request has taken meanwhile is refused.
\<close>

definition consume_step :: "verify_options \<Rightarrow> connection_token \<Rightarrow> connection_token store_action" where
  "consume_step opts token =
     (if o_consume opts \<and> \<not> t_is_reusable token
      then (\<lambda>s. case ConsumeConnectionToken (t_value token) s of
              (Inl e, s') \<Rightarrow> (Inl (if e = ErrNotFound then ErrUnauthorized else e), s')
            | (Inr token', s') \<Rightarrow> (Inr token', s'))
      else ret token)"

definition hand_out ::
    "token_env \<Rightarrow> verify_options \<Rightarrow> user \<Rightarrow> asset \<Rightarrow> account \<Rightarrow> connection_token \<Rightarrow>
     verify_result store_action" where
  "hand_out env opts user asset account token =
     abind (query (target_port token)) (\<lambda>port.
     abind (query (\<lambda>_. decrypt env (ac_secret account))) (\<lambda>plain.
     abind (query (\<lambda>_. decrypt env (ac_passphrase account))) (\<lambda>passphrase.
     abind (consume_step opts token) (\<lambda>token.
       ret \<lparr>vr_token = token, vr_user = user, vr_asset = asset,
            vr_account = account\<lparr>ac_secret := plain, ac_passphrase := passphrase\<rparr>,
            vr_address = a_address asset, vr_port = port, vr_protocol = t_protocol token\<rparr>))))"

definition VerifyWithOptions ::
    "token_env \<Rightarrow> time \<Rightarrow> string \<Rightarrow> string \<Rightarrow> string \<Rightarrow> verify_options \<Rightarrow> verify_result store_action" where
  "VerifyWithOptions env now v secret remoteIP opts =
     (if \<not> AuthorizeProxy env secret remoteIP then throw ErrUnauthorized
      else
        abind (query (GetConnectionToken v)) (\<lambda>token.
          if t_expires_at token < now \<or> t_used_at token \<noteq> None then throw ErrUnauthorized
          else
            let expected = canonicalExpectedProtocol (o_expected_protocol opts)
            in if expected \<noteq> '''' \<and> canonicalConnectionProtocol (t_protocol token) \<noteq> expected
               then throw ErrForbidden
               else
                 abind (query (GetUser (t_user_id token))) (\<lambda>user.
                   if \<not> u_is_active user then throw ErrUnauthorized
                   else
                     abind (query (GetAsset (t_asset_id token))) (\<lambda>asset.
                     abind (query (GetAccount (t_account_id token))) (\<lambda>account.
                       if ac_asset_id account \<noteq> a_id asset \<or> \<not> a_is_active asset \<or> \<not> ac_is_active account
                       then throw ErrForbidden
                       else (\<lambda>s.
                         if \<not> HasAssetPermission (t_user_id token) (t_asset_id token)
                                (t_account_id token) ''connect'' s
                         then (Inl ErrForbidden, s)
                         else hand_out env opts user asset account token s))))))"

definition Verify ::
    "token_env \<Rightarrow> time \<Rightarrow> string \<Rightarrow> string \<Rightarrow> string \<Rightarrow> verify_result store_action" where
  "Verify env now v secret remoteIP =
     VerifyWithOptions env now v secret remoteIP \<lparr>o_expected_protocol = '''', o_consume = True\<rparr>"

section \<open>What a successful verification has checked\<close>

lemma ConsumeConnectionToken_Inr:
  assumes "ConsumeConnectionToken v s = (Inr t', s')"
  shows "\<exists>t. find (claimable (clock s) v) (tokens s) = Some t \<and> t' = t\<lparr>t_used_at := Some (clock s)\<rparr>
             \<and> token_live v s"
  using assms by (auto simp: ConsumeConnectionToken_def Let_def token_live_def dest: find_Some_iff)

text \<open>
  Every check passed, on the token as it is stored, and the credentials are the
  account's, decrypted; a one-time token that is to be consumed was still claimable.
\<close>

definition verified ::
    "token_env \<Rightarrow> time \<Rightarrow> string \<Rightarrow> string \<Rightarrow> string \<Rightarrow> verify_options \<Rightarrow> db \<Rightarrow> verify_result \<Rightarrow>
     connection_token \<Rightarrow> account \<Rightarrow> bool" where
  "verified env now v secret remoteIP opts s r token account =
     (AuthorizeProxy env secret remoteIP \<and> GetConnectionToken v s = Inr token \<and>
      now \<le> t_expires_at token \<and> t_used_at token = None \<and>
      canonicalExpectedProtocol (o_expected_protocol opts)
        \<in> {'''', canonicalConnectionProtocol (t_protocol token)} \<and>
      GetUser (t_user_id token) s = Inr (vr_user r) \<and> u_is_active (vr_user r) \<and>
      GetAsset (t_asset_id token) s = Inr (vr_asset r) \<and> a_is_active (vr_asset r) \<and>
      GetAccount (t_account_id token) s = Inr account \<and> ac_is_active account \<and>
      ac_asset_id account = a_id (vr_asset r) \<and>
      HasAssetPermission (t_user_id token) (t_asset_id token) (t_account_id token) ''connect'' s \<and>
      decrypt env (ac_secret account) = Inr (ac_secret (vr_account r)) \<and>
      decrypt env (ac_passphrase account) = Inr (ac_passphrase (vr_account r)) \<and>
      (if o_consume opts \<and> \<not> t_is_reusable token then token_live v s else vr_token r = token))"

lemma GetConnectionToken_value: "GetConnectionToken v s = Inr t \<Longrightarrow> t_value t = v"
  by (auto simp: GetConnectionToken_def dest: find_Some_iff)

lemma consume_step_Inr:
  assumes "consume_step opts token s = (Inr token', s')"
  shows "if o_consume opts \<and> \<not> t_is_reusable token
         then token_live (t_value token) s \<and> s' = snd (ConsumeConnectionToken (t_value token) s)
         else token' = token \<and> s' = s"
proof (cases "o_consume opts \<and> \<not> t_is_reusable token")
  case True
  hence c: "ConsumeConnectionToken (t_value token) s = (Inr token', s')"
    using assms by (auto simp: consume_step_def split: prod.splits sum.splits)
  hence "token_live (t_value token) s" using ConsumeConnectionToken_Inr by blast
  thus ?thesis using True c by simp
qed (use assms in \<open>auto simp: consume_step_def\<close>)

lemma hand_out_Inr:
  assumes "hand_out env opts user asset account token s = (Inr r, s')"
  shows "\<exists>token'. consume_step opts token s = (Inr token', s') \<and> vr_token r = token' \<and>
           vr_user r = user \<and> vr_asset r = asset \<and>
           decrypt env (ac_secret account) = Inr (ac_secret (vr_account r)) \<and>
           decrypt env (ac_passphrase account) = Inr (ac_passphrase (vr_account r))"
  using assms by (auto simp: hand_out_def abind_Inr_iff)

lemma VerifyWithOptions_Inr:
  assumes "VerifyWithOptions env now v secret remoteIP opts s = (Inr r, s')"
  shows "\<exists>token account. verified env now v secret remoteIP opts s r token account \<and>
    s' = (if o_consume opts \<and> \<not> t_is_reusable token then snd (ConsumeConnectionToken v s) else s)"
proof -
  obtain token user asset account where
    checks: "AuthorizeProxy env secret remoteIP" "GetConnectionToken v s = Inr token"
      "now \<le> t_expires_at token" "t_used_at token = None"
      "canonicalExpectedProtocol (o_expected_protocol opts)
         \<in> {'''', canonicalConnectionProtocol (t_protocol token)}"
      "GetUser (t_user_id token) s = Inr user" "u_is_active user"
      "GetAsset (t_asset_id token) s = Inr asset" "a_is_active asset"
      "GetAccount (t_account_id token) s = Inr account" "ac_is_active account"
      "ac_asset_id account = a_id asset"
      "HasAssetPermission (t_user_id token) (t_asset_id token) (t_account_id token) ''connect'' s"
    and out: "hand_out env opts user asset account token s = (Inr r, s')"
    using assms
    by (auto simp: VerifyWithOptions_def Let_def abind_Inr_iff not_less split: if_splits)
  obtain token' where t: "consume_step opts token s = (Inr token', s')" "vr_token r = token'"
    and r: "vr_user r = user" "vr_asset r = asset"
      "decrypt env (ac_secret account) = Inr (ac_secret (vr_account r))"
      "decrypt env (ac_passphrase account) = Inr (ac_passphrase (vr_account r))"
    using hand_out_Inr [OF out] by blast
  have "t_value token = v" using checks(2) by (rule GetConnectionToken_value)
  hence "verified env now v secret remoteIP opts s r token account \<and>
         s' = (if o_consume opts \<and> \<not> t_is_reusable token then snd (ConsumeConnectionToken v s) else s)"
    using checks r t consume_step_Inr [OF t(1)] unfolding verified_def by (auto split: if_split_asm)
  thus ?thesis by blast
qed

lemma VerifyWithOptions_Inl_state:
  "VerifyWithOptions env now v secret remoteIP opts s = (Inl e, s') \<Longrightarrow>
   s' = s \<or> s' = snd (ConsumeConnectionToken v s)"
  by (auto simp: VerifyWithOptions_def hand_out_def consume_step_def Let_def abind_def
      GetConnectionToken_value split: if_splits prod.splits sum.splits)

text \<open>
  C2: Verification succeeds only for a caller that presents the shared secret from an
  allowed address, with a stored token that is neither expired nor used and is for the
  expected protocol, whose user, asset and account are active and belong together, and
  while the user still has the permission to connect; the credentials handed out are the
  decryption of those stored for that account.
\<close>

theorem VerifyWithOptions_sound:
  assumes "VerifyWithOptions env now v secret remoteIP opts s = (Inr r, s')"
  shows "\<exists>token account. verified env now v secret remoteIP opts s r token account"
  using VerifyWithOptions_Inr [OF assms] by metis

section \<open>A one-time token is honoured once\<close>

record verify_request =
  q_value :: string
  q_now :: time
  q_secret :: string
  q_remote :: string
  q_expected :: string

text \<open>
  A consuming verification as a claim of the token: it counts when it is honoured and the
  token is not a reusable one.
\<close>

definition verify_claim :: "token_env \<Rightarrow> verify_request \<Rightarrow> db \<Rightarrow> bool \<times> db" where
  "verify_claim env q s =
     (case VerifyWithOptions env (q_now q) (q_value q) (q_secret q) (q_remote q)
             \<lparr>o_expected_protocol = q_expected q, o_consume = True\<rparr> s of
        (Inr r, s') \<Rightarrow> (\<not> t_is_reusable (vr_token r), s')
      | (Inl _, s') \<Rightarrow> (False, s'))"

lemma verified_reusable:
  assumes "verified env now v secret remoteIP opts s r token account" and "o_consume opts"
    and "t_is_reusable token"
  shows "t_is_reusable (vr_token r)"
  using assms by (simp add: verified_def)

lemma verify_claim_cases:
  "fst (verify_claim env q s) \<and> token_live (q_value q) s \<and>
     snd (verify_claim env q s) = snd (ConsumeConnectionToken (q_value q) s)
   \<or> \<not> fst (verify_claim env q s) \<and>
     snd (verify_claim env q s) \<in> {s, snd (ConsumeConnectionToken (q_value q) s)}"
proof -
  let ?o = "\<lparr>o_expected_protocol = q_expected q, o_consume = True\<rparr>"
  obtain r s' where v: "VerifyWithOptions env (q_now q) (q_value q) (q_secret q) (q_remote q) ?o s = (r, s')"
    by force
  show ?thesis
  proof (cases r)
    case (Inl e)
    thus ?thesis using VerifyWithOptions_Inl_state v by (fastforce simp: verify_claim_def)
  next
    case (Inr res)
    obtain token account
      where t: "verified env (q_now q) (q_value q) (q_secret q) (q_remote q) ?o s res token account"
        and s': "s' = (if o_consume ?o \<and> \<not> t_is_reusable token
                       then snd (ConsumeConnectionToken (q_value q) s) else s)"
      using VerifyWithOptions_Inr v Inr by metis
    show ?thesis
    proof (cases "t_is_reusable token")
      case True
      thus ?thesis using verified_reusable [OF t] s' v Inr by (simp add: verify_claim_def)
    next
      case False
      hence "token_live (q_value q) s" using t by (simp add: verified_def)
      thus ?thesis using False s' v Inr by (simp add: verify_claim_def)
    qed
  qed
qed

interpretation verify_once: one_shot "verify_claim env" q_value token_live for env
proof unfold_locales
  fix q s k
  show "fst (verify_claim env q s) \<Longrightarrow> token_live (q_value q) s"
    using verify_claim_cases by blast
  show "fst (verify_claim env q s) \<Longrightarrow> \<not> token_live (q_value q) (snd (verify_claim env q s))"
    using verify_claim_cases Consume_live by metis
  show "\<not> token_live k s \<Longrightarrow> \<not> token_live k (snd (verify_claim env q s))"
    using verify_claim_cases [of env q s] by (auto simp: Consume_live)
qed

text \<open>
  C5: However many proxies present a one-time token, at whatever times and from wherever,
  and whatever else happens to the database in between as long as it does not make the
  token claimable again, at most one of them is given the credentials for it.
\<close>

theorem one_time_token_honoured_once:
  assumes "\<And>f t. Other f \<in> set es \<Longrightarrow> \<not> token_live v t \<Longrightarrow> \<not> token_live v (f t)"
  shows "successes q_value v (fst (run_steps (verify_claim env) es s)) \<le> 1"
  using verify_once.at_most_once [of es v env s] assms by blast

lemma clock_forward_dead:
  "0 \<le> d \<Longrightarrow> \<not> token_live v s \<Longrightarrow> \<not> token_live v (s\<lparr>clock := clock s + d\<rparr>)"
  by (auto simp: token_live_def claimable_def)

section \<open>From issue to verification\<close>

lemma HasAssetPermission_tokens:
  "HasAssetPermission u a c act (s\<lparr>next_id := n, tokens := ts\<rparr>) = HasAssetPermission u a c act s"
  by (simp add: HasAssetPermission_def asset_node_ids_def start_nodes_def action_matches_def like_case_def
      cong: option.case_cong)

lemma Issue_Inr:
  assumes "Issue uuid now userID input s = (Inr t, s')"
  shows "\<exists>asset account.
           GetAsset (i_asset_id input) s = Inr asset \<and> a_is_active asset \<and>
           GetAssetAccount (i_asset_id input) (i_account_id input) s = Inr account \<and> ac_is_active account \<and>
           HasAssetPermission userID (i_asset_id input) (i_account_id input) ''connect'' s"
    and "\<forall>u \<in> set (tokens s). t_value u \<noteq> uuid"
    and "s' = s\<lparr>next_id := next_id s', tokens := tokens s @ [t]\<rparr>"
    and "tokens s' = tokens s @ [t]"
    and "t_value t = uuid \<and> t_user_id t = userID \<and> t_asset_id t = i_asset_id input \<and>
         t_account_id t = i_account_id input \<and> t_is_reusable t = i_is_reusable input \<and>
         t_used_at t = None \<and> t_expires_at t = now + five_minutes \<and>
         t_protocol t = canonicalConnectionProtocol (i_protocol input)"
  using assms
  by (auto simp: Issue_def CreateConnectionToken_def bump_def Let_def abind_Inr_iff
      split: if_splits)

text \<open>
  C12: A token is issued only to a user who may connect with that account to that asset,
  asset and account both active, and never with a value that is already in use.  It is
  bound to that user, asset and account and to the canonical name of the protocol, lives
  five minutes, is unused, and is the only change to the database but for the id counter.
\<close>

theorem Issue_sound:
  assumes "Issue uuid now userID input s = (Inr t, s')"
  shows "(\<exists>asset account.
            GetAsset (i_asset_id input) s = Inr asset \<and> a_is_active asset \<and>
            GetAssetAccount (i_asset_id input) (i_account_id input) s = Inr account \<and> ac_is_active account) \<and>
         HasAssetPermission userID (i_asset_id input) (i_account_id input) ''connect'' s \<and>
         uuid \<notin> t_value ` set (tokens s) \<and> t_value t = uuid \<and>
         t_user_id t = userID \<and> t_asset_id t = i_asset_id input \<and> t_account_id t = i_account_id input \<and>
         t_protocol t = canonicalConnectionProtocol (i_protocol input) \<and>
         t_expires_at t = now + five_minutes \<and> t_used_at t = None \<and>
         s' = s\<lparr>next_id := next_id s', tokens := tokens s @ [t]\<rparr>"
proof -
  note i = Issue_Inr [OF assms]
  show ?thesis
  proof (intro conjI)
    show "s' = s\<lparr>next_id := next_id s', tokens := tokens s @ [t]\<rparr>" by (rule i(3))
  qed (use i(1,2,5) in auto)
qed

lemma GetAsset_id: "GetAsset i s = Inr a \<Longrightarrow> a_id a = i"
  by (auto simp: GetAsset_def dest: find_Some_iff)

lemma GetAssetAccount_ids: "GetAssetAccount a i s = Inr ac \<Longrightarrow> ac_id ac = i \<and> ac_asset_id ac = a"
  by (auto simp: GetAssetAccount_def dest: find_Some_iff)

lemma find_fresh:
  "\<forall>u \<in> set ts. t_value u \<noteq> v \<Longrightarrow> t_value t = v \<Longrightarrow> P t \<Longrightarrow> (\<And>u. P u \<Longrightarrow> t_value u = v) \<Longrightarrow>
   find P (ts @ [t]) = Some t"
proof -
  assume a: "\<forall>u \<in> set ts. t_value u \<noteq> v" "t_value t = v" "P t" "\<And>u. P u \<Longrightarrow> t_value u = v"
  hence "find P ts = None" by (auto simp: find_None_set)
  thus "find P (ts @ [t]) = Some t" using a(3) by (simp add: find_append)
qed

lemma used_token_refused:
  assumes "GetConnectionToken v s = Inr t" and "t_used_at t \<noteq> None"
  shows "VerifyWithOptions env now v secret remoteIP opts s = (Inl ErrUnauthorized, s)"
  using assms by (simp add: VerifyWithOptions_def abind_app)

text \<open>
  C1: A one-time token that was just issued is honoured within its five minutes, for an
  active user, and the proxy gets the decrypted credentials of the account it was issued
  for; every later presentation of it, by whomever and at whatever time, is refused as
  unauthorised.
\<close>

theorem issue_then_verify_once:
  assumes issue: "Issue uuid now userID input s = (Inr t, s1)" and one_time: "\<not> i_is_reusable input"
    and auth: "AuthorizeProxy env secret remoteIP"
    and user: "GetUser userID s = Inr user" "u_is_active user"
    and account: "GetAccount (i_account_id input) s = Inr account"
      "GetAssetAccount (i_asset_id input) (i_account_id input) s = Inr account"
    and port: "target_port t s = Inr port"
    and plain: "decrypt env (ac_secret account) = Inr cleartext" "decrypt env (ac_passphrase account) = Inr pass"
    and time: "now' \<le> now + five_minutes" "clock s < now + five_minutes"
  shows "\<exists>r s2. Verify env now' uuid secret remoteIP s1 = (Inr r, s2) \<and> vr_user r = user \<and>
           vr_port r = port \<and> ac_secret (vr_account r) = cleartext \<and>
           (\<forall>now2 secret2 ip2. fst (Verify env now2 uuid secret2 ip2 s2) = Inl ErrUnauthorized)"
proof -
  note i = Issue_Inr [OF issue]
  obtain asset where asset: "GetAsset (i_asset_id input) s = Inr asset" "a_is_active asset"
    and acc: "ac_is_active account"
    and perm: "HasAssetPermission userID (i_asset_id input) (i_account_id input) ''connect'' s"
    using i(1) account by auto
  obtain n where s1: "s1 = s\<lparr>next_id := n, tokens := tokens s @ [t]\<rparr>" using i(3) by blast
  have t: "t_value t = uuid" "t_user_id t = userID" "t_asset_id t = i_asset_id input"
    "t_account_id t = i_account_id input" "\<not> t_is_reusable t" "t_used_at t = None"
    "t_expires_at t = now + five_minutes"
    using i(5) one_time by auto
  have same: "GetUser u s1 = GetUser u s" "GetAsset a s1 = GetAsset a s" "GetAccount c s1 = GetAccount c s"
    "HasAssetPermission u a c act s1 = HasAssetPermission u a c act s" "target_port t s1 = target_port t s"
    "clock s1 = clock s" for u a c act
    unfolding s1 HasAssetPermission_tokens
    by (simp_all add: GetUser_def GetAsset_def GetAccount_def target_port_def GetAssetProtocolPort_def)
  define t' where "t' = t\<lparr>t_used_at := Some (clock s)\<rparr>"
  define s2 where "s2 = snd (ConsumeConnectionToken uuid s1)"
  have get: "GetConnectionToken uuid s1 = Inr t"
    using find_fresh [OF i(2), of t "\<lambda>u. t_value u = uuid"] t by (simp add: GetConnectionToken_def i(4))
  have claim: "find (claimable (clock s) uuid) (tokens s1) = Some t"
    using find_fresh [OF i(2), of t "claimable (clock s) uuid"] t time(2) by (simp add: i(4) claimable_def)
  hence consume: "ConsumeConnectionToken uuid s1 = (Inr t', s2)"
    by (simp add: ConsumeConnectionToken_def Let_def same t'_def s2_def)
  have "find (\<lambda>u. t_value u = uuid) (tokens s2) = Some t'"
    using get t time(2)
    by (simp add: s2_def ConsumeConnectionToken_def Let_def find_update_rows GetConnectionToken_def
        t'_def same claimable_def)
  hence used: "GetConnectionToken uuid s2 = Inr t'" by (simp add: GetConnectionToken_def)
  have ids: "ac_asset_id account = a_id asset"
    using GetAsset_id [OF asset(1)] GetAssetAccount_ids [OF account(2)] by simp
  have "\<exists>r. Verify env now' uuid secret remoteIP s1 = (Inr r, s2) \<and> vr_user r = user \<and>
          vr_port r = port \<and> ac_secret (vr_account r) = cleartext"
    using auth get t time user asset acc account perm port plain consume ids
    by (simp add: Verify_def VerifyWithOptions_def hand_out_def consume_step_def abind_app same
        canonicalExpectedProtocol_def trim_space_solid)
  moreover have "fst (Verify env now2 uuid secret2 ip2 s2) = Inl ErrUnauthorized" for now2 secret2 ip2
    using used_token_refused [OF used] by (simp add: Verify_def t'_def)
  ultimately show ?thesis by blast
qed

section \<open>A small installation, for the witnesses\<close>

definition sample_user :: user where
  "sample_user =
     \<lparr>u_id = 1, u_username = ''ann'', u_name = ''Ann'', u_email = '''', u_password_hash = ''h'',
      u_mfa_enabled = False, u_mfa_secret = '''', u_is_active = True, u_last_login_at = None,
      u_created_at = 0, u_updated_at = 0\<rparr>"

definition sample_account :: account where
  "sample_account =
     \<lparr>ac_id = 1, ac_asset_id = 1, ac_name = ''root'', ac_username = ''root'', ac_secret = ''pw'',
      ac_secret_type = ''password'', ac_ssh_key_type = '''', ac_passphrase = '''', ac_su_enabled = False,
      ac_su_method = '''', ac_su_account_id = None, ac_db_name = '''', ac_is_active = True,
      ac_created_at = 0, ac_updated_at = 0\<rparr>"

definition sample_db :: db where
  "sample_db = (empty_db 100)
     \<lparr>users := [sample_user],
      nodes := [\<lparr>n_id = 1, n_name = ''root'', n_parent_id = None, n_org_id = 1\<rparr>,
                \<lparr>n_id = 2, n_name = ''lab'', n_parent_id = Some 1, n_org_id = 1\<rparr>],
      assets := [\<lparr>a_id = 1, a_name = ''host'', a_address = ''10.0.0.9'', a_platform_id = 1,
                  a_node_id = Some 2, a_comment = '''', a_is_active = True, a_created_at = 0,
                  a_updated_at = 0\<rparr>],
      accounts := [sample_account],
      platform_protocols := [\<lparr>pp_id = 1, pp_platform_id = 1, pp_name = ''ssh'', pp_port = 2222\<rparr>],
      permissions := [\<lparr>p_id = 1, p_name = ''all'', p_actions = ''upload,connect'', p_date_start = None,
                       p_date_expired = Some 1000, p_is_active = True, p_created_at = 0, p_updated_at = 0\<rparr>],
      perm_users := [(1, 1)], perm_nodes := [(1, 1)]\<rparr>"

definition sample_tokens_env :: token_env where
  "sample_tokens_env =
     \<lparr>proxy_secret = ''shared'', allowed_ips = [], decrypt = (\<lambda>c. Inr c)\<rparr>"

definition sample_input :: issue_input where
  "sample_input =
     \<lparr>i_asset_id = 1, i_account_id = 1, i_protocol = ''ssh'', i_connect_method = '''',
      i_is_reusable = False, i_connect_options = ''''\<rparr>"

lemma sample_permission: "HasAssetPermission 1 1 1 ''connect'' sample_db"
proof -
  have "in_tree (nodes sample_db) (start_nodes 1 sample_db) (n_id (nodes sample_db ! 1))"
    by (rule in_tree.placed) (simp add: sample_db_def empty_db_def start_nodes_def)
  hence "in_tree (nodes sample_db) (start_nodes 1 sample_db) 1"
    by (rule in_tree.parent) (simp_all add: sample_db_def empty_db_def)
  hence "1 \<in> set (asset_node_ids 1 sample_db)" by (simp add: asset_node_ids_def climb_iff)
  moreover have "clock sample_db = 100" "perm_users sample_db = [(1, 1)]" "perm_nodes sample_db = [(1, 1)]"
    "perm_accounts sample_db = []" "permissions sample_db =
      [\<lparr>p_id = 1, p_name = ''all'', p_actions = ''upload,connect'', p_date_start = None,
        p_date_expired = Some 1000, p_is_active = True, p_created_at = 0, p_updated_at = 0\<rparr>]"
    by (simp_all add: sample_db_def empty_db_def)
  moreover have "action_matches sample_db ''connect'' ''upload,connect''"
    using action_matches_iff [of "''connect''" sample_db "''upload,connect''"]
    by (simp add: plain_def like_case_def)
  ultimately show ?thesis by (simp add: HasAssetPermission_def)
qed

lemma sample_issue:
  "\<exists>t s1. Issue ''tok'' 50 1 sample_input sample_db = (Inr t, s1)"
  using sample_permission
  by (simp add: Issue_def abind_app GetAsset_def GetAssetAccount_def CreateConnectionToken_def Let_def
      sample_input_def sample_db_def empty_db_def sample_account_def sample_user_def fk_def has_user_def
      has_asset_def has_account_def)

lemma sample_lookups:
  "GetUser 1 sample_db = Inr sample_user" "u_is_active sample_user"
  "GetAccount 1 sample_db = Inr sample_account" "GetAssetAccount 1 1 sample_db = Inr sample_account"
  "AuthorizeProxy sample_tokens_env ''shared'' ip" "clock sample_db = 100"
  "i_asset_id sample_input = 1" "i_account_id sample_input = 1" "\<not> i_is_reusable sample_input"
  by (simp_all add: GetUser_def GetAccount_def GetAssetAccount_def sample_db_def empty_db_def
      sample_user_def sample_account_def AuthorizeProxy_def sample_tokens_env_def sample_input_def)

lemma sample_token_port:
  assumes "Issue ''tok'' 50 1 sample_input sample_db = (Inr t, s1)"
  shows "\<exists>port. target_port t sample_db = Inr port"
proof -
  have "t_protocol t = ''ssh''"
    using Issue_Inr(5) [OF assms]
    by (simp add: canonicalConnectionProtocol_def sample_input_def trim_space_solid solid_def
        to_lower_ascii ascii_def lower_char_def)
  thus ?thesis by (simp add: target_port_def split: sum.split)
qed

theorem issue_then_verify_once_witness:
  "\<exists>t s1 r s2. Issue ''tok'' 50 1 sample_input sample_db = (Inr t, s1) \<and>
     Verify sample_tokens_env 60 ''tok'' ''shared'' ''10.1.1.1'' s1 = (Inr r, s2) \<and>
     ac_secret (vr_account r) = ''pw'' \<and>
     fst (Verify sample_tokens_env 61 ''tok'' ''shared'' ''10.1.1.1'' s2) = Inl ErrUnauthorized"
proof -
  obtain t s1 port where i: "Issue ''tok'' 50 1 sample_input sample_db = (Inr t, s1)"
    and p: "target_port t sample_db = Inr port"
    using sample_issue sample_token_port by blast
  have "\<exists>r s2. Verify sample_tokens_env 60 ''tok'' ''shared'' ''10.1.1.1'' s1 = (Inr r, s2) \<and>
          vr_user r = sample_user \<and> vr_port r = port \<and> ac_secret (vr_account r) = ''pw'' \<and>
          (\<forall>now2 secret2 ip2. fst (Verify sample_tokens_env now2 ''tok'' secret2 ip2 s2) = Inl ErrUnauthorized)"
    by (rule issue_then_verify_once [OF i _ _ _ _ _ _ p])
       (simp_all add: sample_lookups five_minutes_def, simp_all add: sample_tokens_env_def sample_account_def)
  thus ?thesis using i by blast
qed

theorem Issue_sound_witness:
  "\<exists>t s1. Issue ''tok'' 50 1 sample_input sample_db = (Inr t, s1) \<and> t_user_id t = 1 \<and>
          t_expires_at t = 50 + five_minutes"
  using sample_issue Issue_sound [of "''tok''" 50 1 sample_input sample_db] by blast

theorem VerifyWithOptions_sound_witness:
  "\<exists>s1 r s2 token account. Verify sample_tokens_env 60 ''tok'' ''shared'' ''h'' s1 = (Inr r, s2) \<and>
     verified sample_tokens_env 60 ''tok'' ''shared'' ''h'' \<lparr>o_expected_protocol = '''', o_consume = True\<rparr>
       s1 r token account"
proof -
  define tok where "tok = \<lparr>t_id = 1, t_value = ''tok'', t_user_id = 1, t_asset_id = 1, t_account_id = 1,
    t_protocol = ''ssh'', t_connect_method = '''', t_is_reusable = True, t_connect_options = '''',
    t_used_at = None, t_expires_at = 200, t_created_at = 0\<rparr>"
  define s1 where "s1 = sample_db\<lparr>next_id := next_id sample_db, tokens := [tok]\<rparr>"
  have perm: "HasAssetPermission 1 1 1 ''connect'' s1"
    using sample_permission unfolding s1_def HasAssetPermission_tokens .
  have look: "GetConnectionToken ''tok'' s1 = Inr tok" "GetUser 1 s1 = Inr sample_user"
    "\<exists>a. GetAsset 1 s1 = Inr a \<and> a_is_active a \<and> a_id a = 1" "GetAccount 1 s1 = Inr sample_account"
    by (simp_all add: s1_def tok_def GetConnectionToken_def GetUser_def GetAsset_def GetAccount_def
        sample_db_def empty_db_def sample_user_def sample_account_def)
  have port: "\<exists>p. target_port tok s1 = Inr p" by (simp add: target_port_def tok_def split: sum.split)
  obtain r s2 where "Verify sample_tokens_env 60 ''tok'' ''shared'' ''h'' s1 = (Inr r, s2)"
    using look perm port sample_lookups(2,5)
    by (auto simp: Verify_def VerifyWithOptions_def hand_out_def consume_step_def abind_app tok_def
        canonicalExpectedProtocol_def trim_space_solid sample_account_def sample_tokens_env_def)
  thus ?thesis using VerifyWithOptions_sound unfolding Verify_def by blast
qed

theorem one_time_token_honoured_once_witness:
  "successes q_value ''tok'' (fst (run_steps (verify_claim sample_tokens_env)
     [Claim \<lparr>q_value = ''tok'', q_now = 1, q_secret = ''shared'', q_remote = ''a'', q_expected = ''''\<rparr>,
      Other (\<lambda>s. s\<lparr>clock := clock s + 7\<rparr>),
      Claim \<lparr>q_value = ''tok'', q_now = 2, q_secret = ''shared'', q_remote = ''b'', q_expected = ''''\<rparr>]
     (sample_db\<lparr>tokens := [\<lparr>t_id = 1, t_value = ''tok'', t_user_id = 1, t_asset_id = 1, t_account_id = 1,
        t_protocol = ''ssh'', t_connect_method = '''', t_is_reusable = False, t_connect_options = '''',
        t_used_at = None, t_expires_at = 200, t_created_at = 0\<rparr>]\<rparr>))) \<le> 1"
  by (rule one_time_token_honoured_once) (auto simp: clock_forward_dead)

end
