(* ===== verification/Sdk.thy ===== *)
theory Sdk
  imports Config NetAddr RdpNative DbTypes Tokens
begin

text \<open>
  Launch information for native clients (\<open>service/sdk.go\<close>): the command line, the file or
  the URL with which a user's own client reaches a proxy.  SSH, MySQL, PostgreSQL and web RDP
  get a connection token; the native RDP proxy gets a routing user name instead.
  \<open>url.Parse\<close>, of whose result only the host is used, is the parameter \<open>url_host\<close>.
\<close>

section \<open>Input and result\<close>

text \<open>The embedded \<open>IssueTokenInput\<close> is the base record.\<close>

record sdk_input = issue_input +
  si_proxy_host :: string
  si_format :: string

text \<open>The zero value of \<open>ExpiresAt\<close> is \<open>None\<close>.\<close>

record sdk_result =
  sr_token :: string
  sr_expires_at :: "time option"
  sr_expires_in :: int
  sr_protocol :: string
  sr_connect_method :: string
  sr_host :: string
  sr_port :: int
  sr_command :: string
  sr_filename :: string
  sr_mime_type :: string
  sr_content :: string
  sr_web_url :: string

section \<open>Helpers\<close>

definition sdkDefaultConnectMethod :: "string \<Rightarrow> string" where
  "sdkDefaultConnectMethod protocol =
     (if protocol = ''ssh'' then ''ssh_client''
      else if protocol = ''mysql'' then ''mysql_client''
      else if protocol = ''postgres'' \<or> protocol = ''postgresql'' then ''postgres_client''
      else if protocol = ''rdp'' then ''web_rdp''
      else ''native_client'')"

definition canonicalSDKProtocol :: "string \<Rightarrow> string" where
  "canonicalSDKProtocol protocol =
     (let p = to_lower (trim_space protocol)
      in if p = '''' then ''ssh'' else if p = ''postgresql'' then ''postgres'' else p)"

definition listenPort :: "string \<Rightarrow> int \<Rightarrow> int" where
  "listenPort addr fallback =
     (if addr = '''' then fallback
      else case (case SplitHostPort addr of
                   Inr (host, port) \<Rightarrow> Some port
                 | Inl _ \<Rightarrow> if has_prefix '':'' addr then Some (drop 1 addr) else None) of
             None \<Rightarrow> fallback
           | Some port \<Rightarrow>
               (case parse_int64 port of
                  None \<Rightarrow> fallback
                | Some n \<Rightarrow> if n \<le> 0 then fallback else n))"

definition sdkProxyPort :: "string \<Rightarrow> proxy_config \<Rightarrow> int" where
  "sdkProxyPort protocol cfg =
     (if protocol = ''ssh'' then listenPort (ssh_addr (px_ssh cfg)) 2222
      else if protocol = ''mysql'' then listenPort (MySQLListenAddr (px_db cfg)) 3307
      else if protocol = ''postgres'' \<or> protocol = ''postgresql''
      then listenPort (PostgresListenAddr (px_db cfg)) 5437
      else if protocol = ''rdp''
      then (if native_enabled (px_rdp cfg) then NativeClientPort (px_rdp cfg)
            else listenPort (RDP_ListenAddr (px_rdp cfg)) 33891)
      else 0)"

definition bracket :: "char \<Rightarrow> bool" where
  "bracket c = (c = CHR ''['' \<or> c = CHR '']'')"

definition host_only :: "string \<Rightarrow> string" where
  "host_only s =
     (case SplitHostPort s of
        Inr (host, port) \<Rightarrow> if host \<noteq> '''' then host else trim_set bracket s
      | Inl _ \<Rightarrow> trim_set bracket s)"

definition sdkHost :: "(string \<Rightarrow> string option) \<Rightarrow> string \<Rightarrow> string \<Rightarrow> string" where
  "sdkHost url_host proxyHost apiBaseURL =
     (if proxyHost \<noteq> '''' then host_only proxyHost
      else case url_host apiBaseURL of
             Some h \<Rightarrow> if h \<noteq> '''' then host_only h else ''127.0.0.1''
           | None \<Rightarrow> ''127.0.0.1'')"

definition sdkWebURL :: "string \<Rightarrow> string \<Rightarrow> string \<Rightarrow> string" where
  "sdkWebURL listenAddr host token =
     ''ws://'' @ JoinHostPort host (show_int (listenPort listenAddr 33891)) @ ''/ws/rdp/?token='' @
     query_escape token"

definition sdkNativeRDPHost :: "string \<Rightarrow> proxy_config \<Rightarrow> string" where
  "sdkNativeRDPHost fallbackHost cfg =
     (if trim_space (native_public_host (px_rdp cfg)) \<noteq> ''''
      then trim_space (native_public_host (px_rdp cfg)) else fallbackHost)"

definition crlf :: string where
  "crlf = [chr 13, chr 10]"

definition sdkRDPFileContent :: "string \<Rightarrow> int \<Rightarrow> string \<Rightarrow> string" where
  "sdkRDPFileContent host port routeUsername =
     join crlf
       [''screen mode id:i:2'', ''use multimon:i:0'', ''desktopwidth:i:0'', ''desktopheight:i:0'',
        ''session bpp:i:32'', ''full address:s:'' @ JoinHostPort host (show_int port),
        ''prompt for credentials:i:1'', ''authentication level:i:2'', ''enablecredsspsupport:i:1'',
        ''username:s:'' @ routeUsername] @ crlf"

text \<open>The characters \<open>shellQuote\<close> leaves bare, and the quoting of the others.\<close>

definition bare_char :: "char \<Rightarrow> bool" where
  "bare_char c = (let n = of_char c :: nat in
     c \<in> set ''-_.:/#'' \<or> (48 \<le> n \<and> n \<le> 57) \<or> (65 \<le> n \<and> n \<le> 90) \<or> (97 \<le> n \<and> n \<le> 122))"

abbreviation quote_char :: char where
  "quote_char \<equiv> chr 39"

abbreviation backslash :: char where
  "backslash \<equiv> chr 92"

definition shellQuote :: "string \<Rightarrow> string" where
  "shellQuote v =
     (if v = '''' then [quote_char, quote_char]
      else if list_all bare_char v then v
      else [quote_char] @ replace_char quote_char [quote_char, backslash, quote_char, quote_char] v
           @ [quote_char])"

section \<open>Building the launch information\<close>

text \<open>The protocol and the connect method after the normalisation.\<close>

definition sdk_prepare :: "sdk_input \<Rightarrow> proxy_config \<Rightarrow> sdk_input" where
  "sdk_prepare input cfg =
     (let protocol = canonicalSDKProtocol (i_protocol input);
          protocol = (if protocol = '''' then ''ssh'' else protocol);
          cm = (if protocol = ''rdp'' \<and> native_enabled (px_rdp cfg) then ''rdp_client''
                else if i_connect_method input = '''' then sdkDefaultConnectMethod protocol
                else i_connect_method input)
      in input\<lparr>i_protocol := protocol, i_connect_method := cm\<rparr>)"

definition buildNativeRDPSDKURL ::
  "int \<Rightarrow> sdk_input \<Rightarrow> proxy_config \<Rightarrow> string \<Rightarrow> int \<Rightarrow> db \<Rightarrow> error + sdk_result" where
  "buildNativeRDPSDKURL userID input cfg fallbackHost port s =
     rbind (GetUser userID s) (\<lambda>user.
     if \<not> u_is_active user then Inl ErrUnauthorized
     else rbind (GetAsset (i_asset_id input) s) (\<lambda>a.
     rbind (GetAssetAccount (i_asset_id input) (i_account_id input) s) (\<lambda>account.
     if \<not> a_is_active a \<or> \<not> ac_is_active account then Inl ErrForbidden
     else if \<not> HasAssetPermission userID (i_asset_id input) (i_account_id input) ''connect'' s
     then Inl ErrForbidden
     else case GetAssetProtocolPort (i_asset_id input) ''rdp'' s of
            Inl e \<Rightarrow> if error_is e ErrNotFound then Inl ErrForbidden else Inl e
          | Inr rdp_port \<Rightarrow>
              if \<not> equal_fold (trim_space (ac_secret_type account)) ''password''
              then Inl ErrForbidden
              else let host = sdkNativeRDPHost fallbackHost cfg
              in Inr \<lparr>sr_token = '''', sr_expires_at = None, sr_expires_in = 0,
                      sr_protocol = ''rdp'', sr_connect_method = ''rdp_client'',
                      sr_host = host, sr_port = port,
                      sr_command = ''mstsc '' @ shellQuote ''turjmp-rdp.rdp'',
                      sr_filename = ''turjmp-rdp.rdp'', sr_mime_type = ''application/x-rdp'',
                      sr_content = sdkRDPFileContent host port
                        (route_username (u_username user) (i_asset_id input) (i_account_id input)),
                      sr_web_url = ''''\<rparr>)))"

text \<open>
  The part that depends on the protocol.  A newline is \<open>chr 10\<close>.
\<close>

definition ssh_command :: "int \<Rightarrow> string \<Rightarrow> string \<Rightarrow> string" where
  "ssh_command port user host =
     ''ssh -p '' @ show_int port @ '' -l '' @ shellQuote user @ '' '' @ shellQuote host"

definition mysql_command :: "int \<Rightarrow> string \<Rightarrow> string \<Rightarrow> string" where
  "mysql_command port user host =
     ''mysql -h '' @ shellQuote host @ '' -P '' @ show_int port @ '' -u '' @ shellQuote user"

definition psql_command :: "int \<Rightarrow> string \<Rightarrow> string \<Rightarrow> string \<Rightarrow> string" where
  "psql_command port user host dbname =
     ''psql -h '' @ shellQuote host @ '' -p '' @ show_int port @ '' -U '' @ shellQuote user @
     (if dbname \<noteq> '''' then '' -d '' @ shellQuote dbname else '''')"

definition sdk_content ::
  "proxy_config \<Rightarrow> account \<Rightarrow> sdk_result \<Rightarrow> error + sdk_result" where
  "sdk_content cfg account r =
     (let user = ac_username account @ ''#'' @ sr_token r; newline = [chr 10]
      in if sr_protocol r = ''ssh''
         then let command = ssh_command (sr_port r) user (sr_host r)
           in Inr (r\<lparr>sr_command := command, sr_filename := ''turjmp-ssh.sh'',
                     sr_mime_type := ''text/x-shellscript'',
                     sr_content := ''#!/bin/sh'' @ newline @ ''exec '' @ command @ newline\<rparr>)
         else if sr_protocol r = ''mysql''
         then let command = mysql_command (sr_port r) user (sr_host r)
           in Inr (r\<lparr>sr_command := command, sr_filename := ''turjmp-mysql.txt'',
                     sr_mime_type := ''text/plain'', sr_content := command @ newline\<rparr>)
         else if sr_protocol r = ''postgres'' \<or> sr_protocol r = ''postgresql''
         then let command = psql_command (sr_port r) user (sr_host r) (ac_db_name account)
           in Inr (r\<lparr>sr_command := command, sr_filename := ''turjmp-postgres.txt'',
                     sr_mime_type := ''text/plain'', sr_content := command @ newline\<rparr>)
         else if sr_protocol r = ''rdp''
         then let url = sdkWebURL (RDP_ListenAddr (px_rdp cfg)) (sr_host r) (sr_token r)
           in Inr (r\<lparr>sr_web_url := url, sr_command := url, sr_filename := ''turjmp-rdp.url'',
                     sr_mime_type := ''text/plain'', sr_content := url @ newline\<rparr>)
         else Inl ErrInvalidArgument)"

text \<open>
  \<open>now\<close> is the clock when the token is issued, \<open>later\<close> when its remaining time is computed;
  the conversion of the seconds to \<open>int\<close> truncates.
\<close>

definition BuildSDKURL ::
  "(string \<Rightarrow> string option) \<Rightarrow> string \<Rightarrow> time \<Rightarrow> time \<Rightarrow> int \<Rightarrow> sdk_input \<Rightarrow> proxy_config \<Rightarrow>
   sdk_result store_action" where
  "BuildSDKURL url_host uuid now later userID input cfg =
     (let input = sdk_prepare input cfg;
          port = sdkProxyPort (i_protocol input) cfg;
          host = sdkHost url_host (si_proxy_host input) (api_base_url cfg)
      in if port = 0 then throw ErrInvalidArgument
         else if i_protocol input = ''rdp'' \<and> native_enabled (px_rdp cfg)
         then query (buildNativeRDPSDKURL userID input cfg host port)
         else abind (Issue uuid now userID (issue_input.truncate input)) (\<lambda>token.
              abind (query (GetAccount (t_account_id token))) (\<lambda>account.
                query (\<lambda>s. sdk_content cfg account
                  \<lparr>sr_token = t_value token, sr_expires_at = Some (t_expires_at token),
                   sr_expires_in = max 0 (go_div (t_expires_at token - later) 1000000000),
                   sr_protocol = to_lower (t_protocol token),
                   sr_connect_method = t_connect_method token, sr_host = host, sr_port = port,
                   sr_command = '''', sr_filename = '''', sr_mime_type = '''', sr_content = '''',
                   sr_web_url = ''''\<rparr>))))"

section \<open>The words a shell reads\<close>

text \<open>
  A reference for what a POSIX shell makes of a command line: words are separated by blanks,
  single quotes protect everything but a single quote, a backslash protects one character, and a
  word that starts with a bare hash sign starts a comment up to the end of the line.  A line
  with another unquoted character that could mean anything else (an operator, an expansion),
  with a null byte, or with more lines after a comment has no reading here.
\<close>

datatype shell_mode = Gap | Word string | Quoted string | Escaped string

definition shell_char :: "string \<Rightarrow> char \<Rightarrow> shell_mode option" where
  "shell_char w c =
     (if c = quote_char then Some (Quoted w)
      else if c = backslash then Some (Escaped w)
      else if bare_char c then Some (Word (w @ [c]))
      else None)"

fun shell_words :: "shell_mode \<Rightarrow> string \<Rightarrow> string list option" where
  "shell_words m [] = (case m of Gap \<Rightarrow> Some [] | Word w \<Rightarrow> Some [w] | _ \<Rightarrow> None)"
| "shell_words m (c # s) =
     (case m of
        Gap \<Rightarrow>
          if c = CHR '' '' then shell_words Gap s
          else if c = CHR ''#'' then (if chr 10 \<in> set s then None else Some [])
          else (case shell_char [] c of None \<Rightarrow> None | Some m' \<Rightarrow> shell_words m' s)
      | Word w \<Rightarrow>
          if c = CHR '' '' then map_option (Cons w) (shell_words Gap s)
          else (case shell_char w c of None \<Rightarrow> None | Some m' \<Rightarrow> shell_words m' s)
      | Quoted w \<Rightarrow>
          if c = quote_char then shell_words (Word w) s
          else if c = chr 0 then None
          else shell_words (Quoted (w @ [c])) s
      | Escaped w \<Rightarrow>
          if c = chr 0 \<or> c = chr 10 then None else shell_words (Word (w @ [c])) s)"

text \<open>A word that \<open>shellQuote\<close> may be given: no null byte and no leading hash sign.\<close>

definition quotable :: "string \<Rightarrow> bool" where
  "quotable v = (chr 0 \<notin> set v \<and> \<not> has_prefix ''#'' v)"

lemma special_chars:
  "quote_char \<noteq> backslash" "quote_char \<noteq> CHR '' ''" "quote_char \<noteq> CHR ''#''" "quote_char \<noteq> chr 0"
  "backslash \<noteq> chr 0" "backslash \<noteq> CHR '' ''" "quote_char \<noteq> chr 10"
  "\<not> bare_char quote_char" "\<not> bare_char backslash" "\<not> bare_char (CHR '' '')"
  by code_simp+

lemma hash_not_nul: "chr 0 \<noteq> CHR ''#''"
  by code_simp

lemma bare_not_special:
  assumes "bare_char c"
  shows "c \<noteq> quote_char" and "c \<noteq> backslash" and "c \<noteq> CHR '' ''"
  using assms special_chars by metis+

lemma quoted_words:
  "chr 0 \<notin> set v \<Longrightarrow>
   shell_words (Quoted w) (replace_char quote_char [quote_char, backslash, quote_char, quote_char] v @
     quote_char # t) = shell_words (Word (w @ v)) t"
proof (induction v arbitrary: w)
  case (Cons c v)
  show ?case
  proof (cases "c = quote_char")
    case True
    thus ?thesis using Cons special_chars by (simp add: shell_char_def)
  next
    case False
    thus ?thesis using Cons by auto
  qed
qed simp

lemma bare_words:
  "list_all bare_char v \<Longrightarrow> shell_words (Word w) (v @ t) = shell_words (Word (w @ v)) t"
  by (induction v arbitrary: w) (simp_all add: shell_char_def bare_not_special)

lemma shellQuote_word:
  assumes "quotable v"
  shows "shell_words Gap (shellQuote v @ t) = shell_words (Word v) t"
proof -
  consider "v = ''''" | "v \<noteq> ''''" "list_all bare_char v" | "v \<noteq> ''''" "\<not> list_all bare_char v"
    by blast
  thus ?thesis
  proof cases
    case 1
    thus ?thesis using special_chars by (simp add: shellQuote_def shell_char_def)
  next
    case 2
    then obtain c u where "v = c # u" by (cases v) auto
    thus ?thesis using 2 assms bare_words [of u "[c]" t]
      by (auto simp: shellQuote_def shell_char_def bare_not_special quotable_def)
  next
    case 3
    thus ?thesis using assms special_chars quoted_words [of v "[]" t]
      by (simp add: shellQuote_def shell_char_def quotable_def)
  qed
qed

lemma shellQuote_then:
  "quotable v \<Longrightarrow> shell_words Gap (shellQuote v @ CHR '' '' # t) = map_option (Cons v) (shell_words Gap t)"
  by (simp add: shellQuote_word)

lemma shellQuote_last: "quotable v \<Longrightarrow> shell_words Gap (shellQuote v) = Some [v]"
  using shellQuote_word [of v "[]"] by simp

lemma port_bare: "0 < port \<Longrightarrow> list_all bare_char (show_int port) \<and> show_int port \<noteq> '''' \<and> quotable (show_int port)"
proof -
  assume "0 < port"
  hence s: "show_int port = show_nat (nat port)" by (simp add: show_pos)
  have "bare_char c \<and> c \<noteq> chr 0 \<and> c \<noteq> CHR ''#''" if c: "c \<in> set (show_nat (nat port))" for c
  proof -
    obtain d where d: "d < 10" "c = digit d" using show_nat_digits [OF c] by blast
    have "of_char c = 48 + d" using d by (simp add: digit_def)
    thus ?thesis using d show_nat_solid [OF c] not_nul_solid by (auto simp: bare_char_def Let_def)
  qed
  hence ok: "\<forall>c \<in> set (show_nat (nat port)). bare_char c \<and> c \<noteq> chr 0 \<and> c \<noteq> CHR ''#''"
    by blast
  have "\<not> has_prefix ''#'' (show_nat (nat port))"
  proof
    assume "has_prefix ''#'' (show_nat (nat port))"
    hence "CHR ''#'' \<in> set (show_nat (nat port))" by (auto simp: has_prefix_iff)
    thus False using ok by blast
  qed
  thus ?thesis using ok unfolding s quotable_def by (auto simp: list_all_iff)
qed

lemma shellQuote_port: "0 < port \<Longrightarrow> shellQuote (show_int port) = show_int port"
  using port_bare [of port] by (simp add: shellQuote_def)

lemma port_then:
  "0 < port \<Longrightarrow> shell_words Gap (show_int port @ CHR '' '' # t) = map_option (Cons (show_int port)) (shell_words Gap t)"
  using shellQuote_then [of "show_int port" t] port_bare [of port] shellQuote_port [of port] by simp

lemma literal_words:
  "\<forall>w \<in> set [''ssh'', ''-p'', ''-l'', ''mysql'', ''-h'', ''-P'', ''-u'', ''psql'', ''-U'', ''-d''].
     list_all bare_char w \<and> quotable w \<and> w \<noteq> ''''"
  by code_simp

text \<open>The words of the three command lines.\<close>

lemma command_words:
  assumes port: "0 < port" and u: "quotable user" and h: "quotable host"
  shows "shell_words Gap (ssh_command port user host) =
           Some [''ssh'', ''-p'', show_int port, ''-l'', user, host]"
    and "shell_words Gap (mysql_command port user host) =
           Some [''mysql'', ''-h'', host, ''-P'', show_int port, ''-u'', user]"
    and "quotable db \<Longrightarrow> shell_words Gap (psql_command port user host db) =
           Some ([''psql'', ''-h'', host, ''-p'', show_int port, ''-U'', user] @
                 (if db = '''' then [] else [''-d'', db]))"
proof -
  have literal: "shell_words Gap (w @ CHR '' '' # t) = map_option (Cons w) (shell_words Gap t)"
    if "list_all bare_char w" "quotable w" "w \<noteq> ''''" for w t
    using shellQuote_then [of w t] that by (simp add: shellQuote_def)
  have q: "list_all bare_char w" "quotable w" "w \<noteq> ''''"
    if "w \<in> {''ssh'', ''-p'', ''-l'', ''mysql'', ''-h'', ''-P'', ''-u'', ''psql'', ''-U'', ''-d''}" for w
    using that literal_words by auto
  note l = literal [OF q]
  show "shell_words Gap (ssh_command port user host) =
           Some [''ssh'', ''-p'', show_int port, ''-l'', user, host]"
    using l [of "''ssh''"] l [of "''-p''"] l [of "''-l''"] port_then [OF port] shellQuote_then [OF u]
      shellQuote_last [OF h]
    by (simp add: ssh_command_def del: shell_words.simps)
  show "shell_words Gap (mysql_command port user host) =
           Some [''mysql'', ''-h'', host, ''-P'', show_int port, ''-u'', user]"
    using l [of "''mysql''"] l [of "''-h''"] l [of "''-P''"] l [of "''-u''"] port_then [OF port]
      shellQuote_then [OF h] shellQuote_last [OF u]
    by (simp add: mysql_command_def del: shell_words.simps)
  show "shell_words Gap (psql_command port user host db) =
           Some ([''psql'', ''-h'', host, ''-p'', show_int port, ''-U'', user] @
                 (if db = '''' then [] else [''-d'', db]))" if d: "quotable db"
    using l [of "''psql''"] l [of "''-h''"] l [of "''-p''"] l [of "''-U''"] l [of "''-d''"]
      port_then [OF port] shellQuote_then [OF h] shellQuote_last [OF u] shellQuote_then [OF u]
      shellQuote_last [OF d]
    by (simp add: psql_command_def del: shell_words.simps)
qed

lemma listenPort_pos: "0 < fallback \<Longrightarrow> 0 < listenPort addr fallback"
  by (simp add: listenPort_def split: option.splits prod.splits sum.splits)

lemma sdkProxyPort_pos: "sdkProxyPort protocol cfg \<noteq> 0 \<Longrightarrow> 0 < sdkProxyPort protocol cfg"
  by (auto simp: sdkProxyPort_def listenPort_pos NativeClientPort_def split: if_splits)

section \<open>What the launch information achieves\<close>

lemma prepare_ids [simp]:
  "i_asset_id (sdk_prepare input cfg) = i_asset_id input"
  "i_account_id (sdk_prepare input cfg) = i_account_id input"
  "i_is_reusable (sdk_prepare input cfg) = i_is_reusable input"
  "si_proxy_host (sdk_prepare input cfg) = si_proxy_host input"
  by (simp_all add: sdk_prepare_def Let_def)

text \<open>The arguments that the client program is to be run with.\<close>

definition client_args :: "sdk_result \<Rightarrow> account \<Rightarrow> string list" where
  "client_args r account =
     (let user = ac_username account @ ''#'' @ sr_token r; port = show_int (sr_port r)
      in if sr_protocol r = ''ssh'' then [''ssh'', ''-p'', port, ''-l'', user, sr_host r]
         else if sr_protocol r = ''mysql'' then [''mysql'', ''-h'', sr_host r, ''-P'', port, ''-u'', user]
         else [''psql'', ''-h'', sr_host r, ''-p'', port, ''-U'', user] @
              (if ac_db_name account = '''' then [] else [''-d'', ac_db_name account]))"

lemma sdk_content_words:
  assumes "sdk_content cfg account r0 = Inr r" and "sr_protocol r \<noteq> ''rdp''" and "0 < sr_port r"
    and "quotable (sr_host r)" and "quotable (ac_username account @ ''#'' @ sr_token r)"
    and "quotable (ac_db_name account)"
  shows "shell_words Gap (sr_command r) = Some (client_args r account)"
  using assms command_words [of "sr_port r" "ac_username account @ ''#'' @ sr_token r" "sr_host r"]
  by (auto simp: sdk_content_def client_args_def Let_def simp del: shell_words.simps split: if_splits)

lemma sdk_content_fields:
  "sdk_content cfg account r0 = Inr r \<Longrightarrow>
   sr_token r = sr_token r0 \<and> sr_host r = sr_host r0 \<and> sr_port r = sr_port r0 \<and>
   sr_protocol r = sr_protocol r0 \<and> sr_expires_in r = sr_expires_in r0"
  by (auto simp: sdk_content_def Let_def split: if_splits)

lemma BuildSDKURL_Inr:
  assumes "BuildSDKURL url_host uuid now later userID input cfg s = (Inr r, s')"
    and "sr_protocol r \<noteq> ''rdp''"
  obtains t account r0 where
    "Issue uuid now userID (issue_input.truncate (sdk_prepare input cfg)) s = (Inr t, s')"
    "GetAccount (i_account_id input) s = Inr account" "sdk_content cfg account r0 = Inr r"
    "sr_token r = uuid" "0 < sr_port r" "0 \<le> sr_expires_in r"
proof -
  let ?in = "sdk_prepare input cfg"
  have notrdp: "\<not> (i_protocol ?in = ''rdp'' \<and> native_enabled (px_rdp cfg))"
    using assms by (auto simp: BuildSDKURL_def buildNativeRDPSDKURL_def rbind_Inr_iff Let_def
        split: if_splits sum.splits)
  have port: "sdkProxyPort (i_protocol ?in) cfg \<noteq> 0"
    using assms(1) by (auto simp: BuildSDKURL_def Let_def)
  obtain t s1 account r0 where t: "Issue uuid now userID (issue_input.truncate ?in) s = (Inr t, s1)"
    and a: "GetAccount (t_account_id t) s1 = Inr account" and c: "sdk_content cfg account r0 = Inr r"
    and s': "s' = s1" and r0: "sr_token r0 = t_value t" "sr_port r0 = sdkProxyPort (i_protocol ?in) cfg"
      "0 \<le> sr_expires_in r0"
    using assms(1) notrdp port
    by (auto simp: BuildSDKURL_def Let_def abind_Inr_iff split: if_splits)
  obtain n where "s1 = s\<lparr>next_id := n, tokens := tokens s @ [t]\<rparr>" using Issue_Inr(3) [OF t] by blast
  hence "accounts s1 = accounts s" by simp
  hence "GetAccount (i_account_id input) s = Inr account"
    using a Issue_Inr(5) [OF t] by (simp add: GetAccount_def issue_input.defs)
  thus thesis
    using that [OF t [folded s'] _ c] sdk_content_fields [OF c] r0 sdkProxyPort_pos [OF port]
      Issue_Inr(5) [OF t] by simp
qed

lemma comment_cuts:
  assumes "0 < port" and "list_all bare_char v" and "chr 10 \<notin> set v" and "chr 10 \<notin> set host"
  shows "shell_words Gap (ssh_command port (CHR ''#'' # v) host) = Some [''ssh'', ''-p'', show_int port, ''-l'']"
proof -
  have literal: "shell_words Gap (w @ CHR '' '' # t) = map_option (Cons w) (shell_words Gap t)"
    if "w \<in> {''ssh'', ''-p'', ''-l''}" for w t
    using shellQuote_then [of w t] literal_words that by (auto simp: shellQuote_def simp del: shell_words.simps)
  have b: "bare_char (CHR ''#'')" by (simp add: bare_char_def)
  have bare: "shellQuote (CHR ''#'' # v) = CHR ''#'' # v"
    using assms(2) b by (simp add: shellQuote_def)
  have "chr 10 \<notin> set (replace_char quote_char [quote_char, backslash, quote_char, quote_char] host)"
    using assms(4) special_chars by (induction host) auto
  hence "chr 10 \<notin> set (shellQuote host)" using assms(4) special_chars by (auto simp: shellQuote_def)
  hence "shell_words Gap (CHR ''#'' # v @ CHR '' '' # shellQuote host) = Some []"
    using assms(3) by (simp add: char_of_eq_iff)
  thus ?thesis using literal [of "''ssh''"] literal [of "''-p''"] literal [of "''-l''"] port_then [OF assms(1)]
    by (simp add: ssh_command_def bare del: shell_words.simps)
qed


lemma native_build_Inr:
  assumes "buildNativeRDPSDKURL userID input cfg fallback port s = Inr r"
  obtains user a account rdp_port where
    "GetUser userID s = Inr user" "u_is_active user"
    "GetAsset (i_asset_id input) s = Inr a" "a_is_active a"
    "GetAssetAccount (i_asset_id input) (i_account_id input) s = Inr account" "ac_is_active account"
    "HasAssetPermission userID (i_asset_id input) (i_account_id input) ''connect'' s"
    "GetAssetProtocolPort (i_asset_id input) ''rdp'' s = Inr rdp_port"
    "equal_fold (trim_space (ac_secret_type account)) ''password''"
    "sr_content r = sdkRDPFileContent (sr_host r) (sr_port r)
       (route_username (u_username user) (i_asset_id input) (i_account_id input))"
  using assms
  by (auto simp: buildNativeRDPSDKURL_def rbind_Inr_iff Let_def split: if_splits sum.splits)

text \<open>
  The file for the native RDP client leads to a session: it is built without touching the
  database, carries the routing user name of the user, the asset and the account, and when
  the client presents that name with the user's proxy password, the resolver hands out the
  credentials of exactly that account.  Nothing but the password and the stored secret is
  left to check.
\<close>

theorem native_launch_resolves:
  assumes build: "BuildSDKURL url_host uuid now later userID input cfg s = (Inr r, s')"
    and rdp: "canonicalSDKProtocol (i_protocol input) = ''rdp''" "native_enabled (px_rdp cfg)"
    and user: "GetUser userID s = Inr user" "CHR ''#'' \<notin> set (u_username user)"
      "trim_space (u_username user) = u_username user" "u_username user \<noteq> ''''"
    and ids: "0 < i_asset_id input" "i_asset_id input < 2 ^ 63" "0 < i_account_id input"
      "i_account_id input < 2 ^ 63"
    and password: "Credentials_Verify (ne_argon2 env) (u_username user) password s = Inr user"
    and account: "GetAssetAccount (i_asset_id input) (i_account_id input) s = Inr account"
      "DecryptString (bx_open (ne_box env)) (ac_secret account) = Inr secret" "secret \<noteq> ''''"
  shows "s' = s \<and>
         (let name = route_username (u_username user) (i_asset_id input) (i_account_id input)
          in sr_content r = sdkRDPFileContent (sr_host r) (sr_port r) name \<and>
             (\<exists>res. Resolve env \<lparr>ni_route_username = name, ni_password = password,
                                 ni_remote_addr = addr\<rparr> s = Inr res \<and>
                    nr_username res = ac_username account \<and> nr_secret res = secret \<and>
                    nr_user_id res = userID))"
proof -
  have prep: "i_protocol (sdk_prepare input cfg) = ''rdp''" using rdp by (simp add: sdk_prepare_def Let_def)
  have "query (buildNativeRDPSDKURL userID (sdk_prepare input cfg) cfg
          (sdkHost url_host (si_proxy_host input) (api_base_url cfg)) (sdkProxyPort ''rdp'' cfg)) s = (Inr r, s')"
    using build by (simp add: BuildSDKURL_def Let_def prep rdp(2) del: query_app query_eq_iff split: if_split_asm)
  then obtain fallback port where
    n: "buildNativeRDPSDKURL userID (sdk_prepare input cfg) cfg fallback port s = Inr r" and s': "s' = s"
    unfolding query_eq_iff by blast
  obtain u a acc rdp_port where g: "GetUser userID s = Inr u" "u_is_active u"
    "GetAsset (i_asset_id input) s = Inr a" "a_is_active a"
    "GetAssetAccount (i_asset_id input) (i_account_id input) s = Inr acc" "ac_is_active acc"
    "HasAssetPermission userID (i_asset_id input) (i_account_id input) ''connect'' s"
    "GetAssetProtocolPort (i_asset_id input) ''rdp'' s = Inr rdp_port"
    "equal_fold (trim_space (ac_secret_type acc)) ''password''"
    "sr_content r = sdkRDPFileContent (sr_host r) (sr_port r)
       (route_username (u_username u) (i_asset_id input) (i_account_id input))"
    by (rule native_build_Inr [OF n, unfolded prepare_ids])
  have "u = user" "acc = account" using g(1,5) user(1) account(1) by simp_all
  hence f: "GetAsset (i_asset_id input) s = Inr a" "a_is_active a" "ac_is_active account"
    "HasAssetPermission userID (i_asset_id input) (i_account_id input) ''connect'' s"
    "GetAssetProtocolPort (i_asset_id input) ''rdp'' s = Inr rdp_port"
    "equal_fold (trim_space (ac_secret_type account)) ''password''"
    "sr_content r = sdkRDPFileContent (sr_host r) (sr_port r)
       (route_username (u_username user) (i_asset_id input) (i_account_id input))"
    using g by simp_all
  have route: "ParseRDPRouteUsername (route_username (u_username user) (i_asset_id input) (i_account_id input)) =
      Inr \<lparr>ro_username = u_username user, ro_asset_id = i_asset_id input, ro_account_id = i_account_id input\<rparr>"
    by (rule parse_route_username [OF user(2-4) ids])
  have "u_id user = userID" using user(1) by (auto simp: GetUser_def dest: find_Some_iff)
  thus ?thesis using f route password account s'
    by (simp add: Resolve_def found_or_def Let_def)
qed

definition sample_launch :: sdk_input where
  "sample_launch =
     \<lparr>i_asset_id = 1, i_account_id = 1, i_protocol = ''ssh'', i_connect_method = '''',
      i_is_reusable = False, i_connect_options = '''', si_proxy_host = ''jump'', si_format = ''''\<rparr>"

lemma sample_launch_prepared:
  "sdk_prepare sample_launch (c_proxy sample_config) =
     sample_launch\<lparr>i_protocol := ''ssh'', i_connect_method := ''ssh_client''\<rparr>"
  "sdkProxyPort ''ssh'' (c_proxy sample_config) = 2222"
  "sdkHost url_host ''jump'' (api_base_url (c_proxy sample_config)) = ''jump''"
proof -
  have "canonicalSDKProtocol ''ssh'' = ''ssh''"
    by (simp add: canonicalSDKProtocol_def literal_words_trimmed literal_words_lower)
  thus "sdk_prepare sample_launch (c_proxy sample_config) =
     sample_launch\<lparr>i_protocol := ''ssh'', i_connect_method := ''ssh_client''\<rparr>"
    by (simp add: sdk_prepare_def sample_launch_def sdkDefaultConnectMethod_def)
  have "listenPort '':2222'' 2222 = 2222" by (simp add: listenPort_def literal_addresses literal_numbers)
  thus "sdkProxyPort ''ssh'' (c_proxy sample_config) = 2222"
    by (simp add: sdkProxyPort_def sample_config_def)
  have "trim_set bracket ''jump'' = ''jump''" by (rule trim_set_id) (simp_all add: bracket_def)
  hence "host_only ''jump'' = ''jump''" using literal_addresses(3) by (auto simp: host_only_def split: sum.split)
  thus "sdkHost url_host ''jump'' (api_base_url (c_proxy sample_config)) = ''jump''"
    by (simp add: sdkHost_def)
qed

lemma sample_launch_built:
  "\<exists>r s'. BuildSDKURL url_host ''tok'' 50 60 1 sample_launch (c_proxy sample_config) sample_db = (Inr r, s') \<and>
     sr_protocol r = ''ssh'' \<and> sr_host r = ''jump'' \<and> sr_port r = 2222 \<and> sr_token r = ''tok''"
proof -
  let ?in = "issue_input.truncate (sdk_prepare sample_launch (c_proxy sample_config))"
  have proto: "canonicalConnectionProtocol ''ssh'' = ''ssh''" "to_lower ''ssh'' = ''ssh''"
    by (simp_all add: canonicalConnectionProtocol_def literal_words_trimmed literal_words_lower)
  obtain t s1 where t: "Issue ''tok'' 50 1 ?in sample_db = (Inr t, s1)"
    using sample_permission unfolding sample_launch_prepared
    by (simp add: Issue_def abind_app GetAsset_def GetAssetAccount_def CreateConnectionToken_def Let_def
        sample_launch_def sample_db_def empty_db_def sample_account_def sample_user_def fk_def has_user_def
        has_asset_def has_account_def issue_input.defs)
  have f: "t_value t = ''tok''" "t_account_id t = 1" "t_protocol t = ''ssh''"
    using Issue_Inr(5) [OF t, unfolded sample_launch_prepared(1)]
    by (simp_all add: sample_launch_def issue_input.defs proto)
  obtain n where "s1 = sample_db\<lparr>next_id := n, tokens := tokens sample_db @ [t]\<rparr>"
    using Issue_Inr(3) [OF t] by blast
  hence a: "GetAccount 1 s1 = Inr sample_account"
    using sample_lookups(3) by (simp add: GetAccount_def)
  have fields: "i_protocol (sample_launch\<lparr>i_protocol := ''ssh'', i_connect_method := m\<rparr>) = ''ssh''"
    "si_proxy_host (sample_launch\<lparr>i_protocol := ''ssh'', i_connect_method := m\<rparr>) = ''jump''" for m
    by (simp_all add: sample_launch_def)
  show ?thesis using t [unfolded sample_launch_prepared(1)] f a proto
    unfolding BuildSDKURL_def Let_def sample_launch_prepared(1) fields
    by (auto simp: sample_launch_prepared(2,3) sdk_content_def Let_def)
qed

definition sample_url_host :: "string \<Rightarrow> string option" where
  "sample_url_host u = None"


text \<open>The launch of the native RDP client on the sample database.\<close>

definition native_config :: proxy_config where
  "native_config = (c_proxy sample_config)
     \<lparr>px_rdp := (px_rdp (c_proxy sample_config))\<lparr>native_enabled := True\<rparr>\<rparr>"

definition native_launch :: sdk_input where
  "native_launch = sample_launch\<lparr>i_asset_id := 3, i_account_id := 4, i_protocol := ''rdp''\<rparr>"

lemma native_launch_prepared:
  "sdk_prepare native_launch native_config = native_launch\<lparr>i_connect_method := ''rdp_client''\<rparr>"
  "native_enabled (px_rdp native_config)"
  "sdkProxyPort ''rdp'' native_config = 33890"
proof -
  have "canonicalSDKProtocol ''rdp'' = ''rdp''"
    by (simp add: canonicalSDKProtocol_def literal_words_trimmed literal_words_lower)
  thus "sdk_prepare native_launch native_config = native_launch\<lparr>i_connect_method := ''rdp_client''\<rparr>"
    by (simp add: sdk_prepare_def native_launch_def native_config_def sample_launch_def)
  show "native_enabled (px_rdp native_config)" by (simp add: native_config_def)
  show "sdkProxyPort ''rdp'' native_config = 33890"
    by (simp add: sdkProxyPort_def NativeClientPort_def native_config_def sample_config_def)
qed

theorem native_launch_resolves_witness:
  "\<exists>stored r s' res. BuildSDKURL sample_url_host ''tok'' 50 60 7 native_launch native_config (native_db stored) = (Inr r, s') \<and>
     Resolve sample_native_env \<lparr>ni_route_username = route_username ''ann'' 3 4, ni_password = ''pw'',
                               ni_remote_addr = ''10.1.1.1''\<rparr> (native_db stored) = Inr res \<and>
     nr_secret res = ''pw''"
proof -
  obtain stored where v: "VerifyPassword sample_argon2 ''pw'' stored = Inr True" using sample_stored by blast
  have trim: "trim_space ''ann'' = ''ann''" "trim_space ''password'' = ''password''"
    by (rule trim_space_solid, simp add: solid_def)+
  have proto: "canonicalSDKProtocol ''rdp'' = ''rdp''"
    by (simp add: canonicalSDKProtocol_def literal_words_trimmed literal_words_lower)
  have auth: "Credentials_Verify sample_argon2 ''ann'' ''pw'' (native_db stored) = Inr (auth_user ''h'')"
    using v trim by (simp add: Credentials_Verify_def native_db_def auth_db_def empty_db_def auth_user_def
        GetUserByUsername_def GetRDPProxyCredential_def)
  have user: "GetUser 7 (native_db stored) = Inr (auth_user ''h'')"
    by (simp add: GetUser_def native_db_def auth_db_def auth_user_def)
  obtain a where asset: "GetAsset 3 (native_db stored) = Inr a" "a_is_active a"
    by (simp add: GetAsset_def native_db_def)
  obtain c where acc: "GetAssetAccount 3 4 (native_db stored) = Inr c" "ac_is_active c"
    "ac_secret_type c = ''password''" "ac_secret c = ''pw''"
    by (simp add: GetAssetAccount_def native_db_def)
  have dec: "DecryptString f ''pw'' = Inr ''pw''" for f
    by (simp add: DecryptString_def encryptedPrefix_def)
  obtain r where n: "buildNativeRDPSDKURL 7 (native_launch\<lparr>i_connect_method := ''rdp_client''\<rparr>) native_config
      (sdkHost sample_url_host ''jump'' (api_base_url native_config)) 33890 (native_db stored) = Inr r"
    using user asset acc native_permission native_port trim
    by (simp add: native_launch_def sample_launch_def Let_def buildNativeRDPSDKURL_def equal_fold_def auth_user_def)
  hence "BuildSDKURL sample_url_host ''tok'' 50 60 7 native_launch native_config (native_db stored) =
      (Inr r, native_db stored)"
    by (simp add: BuildSDKURL_def Let_def native_launch_prepared) (simp add: native_launch_prepared native_launch_def sample_launch_def)
  then obtain s' where b: "BuildSDKURL sample_url_host ''tok'' 50 60 7 native_launch native_config (native_db stored) = (Inr r, s')"
    by blast
  have "s' = native_db stored \<and>
         (let name = route_username (u_username (auth_user ''h'')) (i_asset_id native_launch) (i_account_id native_launch)
          in sr_content r = sdkRDPFileContent (sr_host r) (sr_port r) name \<and>
             (\<exists>res. Resolve sample_native_env \<lparr>ni_route_username = name, ni_password = ''pw'',
                                 ni_remote_addr = ''10.1.1.1''\<rparr> (native_db stored) = Inr res \<and>
                    nr_username res = ac_username c \<and> nr_secret res = ''pw'' \<and>
                    nr_user_id res = 7))"
    by (rule native_launch_resolves [OF b])
      (use user acc auth dec proto trim in
        \<open>simp_all add: native_launch_def native_config_def sample_launch_def auth_user_def sample_native_env_def\<close>)
  thus ?thesis using b by (simp add: Let_def native_launch_def sample_launch_def auth_user_def) blast
qed

end
