(* ===== verification/AccessServices.thy ===== *)
theory AccessServices
  imports StorePerm StoreTokens
begin

text \<open>
  The services for permissions (\<open>service/permissions.go\<close>) and sessions
  (\<open>service/sessions.go\<close>).  \<open>return p, store.CreatePermission(&p, \<dots>)\<close> reads \<open>p\<close> after the
  call has filled it, as the compiler orders it.
\<close>

section \<open>Permissions\<close>

record permission_input =
  pi_name :: string
  pi_actions :: "string list"
  pi_date_start :: "time option"
  pi_date_expired :: "time option"
  pi_is_active :: "bool option"
  pi_user_ids :: "int list"
  pi_group_ids :: "int list"
  pi_asset_ids :: "int list"
  pi_node_ids :: "int list"
  pi_account_ids :: "int list"

definition permissionLinks :: "permission_input \<Rightarrow> permission_links" where
  "permissionLinks input =
     \<lparr>l_user_ids = pi_user_ids input, l_group_ids = pi_group_ids input, l_asset_ids = pi_asset_ids input,
      l_node_ids = pi_node_ids input, l_account_ids = pi_account_ids input\<rparr>"

definition Permissions_Create :: "permission_input \<Rightarrow> permission store_action" where
  "Permissions_Create input =
     (let active = (case pi_is_active input of None \<Rightarrow> True | Some b \<Rightarrow> b);
          p = \<lparr>p_id = 0, p_name = pi_name input, p_actions = NormalizeActions (pi_actions input),
               p_date_start = pi_date_start input, p_date_expired = pi_date_expired input,
               p_is_active = active, p_created_at = 0, p_updated_at = 0\<rparr>
      in CreatePermission p (permissionLinks input))"

definition Permissions_Update :: "int \<Rightarrow> permission_input \<Rightarrow> permission store_action" where
  "Permissions_Update i input =
     abind (query (GetPermission i)) (\<lambda>(p, links).
       let p = p\<lparr>p_name := pi_name input, p_actions := NormalizeActions (pi_actions input),
                 p_date_start := pi_date_start input, p_date_expired := pi_date_expired input\<rparr>;
           p = (case pi_is_active input of None \<Rightarrow> p | Some b \<Rightarrow> p\<lparr>p_is_active := b\<rparr>)
       in UpdatePermission p (permissionLinks input))"

lemma links_of_append: "links_of i (xs @ ys) = links_of i xs @ links_of i ys"
  by (simp add: links_of_def)

lemma links_of_Pair: "links_of i (map (Pair i) js) = js"
  by (induction js) (simp_all add: links_of_def)

lemma links_of_fresh: "\<forall>(p, x) \<in> set rows. p \<noteq> i \<Longrightarrow> links_of i rows = []"
  by (auto simp: links_of_def filter_empty_conv)

text \<open>The ids a permission may be linked to.\<close>

definition linkable :: "permission_input \<Rightarrow> db \<Rightarrow> bool" where
  "linkable input s =
     (distinct (pi_user_ids input) \<and> list_all (has_user s) (pi_user_ids input) \<and>
      distinct (pi_group_ids input) \<and> list_all (has_group s) (pi_group_ids input) \<and>
      distinct (pi_asset_ids input) \<and> list_all (has_asset s) (pi_asset_ids input) \<and>
      distinct (pi_node_ids input) \<and> list_all (has_node s) (pi_node_ids input) \<and>
      distinct (pi_account_ids input) \<and> list_all (has_account s) (pi_account_ids input))"

definition unlinked :: "int \<Rightarrow> db \<Rightarrow> bool" where
  "unlinked i s =
     ((\<forall>(p, x) \<in> set (perm_users s). p \<noteq> i) \<and> (\<forall>(p, x) \<in> set (perm_groups s). p \<noteq> i) \<and>
      (\<forall>(p, x) \<in> set (perm_assets s). p \<noteq> i) \<and> (\<forall>(p, x) \<in> set (perm_nodes s). p \<noteq> i) \<and>
      (\<forall>(p, x) \<in> set (perm_accounts s). p \<noteq> i))"

lemma insertPermissionLinks_ok:
  assumes "linkable input s" and "unlinked i s"
  shows "insertPermissionLinks i (permissionLinks input) s =
     (Inr (), s\<lparr>perm_users := perm_users s @ map (Pair i) (pi_user_ids input),
                perm_groups := perm_groups s @ map (Pair i) (pi_group_ids input),
                perm_assets := perm_assets s @ map (Pair i) (pi_asset_ids input),
                perm_nodes := perm_nodes s @ map (Pair i) (pi_node_ids input),
                perm_accounts := perm_accounts s @ map (Pair i) (pi_account_ids input)\<rparr>)"
proof -
  have "insert_links (\<lambda>j. fk s (P j)) i js rows = Inr (rows @ map (Pair i) js)"
    if "distinct js" "list_all P js" "\<forall>(p, x) \<in> set rows. p \<noteq> i" for P js rows
    using that by (intro insert_links_ok) (auto simp: fk_def list_all_iff)
  thus ?thesis using assms
    by (simp add: insertPermissionLinks_def permissionLinks_def linkable_def unlinked_def)
qed

lemma PermissionLinks_inserted:
  assumes "insertPermissionLinks i (permissionLinks input) s = (Inr (), t)"
    and "linkable input s" and "unlinked i s"
  shows "PermissionLinks i t = permissionLinks input" and "permissions t = permissions s"
    and "\<And>j. j \<noteq> i \<Longrightarrow> PermissionLinks j t = PermissionLinks j s"
proof -
  have other: "links_of j (map (Pair i) js) = []" if "j \<noteq> i" for j js
    using that by (induction js) (simp_all add: links_of_def)
  note t = assms(1)[unfolded insertPermissionLinks_ok [OF assms(2,3)], symmetric]
  show "PermissionLinks i t = permissionLinks input"
    using assms(3) t by (auto simp: PermissionLinks_def permissionLinks_def links_of_append links_of_Pair
        links_of_fresh unlinked_def)
  show "permissions t = permissions s" using t by auto
  show "PermissionLinks j t = PermissionLinks j s" if "j \<noteq> i" for j
    using t that by (auto simp: PermissionLinks_def links_of_append other)
qed

text \<open>
  A new permission is stored as it was asked for: reading it back gives the normalised
  actions, the dates, and exactly the users, groups, assets, nodes and accounts of the
  request, and no other permission changes its links.
\<close>

theorem permission_create_get:
  assumes link: "linkable input s" and fresh: "unlinked (next_id s TPermissions) s"
    and new: "\<forall>p \<in> set (permissions s). p_id p \<noteq> next_id s TPermissions"
  shows "\<exists>p t. Permissions_Create input s = (Inr p, t) \<and>
           GetPermission (p_id p) t = Inr (p, permissionLinks input) \<and>
           p_actions p = NormalizeActions (pi_actions input) \<and>
           (\<forall>q \<in> set (permissions s). GetPermission (p_id q) t = GetPermission (p_id q) s)"
proof -
  define p where "p = \<lparr>p_id = next_id s TPermissions, p_name = pi_name input,
      p_actions = NormalizeActions (pi_actions input), p_date_start = pi_date_start input,
      p_date_expired = pi_date_expired input,
      p_is_active = (case pi_is_active input of None \<Rightarrow> True | Some b \<Rightarrow> b),
      p_created_at = clock s, p_updated_at = clock s\<rparr>"
  define s1 where "s1 = (bump TPermissions s)\<lparr>permissions := permissions s @ [p]\<rparr>"
  have l: "linkable input s1" "unlinked (p_id p) s1"
    using link fresh
    by (simp_all add: linkable_def unlinked_def s1_def bump_def p_def has_user_def has_group_def
        has_asset_def has_node_def has_account_def list_all_iff)
  obtain t where t: "insertPermissionLinks (p_id p) (permissionLinks input) s1 = (Inr (), t)"
    using insertPermissionLinks_ok [OF l] by blast
  note stored = PermissionLinks_inserted [OF t l]
  have "Permissions_Create input s = (Inr p, t)"
    using t by (simp add: Permissions_Create_def CreatePermission_def withTx_def Let_def abind_app s1_def p_def)
  moreover have "find (\<lambda>q. p_id q = p_id p) (permissions t) = Some p"
  proof -
    have "find (\<lambda>q. p_id q = p_id p) (permissions s) = None" using new by (simp add: find_None_set p_def)
    thus ?thesis by (simp add: stored(2) s1_def find_append)
  qed
  moreover have "GetPermission (p_id q) t = GetPermission (p_id q) s" if q: "q \<in> set (permissions s)" for q
  proof -
    have ne: "p_id q \<noteq> p_id p" using new q by (simp add: p_def)
    obtain r where "find (\<lambda>x. p_id x = p_id q) (permissions s) = Some r"
      using q by (cases "find (\<lambda>x. p_id x = p_id q) (permissions s)") (auto simp: find_None_set)
    thus ?thesis using stored(3) [OF ne]
      by (simp add: GetPermission_def stored(2) s1_def find_append PermissionLinks_def bump_def)
  qed
  ultimately show ?thesis using stored(1) by (auto simp: GetPermission_def p_def)
qed

text \<open>
  On PostgreSQL no permission can ever be changed: the update fails, whatever it asks
  for, and the transaction leaves the database as it was.
\<close>

theorem permission_update_postgres:
  assumes "postgres s"
  shows "isl (fst (Permissions_Update i input s)) \<and> snd (Permissions_Update i input s) = s"
proof (cases "find (\<lambda>p. p_id p = i) (permissions s)")
  case None
  thus ?thesis by (simp add: Permissions_Update_def abind_app GetPermission_def)
next
  case (Some p)
  have "isl (fst (UpdatePermission q links s)) \<and> snd (UpdatePermission q links s) = s" for q links
    using assms
    by (simp add: UpdatePermission_def withTx_def Let_def abind_app clear_links_def split: option.split)
  thus ?thesis using Some by (simp add: Permissions_Update_def abind_app GetPermission_def Let_def)
qed

section \<open>Sessions\<close>

definition Sessions_Create :: "session \<Rightarrow> session store_action" where
  "Sessions_Create sess =
     (let sess = (if s_type sess = '''' then sess\<lparr>s_type := ''normal''\<rparr> else sess);
          sess = (if s_login_from sess = '''' then sess\<lparr>s_login_from := ''WT''\<rparr> else sess)
      in CreateSession sess)"

definition Sessions_Finish :: "time \<Rightarrow> int \<Rightarrow> string \<Rightarrow> session store_action" where
  "Sessions_Finish now i recordingPath =
     abind (query (GetSession i)) (\<lambda>sess.
       UpdateSession (sess\<lparr>s_is_finished := True, s_date_end := Some now, s_recording_path := recordingPath\<rparr>))"

definition Sessions_Update :: "time \<Rightarrow> int \<Rightarrow> bool \<Rightarrow> string \<Rightarrow> session store_action" where
  "Sessions_Update now i finished recordingPath =
     abind (query (GetSession i)) (\<lambda>sess.
       let sess = sess\<lparr>s_is_finished := finished\<rparr>;
           sess = (if finished \<and> s_date_end sess = None then sess\<lparr>s_date_end := Some now\<rparr> else sess);
           sess = (if recordingPath \<noteq> '''' then sess\<lparr>s_recording_path := recordingPath\<rparr> else sess)
       in UpdateSession sess)"

definition ForceFinish :: "time \<Rightarrow> int \<Rightarrow> session store_action" where
  "ForceFinish now i = Sessions_Update now i True ''''"

text \<open>Everything that touches the table of sessions.\<close>

datatype session_request =
    Create session | FinishAt time int string | UpdateAt time int bool string | Force time int
  | FinishOnce int string | StartLimited session int

fun run_request :: "session_request \<Rightarrow> db \<Rightarrow> db" where
  "run_request (Create sess) s = snd (Sessions_Create sess s)"
| "run_request (FinishAt now i path) s = snd (Sessions_Finish now i path s)"
| "run_request (UpdateAt now i b path) s = snd (Sessions_Update now i b path s)"
| "run_request (Force now i) s = snd (ForceFinish now i s)"
| "run_request (FinishOnce i path) s = snd (FinishSessionOnce i path s)"
| "run_request (StartLimited sess n) s = snd (CreateSessionUnderActiveLimit sess n s)"

text \<open>A request opens sessions that are running.\<close>

fun opens_running :: "session_request \<Rightarrow> bool" where
  "opens_running (Create sess) = (\<not> s_is_finished sess)"
| "opens_running (StartLimited sess n) = (\<not> s_is_finished sess)"
| "opens_running _ = True"

definition ended :: "session \<Rightarrow> bool" where
  "ended r = (s_is_finished r \<longrightarrow> s_date_end r \<noteq> None)"

definition all_ended :: "db \<Rightarrow> bool" where
  "all_ended s = (\<forall>r \<in> set (sessions s). ended r)"

lemma UpdateSession_ended:
  "all_ended s \<Longrightarrow> ended sess \<Longrightarrow> all_ended (snd (UpdateSession sess s))"
  by (simp add: UpdateSession_def Let_def all_ended_def ball_update_rows ended_def split: option.split)

lemma GetSession_ended: "GetSession i s = Inr sess \<Longrightarrow> all_ended s \<Longrightarrow> ended sess"
  by (auto simp: GetSession_def all_ended_def dest: find_Some_iff)

lemma CreateSession_ended:
  "all_ended s \<Longrightarrow> \<not> s_is_finished sess \<Longrightarrow> all_ended (snd (CreateSession sess s))"
  by (auto simp: CreateSession_def Let_def all_ended_def ended_def bump_def)

lemma FinishSessionOnce_ended: "all_ended s \<Longrightarrow> all_ended (snd (FinishSessionOnce i path s))"
  by (simp add: FinishSessionOnce_def Let_def all_ended_def ball_update_rows ended_def split: option.split)

lemma Sessions_Update_ended: "all_ended s \<Longrightarrow> all_ended (snd (Sessions_Update now i b path s))"
  using UpdateSession_ended [of s]
  by (auto simp: Sessions_Update_def abind_app Let_def ended_def dest: GetSession_ended
      split: sum.split)

lemma run_request_ended:
  assumes "all_ended s" and "opens_running r"
  shows "all_ended (run_request r s)"
proof (cases r)
  case (Create sess)
  thus ?thesis using assms CreateSession_ended by (simp add: Sessions_Create_def Let_def)
next
  case (FinishAt now i path)
  thus ?thesis using assms UpdateSession_ended
    by (simp add: Sessions_Finish_def abind_app ended_def split: sum.split)
next
  case (StartLimited sess n)
  thus ?thesis using assms CreateSession_ended [OF assms(1), of sess]
    by (auto simp: CreateSessionUnderActiveLimit_def Let_def split: prod.splits sum.splits)
qed (use assms Sessions_Update_ended FinishSessionOnce_ended in \<open>simp_all add: ForceFinish_def\<close>)

text \<open>
  Whatever requests the session service serves, a finished session always has an end
  time, so the history never shows a closed session without one.
\<close>

theorem finished_sessions_have_an_end:
  assumes "all_ended s" and "list_all opens_running rs"
  shows "all_ended (fold run_request rs s)"
  using assms by (induction rs arbitrary: s) (simp_all add: run_request_ended)

text \<open>
  Finishing is not final: an update with \<open>finished = False\<close> puts a finished session
  back among the running ones and leaves its end time in place, so a running session may
  have one.
\<close>

theorem update_reopens:
  assumes "GetSession i s = Inr sess"
  shows "\<exists>r t. Sessions_Update now i False '''' s = (Inr r, t) \<and> session_live i t \<and>
           s_date_end r = s_date_end sess \<and> \<not> s_is_finished r"
proof -
  have f: "find (\<lambda>r. s_id r = i) (sessions s) = Some sess" using assms by (simp add: GetSession_def)
  hence sess: "sess \<in> set (sessions s)" "s_id sess = i" using find_Some_iff [OF f] by simp_all
  let ?u = "sess\<lparr>s_is_finished := False\<rparr>"
  obtain r t where run: "Sessions_Update now i False '''' s = (Inr r, t)"
    and r: "r = sess\<lparr>s_is_finished := False, s_date_end := s_date_end sess,
        s_recording_path := s_recording_path sess, s_updated_at := clock s\<rparr>"
    and t: "sessions t = update_rows (\<lambda>r. s_id r = i) (\<lambda>r. r\<lparr>s_is_finished := False,
        s_date_end := s_date_end sess, s_recording_path := s_recording_path sess, s_updated_at := clock s\<rparr>)
        (sessions s)"
    using f sess by (simp add: Sessions_Update_def abind_app assms UpdateSession_def Let_def)
  have "session_live i t"
    unfolding session_live_def t bex_update_rows using sess by (auto simp: unfinished_def)
  thus ?thesis using run r by auto
qed

text \<open>Witnesses.\<close>

definition sample_permission_input :: permission_input where
  "sample_permission_input =
     \<lparr>pi_name = ''ops'', pi_actions = ['' connect '', ''connect'', ''''], pi_date_start = None,
      pi_date_expired = None, pi_is_active = None, pi_user_ids = [], pi_group_ids = [], pi_asset_ids = [],
      pi_node_ids = [4], pi_account_ids = []\<rparr>"

definition node_db :: db where
  "node_db = (empty_db 9)\<lparr>nodes := [\<lparr>n_id = 4, n_name = ''root'', n_parent_id = None, n_org_id = 1\<rparr>]\<rparr>"

theorem permission_create_get_witness:
  "\<exists>p t. Permissions_Create sample_permission_input node_db = (Inr p, t) \<and>
     GetPermission (p_id p) t = Inr (p, permissionLinks sample_permission_input)"
  using permission_create_get [of sample_permission_input node_db]
  by (auto simp: linkable_def unlinked_def node_db_def empty_db_def sample_permission_input_def has_node_def)

theorem permission_update_postgres_witness:
  "isl (fst (Permissions_Update 1 sample_permission_input
     (node_db\<lparr>postgres := True, permissions := [\<lparr>p_id = 1, p_name = ''a'', p_actions = ''connect'',
        p_date_start = None, p_date_expired = None, p_is_active = True, p_created_at = 0, p_updated_at = 0\<rparr>]\<rparr>)))"
  using permission_update_postgres [of "node_db\<lparr>postgres := True, permissions := [\<lparr>p_id = 1, p_name = ''a'',
        p_actions = ''connect'', p_date_start = None, p_date_expired = None, p_is_active = True,
        p_created_at = 0, p_updated_at = 0\<rparr>]\<rparr>" 1 sample_permission_input]
  by simp

theorem finished_sessions_have_an_end_witness:
  "all_ended (fold run_request [FinishAt 7 1 ''x'', UpdateAt 8 1 False '''', Force 9 1]
     ((empty_db 5)\<lparr>sessions := [sample_session]\<rparr>))"
  by (rule finished_sessions_have_an_end) (simp_all add: all_ended_def ended_def sample_session_def)

theorem update_reopens_witness:
  "\<exists>r t. Sessions_Update 8 1 False '''' ((empty_db 5)\<lparr>sessions := [sample_session\<lparr>s_is_finished := True,
      s_date_end := Some 3\<rparr>]\<rparr>) = (Inr r, t) \<and> session_live 1 t \<and> s_date_end r = Some 3"
  using update_reopens [of 1 "(empty_db 5)\<lparr>sessions := [sample_session\<lparr>s_is_finished := True,
      s_date_end := Some 3\<rparr>]\<rparr>" "sample_session\<lparr>s_is_finished := True, s_date_end := Some 3\<rparr>" 8]
  by (auto simp: GetSession_def sample_session_def)

end
