(* ===== verification/SshFilter.thy ===== *)
theory SshFilter
  imports Codec Domain
begin

text \<open>
  The command filter of the SSH proxy (\<open>proxy/ssh/filter.go\<close>): rules loaded from the API,
  matched against every line the user types, and a reader that withholds the lines a rule
  rejects.  Compiling a regular expression and matching it are the parameter \<open>compile\<close>.
\<close>

section \<open>Rules\<close>

record filter_rule =
  fr_id :: int
  fr_name :: string
  fr_pattern :: string
  fr_action :: string

record compiled_rule =
  cr_name :: string
  cr_action :: string
  cr_pattern :: string
  cr_matches :: "string \<Rightarrow> bool"

type_synonym regexp_compile = "string \<Rightarrow> (string \<Rightarrow> bool) option"

text \<open>Rules with a blank pattern or one that does not compile are skipped.\<close>

definition compile_rule :: "regexp_compile \<Rightarrow> filter_rule \<Rightarrow> compiled_rule option" where
  "compile_rule compile rule =
     (if trim_space (fr_pattern rule) = '''' then None
      else case compile (fr_pattern rule) of
             None \<Rightarrow> None
           | Some re \<Rightarrow>
               let action = to_lower (trim_space (fr_action rule));
                   action = (if action = '''' then ''reject'' else action)
               in Some \<lparr>cr_name = fr_name rule, cr_action = action, cr_pattern = fr_pattern rule,
                        cr_matches = re\<rparr>)"

definition loadCommandFilter ::
  "regexp_compile \<Rightarrow> error + filter_rule list \<Rightarrow> error + compiled_rule list" where
  "loadCommandFilter compile rules = rbind rules (\<lambda>rs. Inr (List.map_filter (compile_rule compile) rs))"

section \<open>Matching a line\<close>

text \<open>
  The runes of a Go string: a byte that starts no valid encoding is the replacement
  character, which is written back as the three bytes EF BF BD.
\<close>

definition replacement :: "byte list" where
  "replacement = [0xEF, 0xBF, 0xBD]"

definition kept_control :: "byte \<Rightarrow> bool" where
  "kept_control b = (b \<in> {9, 10, 13} \<or> (0x20 \<le> b \<and> b \<noteq> 0x7f))"

function strip_bytes :: "byte list \<Rightarrow> byte list" where
  "strip_bytes s =
     (case s of
        [] \<Rightarrow> []
      | b # t \<Rightarrow>
          if utf8_len s = 0 then replacement @ strip_bytes t
          else if utf8_len s = 1 then (if kept_control b then [b] else []) @ strip_bytes t
          else take (utf8_len s) s @ strip_bytes (drop (utf8_len s) s))"
  by pat_completeness auto
termination
  by (relation "measure length") auto

declare strip_bytes.simps [simp del]

definition stripControls :: "string \<Rightarrow> string" where
  "stripControls s = string_of (strip_bytes (bytes_of s))"

text \<open>The first rule that matches; a missing filter matches nothing.\<close>

definition match_rule :: "compiled_rule list option \<Rightarrow> string \<Rightarrow> compiled_rule option" where
  "match_rule rules line =
     (case rules of
        None \<Rightarrow> None
      | Some rs \<Rightarrow> find (\<lambda>r. cr_matches r (trim_space (stripControls line))) rs)"

section \<open>The filtering reader\<close>

text \<open>
  \<open>fr_out\<close> holds the bytes that passed, \<open>fr_line\<close> the line being collected, \<open>fr_notices\<close> the
  names of the rules the user has been told about.
\<close>

record reader =
  rd_out :: string
  rd_line :: string
  rd_notices :: "string list"

definition rejecting :: "compiled_rule \<Rightarrow> bool" where
  "rejecting r = (cr_action r = ''deny'' \<or> cr_action r = ''reject'')"

definition line_end :: "char \<Rightarrow> bool" where
  "line_end c = (c = chr 10 \<or> c = chr 13)"

definition filter_byte :: "compiled_rule list \<Rightarrow> char \<Rightarrow> reader \<Rightarrow> reader" where
  "filter_byte rules b r =
     (let line = rd_line r @ [b]
      in if \<not> line_end b then r\<lparr>rd_line := line\<rparr>
         else case match_rule (Some rules) line of
                Some rule \<Rightarrow>
                  if rejecting rule
                  then r\<lparr>rd_line := '''', rd_notices := rd_notices r @ [cr_name rule]\<rparr>
                  else r\<lparr>rd_line := '''', rd_out := rd_out r @ line\<rparr>
              | None \<Rightarrow> r\<lparr>rd_line := '''', rd_out := rd_out r @ line\<rparr>)"

definition writeFiltered :: "compiled_rule list \<Rightarrow> string \<Rightarrow> reader \<Rightarrow> reader" where
  "writeFiltered rules data r = fold (filter_byte rules) data r"

text \<open>
  \<open>Read\<close>: the source delivers chunks and then an error (the end of the stream).  The loop
  reads until something has passed; the result is the bytes read, or \<open>None\<close> for the error.
\<close>

fun fill :: "compiled_rule list \<Rightarrow> string list \<Rightarrow> reader \<Rightarrow> string list \<times> reader" where
  "fill rules src r =
     (if rd_out r \<noteq> '''' then (src, r)
      else case src of
             [] \<Rightarrow> ([], r)
           | chunk # src' \<Rightarrow> fill rules src' (writeFiltered rules chunk r))"

declare fill.simps [simp del]

definition Read ::
  "compiled_rule list \<Rightarrow> nat \<Rightarrow> string list \<times> reader \<Rightarrow> string option \<times> (string list \<times> reader)" where
  "Read rules n st =
     (let (src, r) = fill rules (fst st) (snd st)
      in if rd_out r = '''' then (None, (src, r))
         else (Some (take n (rd_out r)), (src, r\<lparr>rd_out := drop n (rd_out r)\<rparr>)))"

text \<open>Without rules the source is used as it is.\<close>

definition newFilteringReader :: "compiled_rule list option \<Rightarrow> bool" where
  "newFilteringReader rules = (case rules of None \<Rightarrow> False | Some rs \<Rightarrow> rs \<noteq> [])"

section \<open>What passes\<close>

text \<open>The reference: the lines of a text, each with its terminator, and the rest after them.\<close>

fun lines_from :: "string \<Rightarrow> string \<Rightarrow> string list \<times> string" where
  "lines_from acc [] = ([], acc)"
| "lines_from acc (c # s) =
     (if line_end c then ((acc @ [c]) # fst (lines_from '''' s), snd (lines_from '''' s))
      else lines_from (acc @ [c]) s)"

definition lines_of :: "string \<Rightarrow> string list" where
  "lines_of s = fst (lines_from '''' s)"

definition rejected :: "compiled_rule list \<Rightarrow> string \<Rightarrow> bool" where
  "rejected rules line =
     (case match_rule (Some rules) line of None \<Rightarrow> False | Some rule \<Rightarrow> rejecting rule)"

definition passed :: "compiled_rule list \<Rightarrow> string \<Rightarrow> string" where
  "passed rules s = concat (filter (\<lambda>l. \<not> rejected rules l) (lines_of s))"

definition passed_from :: "compiled_rule list \<Rightarrow> string \<Rightarrow> string \<Rightarrow> string" where
  "passed_from rules acc s = concat (filter (\<lambda>l. \<not> rejected rules l) (fst (lines_from acc s)))"

lemma lines_from_append:
  "lines_from acc (s @ t) =
     (fst (lines_from acc s) @ fst (lines_from (snd (lines_from acc s)) t),
      snd (lines_from (snd (lines_from acc s)) t))"
  by (induction s arbitrary: acc) (simp_all add: split_def)

lemma writeFiltered_spec:
  "rd_out (writeFiltered rules s r) = rd_out r @ passed_from rules (rd_line r) s \<and>
   rd_line (writeFiltered rules s r) = snd (lines_from (rd_line r) s)"
proof (induction s arbitrary: r)
  case (Cons c s)
  have step: "writeFiltered rules (c # s) r = writeFiltered rules s (filter_byte rules c r)"
    by (simp add: writeFiltered_def)
  have first: "rd_line (filter_byte rules c r) = (if line_end c then '''' else rd_line r @ [c])"
    "rd_out (filter_byte rules c r) =
       (if line_end c \<and> \<not> rejected rules (rd_line r @ [c]) then rd_out r @ rd_line r @ [c] else rd_out r)"
    by (simp_all add: filter_byte_def rejected_def Let_def split: option.split)
  show ?case using Cons.IH [of "filter_byte rules c r"] first
    by (auto simp: step passed_from_def)
qed (simp_all add: writeFiltered_def passed_from_def)

lemma passed_from_append:
  "passed_from rules acc (s @ t) =
     passed_from rules acc s @ passed_from rules (snd (lines_from acc s)) t"
  by (simp add: passed_from_def lines_from_append)

text \<open>What a state of the reader will still deliver.\<close>

definition to_come :: "compiled_rule list \<Rightarrow> string list \<times> reader \<Rightarrow> string" where
  "to_come rules st = rd_out (snd st) @ passed_from rules (rd_line (snd st)) (concat (fst st))"

lemma fill_to_come: "to_come rules (fill rules src r) = to_come rules (src, r)"
proof (induction src arbitrary: r)
  case Nil
  show ?case by (simp add: fill.simps [of rules "[]"])
next
  case (Cons chunk src)
  show ?case using Cons.IH [of "writeFiltered rules chunk r"]
    by (simp add: fill.simps [of rules "chunk # src"] to_come_def writeFiltered_spec passed_from_append)
qed

lemma fill_empty:
  "rd_out (snd (fill rules src r)) = '''' \<Longrightarrow> fst (fill rules src r) = []"
proof (induction src arbitrary: r)
  case (Cons chunk src)
  thus ?case by (auto simp: fill.simps [of rules "chunk # src"] split: if_splits)
qed (simp add: fill.simps [of rules "[]"])

lemma Read_to_come:
  assumes "Read rules n st = (res, st')"
  shows "to_come rules st = (case res of None \<Rightarrow> '''' | Some bs \<Rightarrow> bs) @ to_come rules st'"
    and "res = None \<Longrightarrow> to_come rules st = ''''"
proof -
  obtain src r where f: "fill rules (fst st) (snd st) = (src, r)" by force
  have t: "to_come rules st = to_come rules (src, r)"
    using fill_to_come [of rules "fst st" "snd st"] f by simp
  have res: "res = (if rd_out r = '''' then None else Some (take n (rd_out r)))"
    "st' = (if rd_out r = '''' then (src, r) else (src, r\<lparr>rd_out := drop n (rd_out r)\<rparr>))"
    using assms unfolding Read_def f by (simp_all split: if_split_asm)
  show "to_come rules st = (case res of None \<Rightarrow> '''' | Some bs \<Rightarrow> bs) @ to_come rules st'"
    unfolding t res by (simp add: to_come_def)
  assume "res = None"
  hence e: "rd_out r = ''''" by (simp add: res split: if_splits)
  hence "src = []" using fill_empty [of rules "fst st" "snd st"] f by simp
  thus "to_come rules st = ''''" using t e by (simp add: to_come_def passed_from_def)
qed

text \<open>Reading with buffers of the given sizes until the end of the stream.\<close>

fun read_many ::
  "compiled_rule list \<Rightarrow> nat list \<Rightarrow> string list \<times> reader \<Rightarrow> string \<times> (string list \<times> reader)" where
  "read_many rules [] st = ('''', st)"
| "read_many rules (n # ns) st =
     (case Read rules n st of
        (None, st') \<Rightarrow> ('''', st')
      | (Some bs, st') \<Rightarrow> (let (out, st'') = read_many rules ns st' in (bs @ out, st'')))"

lemma read_many_to_come:
  "read_many rules ns st = (out, st') \<Longrightarrow> to_come rules st = out @ to_come rules st'"
proof (induction ns arbitrary: st out)
  case (Cons n ns)
  obtain res st1 where r: "Read rules n st = (res, st1)" by (cases "Read rules n st")
  show ?case
  proof (cases res)
    case None
    thus ?thesis using Cons.prems r Read_to_come(1) [OF r] by simp
  next
    case (Some bs)
    obtain o2 where "read_many rules ns st1 = (o2, st')" "out = bs @ o2"
      using Cons.prems r Some by (auto split: prod.splits)
    thus ?thesis using Cons.IH Read_to_come(1) [OF r] Some by simp
  qed
qed simp

definition reader_start :: "string list \<Rightarrow> string list \<times> reader" where
  "reader_start src = (src, \<lparr>rd_out = '''', rd_line = '''', rd_notices = []\<rparr>)"

lemma to_come_start: "to_come rules (reader_start src) = passed rules (concat src)"
  by (simp add: to_come_def reader_start_def passed_def passed_from_def lines_of_def)

text \<open>Complete lines read back as lines.\<close>

definition complete_line :: "string \<Rightarrow> bool" where
  "complete_line l = (\<exists>w c. l = w @ [c] \<and> line_end c \<and> (\<forall>x \<in> set w. \<not> line_end x))"

lemma lines_from_word: "\<forall>x \<in> set w. \<not> line_end x \<Longrightarrow> lines_from acc (w @ s) = lines_from (acc @ w) s"
  by (induction w arbitrary: acc) simp_all

lemma lines_of_complete: "\<forall>l \<in> set ls. complete_line l \<Longrightarrow> lines_from '''' (concat ls) = (ls, '''')"
proof (induction ls)
  case (Cons l ls)
  then obtain w c where "l = w @ [c]" "line_end c" "\<forall>x \<in> set w. \<not> line_end x"
    by (auto simp: complete_line_def)
  thus ?case using Cons lines_from_word [of w "''''" "c # concat ls"] by simp
qed simp

lemma lines_from_complete:
  "\<forall>x \<in> set acc. \<not> line_end x \<Longrightarrow> l \<in> set (fst (lines_from acc s)) \<Longrightarrow> complete_line l"
proof (induction s arbitrary: acc)
  case (Cons c s)
  show ?case
  proof (cases "line_end c")
    case True
    hence "l = acc @ [c] \<or> l \<in> set (fst (lines_from '''' s))" using Cons.prems(2) by (auto simp: split_def)
    thus ?thesis
    proof
      assume "l = acc @ [c]"
      thus ?thesis using True Cons.prems(1) by (auto simp: complete_line_def)
    next
      assume "l \<in> set (fst (lines_from '''' s))"
      thus ?thesis by (intro Cons.IH) simp_all
    qed
  next
    case False
    thus ?thesis using Cons.IH [of "acc @ [c]"] Cons.prems by simp
  qed
qed simp

lemma lines_of_passed: "lines_of (passed rules s) = filter (\<lambda>l. \<not> rejected rules l) (lines_of s)"
proof -
  have "\<forall>l \<in> set (filter (\<lambda>l. \<not> rejected rules l) (lines_of s)). complete_line l"
    using lines_from_complete [of "''''"] by (auto simp: lines_of_def)
  from lines_of_complete [OF this] show ?thesis by (simp add: passed_def lines_of_def)
qed

text \<open>
  C19: However the user's input arrives in pieces and with whatever buffers it is read, the
  target is given a prefix of the lines that no rule rejects, in order, and all of them once
  the end of the stream is reached: exactly the complete lines of the input that are not
  rejected, and nothing of an unfinished line.
\<close>

theorem filter_passes_allowed_lines:
  assumes "read_many rules ns (reader_start src) = (out, st)"
  shows "(\<exists>more. passed rules (concat src) = out @ more) \<and>
         (fst (Read rules n st) = None \<longrightarrow>
            out = passed rules (concat src) \<and>
            lines_of out = filter (\<lambda>l. \<not> rejected rules l) (lines_of (concat src)))"
proof -
  have t: "passed rules (concat src) = out @ to_come rules st"
    using read_many_to_come [OF assms] to_come_start [of rules src] by simp
  moreover have "to_come rules st = ''''" if "fst (Read rules n st) = None"
    using Read_to_come(2) [OF surjective_pairing that] .
  ultimately show ?thesis using lines_of_passed [of rules "concat src"] by auto
qed

text \<open>A rule against \<open>rm\<close>, as an anchored expression would match it.\<close>

definition rm_rule :: compiled_rule where
  "rm_rule = \<lparr>cr_name = ''no rm'', cr_action = ''reject'', cr_pattern = ''^rm '', cr_matches = has_prefix ''rm ''\<rparr>"

definition typed_rm :: string where
  "typed_rm = ''rm -r x'' @ [chr 13]"

lemma strip_bytes_ascii: "(\<And>b. b \<in> set bs \<Longrightarrow> uint b < 0x80) \<Longrightarrow> strip_bytes bs = filter kept_control bs"
proof (induction bs)
  case (Cons b t)
  have "utf8_len (b # t) = 1" using Cons.prems by (simp add: utf8_len_def)
  thus ?case using Cons by (simp add: strip_bytes.simps [of "b # t"])
qed (simp add: strip_bytes.simps)

lemma stripControls_ascii:
  assumes "ascii s"
  shows "stripControls s = filter (\<lambda>c. kept_control (of_char c)) s"
proof -
  have small: "uint b < 0x80" if "b \<in> set (bytes_of s)" for b
  proof -
    obtain c where c: "c \<in> set s" "b = of_char c" using \<open>b \<in> set (bytes_of s)\<close> by (auto simp: bytes_of_def)
    hence "unat b < 128" using assms unat_of_char [of c] by (auto simp: ascii_def list_all_iff)
    thus ?thesis unfolding uint_nat by linarith
  qed
  have "filter kept_control (bytes_of s) = bytes_of (filter (\<lambda>c. kept_control (of_char c)) s)"
    by (simp add: bytes_of_def filter_map o_def)
  thus ?thesis using strip_bytes_ascii [of "bytes_of s"] small by (simp add: stripControls_def)
qed

text \<open>The verdict on one line of ASCII text, when the text that is left of it is known.\<close>

lemma rejected_ascii:
  assumes "ascii l" and "trim_space (filter (\<lambda>c. kept_control (of_char c)) l) = w"
  shows "rejected [rm_rule] l \<longleftrightarrow> has_prefix ''rm '' w"
  using assms by (simp add: rejected_def match_rule_def stripControls_ascii rm_rule_def rejecting_def)

definition typed_hidden :: string where
  "typed_hidden = ''rmx'' @ [chr 127] @ '' -r x'' @ [chr 13]"

definition typed_ls :: string where
  "typed_ls = ''ls'' @ [chr 13]"

lemma kept_control_char:
  "kept_control (of_char c) =
     (let n = of_char c :: nat in n = 9 \<or> n = 10 \<or> n = 13 \<or> (32 \<le> n \<and> n \<noteq> 127))"
  by (simp add: kept_control_def word_le_nat_alt word_unat_eq_iff unat_of_char Let_def)

lemma typed_kept:
  "filter (\<lambda>c. kept_control (of_char c)) typed_rm = typed_rm"
  "filter (\<lambda>c. kept_control (of_char c)) typed_hidden = ''rmx -r x'' @ [chr 13]"
  "filter (\<lambda>c. kept_control (of_char c)) typed_ls = typed_ls"
  unfolding kept_control_char by code_simp+

lemma trim_return:
  assumes "w \<noteq> []" and "solid (hd w)" and "solid (last w)"
  shows "trim_space (w @ [chr 13]) = w"
proof -
  have front: "strip_front wide_spaces (w @ [chr 13]) = w @ [chr 13]"
    using assms wide_spaces_solid_free by (intro strip_front_id) (simp_all add: hd_append)
  have "strip_front (map rev wide_spaces) (chr 13 # rev w) = strip_front (map rev wide_spaces) (rev w)"
    by (simp add: strip_front.simps [of _ "chr 13 # rev w"] space_len_def ascii_space_def)
  also have "\<dots> = rev w"
    using assms rev_spaces_solid_free [OF wide_spaces_solid_free] by (intro strip_front_id) (simp_all add: hd_rev)
  finally show ?thesis unfolding trim_space_def front by simp
qed

lemma typed_trimmed:
  "trim_space typed_rm = ''rm -r x''"
  "trim_space (''rmx -r x'' @ [chr 13]) = ''rmx -r x''"
  "trim_space typed_ls = ''ls''"
  unfolding typed_rm_def typed_ls_def by (rule trim_return; simp add: solid_def)+

lemma typed_ascii: "ascii typed_rm" "ascii typed_hidden" "ascii typed_ls"
  by code_simp+

lemma typed_verdicts:
  "rejected [rm_rule] typed_rm" "\<not> rejected [rm_rule] typed_hidden" "\<not> rejected [rm_rule] typed_ls"
  using rejected_ascii [of typed_rm] rejected_ascii [of typed_hidden] rejected_ascii [of typed_ls]
    typed_kept typed_trimmed typed_ascii by simp_all

lemma typed_lines:
  "lines_of (typed_ls @ typed_rm) = [typed_ls, typed_rm]" "lines_of typed_hidden = [typed_hidden]"
  by code_simp+

theorem filter_passes_allowed_lines_witness:
  "\<exists>out st. read_many [rm_rule] [8] (reader_start [typed_ls, typed_rm]) = (out, st) \<and>
     (\<exists>more. typed_ls = out @ more)"
proof -
  obtain out st where r: "read_many [rm_rule] [8] (reader_start [typed_ls, typed_rm]) = (out, st)"
    by (cases "read_many [rm_rule] [8] (reader_start [typed_ls, typed_rm])")
  have "passed [rm_rule] (concat [typed_ls, typed_rm]) = typed_ls"
    using typed_lines(1) typed_verdicts by (simp add: passed_def)
  thus ?thesis using filter_passes_allowed_lines [OF r] r by auto
qed

section \<open>What the target's terminal makes of a line\<close>

text \<open>
  A terminal in canonical mode edits the line it receives: DEL and backspace erase the last
  character, control-U the whole line.
\<close>

fun tty_line :: "string \<Rightarrow> string \<Rightarrow> string" where
  "tty_line acc [] = acc"
| "tty_line acc (c # s) =
     (if c = chr 127 \<or> c = chr 8 then tty_line (butlast acc) s
      else if c = chr 21 then tty_line '''' s
      else tty_line (acc @ [c]) s)"

text \<open>
  A line without editing characters is matched as the target's terminal will see it; but
  the filter drops the editing characters instead of applying them, so a command that a rule
  rejects when typed plainly passes when it is typed with one letter too many and an erase,
  and the target's terminal turns it into the rejected command.
\<close>

theorem filter_ignores_editing:
  "(list_all (\<lambda>c. c \<noteq> chr 127 \<and> c \<noteq> chr 8 \<and> c \<noteq> chr 21) s \<longrightarrow> tty_line '''' s = s) \<and>
   rejected [rm_rule] typed_rm \<and>
   passed [rm_rule] typed_hidden = typed_hidden \<and>
   tty_line '''' typed_hidden = typed_rm"
proof -
  have "tty_line acc s = acc @ s" if "list_all (\<lambda>c. c \<noteq> chr 127 \<and> c \<noteq> chr 8 \<and> c \<noteq> chr 21) s" for acc
    using that by (induction s arbitrary: acc) simp_all
  moreover have "tty_line '''' typed_hidden = typed_rm" by code_simp
  moreover have "passed [rm_rule] typed_hidden = typed_hidden"
    using typed_lines(2) typed_verdicts by (simp add: passed_def)
  ultimately show ?thesis using typed_verdicts by simp
qed

theorem filter_ignores_editing_witness: "tty_line '''' typed_ls = typed_ls"
proof -
  have "list_all (\<lambda>c. c \<noteq> chr 127 \<and> c \<noteq> chr 8 \<and> c \<noteq> chr 21) typed_ls" by code_simp
  thus ?thesis using filter_ignores_editing [of typed_ls] by blast
qed

end
