(* ===== verification/Paths.thy ===== *)
theory Paths
  imports GoStrings
begin

text \<open>
  Slash-separated paths: \<open>path.Clean\<close> and \<open>path.Base\<close> of the standard library, and what a
  file system without symbolic links makes of a path, directory by directory.  The main fact
  is that a cleaned path starts with another one, followed by a slash, exactly when the walk
  along the first passes through the end of the second.
\<close>

section \<open>Cleaning\<close>

definition path_parts :: "string \<Rightarrow> string list" where
  "path_parts p = filter (\<lambda>w. w \<noteq> '''' \<and> w \<noteq> ''.'') (split_char (CHR ''/'') p)"

text \<open>The parts kept so far, the last one first; \<open>..\<close> stays only at the front of a relative path.\<close>

fun clean_parts :: "bool \<Rightarrow> string list \<Rightarrow> string list \<Rightarrow> string list" where
  "clean_parts rooted kept [] = rev kept"
| "clean_parts rooted kept (w # ws) =
     (if w \<noteq> ''..'' then clean_parts rooted (w # kept) ws
      else case kept of
             [] \<Rightarrow> clean_parts rooted (if rooted then [] else [w]) ws
           | k # ks \<Rightarrow> clean_parts rooted (if k = ''..'' then w # kept else ks) ws)"

definition path_clean :: "string \<Rightarrow> string" where
  "path_clean p =
     (let rooted = has_prefix ''/'' p;
          body = join ''/'' (clean_parts rooted [] (path_parts p))
      in if rooted then ''/'' @ body else if body = '''' then ''.'' else body)"

definition path_base :: "string \<Rightarrow> string" where
  "path_base p =
     (if p = '''' then ''.''
      else let q = trim_right (\<lambda>c. c = CHR ''/'') p
           in if q = '''' then ''/'' else last (split_char (CHR ''/'') q))"

section \<open>Walking\<close>

definition enter :: "string list \<Rightarrow> string \<Rightarrow> string list" where
  "enter dir w = (if w = '''' \<or> w = ''.'' then dir else if w = ''..'' then butlast dir else dir @ [w])"

definition walk :: "string \<Rightarrow> string list" where
  "walk p = foldl enter [] (split_char (CHR ''/'') p)"

text \<open>\<open>q\<close> is the directory \<open>p\<close> or lies below it.\<close>

definition beneath :: "string \<Rightarrow> string \<Rightarrow> bool" where
  "beneath p q = (take (length (walk p)) (walk q) = walk p)"

lemma foldl_enter_parts: "foldl enter d (filter (\<lambda>w. w \<noteq> '''' \<and> w \<noteq> ''.'') ws) = foldl enter d ws"
  by (induction ws arbitrary: d) (simp_all add: enter_def)

lemma clean_parts_walk:
  assumes "list_all (\<lambda>w. w \<noteq> '''' \<and> w \<noteq> ''.'') ws" and "''..'' \<notin> set kept"
  shows "clean_parts True kept ws = foldl enter (rev kept) ws"
  using assms
proof (induction ws arbitrary: kept)
  case (Cons w ws)
  show ?case
  proof (cases "w = ''..''")
    case True
    show ?thesis
    proof (cases kept)
      case Kept: (Cons k ks)
      hence "k \<noteq> ''..''" "''..'' \<notin> set ks" using Cons.prems(2) Kept by auto
      thus ?thesis using Cons.IH [of ks] Cons.prems(1) True Kept by (simp add: enter_def butlast_append)
    qed (use Cons True in \<open>simp add: enter_def\<close>)
  next
    case False
    thus ?thesis using Cons by (simp add: enter_def)
  qed
qed simp

lemma walk_parts: "clean_parts True [] (path_parts p) = walk p"
proof -
  have "clean_parts True [] (path_parts p) = foldl enter [] (path_parts p)"
    using clean_parts_walk [of "path_parts p" "[]"] by (simp add: path_parts_def list_all_iff)
  thus ?thesis by (simp add: path_parts_def walk_def foldl_enter_parts)
qed

lemma foldl_enter_words:
  "w \<in> set (foldl enter d ws) \<Longrightarrow> w \<in> set d \<or> (w \<in> set ws \<and> w \<noteq> '''')"
proof (induction ws arbitrary: d)
  case (Cons v ws)
  hence "w \<in> set (enter d v) \<or> (w \<in> set ws \<and> w \<noteq> '''')" by simp
  thus ?case by (auto simp: enter_def dest: in_set_butlastD split: if_splits)
qed simp

definition path_words :: "string list \<Rightarrow> bool" where
  "path_words ws = list_all (\<lambda>w. w \<noteq> '''' \<and> CHR ''/'' \<notin> set w) ws"

lemma walk_words: "path_words (walk p)"
  unfolding path_words_def list_all_iff walk_def
  using foldl_enter_words [of _ "[]" "split_char (CHR ''/'') p"] split_char_words by fastforce

text \<open>The cleaned form of a path that starts at the root.\<close>

lemma walk_leading: "walk (''/'' @ p) = walk p"
  by (simp add: walk_def enter_def)

lemma clean_rooted: "path_clean (''/'' @ p) = ''/'' @ join ''/'' (walk p)"
  using walk_parts [of "''/'' @ p"] walk_leading [of p] by (simp add: path_clean_def)

section \<open>Prefixes\<close>

lemma split_join_words:
  "path_words ws \<Longrightarrow> ws \<noteq> [] \<Longrightarrow> split_char (CHR ''/'') (join ''/'' ws) = ws"
  by (induction "''/'' :: string" ws rule: join.induct)
    (simp_all add: path_words_def split_char_no_sep split_char_app)

lemma join_words_Nil: "path_words ws \<Longrightarrow> join ''/'' ws = '''' \<longleftrightarrow> ws = []"
  by (cases ws; cases "tl ws") (auto simp: path_words_def)

lemma join_words_inject:
  assumes "path_words ws" and "path_words vs"
  shows "join ''/'' ws = join ''/'' vs \<longleftrightarrow> ws = vs"
proof
  assume j: "join ''/'' ws = join ''/'' vs"
  show "ws = vs"
  proof (cases "ws = []")
    case True
    thus ?thesis using j join_words_Nil [OF assms(2)] by simp
  next
    case False
    hence "vs \<noteq> []" using j join_words_Nil [OF assms(1)] by auto
    thus ?thesis using j False split_join_words assms by metis
  qed
qed simp

lemma join_append:
  "ws \<noteq> [] \<Longrightarrow> vs \<noteq> [] \<Longrightarrow> join sep (ws @ vs) = join sep ws @ sep @ join sep vs"
  by (induction sep ws rule: join.induct) (auto simp: neq_Nil_conv)

lemma split_char_last: "split_char c (s @ [c] @ t) = split_char c s @ split_char c t"
proof (induction s)
  case (Cons x s)
  show ?case
  proof (cases "x = c")
    case False
    obtain w ws where "split_char c s = w # ws" by (cases "split_char c s") auto
    thus ?thesis using Cons False by simp
  qed (use Cons in simp)
qed simp

lemma join_words_prefix:
  assumes "path_words ws" and "path_words vs" and "vs \<noteq> []"
  shows "has_prefix (join ''/'' vs @ ''/'') (join ''/'' ws) \<longleftrightarrow> (\<exists>us. us \<noteq> [] \<and> ws = vs @ us)"
proof
  assume "has_prefix (join ''/'' vs @ ''/'') (join ''/'' ws)"
  then obtain z where z: "join ''/'' ws = join ''/'' vs @ ''/'' @ z"
    by (auto simp: has_prefix_iff)
  hence "ws \<noteq> []" by auto
  hence "ws = split_char (CHR ''/'') (join ''/'' ws)" using split_join_words assms(1) by simp
  also have "\<dots> = vs @ split_char (CHR ''/'') z"
    unfolding z by (subst split_char_last) (simp add: split_join_words assms)
  finally show "\<exists>us. us \<noteq> [] \<and> ws = vs @ us" by (intro exI conjI) auto
next
  assume "\<exists>us. us \<noteq> [] \<and> ws = vs @ us"
  thus "has_prefix (join ''/'' vs @ ''/'') (join ''/'' ws)"
    using assms(3) by (auto simp: join_append has_prefix_iff)
qed

lemma clean_prefix:
  assumes "walk p \<noteq> []"
  shows "path_clean (''/'' @ q) = path_clean (''/'' @ p) \<or>
         has_prefix (path_clean (''/'' @ p) @ ''/'') (path_clean (''/'' @ q)) \<longleftrightarrow> beneath p q"
proof -
  have "join ''/'' (walk q) = join ''/'' (walk p) \<longleftrightarrow> walk q = walk p"
    using join_words_inject walk_words by blast
  moreover have "has_prefix (join ''/'' (walk p) @ ''/'') (join ''/'' (walk q)) \<longleftrightarrow>
      (\<exists>us. us \<noteq> [] \<and> walk q = walk p @ us)"
    using join_words_prefix walk_words assms by blast
  moreover have "beneath p q \<longleftrightarrow> walk q = walk p \<or> (\<exists>us. us \<noteq> [] \<and> walk q = walk p @ us)"
    unfolding beneath_def by (auto simp: take_eq_iff_append)
  ultimately show ?thesis unfolding clean_rooted by simp
qed

end
