(* ===== verification/Sftp.thy ===== *)
theory Sftp
  imports Paths Json DbTypes
begin

unbundle bit_operations_syntax

text \<open>
  The SFTP proxy (\<open>proxy/ssh/sftp_proxy.go\<close>, \<open>proxy/ssh/settings.go\<close>): the policy read from
  the settings, the handlers that forward a user's requests to the target, and the files
  with a size limit.  The target is a state with an operation on it that may fail; the
  handlers' state also logs the operations sent and the audit entries written.  The SFTP
  library calls a handler for each request, and the file it returned for each write.
\<close>

section \<open>Settings and policy\<close>

definition parseSettingString :: "string \<Rightarrow> string \<Rightarrow> string" where
  "parseSettingString raw fallback =
     (let raw = trim_space raw
      in if raw = '''' then fallback
         else case json_string raw of
                Some out \<Rightarrow> if out = '''' then fallback else out
              | None \<Rightarrow> trim_set (\<lambda>c. c = chr 34) raw)"

record sftp_policy =
  MaxFileSize :: int
  DenyPaths :: "string list"

definition parseSFTPPolicy :: "string \<Rightarrow> string \<Rightarrow> sftp_policy" where
  "parseSFTPPolicy maxValue denyValue =
     \<lparr>MaxFileSize = parseSettingInt maxValue (2 ^ 30),
      DenyPaths = split_char (CHR '','') (parseSettingString denyValue ''/etc/shadow,/etc/passwd'')\<rparr>"

text \<open>\<open>strings.TrimPrefix\<close> of one slash.\<close>

definition drop_slash :: "string \<Rightarrow> string" where
  "drop_slash p = (if has_prefix ''/'' p then tl p else p)"

definition denied_by :: "string \<Rightarrow> string \<Rightarrow> bool" where
  "denied_by cleaned deny =
     (let deny = trim_space deny
      in if deny = '''' then False
         else let deny = path_clean (''/'' @ drop_slash deny)
              in cleaned = deny \<or> has_prefix (deny @ ''/'') cleaned)"

definition checkPath :: "sftp_policy \<Rightarrow> string \<Rightarrow> string + unit" where
  "checkPath policy p =
     (let cleaned = path_clean (''/'' @ drop_slash p)
      in if list_ex (denied_by cleaned) (DenyPaths policy) then Inl ''path denied by policy'' else Inr ())"

section \<open>Requests\<close>

record open_flags =
  fl_read :: bool
  fl_write :: bool
  fl_append :: bool
  fl_creat :: bool
  fl_trunc :: bool
  fl_excl :: bool

text \<open>The constants of the \<open>os\<close> package are those of Linux.\<close>

definition openFlags :: "open_flags \<Rightarrow> 64 word" where
  "openFlags f =
     (let out = (if fl_read f \<and> fl_write f then 2 else if fl_write f then 1 else 0);
          out = (if fl_append f then out OR 0x400 else out);
          out = (if fl_creat f then out OR 0x40 else out);
          out = (if fl_trunc f then out OR 0x200 else out)
      in if fl_excl f then out OR 0x80 else out)"

text \<open>The attributes of a \<open>Setstat\<close>; the size is unsigned on the wire.\<close>

record sftp_request =
  rq_method :: string
  rq_filepath :: string
  rq_target :: string
  rq_flags :: open_flags
  rq_has_size :: bool
  rq_has_mode :: bool
  rq_has_times :: bool
  rq_size :: "64 word"
  rq_mode :: "32 word"
  rq_atime :: "32 word"
  rq_mtime :: "32 word"

datatype sftp_op =
    OpOpen string
  | OpOpenFile string "64 word"
  | OpRemove string
  | OpRename string string
  | OpRemoveDirectory string
  | OpMkdir string
  | OpTruncate string int
  | OpChmod string "32 word"
  | OpChtimes string "32 word" "32 word"
  | OpReadDir string
  | OpStat string
  | OpWriteAt string string int

record file_info =
  fi_name :: string
  fi_size :: int
  fi_dir :: bool

text \<open>The target: whether an operation fails, what it does, and what the two reads return.\<close>

record 't sftp_target =
  tg_do :: "sftp_op \<Rightarrow> 't \<Rightarrow> string option \<times> 't"
  tg_list :: "string \<Rightarrow> 't \<Rightarrow> file_info list"
  tg_info :: "string \<Rightarrow> 't \<Rightarrow> file_info"

record 't sftp_state =
  sf_target :: 't
  sf_ops :: "sftp_op list"
  sf_audits :: "(string \<times> string \<times> string) list"

datatype sftp_file = File string | LimitedWriter string int | LimitedRW string int

type_synonym ('t, 'a) sftp_action = "('t sftp_state, string, 'a) action"

definition send_op :: "'t sftp_target \<Rightarrow> sftp_op \<Rightarrow> ('t, unit) sftp_action" where
  "send_op tg op = (\<lambda>s.
     let (err, t) = tg_do tg op (sf_target s)
     in (case err of None \<Rightarrow> Inr () | Some e \<Rightarrow> Inl e,
         s\<lparr>sf_target := t, sf_ops := sf_ops s @ [op]\<rparr>))"

definition auditAction :: "string \<Rightarrow> string \<Rightarrow> string \<Rightarrow> ('t, unit) sftp_action" where
  "auditAction act resource detail = (\<lambda>s. (Inr (), s\<lparr>sf_audits := sf_audits s @ [(act, resource, detail)]\<rparr>))"

definition Fileread :: "'t sftp_target \<Rightarrow> sftp_policy \<Rightarrow> sftp_request \<Rightarrow> ('t, sftp_file) sftp_action" where
  "Fileread tg policy req =
     abind (query (\<lambda>_. checkPath policy (rq_filepath req))) (\<lambda>_.
     abind (auditAction ''download'' (rq_filepath req) '''') (\<lambda>_.
     abind (send_op tg (OpOpen (rq_filepath req))) (\<lambda>_.
     ret (File (rq_filepath req)))))"

definition Filewrite :: "'t sftp_target \<Rightarrow> sftp_policy \<Rightarrow> sftp_request \<Rightarrow> ('t, sftp_file) sftp_action" where
  "Filewrite tg policy req =
     abind (query (\<lambda>_. checkPath policy (rq_filepath req))) (\<lambda>_.
     abind (auditAction ''upload'' (rq_filepath req) '''') (\<lambda>_.
     abind (send_op tg (OpOpenFile (rq_filepath req) (openFlags (rq_flags req)))) (\<lambda>_.
     ret (if 0 < MaxFileSize policy then LimitedWriter (rq_filepath req) (MaxFileSize policy)
          else File (rq_filepath req)))))"

definition OpenFile :: "'t sftp_target \<Rightarrow> sftp_policy \<Rightarrow> sftp_request \<Rightarrow> ('t, sftp_file) sftp_action" where
  "OpenFile tg policy req =
     abind (query (\<lambda>_. checkPath policy (rq_filepath req))) (\<lambda>_.
     abind (auditAction ''open'' (rq_filepath req) '''') (\<lambda>_.
     abind (send_op tg (OpOpenFile (rq_filepath req) (openFlags (rq_flags req)))) (\<lambda>_.
     ret (if 0 < MaxFileSize policy then LimitedRW (rq_filepath req) (MaxFileSize policy)
          else File (rq_filepath req)))))"

text \<open>\<open>int64(attrs.Size)\<close> reads the unsigned size as a signed number.\<close>

definition setstat :: "'t sftp_target \<Rightarrow> sftp_request \<Rightarrow> ('t, unit) sftp_action" where
  "setstat tg req =
     abind (if rq_has_size req then send_op tg (OpTruncate (rq_filepath req) (sint (rq_size req)))
            else ret ()) (\<lambda>_.
     abind (if rq_has_mode req then send_op tg (OpChmod (rq_filepath req) (rq_mode req)) else ret ()) (\<lambda>_.
     abind (if rq_has_times req
            then send_op tg (OpChtimes (rq_filepath req) (rq_atime req) (rq_mtime req)) else ret ()) (\<lambda>_.
     ret ())))"

definition Filecmd :: "'t sftp_target \<Rightarrow> sftp_policy \<Rightarrow> sftp_request \<Rightarrow> ('t, unit) sftp_action" where
  "Filecmd tg policy req =
     (let p = rq_filepath req; m = rq_method req
      in abind (query (\<lambda>_. checkPath policy p)) (\<lambda>_.
           if m = ''Remove'' then
             abind (auditAction ''delete'' p '''') (\<lambda>_. send_op tg (OpRemove p))
           else if m = ''Rename'' \<or> m = ''PosixRename'' then
             abind (query (\<lambda>_. checkPath policy (rq_target req))) (\<lambda>_.
             abind (auditAction ''rename'' p (rq_target req)) (\<lambda>_.
             send_op tg (OpRename p (rq_target req))))
           else if m = ''Rmdir'' then
             abind (auditAction ''rmdir'' p '''') (\<lambda>_. send_op tg (OpRemoveDirectory p))
           else if m = ''Mkdir'' then
             abind (auditAction ''mkdir'' p '''') (\<lambda>_. send_op tg (OpMkdir p))
           else if m = ''Setstat'' then setstat tg req
           else throw (''unsupported SFTP command: '' @ m)))"

definition Filelist :: "'t sftp_target \<Rightarrow> sftp_policy \<Rightarrow> sftp_request \<Rightarrow> ('t, file_info list) sftp_action" where
  "Filelist tg policy req =
     (let p = rq_filepath req
      in abind (query (\<lambda>_. checkPath policy p)) (\<lambda>_.
           if rq_method req = ''List'' then
             abind (send_op tg (OpReadDir p)) (\<lambda>_ s. (Inr (tg_list tg p (sf_target s)), s))
           else
             abind (send_op tg (OpStat p)) (\<lambda>_ s.
               (Inr [(tg_info tg p (sf_target s))\<lparr>fi_name := path_base p\<rparr>], s))))"

text \<open>The sum of offset and length is an \<open>int64\<close> and wraps around.\<close>

definition WriteAt :: "'t sftp_target \<Rightarrow> sftp_file \<Rightarrow> string \<Rightarrow> int \<Rightarrow> ('t, unit) sftp_action" where
  "WriteAt tg f data off =
     (case f of
        File p \<Rightarrow> send_op tg (OpWriteAt p data off)
      | LimitedWriter p limit \<Rightarrow>
          if limit < wrap64 (off + int (length data)) then throw ''file exceeds the configured size''
          else send_op tg (OpWriteAt p data off)
      | LimitedRW p limit \<Rightarrow>
          if limit < wrap64 (off + int (length data)) then throw ''file exceeds the configured size''
          else send_op tg (OpWriteAt p data off))"

text \<open>
  \<open>ListAt\<close> copies what fits into a buffer of \<open>n\<close> entries; the flag is \<open>io.EOF\<close>.  A negative
  offset panics (\<open>None\<close>).
\<close>

definition ListAt :: "file_info list \<Rightarrow> nat \<Rightarrow> int \<Rightarrow> (file_info list \<times> bool) option" where
  "ListAt files n offset =
     (if int (length files) \<le> offset then Some ([], True)
      else if offset < 0 then None
      else let out = take n (drop (nat offset) files)
           in Some (out, length files \<le> nat offset + length out))"

section \<open>What is denied\<close>

text \<open>
  The reference: a path is covered by a denied one if the walk along it passes through that
  directory or file.  A denied root covers only itself.
\<close>

definition covers :: "string \<Rightarrow> string \<Rightarrow> bool" where
  "covers d p = (if walk d = [] then walk p = [] else beneath d p)"

definition permitted :: "sftp_policy \<Rightarrow> string \<Rightarrow> bool" where
  "permitted policy p =
     list_all (\<lambda>d. trim_space d = '''' \<or> \<not> covers (trim_space d) p) (DenyPaths policy)"

lemma walk_drop_slash [simp]: "walk (drop_slash p) = walk p"
  using walk_leading [of "tl p"] by (auto simp: drop_slash_def has_prefix_iff)

lemma clean_drop_slash: "path_clean (''/'' @ drop_slash p) = ''/'' @ join ''/'' (walk p)"
  using clean_rooted [of "drop_slash p"] by simp

lemma denied_by_covers:
  assumes "trim_space d \<noteq> ''''"
  shows "denied_by (path_clean (''/'' @ drop_slash p)) d \<longleftrightarrow> covers (trim_space d) p"
proof (cases "walk (trim_space d) = []")
  case True
  have "\<not> has_prefix ''//'' (''/'' @ join ''/'' (walk p))"
  proof
    assume "has_prefix ''//'' (''/'' @ join ''/'' (walk p))"
    hence j: "has_prefix ''/'' (join ''/'' (walk p))" by simp
    hence "walk p \<noteq> []" by auto
    then obtain w ws where w: "walk p = w # ws" by (cases "walk p") auto
    hence "w \<noteq> ''''" "CHR ''/'' \<notin> set w" using walk_words [of p] by (simp_all add: path_words_def)
    thus False using j w by (cases w; cases ws) auto
  qed
  moreover have "join ''/'' (walk p) = '''' \<longleftrightarrow> walk p = []" by (rule join_words_Nil [OF walk_words])
  ultimately show ?thesis using assms True unfolding denied_by_def Let_def clean_drop_slash covers_def
    by simp
next
  case False
  thus ?thesis using assms clean_prefix [OF False, of p]
    unfolding denied_by_def Let_def clean_drop_slash clean_rooted covers_def by simp
qed

text \<open>
  The deny list is not fooled by dots and slashes: the check lets a path through exactly
  when the walk along it, directory by directory and with every \<open>..\<close> obeyed, stays clear of
  every denied file and directory.  A denied root is the exception that the check does not
  extend to what lies below it.
\<close>

theorem checkPath_exact: "checkPath policy p = Inr () \<longleftrightarrow> permitted policy p"
proof -
  have "denied_by c d = False" if "trim_space d = ''''" for c d
    using that by (simp add: denied_by_def)
  hence "denied_by (path_clean (''/'' @ drop_slash p)) d \<longleftrightarrow> trim_space d \<noteq> '''' \<and> covers (trim_space d) p"
    for d using denied_by_covers [of d p] by blast
  thus ?thesis by (auto simp: checkPath_def permitted_def Let_def list_ex_iff list_all_iff)
qed

section \<open>A session obeys the policy\<close>

datatype sftp_call =
    Get sftp_request
  | Put sftp_request
  | OpenRW sftp_request
  | Cmd sftp_request
  | Ls sftp_request
  | WriteTo nat string int

text \<open>The files opened for writing, named by their number.\<close>

definition add_file :: "sftp_file list \<Rightarrow> (string + sftp_file) \<times> 's \<Rightarrow> 's \<times> sftp_file list" where
  "add_file files r = (case r of (Inr f, s) \<Rightarrow> (s, files @ [f]) | (Inl e, s) \<Rightarrow> (s, files))"

fun serve_call ::
    "'t sftp_target \<Rightarrow> sftp_policy \<Rightarrow> sftp_call \<Rightarrow> 't sftp_state \<times> sftp_file list \<Rightarrow> 't sftp_state \<times> sftp_file list" where
  "serve_call tg policy (Get req) (s, files) = (snd (Fileread tg policy req s), files)"
| "serve_call tg policy (Put req) (s, files) = add_file files (Filewrite tg policy req s)"
| "serve_call tg policy (OpenRW req) (s, files) = add_file files (OpenFile tg policy req s)"
| "serve_call tg policy (Cmd req) (s, files) = (snd (Filecmd tg policy req s), files)"
| "serve_call tg policy (Ls req) (s, files) = (snd (Filelist tg policy req s), files)"
| "serve_call tg policy (WriteTo i data off) (s, files) =
     (if i < length files then (snd (WriteAt tg (files ! i) data off s), files) else (s, files))"

fun op_paths :: "sftp_op \<Rightarrow> string list" where
  "op_paths (OpOpen p) = [p]"
| "op_paths (OpOpenFile p fl) = [p]"
| "op_paths (OpRemove p) = [p]"
| "op_paths (OpRename p q) = [p, q]"
| "op_paths (OpRemoveDirectory p) = [p]"
| "op_paths (OpMkdir p) = [p]"
| "op_paths (OpTruncate p n) = [p]"
| "op_paths (OpChmod p m) = [p]"
| "op_paths (OpChtimes p a m) = [p]"
| "op_paths (OpReadDir p) = [p]"
| "op_paths (OpStat p) = [p]"
| "op_paths (OpWriteAt p data off) = [p]"

text \<open>The operations that are recorded, by the file they are about.\<close>

fun op_resource :: "sftp_op \<Rightarrow> string list" where
  "op_resource (OpOpen p) = [p]"
| "op_resource (OpOpenFile p fl) = [p]"
| "op_resource (OpRemove p) = [p]"
| "op_resource (OpRename p q) = [p]"
| "op_resource (OpRemoveDirectory p) = [p]"
| "op_resource (OpMkdir p) = [p]"
| "op_resource _ = []"

definition op_sized :: "sftp_policy \<Rightarrow> sftp_op \<Rightarrow> bool" where
  "op_sized policy op =
     (case op of
        OpWriteAt p data off \<Rightarrow>
          MaxFileSize policy \<le> 0 \<or> wrap64 (off + int (length data)) \<le> MaxFileSize policy
      | _ \<Rightarrow> True)"

fun file_ok :: "sftp_policy \<Rightarrow> sftp_file \<Rightarrow> bool" where
  "file_ok policy (File p) = (permitted policy p \<and> MaxFileSize policy \<le> 0)"
| "file_ok policy (LimitedWriter p n) = (permitted policy p \<and> n = MaxFileSize policy)"
| "file_ok policy (LimitedRW p n) = (permitted policy p \<and> n = MaxFileSize policy)"

definition op_ok :: "sftp_policy \<Rightarrow> sftp_op \<Rightarrow> bool" where
  "op_ok policy op = (list_all (permitted policy) (op_paths op) \<and> op_sized policy op)"

definition session_ok :: "sftp_policy \<Rightarrow> 't sftp_state \<Rightarrow> bool" where
  "session_ok policy s =
     (list_all (op_ok policy) (sf_ops s) \<and>
      map (\<lambda>(act, resource, detail). resource) (sf_audits s) = concat (map op_resource (sf_ops s)))"

text \<open>One operation, with the audit entry it needs, keeps the state of the session.\<close>

lemma send_ok:
  assumes "session_ok policy s" and "op_ok policy op" and "op_resource op = []"
  shows "session_ok policy (snd (send_op tg op s))"
  using assms by (auto simp: send_op_def session_ok_def split: prod.split)

lemma audit_send_ok:
  assumes "session_ok policy s" and "op_ok policy op" and "op_resource op = [r]"
  shows "session_ok policy (snd (abind (auditAction act r d) (\<lambda>_. send_op tg op) s))"
  using assms by (auto simp: abind_app auditAction_def send_op_def session_ok_def split: prod.split)

lemma checked_ok:
  assumes "session_ok policy s" and "permitted policy p \<Longrightarrow> session_ok policy (snd (m s))"
  shows "session_ok policy (snd (abind (query (\<lambda>_. checkPath policy p)) (\<lambda>_. m) s))"
proof (cases "checkPath policy p")
  case (Inr u)
  thus ?thesis using assms checkPath_exact [of policy p] by (simp add: abind_app)
qed (use assms in \<open>simp add: abind_app\<close>)


lemma op_ok_path: "permitted policy p \<Longrightarrow> op_paths op = [p] \<Longrightarrow> op_sized policy op \<Longrightarrow> op_ok policy op"
  by (simp add: op_ok_def)

lemma setstat_ok:
  assumes "session_ok policy s" and "permitted policy (rq_filepath req)"
  shows "session_ok policy (snd (setstat tg req s))"
proof -
  have step: "session_ok policy (snd (abind (if b then send_op tg op else ret ()) f u))"
    if "session_ok policy u" "op_ok policy op" "op_resource op = []"
      "\<And>u'. session_ok policy u' \<Longrightarrow> session_ok policy (snd (f () u'))" for b op f u
    using send_ok [OF that(1-3), of tg] that by (cases "send_op tg op u") (auto simp: abind_app split: sum.split)
  show ?thesis unfolding setstat_def
    by (intro step) (use assms in \<open>simp_all add: op_ok_def op_sized_def\<close>)
qed

lemma Filecmd_ok: "session_ok policy s \<Longrightarrow> session_ok policy (snd (Filecmd tg policy req s))"
  unfolding Filecmd_def Let_def
  by (rule checked_ok)
    (auto intro!: audit_send_ok setstat_ok checked_ok simp: op_ok_def op_sized_def)

lemma Filelist_ok:
  assumes "session_ok policy s"
  shows "session_ok policy (snd (Filelist tg policy req s))"
proof -
  have read: "session_ok policy (snd (abind (send_op tg op) (\<lambda>_ s. (Inr (f s), s)) s))"
    if "op_ok policy op" "op_resource op = []" for op and f :: "_ \<Rightarrow> file_info list"
    using send_ok [OF assms that, of tg] by (auto simp: abind_app split: prod.split sum.split)
  show ?thesis unfolding Filelist_def Let_def
    by (rule checked_ok [OF assms]) (auto intro!: read simp: op_ok_def op_sized_def)
qed

text \<open>Opening: the state is kept, and a file returned is one the policy allows.\<close>

definition opened_ok :: "sftp_policy \<Rightarrow> (string + sftp_file) \<times> 't sftp_state \<Rightarrow> bool" where
  "opened_ok policy r =
     (session_ok policy (snd r) \<and> (case fst r of Inl e \<Rightarrow> True | Inr f \<Rightarrow> file_ok policy f))"

lemma open_ok:
  assumes "session_ok policy s" and "permitted policy p \<Longrightarrow> op_ok policy op \<and> file_ok policy f"
    and "op_resource op = [p]"
  shows "opened_ok policy (abind (query (\<lambda>_. checkPath policy p)) (\<lambda>_.
           abind (auditAction act p '''') (\<lambda>_. abind (send_op tg op) (\<lambda>_. ret f))) s)"
proof (cases "checkPath policy p")
  case (Inr u)
  hence ok: "op_ok policy op" "file_ok policy f" using assms(2) checkPath_exact [of policy p] by simp_all
  show ?thesis using audit_send_ok [OF assms(1) ok(1) assms(3), of act "''''" tg] Inr ok(2)
    by (auto simp: abind_app opened_ok_def split: prod.splits sum.splits)
qed (use assms in \<open>simp add: abind_app opened_ok_def\<close>)

lemma Filewrite_ok: "session_ok policy s \<Longrightarrow> opened_ok policy (Filewrite tg policy req s)"
  unfolding Filewrite_def by (rule open_ok) (auto simp: op_ok_def op_sized_def)

lemma OpenFile_ok: "session_ok policy s \<Longrightarrow> opened_ok policy (OpenFile tg policy req s)"
  unfolding OpenFile_def by (rule open_ok) (auto simp: op_ok_def op_sized_def)

lemma Fileread_ok: "session_ok policy s \<Longrightarrow> session_ok policy (snd (Fileread tg policy req s))"
proof -
  assume s: "session_ok policy s"
  show ?thesis
  proof (cases "checkPath policy (rq_filepath req)")
    case (Inr u)
    hence "op_ok policy (OpOpen (rq_filepath req))"
      using checkPath_exact [of policy "rq_filepath req"] by (simp add: op_ok_def op_sized_def)
    from audit_send_ok [OF s this, of "rq_filepath req" "''download''" "''''" tg] show ?thesis using Inr
      by (auto simp: Fileread_def abind_app split: prod.splits sum.splits)
  qed (use s in \<open>simp add: Fileread_def abind_app\<close>)
qed

lemma WriteAt_ok:
  assumes "session_ok policy s" and "file_ok policy f"
  shows "session_ok policy (snd (WriteAt tg f data off s))"
  using assms by (cases f) (auto intro!: send_ok simp: WriteAt_def op_ok_def op_sized_def)

lemma serve_call_ok:
  assumes "session_ok policy s" and "list_all (file_ok policy) files"
    and "serve_call tg policy c (s, files) = (s', files')"
  shows "session_ok policy s' \<and> list_all (file_ok policy) files'"
proof -
  have add: "session_ok policy s' \<and> list_all (file_ok policy) files'"
    if "opened_ok policy r" "add_file files r = (s', files')" for r
    using that assms(2) by (cases r) (auto simp: opened_ok_def add_file_def split: sum.splits)
  show ?thesis
  proof (cases c)
    case (Get req)
    hence "s' = snd (Fileread tg policy req s)" "files' = files" using assms(3) by simp_all
    thus ?thesis using Fileread_ok [OF assms(1)] assms(2) by simp
  next
    case (Put req)
    thus ?thesis using add [OF Filewrite_ok [OF assms(1)]] assms(3) by simp
  next
    case (OpenRW req)
    thus ?thesis using add [OF OpenFile_ok [OF assms(1)]] assms(3) by simp
  next
    case (Cmd req)
    hence "s' = snd (Filecmd tg policy req s)" "files' = files" using assms(3) by simp_all
    thus ?thesis using Filecmd_ok [OF assms(1)] assms(2) by simp
  next
    case (Ls req)
    hence "s' = snd (Filelist tg policy req s)" "files' = files" using assms(3) by simp_all
    thus ?thesis using Filelist_ok [OF assms(1)] assms(2) by simp
  next
    case (WriteTo i data off)
    show ?thesis
    proof (cases "i < length files")
      case True
      hence "file_ok policy (files ! i)" using assms(2) by (simp add: list_all_length)
      moreover have "s' = snd (WriteAt tg (files ! i) data off s)" "files' = files"
        using assms(3) WriteTo True by auto
      ultimately show ?thesis using WriteAt_ok [OF assms(1)] assms(2) by simp
    qed (use WriteTo assms in simp)
  qed
qed

lemma send_op_ops: "sf_ops (snd (send_op tg op s)) = sf_ops s @ [op]"
  by (simp add: send_op_def split: prod.split)

lemma Setstat_sent:
  assumes "rq_method req = ''Setstat''" and "rq_has_size req" and "permitted policy (rq_filepath req)"
  shows "OpTruncate (rq_filepath req) (sint (rq_size req)) \<in> set (sf_ops (snd (Filecmd tg policy req s)))"
proof -
  let ?op = "OpTruncate (rq_filepath req) (sint (rq_size req))"
  have more: "set (sf_ops u) \<subseteq> set (sf_ops (snd (abind (if b then send_op tg op else ret ()) f u)))"
    if "\<And>v. set (sf_ops v) \<subseteq> set (sf_ops (snd (f () v)))" for b op f and u :: "'a sftp_state"
  proof (cases "fst (send_op tg op u)")
    case (Inl e)
    thus ?thesis using send_op_ops [of tg op u] that by (cases "send_op tg op u") (auto simp: abind_app)
  next
    case (Inr x)
    thus ?thesis using send_op_ops [of tg op u] that [of u] that [of "snd (send_op tg op u)"]
      by (cases "send_op tg op u") (auto simp: abind_app)
  qed
  define rest where "rest = abind (if rq_has_mode req then send_op tg (OpChmod (rq_filepath req) (rq_mode req)) else ret ()) (\<lambda>_.
     abind (if rq_has_times req
            then send_op tg (OpChtimes (rq_filepath req) (rq_atime req) (rq_mtime req)) else ret ()) (\<lambda>_.
     ret ()))"
  obtain r u where ru: "send_op tg ?op s = (r, u)" by force
  hence "?op \<in> set (sf_ops u)" using send_op_ops [of tg ?op s] by simp
  moreover have "set (sf_ops u) \<subseteq> set (sf_ops (snd (rest u)))" unfolding rest_def by (intro more) simp
  moreover have "setstat tg req s = abind (send_op tg ?op) (\<lambda>_. rest) s"
    using assms(2) by (simp add: setstat_def rest_def)
  ultimately have "?op \<in> set (sf_ops (snd (setstat tg req s)))" using ru by (cases r) (auto simp: abind_app)
  thus ?thesis using assms checkPath_exact [of policy "rq_filepath req"] by (simp add: Filecmd_def Let_def abind_app)
qed

definition sftp_start :: "'t \<Rightarrow> 't sftp_state" where
  "sftp_start t = \<lparr>sf_target = t, sf_ops = [], sf_audits = []\<rparr>"

text \<open>
  C20: Whatever a user requests in a session, the target is only ever sent operations on paths
  the deny list permits, source and destination of a renaming alike (the paths as written:
  links on the target are not resolved); every opened, deleted, renamed or created file is
  recorded, in order; and under a positive size limit a write at a non-negative offset ends
  within the limit, provided a signed 64 bit number can hold its end.  The limit does not
  hold beyond that: a write whose end overflows is sent to the target, and a \<open>Setstat\<close> of a
  permitted path sets any size.
\<close>

theorem sftp_obeys_policy:
  assumes "fold (serve_call tg policy) calls (sftp_start t, []) = (s, files)"
  shows "list_all (\<lambda>op. list_all (permitted policy) (op_paths op)) (sf_ops s) \<and>
         map (\<lambda>(act, resource, detail). resource) (sf_audits s) = concat (map op_resource (sf_ops s)) \<and>
         (\<forall>p data off. OpWriteAt p data off \<in> set (sf_ops s) \<and> 0 < MaxFileSize policy \<and>
            0 \<le> off \<and> off + int (length data) < 2 ^ 63 \<longrightarrow> off + int (length data) \<le> MaxFileSize policy) \<and>
         (\<forall>i p c. i < length files \<and> files ! i = LimitedWriter p (MaxFileSize policy) \<and> 0 < MaxFileSize policy \<longrightarrow>
            sf_ops (fst (serve_call tg policy (WriteTo i [c] (2 ^ 63 - 1)) (s, files))) =
              sf_ops s @ [OpWriteAt p [c] (2 ^ 63 - 1)]) \<and>
         (\<forall>req. rq_method req = ''Setstat'' \<and> rq_has_size req \<and> permitted policy (rq_filepath req) \<longrightarrow>
            OpTruncate (rq_filepath req) (sint (rq_size req)) \<in>
              set (sf_ops (fst (serve_call tg policy (Cmd req) (s, files)))))"
proof -
  have "session_ok policy s \<and> list_all (file_ok policy) files"
    if "session_ok policy u" "list_all (file_ok policy) fs"
      "fold (serve_call tg policy) calls (u, fs) = (s, files)" for u fs
    using that
  proof (induction calls arbitrary: u fs)
    case (Cons c calls)
    obtain v gs where step: "serve_call tg policy c (u, fs) = (v, gs)"
      by (cases "serve_call tg policy c (u, fs)")
    have "session_ok policy v \<and> list_all (file_ok policy) gs"
      using serve_call_ok [OF Cons.prems(1,2) step] .
    thus ?case using Cons.IH [of v gs] Cons.prems(3) step by simp
  qed simp
  note run = this
  have "session_ok policy (sftp_start t)" by (simp add: sftp_start_def session_ok_def)
  hence ok: "session_ok policy s" using run [OF _ _ assms] by simp
  have sized: "off + int (length data) \<le> MaxFileSize policy"
    if "OpWriteAt p data off \<in> set (sf_ops s)" "0 < MaxFileSize policy" "0 \<le> off"
      "off + int (length data) < 2 ^ 63" for p data off
  proof -
    have "wrap64 (off + int (length data)) \<le> MaxFileSize policy"
      using ok that(1,2) by (auto simp: session_ok_def list_all_iff op_ok_def op_sized_def)
    moreover have "wrap64 (off + int (length data)) = off + int (length data)"
      by (rule wrap64_id) (use that in \<open>simp add: int64_range_def\<close>)
    ultimately show ?thesis by simp
  qed
  have "wrap64 (2 ^ 63 - 1 + int (length [c])) = - (2 ^ 63)" using wrap64_over [of "2 ^ 63"] by simp
  hence over: "sf_ops (fst (serve_call tg policy (WriteTo i [c] (2 ^ 63 - 1)) (s, files))) =
      sf_ops s @ [OpWriteAt p [c] (2 ^ 63 - 1)]"
    if "i < length files" "files ! i = LimitedWriter p (MaxFileSize policy)" "0 < MaxFileSize policy" for i p c
    using that by (simp add: WriteAt_def send_op_def split: prod.split)
  show ?thesis
  proof (intro conjI allI impI)
    show "list_all (\<lambda>op. list_all (permitted policy) (op_paths op)) (sf_ops s)"
      using ok by (auto simp: session_ok_def op_ok_def list_all_iff)
    show "map (\<lambda>(act, resource, detail). resource) (sf_audits s) = concat (map op_resource (sf_ops s))"
      using ok by (simp add: session_ok_def)
  qed (use sized over Setstat_sent in auto)
qed

definition sample_target :: "unit sftp_target" where
  "sample_target = \<lparr>tg_do = \<lambda>op t. (None, t), tg_list = \<lambda>p t. [],
                    tg_info = \<lambda>p t. \<lparr>fi_name = '''', fi_size = 0, fi_dir = False\<rparr>\<rparr>"

definition sample_policy :: sftp_policy where
  "sample_policy = \<lparr>MaxFileSize = 4, DenyPaths = [''/etc/shadow'']\<rparr>"

definition sample_request :: sftp_request where
  "sample_request = \<lparr>rq_method = ''Put'', rq_filepath = ''/tmp/a'', rq_target = '''',
     rq_flags = \<lparr>fl_read = False, fl_write = True, fl_append = False, fl_creat = True,
                 fl_trunc = False, fl_excl = False\<rparr>,
     rq_has_size = False, rq_has_mode = False, rq_has_times = False,
     rq_size = 0, rq_mode = 0, rq_atime = 0, rq_mtime = 0\<rparr>"

lemma sample_policy_check: "checkPath sample_policy ''/tmp/a'' = Inr ()"
  and sample_policy_denies: "checkPath sample_policy ''/tmp/../etc/./shadow'' = Inl ''path denied by policy''"
proof -
  have "trim_space ''/etc/shadow'' = ''/etc/shadow''" by (rule trim_space_solid) (simp add: solid_def)
  moreover have "walk ''/etc/shadow'' = [''etc'', ''shadow'']" "walk ''/tmp/a'' = [''tmp'', ''a'']"
    "walk ''/tmp/../etc/./shadow'' = [''etc'', ''shadow'']"
    by code_simp+
  ultimately have p: "permitted sample_policy ''/tmp/a''" "\<not> permitted sample_policy ''/tmp/../etc/./shadow''"
    by (simp_all add: permitted_def sample_policy_def covers_def beneath_def)
  thus "checkPath sample_policy ''/tmp/a'' = Inr ()" using checkPath_exact by blast
  show "checkPath sample_policy ''/tmp/../etc/./shadow'' = Inl ''path denied by policy''"
  proof (cases "checkPath sample_policy ''/tmp/../etc/./shadow''")
    case (Inl e)
    thus ?thesis by (simp add: checkPath_def Let_def split: if_splits)
  next
    case (Inr u)
    thus ?thesis using p(2) checkPath_exact by simp
  qed
qed

theorem sftp_obeys_policy_witness:
  "\<exists>s files. fold (serve_call sample_target sample_policy) [Put sample_request, WriteTo 0 ''hello'' 0]
      (sftp_start (), []) = (s, files) \<and> map (\<lambda>(act, resource, detail). resource) (sf_audits s) = [''/tmp/a'']"
proof -
  let ?calls = "[Put sample_request, WriteTo 0 ''hello'' 0]"
  have w: "wrap64 5 = 5" by (rule wrap64_id) (simp add: int64_range_def)
  have run: "fold (serve_call sample_target sample_policy) ?calls (sftp_start (), []) =
      (\<lparr>sf_target = (), sf_ops = [OpOpenFile ''/tmp/a'' (openFlags (rq_flags sample_request))],
        sf_audits = [(''upload'', ''/tmp/a'', '''')]\<rparr>, [LimitedWriter ''/tmp/a'' 4])"
    using sample_policy_check w
    by (simp add: Filewrite_def abind_app auditAction_def send_op_def sample_target_def sample_request_def
        sample_policy_def sftp_start_def add_file_def WriteAt_def)
  from sftp_obeys_policy [OF run] run show ?thesis by simp
qed

text \<open>A listing read page by page, with any buffer, is complete and without repetitions.\<close>

function list_pages :: "file_info list \<Rightarrow> nat \<Rightarrow> nat \<Rightarrow> file_info list" where
  "list_pages files n offset =
     (case ListAt files (Suc n) (int offset) of
        None \<Rightarrow> []
      | Some (out, eof) \<Rightarrow> if eof then out else out @ list_pages files n (offset + length out))"
  by pat_completeness auto
termination
  by (relation "measure (\<lambda>(files, n, offset). length files - offset)")
    (auto simp: ListAt_def Let_def split: if_splits)

declare list_pages.simps [simp del]

lemma list_pages_complete: "list_pages files n offset = drop offset files"
proof (induction files n offset rule: list_pages.induct)
  case (1 files n offset)
  show ?case
  proof (cases "length files \<le> offset + Suc n")
    case True
    thus ?thesis by (auto simp: list_pages.simps [of files n offset] ListAt_def Let_def min_def)
  next
    case False
    hence l: "ListAt files (Suc n) (int offset) = Some (take (Suc n) (drop offset files), False)"
      by (simp add: ListAt_def Let_def)
    have n: "length (take (Suc n) (drop offset files)) = Suc n" using False by simp
    have "list_pages files n (offset + Suc n) = drop (offset + Suc n) files"
      using 1 [OF l refl] n by simp
    hence "list_pages files n offset = take (Suc n) (drop offset files) @ drop (offset + Suc n) files"
      using l n by (simp add: list_pages.simps [of files n offset])
    also have "drop (offset + Suc n) files = drop (Suc n) (drop offset files)"
      by (simp add: add.commute)
    finally show ?thesis by (simp only: append_take_drop_id)
  qed
qed

end
