(* ===== verification/SshServer.thy ===== *)
theory SshServer
  imports Sftp SshFilter NetAddr
begin

text \<open>
  The SSH proxy's handlers (\<open>proxy/ssh/server.go\<close>, \<open>client.go\<close>, \<open>session_watch.go\<close>,
  \<open>websocket.go\<close>).  A handler is the list of what it does, in order, deferred calls
  included, for given answers of the API, the target and the recorder; these answers are the
  record \<open>ssh_env\<close>.  The slots of the dialer are a counter (\<open>DbTypes\<close>).
\<close>

section \<open>Types (client.go)\<close>

record ssh_account =
  sa_username :: string
  sa_secret :: string
  sa_secret_type :: string
  sa_ssh_key_type :: string
  sa_passphrase :: string
  sa_su_enabled :: bool
  sa_su_method :: string
  sa_su_account_id :: "int option"
  sa_db_name :: string

record ssh_info =
  in_user :: int
  in_asset :: int
  in_account :: int
  in_protocol :: string
  in_type :: string
  in_method :: string
  in_remote :: string

record ssh_auth =
  au_target :: targetConfig
  au_account :: ssh_account
  au_user_id :: int
  au_asset_id :: int
  au_account_id :: int

section \<open>The dialer (client.go)\<close>

text \<open>Signers and the parsing of keys are the library's.\<close>

datatype 'k auth_method = PublicKeys 'k | Password string

definition parseSSHPrivateKey ::
    "(string \<Rightarrow> string + 'k) \<Rightarrow> (string \<Rightarrow> string \<Rightarrow> string + 'k) \<Rightarrow> string \<Rightarrow> string \<Rightarrow> string + 'k" where
  "parseSSHPrivateKey parse parse_with raw passphrase =
     (if passphrase \<noteq> '''' then parse_with raw passphrase else parse raw)"

definition buildAuthMethods ::
    "(string \<Rightarrow> string + 'k) \<Rightarrow> (string \<Rightarrow> string \<Rightarrow> string + 'k) \<Rightarrow> ssh_account \<Rightarrow>
     string + 'k auth_method list" where
  "buildAuthMethods parse parse_with a =
     (if sa_secret_type a = ''ssh_key'' then
        rbind (parseSSHPrivateKey parse parse_with (sa_secret a) (sa_passphrase a)) (\<lambda>key. Inr [PublicKeys key])
      else if sa_secret_type a = ''password'' \<or> sa_secret_type a = '''' then Inr [Password (sa_secret a)]
      else Inl (''unsupported credential type: '' @ sa_secret_type a))"

text \<open>What is dialled: the address, the login and the methods.\<close>

definition dialSSH ::
    "(string \<Rightarrow> string + 'k) \<Rightarrow> (string \<Rightarrow> string \<Rightarrow> string + 'k) \<Rightarrow>
     (string \<Rightarrow> string \<Rightarrow> 'k auth_method list \<Rightarrow> string option) \<Rightarrow> targetConfig \<Rightarrow> ssh_account \<Rightarrow> string option" where
  "dialSSH parse parse_with connect target a =
     (case buildAuthMethods parse parse_with a of
        Inl e \<Rightarrow> Some e
      | Inr auths \<Rightarrow> connect (JoinHostPort (Address target) (show_int (Port target))) (sa_username a) auths)"

section \<open>Waiting for the end (session_watch.go)\<close>

text \<open>
  The watcher polls at every tick; an error is ignored.  The result is how often the close
  functions have run when the events are over.
\<close>

datatype watch_event = Tick "string + bool" | Cancelled

fun watchSessionFinish :: "watch_event list \<Rightarrow> nat" where
  "watchSessionFinish [] = 0"
| "watchSessionFinish (Cancelled # es) = 0"
| "watchSessionFinish (Tick (Inl e) # es) = watchSessionFinish es"
| "watchSessionFinish (Tick (Inr is_finished) # es) = (if is_finished then 1 else watchSessionFinish es)"

lemma watch_closes_iff:
  "watchSessionFinish es = (if \<exists>us vs. es = us @ Tick (Inr True) # vs \<and> Cancelled \<notin> set us then 1 else 0)"
proof (induction es rule: watchSessionFinish.induct)
  case 1
  thus ?case by simp
next
  case (2 es)
  thus ?case by (auto simp: Cons_eq_append_conv)
next
  case (3 e es)
  have "(\<exists>us vs. Tick (Inl e) # es = us @ Tick (Inr True) # vs \<and> Cancelled \<notin> set us) \<longleftrightarrow>
        (\<exists>us vs. es = us @ Tick (Inr True) # vs \<and> Cancelled \<notin> set us)"
    by (auto simp: Cons_eq_append_conv)
      (metis append_Cons list.set_intros(2) set_ConsD watch_event.distinct(1))
  thus ?case using 3 by simp
next
  case (4 f es)
  have "(\<exists>us vs. Tick (Inr False) # es = us @ Tick (Inr True) # vs \<and> Cancelled \<notin> set us) \<longleftrightarrow>
        (\<exists>us vs. es = us @ Tick (Inr True) # vs \<and> Cancelled \<notin> set us)"
    by (auto simp: Cons_eq_append_conv)
      (metis append_Cons list.set_intros(2) set_ConsD watch_event.distinct(1))
  moreover have "\<exists>us vs. Tick (Inr True) # es = us @ Tick (Inr True) # vs \<and> Cancelled \<notin> set us"
    by (rule exI [of _ "[]"]) simp
  ultimately show ?case using 4 by (cases f) simp_all
qed

section \<open>Host keys (server.go)\<close>

text \<open>
  Up to 20 attempts: \<open>answer i\<close> is the API's answer to the \<open>i\<close>th, \<open>ctx_err i\<close> tells whether
  the context ended in the pause after it.  The error of no attempt at all is \<open>None\<close>.
\<close>

fun retry :: "(nat \<Rightarrow> 'e + 'a) \<Rightarrow> (nat \<Rightarrow> 'e option) \<Rightarrow> nat \<Rightarrow> nat \<Rightarrow> 'e option \<Rightarrow> 'e option + 'a" where
  "retry answer ctx_err i 0 last_err = Inl last_err"
| "retry answer ctx_err i (Suc n) last_err =
     (case answer i of
        Inr keys \<Rightarrow> Inr keys
      | Inl e \<Rightarrow>
          (case ctx_err i of
             Some c \<Rightarrow> Inl (Some c)
           | None \<Rightarrow> retry answer ctx_err (Suc i) n (Some e)))"

definition getHostKeysWithRetry :: "(nat \<Rightarrow> 'e + 'k list) \<Rightarrow> (nat \<Rightarrow> 'e option) \<Rightarrow> 'e option + 'k list" where
  "getHostKeysWithRetry answer ctx_err = retry answer ctx_err 0 20 None"

section \<open>What a handler does\<close>

datatype ssh_event =
    Verify string string
  | Dial targetConfig ssh_account
  | DialTCP string
  | SftpClient
  | GetSetting string
  | CreateSession ssh_info
  | FinishSession int string
  | Recording string int int
  | CloseRecording
  | NewSession
  | CloseSession
  | CloseClient
  | CloseTarget
  | CloseSftp
  | StartWatch int
  | StopWatch
  | RequestPty
  | Bridge "compiled_rule list option"
  | BridgeUnfiltered
  | Relay
  | AuditCommand int string string
  | Exec string
  | Shell
  | Wait
  | Serve sftp_policy
  | Say string
  | Exit int
  | Reject string
  | CloseSocket string
  | Release

record ssh_env =
  se_verify :: "string \<Rightarrow> string \<Rightarrow> string + ssh_auth"
  se_dial :: "targetConfig \<Rightarrow> ssh_account \<Rightarrow> string option"
  se_dial_tcp :: "string \<Rightarrow> string option"
  se_sftp :: "string option"
  se_setting :: "string \<Rightarrow> string + string"
  se_create :: "ssh_info \<Rightarrow> string + int"
  se_cast :: "string \<Rightarrow> string option"
  se_new_session :: "string option"
  se_pty :: "string option"
  se_rules :: "compiled_rule list option"
  se_start :: "string \<Rightarrow> string option"
  se_shell :: "string option"
  se_channel :: "string option"
  se_accept :: "string option"

text \<open>The client's side of a session: its address, its terminal (columns, rows) and its command.\<close>

record ssh_session =
  ss_remote :: string
  ss_pty :: "(int \<times> int) option"
  ss_raw :: string

text \<open>
  The password is a connection token; the context of the connection keeps what it was
  verified for.
\<close>

definition ssh_token :: "string \<Rightarrow> string \<Rightarrow> string" where
  "ssh_token username password =
     (let extracted = extractConnectionToken username password
      in if extracted \<noteq> '''' then extracted else password)"

definition passwordHandler :: "ssh_env \<Rightarrow> string \<Rightarrow> string \<Rightarrow> string \<Rightarrow> ssh_auth option" where
  "passwordHandler env remote username password =
     (case se_verify env (ssh_token username password) remote of Inl e \<Rightarrow> None | Inr auth \<Rightarrow> Some auth)"

definition session_info :: "ssh_auth \<Rightarrow> string \<Rightarrow> string \<Rightarrow> string \<Rightarrow> ssh_info" where
  "session_info auth ty method remote =
     \<lparr>in_user = au_user_id auth, in_asset = au_asset_id auth, in_account = au_account_id auth,
      in_protocol = ''ssh'', in_type = ty, in_method = method, in_remote = remote\<rparr>"

definition rec_base :: "ssh_env \<Rightarrow> string" where
  "rec_base env =
     (case se_setting env ''recording.local.path'' of
        Inr raw \<Rightarrow> parseSettingString raw ''./recordings''
      | Inl _ \<Rightarrow> ''./recordings'')"

text \<open>\<open>filepath.Join\<close> leaves out an empty element.\<close>

definition rec_path :: "ssh_env \<Rightarrow> int \<Rightarrow> string" where
  "rec_path env sid =
     (let file = show_int sid @ ''.cast''
      in path_clean (if rec_base env = '''' then file else rec_base env @ ''/'' @ file))"

text \<open>\<open>json.Marshal\<close> of a map writes the keys in order.\<close>

definition command_detail :: "int \<Rightarrow> string \<Rightarrow> string" where
  "command_detail sid raw =
     ''{'' @ json_text ''command'' @ '':'' @ json_text raw @ '','' @ json_text ''session_id'' @ '':'' @
     show_int sid @ ''}''"

text \<open>From the remote session on; the last part is what was deferred.\<close>

definition run_command :: "ssh_env \<Rightarrow> int \<Rightarrow> int \<Rightarrow> ssh_session \<Rightarrow> ssh_event list" where
  "run_command env uid sid sess =
     (if ss_raw sess \<noteq> '''' then
        AuditCommand uid (ss_remote sess) (command_detail sid (ss_raw sess)) #
        (case se_start env (ss_raw sess) of
           Some e \<Rightarrow> [Exec (ss_raw sess), Say (''exec failed: '' @ e), Exit 1]
         | None \<Rightarrow> [Exec (ss_raw sess), Wait, Exit 0])
      else
        (case se_shell env of
           Some e \<Rightarrow> [Shell, Say (''shell failed: '' @ e), Exit 1]
         | None \<Rightarrow> [Shell, Wait, Exit 0]))"

definition remote_session :: "ssh_env \<Rightarrow> int \<Rightarrow> int \<Rightarrow> ssh_session \<Rightarrow> ssh_event list" where
  "remote_session env uid sid sess =
     (case se_new_session env of
        Some e \<Rightarrow> [NewSession, Say (''target session failed: '' @ e), Exit 1]
      | None \<Rightarrow>
          [NewSession, StartWatch sid] @
          (if ss_pty sess \<noteq> None \<and> se_pty env \<noteq> None
           then [RequestPty, Say (''pty failed: '' @ the (se_pty env)), Exit 1]
           else (if ss_pty sess = None then [] else [RequestPty]) @
                [Bridge (se_rules env)] @ run_command env uid sid sess) @
          [StopWatch, CloseSession])"

text \<open>
  \<open>FinishSession\<close> is the call that the handler makes, with the context of the client's session.  The
  SSH library cancels that context when the client disconnects; the call then fails, its error is
  dropped, and the API is not told.
\<close>

definition recorded_session :: "ssh_env \<Rightarrow> int \<Rightarrow> int \<Rightarrow> ssh_session \<Rightarrow> ssh_event list" where
  "recorded_session env uid sid sess =
     (let (w, h) = (case ss_pty sess of Some wh \<Rightarrow> wh | None \<Rightarrow> (80, 24));
          path = rec_path env sid
      in [GetSetting ''recording.local.path'', Recording path w h] @ remote_session env uid sid sess @
         (if se_cast env path = None then [CloseRecording] else []) @ [FinishSession sid path])"

definition handleSession ::
    "ssh_env \<Rightarrow> ssh_auth option \<Rightarrow> ssh_session \<Rightarrow> limiter \<Rightarrow> ssh_event list \<times> limiter" where
  "handleSession env ctx sess l =
     (case ctx of
        None \<Rightarrow> ([Say ''missing auth target'', Exit 1], l)
      | Some auth \<Rightarrow>
          (case acquire l of
             (False, l) \<Rightarrow> ([Say ''too many connections'', Exit 1], l)
           | (True, l) \<Rightarrow>
               ((case se_dial env (au_target auth) (au_account auth) of
                   Some e \<Rightarrow>
                     [Dial (au_target auth) (au_account auth), Say (''connect target failed: '' @ e), Exit 1]
                 | None \<Rightarrow>
                     let info = session_info auth ''normal'' ''ssh_client'' (ss_remote sess)
                     in [Dial (au_target auth) (au_account auth), CreateSession info] @
                        (case se_create env info of
                           Inl e \<Rightarrow> [Say (''create session failed: '' @ e), Exit 1]
                         | Inr sid \<Rightarrow> recorded_session env (au_user_id auth) sid sess) @
                        [CloseClient]) @ [Release], release l)))"

text \<open>
  A tunnel.  The destination the client asks for is parsed and not used; \<open>se_channel\<close> is the
  error of the parser.  The copying of the two directions is started, not waited for.
\<close>

definition directTCPIPHandler ::
    "ssh_env \<Rightarrow> ssh_auth option \<Rightarrow> string \<Rightarrow> limiter \<Rightarrow> ssh_event list \<times> limiter" where
  "directTCPIPHandler env ctx remote l =
     (case acquire l of
        (False, l) \<Rightarrow> ([Reject ''too many connections''], l)
      | (True, l) \<Rightarrow>
          ((case ctx of
              None \<Rightarrow> [Reject ''missing token target'']
            | Some auth \<Rightarrow>
                let addr = JoinHostPort (Address (au_target auth)) (show_int (Port (au_target auth)));
                    info = session_info auth ''tunnel'' ''ssh_client'' remote
                in case se_channel env of
                     Some e \<Rightarrow> [Reject e]
                   | None \<Rightarrow>
                       (case se_dial_tcp env addr of
                          Some e \<Rightarrow> [DialTCP addr, Reject e]
                        | None \<Rightarrow>
                            if se_accept env \<noteq> None then [DialTCP addr, CloseTarget]
                            else [DialTCP addr, CreateSession info] @
                                 (case se_create env info of
                                    Inl e \<Rightarrow> [Relay]
                                  | Inr sid \<Rightarrow> [StartWatch sid, Relay, StopWatch, FinishSession sid '''']))) @
           [Release], release l))"

definition setting_or_empty :: "ssh_env \<Rightarrow> string \<Rightarrow> string" where
  "setting_or_empty env key = (case se_setting env key of Inr v \<Rightarrow> v | Inl _ \<Rightarrow> '''')"

definition sftpSubsystemHandler :: "ssh_env \<Rightarrow> ssh_auth option \<Rightarrow> string \<Rightarrow> ssh_event list" where
  "sftpSubsystemHandler env ctx remote =
     (case ctx of
        None \<Rightarrow> [Say ''missing auth target'']
      | Some auth \<Rightarrow>
          (case se_dial env (au_target auth) (au_account auth) of
             Some e \<Rightarrow> [Dial (au_target auth) (au_account auth), Say e]
           | None \<Rightarrow>
               [Dial (au_target auth) (au_account auth), SftpClient] @
               (case se_sftp env of
                  Some e \<Rightarrow> [Say e]
                | None \<Rightarrow>
                    let info = session_info auth ''sftp'' ''ssh_client'' remote;
                        policy = parseSFTPPolicy (setting_or_empty env ''sftp.max_file_size'')
                                   (setting_or_empty env ''sftp.deny_paths'')
                    in [GetSetting ''sftp.max_file_size'', GetSetting ''sftp.deny_paths'', CreateSession info] @
                       (case se_create env info of
                          Inl e \<Rightarrow> [Serve policy]
                        | Inr sid \<Rightarrow> [StartWatch sid, Serve policy, StopWatch, FinishSession sid '''']) @
                       [CloseSftp]) @
               [CloseClient]))"

text \<open>The browser's terminal (websocket.go); \<open>closeSession\<close> closes all three connections.\<close>

definition web_shell :: "ssh_env \<Rightarrow> int \<Rightarrow> ssh_event list" where
  "web_shell env sid =
     (case se_new_session env of
        Some e \<Rightarrow> [NewSession, CloseSocket e]
      | None \<Rightarrow>
          [NewSession, StartWatch sid, RequestPty] @
          (case se_pty env of
             Some e \<Rightarrow> [CloseSocket e]
           | None \<Rightarrow>
               (case se_shell env of
                  Some e \<Rightarrow> [Shell, CloseSocket e]
                | None \<Rightarrow> [Shell, BridgeUnfiltered, Wait, CloseSession, CloseClient, CloseSocket ''''])) @
          [StopWatch, CloseSession])"

definition web_session :: "ssh_env \<Rightarrow> int \<Rightarrow> ssh_event list" where
  "web_session env sid =
     (let path = rec_path env sid
      in [GetSetting ''recording.local.path'', Recording path 80 24] @
         (case se_cast env path of
            Some e \<Rightarrow> [CloseSocket (''create recording failed: '' @ e), FinishSession sid '''']
          | None \<Rightarrow> web_shell env sid @ [CloseRecording, FinishSession sid path]))"

definition web_verified :: "ssh_env \<Rightarrow> ssh_auth \<Rightarrow> string \<Rightarrow> limiter \<Rightarrow> ssh_event list \<times> limiter" where
  "web_verified env auth remote l =
     (if to_lower (Protocol (au_target auth)) \<noteq> ''ssh''
      then ([CloseSocket ''connection token protocol is not ssh''], l)
      else case acquire l of
             (False, l) \<Rightarrow> ([CloseSocket ''too many connections''], l)
           | (True, l) \<Rightarrow>
               (Dial (au_target auth) (au_account auth) #
                (case se_dial env (au_target auth) (au_account auth) of
                   Some e \<Rightarrow> [CloseSocket e]
                 | None \<Rightarrow>
                     let info = session_info auth ''normal'' ''web_cli'' remote
                     in CreateSession info #
                        (case se_create env info of
                           Inl e \<Rightarrow> [CloseSocket e]
                         | Inr sid \<Rightarrow> web_session env sid) @
                        [CloseClient]) @ [Release], release l))"

definition ServeHTTP :: "ssh_env \<Rightarrow> string \<Rightarrow> string \<Rightarrow> limiter \<Rightarrow> ssh_event list \<times> limiter" where
  "ServeHTTP env token remote l =
     (if token = '''' then ([Reject ''token required''], l)
      else if se_accept env \<noteq> None then ([], l)
      else let (evs, l) = (case se_verify env token remote of
                             Inl e \<Rightarrow> ([CloseSocket e], l)
                           | Inr auth \<Rightarrow> web_verified env auth remote l)
           in (Verify token remote # evs @ [CloseSocket ''''], l))"

text \<open>
  What the browser sends.  \<open>decode\<close> is \<open>json.Unmarshal\<close> into the message structure, \<open>None\<close> on
  an error.  A text that is no message, or one without data, is typed as it is.
\<close>

record ws_message =
  wm_type :: string
  wm_data :: string
  wm_rows :: int
  wm_cols :: int

datatype ws_frame = BinaryFrame string | TextFrame string | OtherFrame

datatype ws_action = Stdin string | WindowChange int int | Unsupported

fun copyWSInput :: "(string \<Rightarrow> ws_message option) \<Rightarrow> ws_frame list \<Rightarrow> ws_action list" where
  "copyWSInput decode [] = []"
| "copyWSInput decode (BinaryFrame data # fs) = Stdin data # copyWSInput decode fs"
| "copyWSInput decode (TextFrame data # fs) =
     (case decode data of
        Some msg \<Rightarrow>
          if wm_type msg = ''resize'' then
            (if 0 < wm_rows msg \<and> 0 < wm_cols msg then [WindowChange (wm_rows msg) (wm_cols msg)] else []) @
            copyWSInput decode fs
          else if wm_data msg \<noteq> '''' then Stdin (wm_data msg) # copyWSInput decode fs
          else Stdin data # copyWSInput decode fs
      | None \<Rightarrow> Stdin data # copyWSInput decode fs)"
| "copyWSInput decode (OtherFrame # fs) = [Unsupported]"

section \<open>What every connection keeps to\<close>

datatype channel = SessionChannel ssh_session | TunnelChannel | SftpChannel

fun serve_channel ::
    "ssh_env \<Rightarrow> ssh_auth option \<Rightarrow> string \<Rightarrow> channel \<Rightarrow> ssh_event list \<times> limiter \<Rightarrow> ssh_event list \<times> limiter" where
  "serve_channel env ctx remote (SessionChannel sess) (evs, l) =
     (let (more, l) = handleSession env ctx sess l in (evs @ more, l))"
| "serve_channel env ctx remote TunnelChannel (evs, l) =
     (let (more, l) = directTCPIPHandler env ctx remote l in (evs @ more, l))"
| "serve_channel env ctx remote SftpChannel (evs, l) = (evs @ sftpSubsystemHandler env ctx remote, l)"

text \<open>The library opens channels only on a connection whose password was accepted.\<close>

definition ssh_connection ::
    "ssh_env \<Rightarrow> string \<Rightarrow> string \<Rightarrow> string \<Rightarrow> channel list \<Rightarrow> limiter \<Rightarrow> ssh_event list \<times> limiter" where
  "ssh_connection env remote username password chans l =
     (let first = [Verify (ssh_token username password) remote]
      in case passwordHandler env remote username password of
           None \<Rightarrow> (first, l)
         | Some auth \<Rightarrow> fold (serve_channel env (Some auth) remote) chans (first, l))"

text \<open>What only a verified token may cause, and for whom.\<close>

fun event_ok :: "ssh_auth \<Rightarrow> ssh_event \<Rightarrow> bool" where
  "event_ok auth (Dial t a) = (t = au_target auth \<and> a = au_account auth)"
| "event_ok auth (DialTCP addr) =
     (addr = JoinHostPort (Address (au_target auth)) (show_int (Port (au_target auth))))"
| "event_ok auth (CreateSession info) =
     (in_user info = au_user_id auth \<and> in_asset info = au_asset_id auth \<and> in_account info = au_account_id auth)"
| "event_ok auth (AuditCommand uid remote detail) = (uid = au_user_id auth)"
| "event_ok auth _ = True"

fun open_event :: "ssh_event \<Rightarrow> bool" where
  "open_event (Verify token remote) = True"
| "open_event (CloseSocket reason) = True"
| "open_event (Reject reason) = True"
| "open_event _ = False"

definition created_sessions :: "ssh_env \<Rightarrow> ssh_event list \<Rightarrow> int list" where
  "created_sessions env evs =
     List.map_filter (\<lambda>e. case e of CreateSession info \<Rightarrow> (case se_create env info of Inr sid \<Rightarrow> Some sid | Inl _ \<Rightarrow> None)
                                   | _ \<Rightarrow> None) evs"

definition finished_sessions :: "ssh_event list \<Rightarrow> int list" where
  "finished_sessions evs =
     List.map_filter (\<lambda>e. case e of FinishSession sid path \<Rightarrow> Some sid | _ \<Rightarrow> None) evs"

lemma created_append: "created_sessions env (a @ b) = created_sessions env a @ created_sessions env b"
  by (simp add: created_sessions_def List.map_filter_def)

lemma finished_append: "finished_sessions (a @ b) = finished_sessions a @ finished_sessions b"
  by (simp add: finished_sessions_def List.map_filter_def)

lemmas session_lists = created_sessions_def finished_sessions_def List.map_filter_def

definition quiet :: "ssh_event list \<Rightarrow> bool" where
  "quiet evs = list_all (\<lambda>e. case e of CreateSession _ \<Rightarrow> False | FinishSession _ _ \<Rightarrow> False | _ \<Rightarrow> True) evs"

lemma quiet_lists: "quiet evs \<Longrightarrow> created_sessions env evs = [] \<and> finished_sessions evs = []"
proof (induction evs)
  case (Cons e evs)
  thus ?case by (cases e) (simp_all add: quiet_def session_lists)
qed (simp add: session_lists)

definition handler_ok :: "ssh_env \<Rightarrow> ssh_auth \<Rightarrow> ssh_event list \<Rightarrow> bool" where
  "handler_ok env auth evs =
     (list_all (event_ok auth) evs \<and> finished_sessions evs = created_sessions env evs)"

lemma handler_ok_append: "handler_ok env auth a \<Longrightarrow> handler_ok env auth b \<Longrightarrow> handler_ok env auth (a @ b)"
  by (simp add: handler_ok_def created_append finished_append)

lemma acquired: "acquire l = (ok, l') \<Longrightarrow> if ok then release l' = l else l' = l"
  by (auto simp: acquire_def release_def split: if_splits)

lemma remote_session_quiet:
  "quiet (remote_session env (au_user_id auth) sid sess) \<and>
   list_all (event_ok auth) (remote_session env (au_user_id auth) sid sess)"
  by (auto simp: remote_session_def run_command_def quiet_def split: option.split)

lemma recorded_session_ok:
  "finished_sessions (recorded_session env (au_user_id auth) sid sess) = [sid] \<and>
   created_sessions env (recorded_session env (au_user_id auth) sid sess) = [] \<and>
   list_all (event_ok auth) (recorded_session env (au_user_id auth) sid sess)"
  using remote_session_quiet [of env auth sid sess]
    quiet_lists [of "remote_session env (au_user_id auth) sid sess" env]
  by (auto simp: recorded_session_def Let_def created_append finished_append session_lists split: option.split prod.split)

lemma handleSession_ok:
  assumes "handleSession env (Some auth) sess l = (evs, l')"
  shows "handler_ok env auth evs \<and> l' = l"
proof (cases "acquire l")
  case (Pair ok m)
  show ?thesis
  proof (cases ok)
    case False
    thus ?thesis using assms Pair acquired [OF Pair]
      by (auto simp: handleSession_def handler_ok_def session_lists)
  next
    case True
    let ?info = "session_info auth ''normal'' ''ssh_client'' (ss_remote sess)"
    have l': "l' = l" using assms Pair True acquired [OF Pair] by (auto simp: handleSession_def)
    show ?thesis
    proof (cases "se_dial env (au_target auth) (au_account auth)")
      case (Some e)
      thus ?thesis using assms Pair True l' by (auto simp: handleSession_def handler_ok_def session_lists)
    next
      case None
      have "evs = [Dial (au_target auth) (au_account auth), CreateSession ?info] @
          (case se_create env ?info of
             Inl e \<Rightarrow> [Say (''create session failed: '' @ e), Exit 1]
           | Inr sid \<Rightarrow> recorded_session env (au_user_id auth) sid sess) @ [CloseClient] @ [Release]"
        using assms Pair True None by (simp add: handleSession_def Let_def)
      moreover have "event_ok auth (CreateSession ?info)" by (simp add: session_info_def)
      ultimately show ?thesis using l' recorded_session_ok [of env auth _ sess]
        by (auto simp: handler_ok_def created_append finished_append session_lists split: sum.split)
    qed
  qed
qed

lemma directTCPIP_ok:
  assumes "directTCPIPHandler env (Some auth) remote l = (evs, l')"
  shows "handler_ok env auth evs \<and> l' = l"
proof (cases "acquire l")
  case (Pair ok m)
  have ids: "event_ok auth (CreateSession (session_info auth ''tunnel'' ''ssh_client'' remote))"
    by (simp add: session_info_def)
  show ?thesis
  proof (cases "ok \<and> se_channel env = None")
    case False
    thus ?thesis using assms Pair acquired [OF Pair]
      by (cases ok) (auto simp: directTCPIPHandler_def Let_def handler_ok_def session_lists)
  next
    case True
    show ?thesis using assms Pair acquired [OF Pair] ids True
      by (cases "se_dial_tcp env (JoinHostPort (Address (au_target auth)) (show_int (Port (au_target auth))))";
          cases "se_accept env"; cases "se_create env (session_info auth ''tunnel'' ''ssh_client'' remote)")
        (auto simp: directTCPIPHandler_def Let_def handler_ok_def session_lists)
  qed
qed

lemma sftpSubsystem_ok: "handler_ok env auth (sftpSubsystemHandler env (Some auth) remote)"
proof -
  have ids: "event_ok auth (CreateSession (session_info auth ''sftp'' ''ssh_client'' remote))"
    by (simp add: session_info_def)
  show ?thesis using ids
    by (auto simp: sftpSubsystemHandler_def Let_def handler_ok_def session_lists split: option.split sum.split)
qed

lemma serve_channel_ok:
  assumes "serve_channel env (Some auth) remote ch (evs, l) = (evs', l')"
  shows "(\<exists>more. evs' = evs @ more \<and> handler_ok env auth more) \<and> l' = l"
proof (cases ch)
  case (SessionChannel sess)
  obtain more m where "handleSession env (Some auth) sess l = (more, m)"
    by (cases "handleSession env (Some auth) sess l")
  thus ?thesis using assms SessionChannel handleSession_ok by fastforce
next
  case TunnelChannel
  obtain more m where "directTCPIPHandler env (Some auth) remote l = (more, m)"
    by (cases "directTCPIPHandler env (Some auth) remote l")
  thus ?thesis using assms TunnelChannel directTCPIP_ok by fastforce
next
  case SftpChannel
  thus ?thesis using assms sftpSubsystem_ok by fastforce
qed

lemma serve_channels_ok:
  "fold (serve_channel env (Some auth) remote) chans (evs, l) = (evs', l') \<Longrightarrow>
   (\<exists>more. evs' = evs @ more \<and> handler_ok env auth more) \<and> l' = l"
proof (induction chans arbitrary: evs l)
  case Nil
  thus ?case by (simp add: handler_ok_def session_lists)
next
  case (Cons ch chans)
  obtain e1 l1 where step: "serve_channel env (Some auth) remote ch (evs, l) = (e1, l1)"
    by (cases "serve_channel env (Some auth) remote ch (evs, l)")
  obtain m1 where m1: "e1 = evs @ m1" "handler_ok env auth m1" "l1 = l" using serve_channel_ok [OF step] by blast
  obtain m2 where m2: "evs' = e1 @ m2" "handler_ok env auth m2" "l' = l1"
    using Cons.IH [of e1 l1] Cons.prems step by auto
  show ?case using m1 m2 handler_ok_append by auto
qed

text \<open>
  C9: Everything an SSH connection makes the proxy do, in whatever channels, is covered by one
  verified token: without it nothing happens but the verification; with it only the target
  and the account of the token are dialled, sessions carry the user, the asset and the
  account of the token, every session the API created is finished, once, by the handler
  that created it, and every slot taken is given back.
\<close>

theorem ssh_connection_gated:
  assumes "ssh_connection env remote username password chans l = (evs, l')"
  shows "l' = l \<and> finished_sessions evs = created_sessions env evs \<and>
         (case se_verify env (ssh_token username password) remote of
            Inl e \<Rightarrow> evs = [Verify (ssh_token username password) remote]
          | Inr auth \<Rightarrow> list_all (event_ok auth) evs)"
proof (cases "se_verify env (ssh_token username password) remote")
  case (Inl e)
  thus ?thesis using assms by (auto simp: ssh_connection_def passwordHandler_def session_lists)
next
  case (Inr auth)
  hence "fold (serve_channel env (Some auth) remote) chans
      ([Verify (ssh_token username password) remote], l) = (evs, l')"
    using assms by (simp add: ssh_connection_def passwordHandler_def)
  then obtain more where more: "evs = Verify (ssh_token username password) remote # more"
    "handler_ok env auth more" "l' = l" using serve_channels_ok by fastforce
  thus ?thesis using Inr by (auto simp: handler_ok_def session_lists)
qed

text \<open>
  A tunnel is not counted: the handler starts the copying and returns, and what it deferred
  runs at once.  The session is reported as finished and the slot given back while the
  traffic goes on; with a single slot any number of tunnels can be open at a time, each with
  a session that is over.
\<close>

theorem tunnel_not_counted:
  assumes "chan_len l < chan_cap l" and "se_channel env = None" and "se_dial_tcp env = (\<lambda>_. None)"
    and "se_accept env = None" and "se_create env = (\<lambda>_. Inr sid)"
    and "fold (serve_channel env (Some auth) remote) (replicate n TunnelChannel) ([], l) = (evs, l')"
  shows "length (filter (\<lambda>e. e = Relay) evs) = n \<and> finished_sessions evs = replicate n sid \<and>
         fst (acquire l')"
proof -
  have one: "\<exists>more. serve_channel env (Some auth) remote TunnelChannel (evs, l) = (evs @ more, l) \<and>
      filter (\<lambda>e. e = Relay) more = [Relay] \<and> finished_sessions more = [sid]" for evs
    using assms(1-5) by (auto simp: directTCPIPHandler_def acquire_def release_def Let_def session_lists)
  have "length (filter (\<lambda>e. e = Relay) evs') = length (filter (\<lambda>e. e = Relay) evs) + n \<and>
      finished_sessions evs' = finished_sessions evs @ replicate n sid \<and> l' = l"
    if "fold (serve_channel env (Some auth) remote) (replicate n TunnelChannel) (evs, l) = (evs', l')" for evs evs' l'
    using that
  proof (induction n arbitrary: evs)
    case (Suc n)
    obtain more where more: "serve_channel env (Some auth) remote TunnelChannel (evs, l) = (evs @ more, l)"
      "filter (\<lambda>e. e = Relay) more = [Relay]" "finished_sessions more = [sid]" using one by blast
    hence "fold (serve_channel env (Some auth) remote) (replicate n TunnelChannel) (evs @ more, l) = (evs', l')"
      using Suc.prems by simp
    from Suc.IH [OF this] more show ?case by (simp add: finished_append replicate_append_same)
  qed simp
  from this [OF assms(6)] show ?thesis using assms(1) by (simp add: acquire_def session_lists)
qed

section \<open>The record of a command\<close>

text \<open>A reader of the entry's detail: the command and the number of the session.\<close>

definition detail_head :: string where
  "detail_head = ''{'' @ json_text ''command'' @ '':'' @ [chr 34]"

definition detail_mid :: string where
  "detail_mid = '','' @ json_text ''session_id'' @ '':''"

definition read_detail :: "string \<Rightarrow> (string \<times> int) option" where
  "read_detail s =
     (if \<not> has_prefix detail_head s then None
      else case unquote (drop (length detail_head) s) of
             None \<Rightarrow> None
           | Some (c, rest) \<Rightarrow>
               if \<not> has_prefix detail_mid rest then None
               else let number = drop (length detail_mid) rest
                    in if number = '''' \<or> last number \<noteq> CHR ''}'' then None
                       else map_option (\<lambda>n. (c, n)) (parse_int64 (butlast number)))"

lemma read_command_detail:
  assumes "utf8_valid (bytes_of c)" and "int64_range sid"
  shows "read_detail (command_detail sid c) = Some (c, sid)"
proof -
  have d: "command_detail sid c = detail_head @ json_escape c @ chr 34 # detail_mid @ show_int sid @ ''}''"
    by (simp add: command_detail_def detail_head_def detail_mid_def json_text_def [of c])
  have "unquote (json_escape c @ chr 34 # detail_mid @ show_int sid @ ''}'') =
      Some (c, detail_mid @ show_int sid @ ''}'')"
    by (rule json_text_read_back [OF assms(1)])
  moreover have "parse_int64 (show_int sid) = Some sid" using parse_show_int64 assms(2) by simp
  ultimately show ?thesis unfolding read_detail_def Let_def d by (simp add: butlast_append)
qed

definition exec_entry :: "int \<Rightarrow> ssh_session \<Rightarrow> int \<Rightarrow> ssh_event" where
  "exec_entry uid sess sid = AuditCommand uid (ss_remote sess) (command_detail sid (ss_raw sess))"

lemma remote_session_exec:
  assumes "Exec c \<in> set (remote_session env uid sid sess)"
  shows "c = ss_raw sess \<and> (\<exists>us vs. remote_session env uid sid sess = us @ [exec_entry uid sess sid, Exec c] @ vs)"
proof -
  have r: "Exec c \<in> set (run_command env uid sid sess)" "se_new_session env = None"
    "\<not> (ss_pty sess \<noteq> None \<and> se_pty env \<noteq> None)"
    using assms by (auto simp: remote_session_def split: option.splits if_splits)
  hence c: "c = ss_raw sess" "ss_raw sess \<noteq> ''''"
    by (auto simp: run_command_def split: option.splits if_splits)
  have "\<exists>vs. run_command env uid sid sess = [exec_entry uid sess sid, Exec c] @ vs"
    using c by (cases "se_start env (ss_raw sess)") (simp_all add: run_command_def exec_entry_def)
  then obtain vs where "run_command env uid sid sess = [exec_entry uid sess sid, Exec c] @ vs" by blast
  hence "remote_session env uid sid sess =
      ([NewSession, StartWatch sid] @ (if ss_pty sess = None then [] else [RequestPty]) @ [Bridge (se_rules env)]) @
      [exec_entry uid sess sid, Exec c] @ (vs @ [StopWatch, CloseSession])"
    using r(2,3) by (auto simp: remote_session_def)
  thus ?thesis using c by blast
qed

lemma recorded_session_exec:
  assumes "Exec c \<in> set (recorded_session env uid sid sess)"
  shows "c = ss_raw sess \<and> (\<exists>us vs. recorded_session env uid sid sess = us @ [exec_entry uid sess sid, Exec c] @ vs)"
proof -
  obtain w h where wh: "(case ss_pty sess of Some wh \<Rightarrow> wh | None \<Rightarrow> (80, 24)) = (w, h)" by fastforce
  have "Exec c \<in> set (remote_session env uid sid sess)"
    using assms by (auto simp: recorded_session_def Let_def split: if_splits prod.splits)
  then obtain us vs where c: "c = ss_raw sess"
    and r: "remote_session env uid sid sess = us @ [exec_entry uid sess sid, Exec c] @ vs"
    using remote_session_exec by blast
  have "recorded_session env uid sid sess =
      ([GetSetting ''recording.local.path'', Recording (rec_path env sid) w h] @ us) @
      [exec_entry uid sess sid, Exec c] @
      (vs @ (if se_cast env (rec_path env sid) = None then [CloseRecording] else []) @
       [FinishSession sid (rec_path env sid)])"
    using r wh by (simp add: recorded_session_def Let_def)
  thus ?thesis using c by blast
qed

lemma handleSession_exec:
  assumes "handleSession env (Some auth) sess l = (evs, l')" and "Exec c \<in> set evs"
  obtains sid info where "se_create env info = Inr sid"
    and "Exec c \<in> set (recorded_session env (au_user_id auth) sid sess)"
    and "evs = [Dial (au_target auth) (au_account auth), CreateSession info] @
               recorded_session env (au_user_id auth) sid sess @ [CloseClient, Release]"
proof -
  let ?info = "session_info auth ''normal'' ''ssh_client'' (ss_remote sess)"
  obtain m where m: "acquire l = (True, m)" using assms
    by (cases "acquire l"; cases "fst (acquire l)") (auto simp: handleSession_def)
  have dial: "se_dial env (au_target auth) (au_account auth) = None"
    using assms m by (cases "se_dial env (au_target auth) (au_account auth)") (auto simp: handleSession_def)
  have evs: "evs = [Dial (au_target auth) (au_account auth), CreateSession ?info] @
      (case se_create env ?info of
         Inl e \<Rightarrow> [Say (''create session failed: '' @ e), Exit 1]
       | Inr sid \<Rightarrow> recorded_session env (au_user_id auth) sid sess) @ [CloseClient, Release]"
    using assms(1) m dial by (simp add: handleSession_def Let_def)
  moreover obtain sid where "se_create env ?info = Inr sid"
    using evs assms(2) by (auto split: sum.splits)
  ultimately show ?thesis using that [of ?info sid] assms(2) by auto
qed

text \<open>
  A command given to \<open>exec\<close> is run only after an entry on it has been written, in the user's
  name; whatever characters the command is made of, a reader of the entry finds exactly the
  command and the session, so no command can make its own record say something else.
\<close>

theorem exec_recorded:
  assumes "handleSession env (Some auth) sess l = (evs, l')" and "Exec c \<in> set evs"
    and "utf8_valid (bytes_of c)" and "\<And>info sid. se_create env info = Inr sid \<Longrightarrow> int64_range sid"
  shows "\<exists>before after detail sid. evs = before @ AuditCommand (au_user_id auth) (ss_remote sess) detail #
             Exec c # after \<and>
           read_detail detail = Some (c, sid) \<and> sid \<in> set (created_sessions env evs)"
proof -
  obtain sid info where sid: "se_create env info = Inr sid"
    "Exec c \<in> set (recorded_session env (au_user_id auth) sid sess)"
    and evs: "evs = [Dial (au_target auth) (au_account auth), CreateSession info] @
               recorded_session env (au_user_id auth) sid sess @ [CloseClient, Release]"
    using handleSession_exec [OF assms(1,2)] by blast
  obtain us vs where c: "c = ss_raw sess" and r: "recorded_session env (au_user_id auth) sid sess =
      us @ [exec_entry (au_user_id auth) sess sid, Exec c] @ vs"
    using recorded_session_exec [OF sid(2)] by blast
  have "evs = ([Dial (au_target auth) (au_account auth), CreateSession info] @ us) @
      AuditCommand (au_user_id auth) (ss_remote sess) (command_detail sid c) # Exec c # (vs @ [CloseClient, Release])"
    using evs r c by (simp add: exec_entry_def)
  moreover have "read_detail (command_detail sid c) = Some (c, sid)"
    by (rule read_command_detail [OF assms(3) assms(4) [OF sid(1)]])
  moreover have "sid \<in> set (created_sessions env evs)"
    using evs sid(1) by (simp add: created_append session_lists)
  ultimately show ?thesis by blast
qed

section \<open>A concrete proxy\<close>

definition sample_ssh_auth :: ssh_auth where
  "sample_ssh_auth =
     \<lparr>au_target = \<lparr>Address = ''10.0.0.5'', Port = 22, Protocol = ''ssh''\<rparr>,
      au_account = \<lparr>sa_username = ''root'', sa_secret = ''pw'', sa_secret_type = ''password'',
                    sa_ssh_key_type = '''', sa_passphrase = '''', sa_su_enabled = False, sa_su_method = '''',
                    sa_su_account_id = None, sa_db_name = ''''\<rparr>,
      au_user_id = 7, au_asset_id = 3, au_account_id = 4\<rparr>"

definition sample_ssh_env :: ssh_env where
  "sample_ssh_env =
     \<lparr>se_verify = \<lambda>token remote. if token = ''tok'' then Inr sample_ssh_auth else Inl ''unauthorized'',
      se_dial = \<lambda>t a. None, se_dial_tcp = \<lambda>_. None, se_sftp = None,
      se_setting = \<lambda>_. Inl ''not found'', se_create = \<lambda>_. Inr 9, se_cast = \<lambda>_. None,
      se_new_session = None, se_pty = None, se_rules = None, se_start = \<lambda>_. None, se_shell = None,
      se_channel = None, se_accept = None\<rparr>"

definition sample_ssh_session :: ssh_session where
  "sample_ssh_session = \<lparr>ss_remote = ''10.1.1.1'', ss_pty = None, ss_raw = ''id''\<rparr>"

theorem ssh_connection_gated_witness:
  "ssh_connection sample_ssh_env ''10.1.1.1'' ''root#bad'' '''' [TunnelChannel] (newLimiter 1) =
     ([Verify (ssh_token ''root#bad'' '''') ''10.1.1.1''], newLimiter 1)"
proof -
  obtain evs l where r: "ssh_connection sample_ssh_env ''10.1.1.1'' ''root#bad'' '''' [TunnelChannel] (newLimiter 1) = (evs, l)"
    by (cases "ssh_connection sample_ssh_env ''10.1.1.1'' ''root#bad'' '''' [TunnelChannel] (newLimiter 1)")
  have "extractConnectionToken (''root'' @ CHR ''#'' # ''bad'') '''' = ''bad''"
    by (rule extract_username_token) (simp_all add: token_char_def solid_def)
  hence "ssh_token ''root#bad'' '''' = ''bad''" by (simp add: ssh_token_def)
  hence "se_verify sample_ssh_env (ssh_token ''root#bad'' '''') ''10.1.1.1'' = Inl ''unauthorized''"
    by (simp add: sample_ssh_env_def)
  thus ?thesis using ssh_connection_gated [OF r] r by simp
qed

theorem tunnel_not_counted_witness:
  "\<exists>evs l'. fold (serve_channel sample_ssh_env (Some sample_ssh_auth) ''10.1.1.1'') (replicate 3 TunnelChannel)
       ([], newLimiter 1) = (evs, l') \<and> length (filter (\<lambda>e. e = Relay) evs) = 3 \<and> fst (acquire l')"
proof -
  obtain evs l' where r: "fold (serve_channel sample_ssh_env (Some sample_ssh_auth) ''10.1.1.1'')
      (replicate 3 TunnelChannel) ([], newLimiter 1) = (evs, l')"
    by (cases "fold (serve_channel sample_ssh_env (Some sample_ssh_auth) ''10.1.1.1'')
      (replicate 3 TunnelChannel) ([], newLimiter 1)")
  have "chan_len (newLimiter 1) < chan_cap (newLimiter 1)" by (simp add: newLimiter_def)
  from tunnel_not_counted [OF this _ _ _ _ r, of 9] r show ?thesis by (simp add: sample_ssh_env_def)
qed

theorem exec_recorded_witness:
  "\<exists>evs l' before after detail sid.
     handleSession sample_ssh_env (Some sample_ssh_auth) sample_ssh_session (newLimiter 1) = (evs, l') \<and>
     evs = before @ AuditCommand 7 ''10.1.1.1'' detail # Exec ''id'' # after \<and>
     read_detail detail = Some (''id'', sid)"
proof -
  obtain evs l' where r: "handleSession sample_ssh_env (Some sample_ssh_auth) sample_ssh_session (newLimiter 1) = (evs, l')"
    by (cases "handleSession sample_ssh_env (Some sample_ssh_auth) sample_ssh_session (newLimiter 1)")
  hence "Exec ''id'' \<in> set evs"
    by (auto simp: handleSession_def acquire_def newLimiter_def Let_def sample_ssh_env_def sample_ssh_session_def
        recorded_session_def remote_session_def run_command_def split: prod.splits)
  moreover have "utf8_valid (bytes_of ''id'')"
    by (rule utf8_valid_ascii) (auto simp: bytes_of_def)
  moreover have "se_create sample_ssh_env info = Inr sid \<Longrightarrow> int64_range sid" for info sid
    by (simp add: sample_ssh_env_def int64_range_def)
  ultimately show ?thesis
    using exec_recorded [OF r, of "''id''"] r
    unfolding sample_ssh_auth_def sample_ssh_session_def ssh_auth.simps ssh_session.simps by blast
qed

end
