(* ===== verification/Roles.thy ===== *)
theory Roles
  imports Store
begin

text \<open>
  The remaining tables of \<open>repository/store.go\<close> that the administration and the start-up
  work on: roles, platforms with their protocols, nodes, and the listings.
\<close>

section \<open>Roles\<close>

definition GetRole :: "int \<Rightarrow> db \<Rightarrow> error + role" where
  "GetRole i s = notFound (find (\<lambda>r. r_id r = i) (roles s))"

definition GetRoleByName :: "string \<Rightarrow> db \<Rightarrow> error + role" where
  "GetRoleByName name s = notFound (find (\<lambda>r. r_name r = name) (roles s))"

definition CreateRole :: "role \<Rightarrow> role store_action" where
  "CreateRole r = (\<lambda>s.
     if \<exists>v \<in> set (roles s). r_name v = r_name r then (Inl ErrConstraint, s)
     else let row = r\<lparr>r_id := next_id s TRoles, r_created_at := clock s, r_updated_at := clock s\<rparr>
          in (Inr row, (bump TRoles s)\<lparr>roles := roles s @ [row]\<rparr>))"

definition UpdateRole :: "role \<Rightarrow> role store_action" where
  "UpdateRole r = (\<lambda>s.
     case find (\<lambda>v. r_id v = r_id r) (roles s) of
       None \<Rightarrow> (Inl ErrNotFound, s)
     | Some old \<Rightarrow>
         if \<exists>v \<in> set (roles s). r_name v = r_name r \<and> r_id v \<noteq> r_id r
         then (Inl ErrConstraint, s)
         else let upd = (\<lambda>v. v\<lparr>r_name := r_name r, r_description := r_description r,
                              r_updated_at := clock s\<rparr>)
              in (Inr (upd old), s\<lparr>roles := update_rows (\<lambda>v. r_id v = r_id r) upd (roles s)\<rparr>))"

definition UpsertRole :: "string \<Rightarrow> string \<Rightarrow> role store_action" where
  "UpsertRole name description = (\<lambda>s.
     case GetRoleByName name s of
       Inr r \<Rightarrow>
         if r_description r \<noteq> description then
           let r = r\<lparr>r_description := description\<rparr>
           in (case UpdateRole r s of (Inr r', s') \<Rightarrow> (Inr r', s') | (Inl _, s') \<Rightarrow> (Inr r, s'))
         else (Inr r, s)
     | Inl _ \<Rightarrow>
         CreateRole \<lparr>r_id = 0, r_name = name, r_description = description, r_created_at = 0,
                     r_updated_at = 0\<rparr> s)"

text \<open>The links of the role to users go with it.\<close>

definition DeleteRole :: "int \<Rightarrow> unit store_action" where
  "DeleteRole i = (\<lambda>s.
     (Inr (), s\<lparr>roles := filter (\<lambda>r. r_id r \<noteq> i) (roles s),
                user_roles := (if foreign_keys s then filter (\<lambda>(u, r). r \<noteq> i) (user_roles s)
                               else user_roles s)\<rparr>))"

section \<open>Platforms and nodes\<close>

definition UpsertPlatform :: "string \<Rightarrow> string \<Rightarrow> string \<Rightarrow> platform store_action" where
  "UpsertPlatform name typ description = (\<lambda>s.
     case find (\<lambda>p. pl_name p = name) (platforms s) of
       Some p \<Rightarrow> (Inr p, s)
     | None \<Rightarrow>
         let row = \<lparr>pl_id = next_id s TPlatforms, pl_name = name, pl_type = typ,
                    pl_description = description, pl_created_at = clock s\<rparr>
         in (Inr row, (bump TPlatforms s)\<lparr>platforms := platforms s @ [row]\<rparr>))"

definition has_protocol :: "int \<Rightarrow> string \<Rightarrow> db \<Rightarrow> bool" where
  "has_protocol platformID name s =
     list_ex (\<lambda>p. pp_platform_id p = platformID \<and> pp_name p = name) (platform_protocols s)"

definition UpsertPlatformProtocol :: "int \<Rightarrow> string \<Rightarrow> int \<Rightarrow> unit store_action" where
  "UpsertPlatformProtocol platformID name port = (\<lambda>s.
     if has_protocol platformID name s then (Inr (), s)
     else if \<not> fk s (has_platform s platformID) then (Inl ErrConstraint, s)
     else (Inr (), (bump TProtocols s)\<lparr>platform_protocols := platform_protocols s @
             [\<lparr>pp_id = next_id s TProtocols, pp_platform_id = platformID, pp_name = name,
               pp_port = port\<rparr>]\<rparr>))"

definition ListPlatformProtocols :: "int \<Rightarrow> db \<Rightarrow> platform_protocol list" where
  "ListPlatformProtocols platformID s = filter (\<lambda>p. pp_platform_id p = platformID) (platform_protocols s)"

definition has_root :: "db \<Rightarrow> bool" where
  "has_root s = list_ex (\<lambda>n. n_parent_id n = None) (nodes s)"

definition EnsureRootNode :: "unit store_action" where
  "EnsureRootNode = (\<lambda>s.
     if has_root s then (Inr (), s)
     else (Inr (), (bump TNodes s)\<lparr>nodes := nodes s @
             [\<lparr>n_id = next_id s TNodes, n_name = ''Default'', n_parent_id = None, n_org_id = 1\<rparr>]\<rparr>))"

section \<open>Listings\<close>

definition ListRoles :: "db \<Rightarrow> role list" where
  "ListRoles s = roles s"

definition ListUserGroups :: "db \<Rightarrow> user_group list" where
  "ListUserGroups s = user_groups s"

definition ListPlatforms :: "db \<Rightarrow> platform list" where
  "ListPlatforms s = platforms s"

definition Store_ListUsers :: "db \<Rightarrow> user list" where
  "Store_ListUsers s = users s"

section \<open>Repeating a statement\<close>

fun foreach :: "('a \<Rightarrow> ('s, 'e, unit) action) \<Rightarrow> 'a list \<Rightarrow> ('s, 'e, unit) action" where
  "foreach f [] = ret ()"
| "foreach f (x # xs) = abind (f x) (\<lambda>_. foreach f xs)"

lemma foreach_id: "\<forall>x \<in> set xs. f x s = (Inr (), s) \<Longrightarrow> foreach f xs s = (Inr (), s)"
  by (induction xs) simp_all

text \<open>Each step establishes its own part and keeps the other parts and an invariant.\<close>

lemma foreach_establishes:
  assumes "foreach f xs s = (Inr (), s')" and "I s"
    and step: "\<And>x u u'. x \<in> set xs \<Longrightarrow> I u \<Longrightarrow> f x u = (Inr (), u') \<Longrightarrow> I u' \<and> P x u'"
    and keep: "\<And>x y u u'. x \<in> set xs \<Longrightarrow> y \<in> set xs \<Longrightarrow> I u \<Longrightarrow> f x u = (Inr (), u') \<Longrightarrow> P y u \<Longrightarrow> P y u'"
  shows "I s' \<and> (\<forall>x \<in> set xs. P x s')"
proof -
  have "I s' \<and> (\<forall>x \<in> set ys. P x s') \<and> (\<forall>y \<in> set xs. P y u \<longrightarrow> P y s')"
    if "set ys \<subseteq> set xs" "foreach f ys u = (Inr (), s')" "I u" for ys u
    using that
  proof (induction ys arbitrary: u)
    case Nil
    thus ?case by simp
  next
    case (Cons x ys)
    obtain u' where u': "f x u = (Inr (), u')" "foreach f ys u' = (Inr (), s')"
      using Cons.prems(2) by (auto simp: abind_app split: prod.splits sum.splits)
    have x: "x \<in> set xs" "set ys \<subseteq> set xs" using Cons.prems(1) by auto
    have i: "I u'" "P x u'" using step [OF x(1) Cons.prems(3) u'(1)] by auto
    have ih: "I s' \<and> (\<forall>x \<in> set ys. P x s') \<and> (\<forall>y \<in> set xs. P y u' \<longrightarrow> P y s')"
      using Cons.IH [OF x(2) u'(2) i(1)] .
    show ?case using ih i x keep [OF x(1) _ Cons.prems(3) u'(1)] by auto
  qed
  from this [OF order_refl assms(1,2)] show ?thesis by blast
qed

section \<open>Keys\<close>

text \<open>The keys of the table of roles.\<close>

definition wf_roles :: "db \<Rightarrow> bool" where
  "wf_roles s = (distinct (map r_id (roles s)) \<and> distinct (map r_name (roles s)) \<and>
     (\<forall>r \<in> set (roles s). r_id r < next_id s TRoles))"

lemma distinct_map_eq: "distinct (map f xs) \<Longrightarrow> x \<in> set xs \<Longrightarrow> y \<in> set xs \<Longrightarrow> f x = f y \<Longrightarrow> x = y"
  by (metis distinct_map inj_onD)

end
