(* ===== verification/UserService.thy ===== *)
theory UserService
  imports AuthService
begin

text \<open>
  User management (\<open>service/users.go\<close>): creation, update with its password policy and the
  revocation of refresh tokens, deletion.  The salt drawn for a new password is an
  argument.
\<close>

section \<open>The service\<close>

record user_input =
  in_username :: string
  in_name :: string
  in_email :: string
  in_password :: string
  in_is_active :: "bool option"
  in_role_ids :: "int list option"

definition effectivePasswordMinLength :: "int \<Rightarrow> db \<Rightarrow> int" where
  "effectivePasswordMinLength passwordMinLength s =
     (let minLength = settingInt s ''security.password_min_length'' passwordMinLength
      in if minLength \<le> 0 then passwordMinLength else minLength)"

definition Users_Get :: "int \<Rightarrow> db \<Rightarrow> error + user \<times> role list" where
  "Users_Get i s = rbind (GetUser i s) (\<lambda>user. Inr (user, UserRoles i s))"

definition set_roles :: "int \<Rightarrow> int list option \<Rightarrow> unit store_action" where
  "set_roles i ids = (case ids of None \<Rightarrow> ret () | Some js \<Rightarrow> SetUserRoles i js)"

definition Users_Create :: "argon2id \<Rightarrow> byte list \<Rightarrow> int \<Rightarrow> user_input \<Rightarrow> user store_action" where
  "Users_Create argon2 salt minLength input = (\<lambda>s.
     if int (length (in_password input)) < effectivePasswordMinLength minLength s
     then (Inl ErrInvalidArgument, s)
     else
       case HashPassword argon2 salt (in_password input) of
         Inl e \<Rightarrow> (Inl e, s)
       | Inr hash \<Rightarrow>
           let active = (case in_is_active input of None \<Rightarrow> True | Some b \<Rightarrow> b);
               user = \<lparr>u_id = 0, u_username = in_username input, u_name = in_name input,
                       u_email = in_email input, u_password_hash = hash, u_mfa_enabled = False,
                       u_mfa_secret = '''', u_is_active = active, u_last_login_at = None,
                       u_created_at = 0, u_updated_at = 0\<rparr>
           in abind (CreateUser user) (\<lambda>user.
              abind (set_roles (u_id user) (in_role_ids input)) (\<lambda>_. ret user)) s)"

text \<open>The statements after the fields are set.\<close>

definition store_user :: "user_input \<Rightarrow> user \<Rightarrow> user store_action" where
  "store_user input user =
     abind (UpdateUser user) (\<lambda>user.
     abind (if in_is_active input = Some False then RevokeUserRefreshTokens (u_id user) else ret ()) (\<lambda>_.
     abind (set_roles (u_id user) (in_role_ids input)) (\<lambda>_. ret user)))"

definition Users_Update ::
    "argon2id \<Rightarrow> byte list \<Rightarrow> int \<Rightarrow> int \<Rightarrow> user_input \<Rightarrow> user store_action" where
  "Users_Update argon2 salt minLength i input = (\<lambda>s.
     case GetUser i s of
       Inl e \<Rightarrow> (Inl e, s)
     | Inr user \<Rightarrow>
         let user = (if in_username input \<noteq> '''' then user\<lparr>u_username := in_username input\<rparr> else user);
             user = user\<lparr>u_name := in_name input, u_email := in_email input\<rparr>;
             user = (case in_is_active input of None \<Rightarrow> user | Some b \<Rightarrow> user\<lparr>u_is_active := b\<rparr>);
             hashed =
               (if in_password input \<noteq> '''' then
                  (if int (length (in_password input)) < effectivePasswordMinLength minLength s
                   then Inl ErrInvalidArgument
                   else rbind (HashPassword argon2 salt (in_password input))
                          (\<lambda>hash. Inr (user\<lparr>u_password_hash := hash\<rparr>)))
                else Inr user)
         in case hashed of
              Inl e \<Rightarrow> (Inl e, s)
            | Inr user \<Rightarrow> store_user input user s)"

definition Users_Delete :: "int \<Rightarrow> unit store_action" where
  "Users_Delete i = (if i = 1 then throw (ErrOther ''cannot delete the initial administrator'') else DeleteUser i)"

section \<open>Deactivation locks out\<close>

lemma SetUserRoles_frame:
  "users (snd (SetUserRoles i js s)) = users s"
  "refresh_tokens (snd (SetUserRoles i js s)) = refresh_tokens s"
  by (auto simp: SetUserRoles_def withTx_def Let_def split: prod.splits sum.splits)

lemma set_roles_frame:
  "users (snd (set_roles i js s)) = users s" "refresh_tokens (snd (set_roles i js s)) = refresh_tokens s"
  by (simp_all add: set_roles_def SetUserRoles_frame split: option.split)

lemma UpdateUser_Inr:
  assumes "UpdateUser u s = (Inr v, t)"
  shows "u_is_active v = u_is_active u" and "u_id v = u_id u"
    and "\<forall>w \<in> set (users t). u_id w = u_id u \<longrightarrow> u_is_active w = u_is_active u"
    and "map u_id (users t) = map u_id (users s)" and "refresh_tokens t = refresh_tokens s"
proof -
  define upd :: "user \<Rightarrow> user" where "upd = (\<lambda>v. v\<lparr>u_username := u_username u, u_name := u_name u, u_email := u_email u,
      u_password_hash := u_password_hash u, u_mfa_enabled := u_mfa_enabled u, u_mfa_secret := u_mfa_secret u,
      u_is_active := u_is_active u, u_updated_at := clock s\<rparr>)"
  obtain old where old: "find (\<lambda>v. u_id v = u_id u) (users s) = Some old"
    and v: "v = upd old" and t: "t = s\<lparr>users := update_rows (\<lambda>v. u_id v = u_id u) upd (users s)\<rparr>"
    using assms unfolding UpdateUser_def Let_def upd_def by (auto split: option.splits if_splits)
  show "u_is_active v = u_is_active u" "refresh_tokens t = refresh_tokens s" by (simp_all add: v t upd_def)
  show "u_id v = u_id u" using find_Some_iff [OF old] by (simp add: v upd_def)
  show "map u_id (users t) = map u_id (users s)" by (simp add: t map_update_rows upd_def)
  show "\<forall>w \<in> set (users t). u_id w = u_id u \<longrightarrow> u_is_active w = u_is_active u"
    by (auto simp: t set_update_rows upd_def)
qed

lemma Revoke_all:
  "RevokeUserRefreshTokens i s = (r, t) \<Longrightarrow>
   (\<forall>k \<in> set (refresh_tokens t). rt_user_id k = i \<longrightarrow> rt_revoked_at k \<noteq> None) \<and> users t = users s"
  unfolding RevokeUserRefreshTokens_def by (clarsimp simp: ball_update_rows)

lemma Users_Update_deactivates:
  assumes "Users_Update argon2 salt m i input s = (Inr v, t)" and "in_is_active input = Some False"
  shows "\<forall>w \<in> set (users t). u_id w = i \<longrightarrow> \<not> u_is_active w"
    and "\<forall>k \<in> set (refresh_tokens t). rt_user_id k = i \<longrightarrow> rt_revoked_at k \<noteq> None"
proof -
  obtain u where u: "GetUser i s = Inr u" using assms(1) by (auto simp: Users_Update_def split: sum.splits)
  hence id: "u_id u = i" by (auto simp: GetUser_def dest: find_Some_iff)
  have "\<exists>u'. store_user input u' s = (Inr v, t) \<and> u_id u' = i \<and> \<not> u_is_active u'"
    using assms u id
    by (auto simp: Users_Update_def Let_def rbind_def simp del: not_None_eq split: if_splits sum.splits
        intro!: exI conjI)
  then obtain u' where u': "u_id u' = i" "\<not> u_is_active u'"
    and run: "abind (UpdateUser u') (\<lambda>user. abind (RevokeUserRefreshTokens (u_id user)) (\<lambda>_.
                abind (set_roles (u_id user) (in_role_ids input)) (\<lambda>_. ret user))) s = (Inr v, t)"
    using assms(2) by (auto simp: store_user_def)
  obtain w s1 where w: "UpdateUser u' s = (Inr w, s1)"
    and rest: "abind (RevokeUserRefreshTokens (u_id w)) (\<lambda>_.
                abind (set_roles (u_id w) (in_role_ids input)) (\<lambda>_. ret w)) s1 = (Inr v, t)"
    using abind_InrE [OF run] by blast
  obtain x s2 where x: "RevokeUserRefreshTokens (u_id w) s1 = (Inr x, s2)"
    and last: "abind (set_roles (u_id w) (in_role_ids input)) (\<lambda>_. ret w) s2 = (Inr v, t)"
    using abind_InrE [OF rest] by blast
  have t: "t = snd (set_roles (u_id w) (in_role_ids input) s2)"
    using last by (auto simp: abind_Inr_iff)
  note facts = UpdateUser_Inr [OF w] Revoke_all [OF x] set_roles_frame [of "u_id w" "in_role_ids input" s2]
  show "\<forall>w \<in> set (users t). u_id w = i \<longrightarrow> \<not> u_is_active w"
    using facts u' by (simp add: t)
  show "\<forall>k \<in> set (refresh_tokens t). rt_user_id k = i \<longrightarrow> rt_revoked_at k \<noteq> None"
    using facts u' by (simp add: t)
qed

text \<open>
  C31: Deactivating a user takes effect at once: whatever password or code is presented
  under any name that leads to the user's row, the login is refused as unauthorised, and
  so is every refresh token the user holds.
\<close>

theorem deactivated_user_locked_out:
  assumes "Users_Update argon2 salt m i input s = (Inr v, t)" and "in_is_active input = Some False"
  shows "(\<forall>env fr unix name pw code u. GetUserByUsername name t = Inr u \<and> u_id u = i \<longrightarrow>
            Login env fr unix name pw code t = (Inl ErrUnauthorized, t)) \<and>
         (\<forall>env fr now raw k. GetRefreshTokenByHash (HashRefreshToken (ae_jwt env) raw) t = Inr k \<and>
            rt_user_id k = i \<longrightarrow> Refresh env fr now raw t = (Inl ErrUnauthorized, t))"
proof -
  note d = Users_Update_deactivates [OF assms]
  have "Login env fr unix name pw code t = (Inl ErrUnauthorized, t)"
    if "GetUserByUsername name t = Inr u" "u_id u = i" for env fr unix name pw code u
  proof -
    have "\<not> u_is_active u" using that d(1) by (auto simp: GetUserByUsername_def dest: find_Some_iff)
    thus ?thesis using that by (simp add: Login_def)
  qed
  moreover have "Refresh env fr now raw t = (Inl ErrUnauthorized, t)"
    if "GetRefreshTokenByHash (HashRefreshToken (ae_jwt env) raw) t = Inr k" "rt_user_id k = i" for env fr now raw k
  proof -
    have "rt_revoked_at k \<noteq> None"
      using that d(2) find_Some_iff unfolding GetRefreshTokenByHash_def notFound_Inr by metis
    thus ?thesis using that by (simp add: Refresh_def)
  qed
  ultimately show ?thesis by blast
qed

section \<open>A created user can log in\<close>

lemma SetUserRoles_ok:
  assumes "distinct js" and "has_user s i" and "\<forall>j \<in> set js. has_role s j"
  shows "SetUserRoles i js s =
     (Inr (), s\<lparr>user_roles := filter (\<lambda>(u, r). u \<noteq> i) (user_roles s) @ map (Pair i) js\<rparr>)"
proof -
  have "insert_links (\<lambda>r. fk s (has_user s i \<and> has_role s r)) i js (filter (\<lambda>(u, r). u \<noteq> i) (user_roles s)) =
      Inr (filter (\<lambda>(u, r). u \<noteq> i) (user_roles s) @ map (Pair i) js)"
    by (rule insert_links_ok [OF assms(1)]) (use assms(2,3) in \<open>auto simp: fk_def\<close>)
  thus ?thesis by (simp add: SetUserRoles_def withTx_def Let_def)
qed

text \<open>
  A user created with a password of sufficient length can log in with it: the user
  name leads to the new row, the roles asked for are exactly the user's, and the tokens
  carry their names.
\<close>

theorem created_user_can_login:
  assumes new: "\<forall>v \<in> set (users s). u_username v \<noteq> in_username input"
    and long: "effectivePasswordMinLength m s \<le> int (length (in_password input))"
    and argon: "\<And>p s. \<exists>h. ae_argon2 env p s (word_of_int argonIterations) (word_of_int argonMemory)
             (word_of_int argonParallelism) (word_of_int argonKeyLength) = Some h \<and> length h = 32"
    and role: "in_role_ids input = Some js" "distinct js" "\<forall>j \<in> set js. has_role s j"
    and active: "in_is_active input = None"
    and policy: "\<not> settingBool s ''security.mfa_required'' False"
    and fresh: "refresh_tokens s = []"
  shows "\<exists>u t. Users_Create (ae_argon2 env) salt m input s = (Inr u, t) \<and>
           {r. (u_id u, r) \<in> set (user_roles t)} = set js \<and>
           (\<exists>r t'. Login env fr unix (in_username input) (in_password input) '''' t = (Inr r, t') \<and>
              \<not> lr_require_mfa r \<and> lr_user r = Some u \<and> lr_roles r = UserRoleNames (u_id u) t)"
proof -
  have len: "length h = 32" if "ae_argon2 env p s (word_of_int argonIterations) (word_of_int argonMemory)
             (word_of_int argonParallelism) (word_of_int argonKeyLength) = Some h" for p s h
    using argon [of p s] that by auto
  obtain hash where hash: "HashPassword (ae_argon2 env) salt (in_password input) = Inr hash"
    using argon [of "bytes_of (in_password input)" salt] by (auto simp: HashPassword_def)
  have verify: "VerifyPassword (ae_argon2 env) (in_password input) hash = Inr True"
    using VerifyPassword_stored [OF hash len, where attempted = "in_password input"]
      argon [of "bytes_of (in_password input)" salt] by auto
  define u where "u = \<lparr>u_id = next_id s TUsers, u_username = in_username input, u_name = in_name input,
      u_email = in_email input, u_password_hash = hash, u_mfa_enabled = False, u_mfa_secret = '''',
      u_is_active = True, u_last_login_at = None, u_created_at = clock s, u_updated_at = clock s\<rparr>"
  define t where "t = (bump TUsers s)\<lparr>users := users s @ [u],
      user_roles := filter (\<lambda>(x, r). x \<noteq> u_id u) (user_roles s) @ map (Pair (u_id u)) js\<rparr>"
  define s1 where "s1 = (bump TUsers s)\<lparr>users := users s @ [u]\<rparr>"
  have "has_user s1 (u_id u)" "\<forall>j \<in> set js. has_role s1 j"
    using role(3) by (simp_all add: has_user_def has_role_def s1_def bump_def)
  note set_ok = SetUserRoles_ok [OF role(2) this, unfolded s1_def u_def bump_def, simplified]
  have create: "Users_Create (ae_argon2 env) salt m input s = (Inr u, t)"
    using new long hash role active set_ok
    by (simp add: Users_Create_def Let_def CreateUser_def set_roles_def abind_app u_def t_def bump_def)
  have "find (\<lambda>v. u_username v = in_username input) (users s) = None" using new by (simp add: find_None_set)
  hence look: "GetUserByUsername (in_username input) t = Inr u"
    by (simp add: GetUserByUsername_def t_def find_append u_def)
  have "settingBool t k b = settingBool s k b" for k b
    by (simp add: settingBool_def GetSetting_def t_def bump_def)
  hence "\<exists>r t'. Login env fr unix (in_username input) (in_password input) '''' t = (Inr r, t') \<and>
           \<not> lr_require_mfa r \<and> lr_user r = Some u \<and> lr_roles r = UserRoleNames (u_id u) t"
    using look verify policy fresh
    by (simp add: Login_def u_def Let_def abind_app attempt_app issueTokens_def TouchUserLogin_def
        issueTokensWithRoles_def SignAccessToken_def NewRefreshToken_def CreateRefreshToken_def t_def bump_def
        UserRoleNames_def UserRoles_def fk_def has_user_def update_rows_def)
  moreover have "{r. (u_id u, r) \<in> set (user_roles t)} = set js" by (auto simp: t_def)
  ultimately show ?thesis using create by blast
qed

text \<open>Witnesses.\<close>

definition sample_user_input :: user_input where
  "sample_user_input =
     \<lparr>in_username = ''bob'', in_name = ''Bob'', in_email = '''', in_password = ''longenough'',
      in_is_active = None, in_role_ids = Some [2, 3]\<rparr>"

definition roles_db :: db where
  "roles_db = (auth_db ''h'')\<lparr>roles :=
     [\<lparr>r_id = 2, r_name = ''user'', r_description = '''', r_created_at = 0, r_updated_at = 0\<rparr>,
      \<lparr>r_id = 3, r_name = ''auditor'', r_description = '''', r_created_at = 0, r_updated_at = 0\<rparr>]\<rparr>"

theorem created_user_can_login_witness:
  "\<exists>u t r t'. Users_Create sample_argon2 [4] 8 sample_user_input roles_db = (Inr u, t) \<and>
     Login sample_auth_env sample_fresh 5 ''bob'' ''longenough'' '''' t = (Inr r, t') \<and> \<not> lr_require_mfa r"
  using created_user_can_login [of roles_db sample_user_input 8 sample_auth_env "[2, 3]" "[4]" sample_fresh 5]
    sample_argon2_total
  by (auto simp: sample_user_input_def sample_auth_env_def auth_db_def empty_db_def auth_user_def roles_db_def
      effectivePasswordMinLength_def settingInt_def settingBool_def GetSetting_def has_role_def)

theorem deactivated_user_locked_out_witness:
  "\<exists>v t. Users_Update sample_argon2 [4] 8 7 (sample_user_input\<lparr>in_username := '''', in_password := '''',
        in_is_active := Some False, in_role_ids := None\<rparr>) (auth_db ''h'') = (Inr v, t) \<and>
     Login sample_auth_env sample_fresh 5 ''ann'' ''pw'' '''' t = (Inl ErrUnauthorized, t)"
proof -
  let ?in = "sample_user_input\<lparr>in_username := '''', in_password := '''',
        in_is_active := Some False, in_role_ids := None\<rparr>"
  have "\<exists>v t. Users_Update sample_argon2 [4] 8 7 ?in (auth_db ''h'') = (Inr v, t) \<and>
          (\<exists>u. GetUserByUsername ''ann'' t = Inr u \<and> u_id u = 7)"
    by (simp add: Users_Update_def auth_db_def empty_db_def auth_user_def GetUser_def sample_user_input_def
        store_user_def UpdateUser_def Let_def abind_app RevokeUserRefreshTokens_def set_roles_def
        GetUserByUsername_def update_rows_def)
  then obtain v t u where "Users_Update sample_argon2 [4] 8 7 ?in (auth_db ''h'') = (Inr v, t)"
    "GetUserByUsername ''ann'' t = Inr u" "u_id u = 7" by blast
  thus ?thesis using deactivated_user_locked_out [of sample_argon2 "[4]" 8 7 ?in "auth_db ''h''" v t] by auto
qed

end
