(* ===== verification/Bootstrap.thy ===== *)
theory Bootstrap
  imports Roles UserService
begin

text \<open>
  The data every start of the server ensures (\<open>repository/bootstrap.go\<close>): roles, platforms,
  the root node, settings and the administrator.
\<close>

section \<open>The defaults\<close>

definition defaultRoles :: "(string \<times> string) list" where
  "defaultRoles =
     [(''super_admin'', ''Full system administrator''), (''admin'', ''Administrator''),
      (''operator'', ''Asset operator''), (''auditor'', ''Session auditor'')]"

text \<open>Name, type, description, protocol and port.\<close>

definition defaultPlatforms :: "(string \<times> string \<times> string \<times> string \<times> int) list" where
  "defaultPlatforms =
     [(''Linux'', ''linux'', ''Linux server with SSH'', ''ssh'', 22),
      (''Windows'', ''windows'', ''Windows server with RDP'', ''rdp'', 3389),
      (''MySQL'', ''mysql'', ''MySQL database'', ''mysql'', 3306),
      (''PostgreSQL'', ''postgres'', ''PostgreSQL database'', ''postgres'', 5432)]"

definition default_setting ::
    "string \<Rightarrow> string \<Rightarrow> string \<Rightarrow> string \<Rightarrow> string \<Rightarrow> string \<Rightarrow> string \<Rightarrow> setting" where
  "default_setting key val category label description input_type options =
     \<lparr>st_key = key, st_value = val, st_category = category, st_label = label,
      st_description = description, st_input_type = input_type, st_options = options,
      st_updated_at = 0\<rparr>"

definition DefaultSettings :: "setting list" where
  "DefaultSettings =
     [default_setting ''recording.storage'' ''\"local\"'' ''recording''
       ''Recording Storage'' ''Recording storage backend'' ''select'' ''[\"local\",\"s3\",\"oss\",\"cos\"]'',
     default_setting ''recording.local.path'' ''\"./recordings\"'' ''recording''
       ''Local Recording Path'' ''Local recording directory'' ''text'' '''',
     default_setting ''recording.s3.endpoint'' ''\"\"'' ''recording''
       ''S3 Endpoint'' ''S3 or MinIO endpoint'' ''text'' '''',
     default_setting ''recording.s3.bucket'' ''\"turjmp-sessions\"'' ''recording''
       ''S3 Bucket'' ''S3 bucket name'' ''text'' '''',
     default_setting ''recording.s3.access_key'' ''\"\"'' ''recording''
       ''S3 Access Key'' ''S3 access key'' ''secret'' '''',
     default_setting ''recording.s3.secret_key'' ''\"\"'' ''recording''
       ''S3 Secret Key'' ''S3 secret key'' ''secret'' '''',
     default_setting ''recording.oss.endpoint'' ''\"\"'' ''recording''
       ''OSS Endpoint'' ''OSS endpoint'' ''text'' '''',
     default_setting ''recording.oss.bucket'' ''\"\"'' ''recording''
       ''OSS Bucket'' ''OSS bucket name'' ''text'' '''',
     default_setting ''recording.oss.access_key'' ''\"\"'' ''recording''
       ''OSS Access Key'' ''OSS access key'' ''secret'' '''',
     default_setting ''recording.oss.secret_key'' ''\"\"'' ''recording''
       ''OSS Secret Key'' ''OSS secret key'' ''secret'' '''',
     default_setting ''proxy.ssh.max_connections'' ''100'' ''proxy''
       ''SSH Max Connections'' ''Maximum concurrent SSH connections'' ''number'' '''',
     default_setting ''proxy.ssh.idle_timeout'' ''900'' ''proxy''
       ''SSH Idle Timeout'' ''SSH idle timeout in seconds'' ''number'' '''',
     default_setting ''proxy.db.max_connections'' ''50'' ''proxy''
       ''DB Max Connections'' ''Maximum concurrent DB proxy connections'' ''number'' '''',
     default_setting ''proxy.db.idle_timeout'' ''1800'' ''proxy''
       ''DB Idle Timeout'' ''DB idle timeout in seconds'' ''number'' '''',
     default_setting ''proxy.rdp.max_connections'' ''20'' ''proxy''
       ''RDP Max Connections'' ''Maximum concurrent RDP connections'' ''number'' '''',
     default_setting ''proxy.rdp.idle_timeout'' ''3600'' ''proxy''
       ''RDP Idle Timeout'' ''RDP idle timeout in seconds'' ''number'' '''',
     default_setting ''proxy.session.max_duration'' ''3600'' ''proxy''
       ''Session Max Duration'' ''Maximum session duration in seconds'' ''number'' '''',
     default_setting ''security.session_timeout'' ''3600'' ''security''
       ''Session Timeout'' ''Maximum session duration in seconds'' ''number'' '''',
     default_setting ''security.mfa_required'' ''false'' ''security''
       ''MFA Required'' ''Require MFA for all users'' ''toggle'' '''',
     default_setting ''security.password_min_length'' ''8'' ''security''
       ''Password Min Length'' ''Minimum password length'' ''number'' '''',
     default_setting ''security.login_failure_lock_enabled'' ''true'' ''security''
       ''Login Failure Lock'' ''Lock users after repeated login failures'' ''toggle'' '''',
     default_setting ''security.login_failure_threshold'' ''5'' ''security''
       ''Login Failure Threshold'' ''Failed login attempts before locking'' ''number'' '''',
     default_setting ''security.login_failure_lock_minutes'' ''15'' ''security''
       ''Login Failure Lock Minutes'' ''Lock duration after repeated failures'' ''number'' '''',
     default_setting ''sftp.max_file_size'' ''1073741824'' ''sftp''
       ''SFTP Max File Size'' ''Maximum SFTP file size'' ''number'' '''',
     default_setting ''sftp.deny_paths'' ''\"/etc/shadow,/etc/passwd\"'' ''sftp''
       ''SFTP Deny Paths'' ''Denied SFTP paths'' ''text'' '''',
     default_setting ''notification.smtp.host'' ''\"\"'' ''notification''
       ''SMTP Host'' ''SMTP host'' ''text'' '''',
     default_setting ''notification.smtp.port'' ''587'' ''notification''
       ''SMTP Port'' ''SMTP server port'' ''number'' '''',
     default_setting ''notification.smtp.username'' ''\"\"'' ''notification''
       ''SMTP Username'' ''SMTP username'' ''text'' '''',
     default_setting ''notification.smtp.password'' ''\"\"'' ''notification''
       ''SMTP Password'' ''SMTP password'' ''secret'' '''',
     default_setting ''notification.smtp.from'' ''\"\"'' ''notification''
       ''SMTP From'' ''Default sender address'' ''text'' '''',
     default_setting ''notification.email.template'' ''\"\"'' ''notification''
       ''Email Template'' ''Default notification email template'' ''text'' '''',
     default_setting ''branding.site_name'' ''\"Turjmp\"'' ''branding''
       ''Site Name'' ''Visible site name'' ''text'' '''',
     default_setting ''branding.logo_url'' ''\"\"'' ''branding''
       ''Logo URL'' ''Custom logo URL'' ''text'' '''',
     default_setting ''branding.theme_color'' ''\"#2563eb\"'' ''branding''
       ''Theme Color'' ''Primary theme color'' ''text'' '''',
     default_setting ''auth.ldap.enabled'' ''false'' ''auth''
       ''LDAP Enabled'' ''Enable LDAP authentication'' ''toggle'' '''',
     default_setting ''auth.ldap.url'' ''\"\"'' ''auth''
       ''LDAP URL'' ''LDAP server URL'' ''text'' '''',
     default_setting ''auth.ldap.bind_dn'' ''\"\"'' ''auth''
       ''LDAP Bind DN'' ''LDAP bind distinguished name'' ''text'' '''',
     default_setting ''auth.ldap.bind_password'' ''\"\"'' ''auth''
       ''LDAP Bind Password'' ''LDAP bind password'' ''secret'' '''',
     default_setting ''auth.ldap.user_search_base'' ''\"\"'' ''auth''
       ''LDAP User Search Base'' ''LDAP user search base DN'' ''text'' '''',
     default_setting ''auth.oauth.enabled'' ''false'' ''auth''
       ''OAuth Enabled'' ''Enable OAuth authentication'' ''toggle'' '''',
     default_setting ''auth.oauth.client_id'' ''\"\"'' ''auth''
       ''OAuth Client ID'' ''OAuth client ID'' ''text'' '''',
     default_setting ''auth.oauth.client_secret'' ''\"\"'' ''auth''
       ''OAuth Client Secret'' ''OAuth client secret'' ''secret'' '''',
     default_setting ''auth.oauth.auth_url'' ''\"\"'' ''auth''
       ''OAuth Auth URL'' ''OAuth authorization endpoint'' ''text'' '''',
     default_setting ''auth.oauth.token_url'' ''\"\"'' ''auth''
       ''OAuth Token URL'' ''OAuth token endpoint'' ''text'' '''',
     default_setting ''auth.oauth.scopes'' ''\"openid,profile,email\"'' ''auth''
       ''OAuth Scopes'' ''OAuth scopes, comma-separated'' ''text'' '''']"

section \<open>The statements\<close>

definition ensureRole :: "string \<times> string \<Rightarrow> unit store_action" where
  "ensureRole = (\<lambda>(name, description). abind (UpsertRole name description) (\<lambda>_. ret ()))"

definition ensurePlatform :: "string \<times> string \<times> string \<times> string \<times> int \<Rightarrow> unit store_action" where
  "ensurePlatform platform =
     (case platform of
        (name, typ, description, protocol, port) \<Rightarrow>
          abind (UpsertPlatform name typ description) (\<lambda>p. UpsertPlatformProtocol (pl_id p) protocol port))"

definition ensureSetting :: "setting \<Rightarrow> unit store_action" where
  "ensureSetting st = (\<lambda>s.
     case GetSetting (st_key st) s of
       Inr _ \<Rightarrow> (Inr (), s)
     | Inl e \<Rightarrow> if error_is e ErrNotFound then UpsertSetting st s else (Inl e, s))"

definition ensureAdmin :: "argon2id \<Rightarrow> byte list \<Rightarrow> unit store_action" where
  "ensureAdmin argon2 salt = (\<lambda>s.
     case GetUserByUsername ''admin'' s of
       Inr _ \<Rightarrow> (Inr (), s)
     | Inl e \<Rightarrow>
         if \<not> error_is e ErrNotFound then (Inl e, s)
         else case HashPassword argon2 salt ''admin123'' of
                Inl e \<Rightarrow> (Inl e, s)
              | Inr hash \<Rightarrow>
                  abind (CreateUser
                    \<lparr>u_id = 0, u_username = ''admin'', u_name = ''Administrator'',
                     u_email = ''admin@turjmp.local'', u_password_hash = hash, u_mfa_enabled = False,
                     u_mfa_secret = '''', u_is_active = True, u_last_login_at = None,
                     u_created_at = 0, u_updated_at = 0\<rparr>) (\<lambda>user.
                  abind (query (GetRoleByName ''super_admin'')) (\<lambda>role.
                  SetUserRoles (u_id user) [r_id role])) s)"

definition BootstrapDefaults :: "argon2id \<Rightarrow> byte list \<Rightarrow> unit store_action" where
  "BootstrapDefaults argon2 salt =
     abind (foreach ensureRole defaultRoles) (\<lambda>_.
     abind (foreach ensurePlatform defaultPlatforms) (\<lambda>_.
     abind EnsureRootNode (\<lambda>_.
     abind (foreach ensureSetting DefaultSettings) (\<lambda>_.
     ensureAdmin argon2 salt))))"

section \<open>What each statement establishes\<close>

definition role_seeded :: "string \<times> string \<Rightarrow> db \<Rightarrow> bool" where
  "role_seeded x s =
     (case GetRoleByName (fst x) s of Inr r \<Rightarrow> r_description r = snd x | Inl _ \<Rightarrow> False)"

definition platform_seeded :: "string \<times> string \<times> string \<times> string \<times> int \<Rightarrow> db \<Rightarrow> bool" where
  "platform_seeded x s =
     (case x of (name, typ, description, protocol, port) \<Rightarrow>
        (case find (\<lambda>p. pl_name p = name) (platforms s) of
           Some p \<Rightarrow> has_protocol (pl_id p) protocol s
         | None \<Rightarrow> False))"

definition setting_seeded :: "setting \<Rightarrow> db \<Rightarrow> bool" where
  "setting_seeded st s = list_ex (\<lambda>x. st_key x = st_key st) (settings s)"

definition admin_seeded :: "db \<Rightarrow> bool" where
  "admin_seeded s = list_ex (\<lambda>u. u_username u = ''admin'') (users s)"

lemma find_update_other:
  "(\<And>r. r \<in> set rows \<Longrightarrow> P r \<Longrightarrow> \<not> Q r \<and> \<not> Q (f r)) \<Longrightarrow> find Q (update_rows P f rows) = find Q rows"
  by (induction rows) (auto simp: update_rows_def)

lemma find_update_self:
  "find Q rows = Some r \<Longrightarrow> P r \<Longrightarrow> Q (f r) \<Longrightarrow> (\<And>v. v \<in> set rows \<Longrightarrow> P v \<Longrightarrow> v = r) \<Longrightarrow>
   find Q (update_rows P f rows) = Some (f r)"
proof (induction rows)
  case Nil
  from Nil.prems(1) show ?case by simp
next
  case (Cons v rows)
  show ?case
  proof (cases "Q v")
    case True
    hence "v = r" using Cons.prems(1) by simp
    thus ?thesis using Cons.prems(2,3) by (simp add: update_rows_def)
  next
    case False
    hence r: "find Q rows = Some r" using Cons.prems(1) by simp
    have "find Q (update_rows P f rows) = Some (f r)"
      by (rule Cons.IH [OF r Cons.prems(2,3)]) (rule Cons.prems(4), simp_all)
    moreover have "\<not> P v"
    proof
      assume "P v"
      hence "v = r" by (intro Cons.prems(4)) simp_all
      moreover have "Q r" using find_Some_iff [OF Cons.prems(1)] by blast
      ultimately show False using False by simp
    qed
    ultimately show ?thesis using False by (simp add: update_rows_def)
  qed
qed

lemma map_update_same: "(\<And>r. r \<in> set rows \<Longrightarrow> P r \<Longrightarrow> g (f r) = g r) \<Longrightarrow> map g (update_rows P f rows) = map g rows"
  by (induction rows) (auto simp: update_rows_def)

text \<open>The rows after the description of role \<open>r\<close> has been reset.\<close>

definition described :: "role \<Rightarrow> string \<Rightarrow> string \<Rightarrow> db \<Rightarrow> role list" where
  "described r name d s =
     update_rows (\<lambda>v. r_id v = r_id r)
       (\<lambda>v. v\<lparr>r_name := name, r_description := d, r_updated_at := clock s\<rparr>) (roles s)"

lemma UpsertRole_found:
  assumes "wf_roles s" and "GetRoleByName name s = Inr r" and "r_description r \<noteq> d"
  shows "snd (UpsertRole name d s) = s\<lparr>roles := (described r name d s)\<rparr>" and "isl (fst (UpsertRole name d s)) = False"
    and "find (\<lambda>v. r_name v = name) (described r name d s) =
         Some (r\<lparr>r_name := name, r_description := d, r_updated_at := clock s\<rparr>)"
    and "map r_id (described r name d s) = map r_id (roles s)" and "map r_name (described r name d s) = map r_name (roles s)"
    and "\<And>n. n \<noteq> name \<Longrightarrow> find (\<lambda>v. r_name v = n) (described r name d s) = find (\<lambda>v. r_name v = n) (roles s)"
proof -
  have r: "find (\<lambda>v. r_name v = name) (roles s) = Some r" "r \<in> set (roles s)" "r_name r = name"
    using assms(2) find_Some_iff [of "\<lambda>v. r_name v = name" "roles s" r] by (auto simp: GetRoleByName_def)
  have uniq: "v = r" if "v \<in> set (roles s)" "r_id v = r_id r \<or> r_name v = name" for v
    using that r assms(1) distinct_map_eq [of r_id "roles s" v r] distinct_map_eq [of r_name "roles s" v r]
    by (auto simp: wf_roles_def)
  obtain old where "find (\<lambda>v. r_id v = r_id r) (roles s) = Some old"
    using r(2) by (cases "find (\<lambda>v. r_id v = r_id r) (roles s)") (auto simp: find_None_set)
  moreover have "\<not> (\<exists>v \<in> set (roles s). r_name v = name \<and> r_id v \<noteq> r_id r)" using uniq by blast
  ultimately have up: "UpsertRole name d s =
      (Inr (old\<lparr>r_name := name, r_description := d, r_updated_at := clock s\<rparr>), s\<lparr>roles := (described r name d s)\<rparr>)"
    using assms(2,3) r(3) by (auto simp: UpsertRole_def UpdateRole_def Let_def described_def)
  show "snd (UpsertRole name d s) = s\<lparr>roles := (described r name d s)\<rparr>" "isl (fst (UpsertRole name d s)) = False"
    using up by simp_all
  show "find (\<lambda>v. r_name v = name) (described r name d s) =
      Some (r\<lparr>r_name := name, r_description := d, r_updated_at := clock s\<rparr>)"
    unfolding described_def by (rule find_update_self [OF r(1)]) (use uniq in auto)
  show "map r_id (described r name d s) = map r_id (roles s)" unfolding described_def by (rule map_update_same) simp
  show "map r_name (described r name d s) = map r_name (roles s)" unfolding described_def
    by (rule map_update_same) (use uniq r(3) in auto)
  show "find (\<lambda>v. r_name v = n) (described r name d s) = find (\<lambda>v. r_name v = n) (roles s)" if "n \<noteq> name" for n
    unfolding described_def by (rule find_update_other) (use uniq r(3) that in auto)
qed

lemma ensureRole_step:
  assumes "wf_roles s" and "ensureRole x s = (Inr (), s')"
  shows "wf_roles s' \<and> role_seeded x s' \<and> (\<forall>y. fst y \<noteq> fst x \<longrightarrow> role_seeded y s \<longrightarrow> role_seeded y s')"
proof -
  obtain name d where x: "x = (name, d)" by (cases x)
  obtain res where u: "UpsertRole name d s = (res, s')" "\<not> isl res"
    using assms(2) by (auto simp: ensureRole_def x abind_app split: prod.splits sum.splits)
  show ?thesis
  proof (cases "GetRoleByName name s")
    case (Inl e)
    hence new: "find (\<lambda>r. r_name r = name) (roles s) = None"
      by (cases "find (\<lambda>r. r_name r = name) (roles s)") (simp_all add: GetRoleByName_def)
    hence none: "\<forall>v \<in> set (roles s). r_name v \<noteq> name" by (simp add: find_None_set)
    define row where "row = \<lparr>r_id = next_id s TRoles, r_name = name, r_description = d,
        r_created_at = clock s, r_updated_at = clock s\<rparr>"
    have s': "s' = (bump TRoles s)\<lparr>roles := roles s @ [row]\<rparr>"
      using u none Inl by (auto simp: UpsertRole_def CreateRole_def Let_def row_def)
    have "wf_roles s'" using assms(1) none by (auto simp: wf_roles_def s' bump_def row_def)
    moreover have "role_seeded x s'"
      using new by (simp add: role_seeded_def GetRoleByName_def s' find_append x row_def)
    moreover have "role_seeded y s'" if "role_seeded y s" for y
      using that by (auto simp: role_seeded_def GetRoleByName_def s' find_append bump_def split: sum.splits option.splits)
    ultimately show ?thesis by blast
  next
    case (Inr r)
    show ?thesis
    proof (cases "r_description r = d")
      case True
      hence "s' = s" using u Inr by (simp add: UpsertRole_def)
      thus ?thesis using assms(1) Inr True by (simp add: role_seeded_def x)
    next
      case False
      note f = UpsertRole_found [OF assms(1) Inr False]
      have s': "s' = s\<lparr>roles := described r name d s\<rparr>" using f(1) u(1) by simp
      have "(\<forall>v \<in> set (described r name d s). r_id v < next_id s TRoles) =
          (\<forall>i \<in> set (map r_id (roles s)). i < next_id s TRoles)"
        using f(4) by (metis (no_types, lifting) image_iff list.set_map)
      hence "wf_roles s'" using assms(1) f(4,5) by (auto simp: wf_roles_def s')
      moreover have "role_seeded x s'" using f(3) by (simp add: role_seeded_def GetRoleByName_def s' x)
      moreover have "role_seeded y s'" if "role_seeded y s" "fst y \<noteq> fst x" for y
        using that f(6) by (simp add: role_seeded_def GetRoleByName_def s' x)
      ultimately show ?thesis by blast
    qed
  qed
qed

lemma ensurePlatform_step:
  assumes "ensurePlatform x s = (Inr (), s')"
  shows "roles s' = roles s \<and> platform_seeded x s' \<and> (\<forall>y. platform_seeded y s \<longrightarrow> platform_seeded y s')"
proof -
  obtain name ty d proto port where x: "x = (name, ty, d, proto, port)" by (cases x)
  obtain p s1 where p: "UpsertPlatform name ty d s = (Inr p, s1)" "UpsertPlatformProtocol (pl_id p) proto port s1 = (Inr (), s')"
    using assms by (auto simp: ensurePlatform_def x abind_app split: prod.splits sum.splits)
  have s1: "roles s1 = roles s" "find (\<lambda>q. pl_name q = name) (platforms s1) = Some p"
    "platform_protocols s1 = platform_protocols s" "\<exists>more. platforms s1 = platforms s @ more"
    using p(1) by (auto simp: UpsertPlatform_def bump_def Let_def find_append split: option.splits)
  have s': "roles s' = roles s1" "platforms s' = platforms s1" "has_protocol (pl_id p) proto s'"
    "\<exists>more. platform_protocols s' = platform_protocols s1 @ more"
    using p(2) by (auto simp: UpsertPlatformProtocol_def has_protocol_def bump_def split: if_splits)
  have "platform_seeded y s'" if "platform_seeded y s" for y
    using that s1 s' by (auto simp: platform_seeded_def find_append has_protocol_def split: option.splits prod.splits)
  thus ?thesis using s1 s' by (auto simp: platform_seeded_def x)
qed

lemma EnsureRootNode_step:
  assumes "EnsureRootNode s = (Inr (), s')"
  shows "has_root s' \<and> roles s' = roles s \<and> platforms s' = platforms s \<and>
         platform_protocols s' = platform_protocols s"
  using assms by (auto simp: EnsureRootNode_def has_root_def bump_def split: if_splits)

lemma GetSetting_seeded: "setting_seeded st s \<longleftrightarrow> (\<exists>x. GetSetting (st_key st) s = Inr x)"
proof (cases "find (\<lambda>x. st_key x = st_key st) (settings s)")
  case None
  thus ?thesis by (simp add: setting_seeded_def GetSetting_def list_ex_iff find_None_set)
next
  case (Some x)
  thus ?thesis using find_Some_iff [OF Some] by (auto simp: setting_seeded_def GetSetting_def list_ex_iff)
qed

lemma ensureSetting_step:
  assumes "ensureSetting x s = (Inr (), s')"
  shows "(roles s' = roles s \<and> platforms s' = platforms s \<and> platform_protocols s' = platform_protocols s \<and>
          nodes s' = nodes s) \<and>
         setting_seeded x s' \<and> (\<forall>y. setting_seeded y s \<longrightarrow> setting_seeded y s')"
proof (cases "GetSetting (st_key x) s")
  case (Inr v)
  thus ?thesis using assms GetSetting_seeded by (auto simp: ensureSetting_def)
next
  case (Inl e)
  hence "\<not> setting_seeded x s" using GetSetting_seeded by simp
  hence "s' = s\<lparr>settings := settings s @ [x\<lparr>st_updated_at := clock s\<rparr>]\<rparr>"
    using assms Inl by (auto simp: ensureSetting_def UpsertSetting_def Let_def setting_seeded_def list_ex_iff split: if_splits)
  thus ?thesis by (simp add: setting_seeded_def)
qed

lemma GetUserByUsername_seeded: "admin_seeded s \<longleftrightarrow> (\<exists>u. GetUserByUsername ''admin'' s = Inr u)"
proof (cases "find (\<lambda>u. u_username u = ''admin'') (users s)")
  case None
  thus ?thesis by (simp add: admin_seeded_def GetUserByUsername_def list_ex_iff find_None_set)
next
  case (Some u)
  thus ?thesis using find_Some_iff [OF Some] by (auto simp: admin_seeded_def GetUserByUsername_def list_ex_iff)
qed

lemma CreateUser_frame:
  assumes "CreateUser u s = (Inr v, s')"
  shows "roles s' = roles s \<and> platforms s' = platforms s \<and> platform_protocols s' = platform_protocols s \<and>
         nodes s' = nodes s \<and> settings s' = settings s \<and> user_roles s' = user_roles s \<and>
         foreign_keys s' = foreign_keys s \<and> users s' = users s @ [v] \<and> u_username v = u_username u \<and>
         u_password_hash v = u_password_hash u \<and> u_is_active v = u_is_active u \<and> u_id v = next_id s TUsers"
  using assms by (auto simp: CreateUser_def bump_def Let_def split: if_splits)

lemma SetUserRoles_rows:
  assumes "SetUserRoles i rs s = (res, s')"
  shows "roles s' = roles s \<and> platforms s' = platforms s \<and> platform_protocols s' = platform_protocols s \<and>
         nodes s' = nodes s \<and> settings s' = settings s \<and> users s' = users s"
  using assms by (auto simp: SetUserRoles_def withTx_def Let_def split: if_splits prod.splits sum.splits)

definition seeded :: "db \<Rightarrow> bool" where
  "seeded s = ((\<forall>x \<in> set defaultRoles. role_seeded x s) \<and> (\<forall>x \<in> set defaultPlatforms. platform_seeded x s) \<and>
     has_root s \<and> (\<forall>x \<in> set DefaultSettings. setting_seeded x s) \<and> admin_seeded s)"

text \<open>Nothing is left to do where every part is present.\<close>

lemma seeded_stays:
  assumes "seeded s"
  shows "BootstrapDefaults argon2 salt s = (Inr (), s)"
proof -
  have "foreach ensureRole defaultRoles s = (Inr (), s)"
  proof (rule foreach_id, rule ballI)
    fix x assume "x \<in> set defaultRoles"
    hence "role_seeded x s" using assms by (simp add: seeded_def)
    thus "ensureRole x s = (Inr (), s)"
      by (auto simp: role_seeded_def ensureRole_def UpsertRole_def abind_app split: sum.splits prod.splits)
  qed
  moreover have "foreach ensurePlatform defaultPlatforms s = (Inr (), s)"
  proof (rule foreach_id, rule ballI)
    fix x assume "x \<in> set defaultPlatforms"
    hence "platform_seeded x s" using assms by (simp add: seeded_def)
    thus "ensurePlatform x s = (Inr (), s)"
      by (auto simp: platform_seeded_def ensurePlatform_def UpsertPlatform_def UpsertPlatformProtocol_def
                     abind_app split: option.splits prod.splits)
  qed
  moreover have "EnsureRootNode s = (Inr (), s)" using assms by (simp add: seeded_def EnsureRootNode_def)
  moreover have "foreach ensureSetting DefaultSettings s = (Inr (), s)"
  proof (rule foreach_id, rule ballI)
    fix x assume "x \<in> set DefaultSettings"
    hence "setting_seeded x s" using assms by (simp add: seeded_def)
    thus "ensureSetting x s = (Inr (), s)" by (auto simp: GetSetting_seeded ensureSetting_def)
  qed
  moreover have "ensureAdmin argon2 salt s = (Inr (), s)"
    using assms by (auto simp: seeded_def GetUserByUsername_seeded ensureAdmin_def)
  ultimately show ?thesis by (simp add: BootstrapDefaults_def abind_app)
qed

lemma role_seeded_frame: "roles s' = roles s \<Longrightarrow> role_seeded x s' = role_seeded x s"
  by (simp add: role_seeded_def GetRoleByName_def)

lemma platform_seeded_frame:
  "platforms s' = platforms s \<Longrightarrow> platform_protocols s' = platform_protocols s \<Longrightarrow> platform_seeded x s' = platform_seeded x s"
  by (auto simp: platform_seeded_def has_protocol_def split: option.splits prod.splits)

lemma has_root_frame: "nodes s' = nodes s \<Longrightarrow> has_root s' = has_root s"
  by (simp add: has_root_def)

lemma setting_seeded_frame: "settings s' = settings s \<Longrightarrow> setting_seeded x s' = setting_seeded x s"
  by (simp add: setting_seeded_def)

lemma defaultRoles_names: "x \<in> set defaultRoles \<Longrightarrow> y \<in> set defaultRoles \<Longrightarrow> fst x = fst y \<Longrightarrow> x = y"
proof -
  have "distinct (map fst defaultRoles)" by (simp add: defaultRoles_def)
  thus "x \<in> set defaultRoles \<Longrightarrow> y \<in> set defaultRoles \<Longrightarrow> fst x = fst y \<Longrightarrow> x = y"
    by (rule distinct_map_eq)
qed

lemma roles_establish:
  assumes "wf_roles s" and "foreach ensureRole defaultRoles s = (Inr (), s')"
  shows "wf_roles s' \<and> (\<forall>x \<in> set defaultRoles. role_seeded x s')"
proof (rule foreach_establishes [OF assms(2), where I = wf_roles])
  show "wf_roles s" using assms(1) .
next
  fix x u u' assume "wf_roles u" "ensureRole x u = (Inr (), u')"
  thus "wf_roles u' \<and> role_seeded x u'" using ensureRole_step by blast
next
  fix x y u u' assume a: "x \<in> set defaultRoles" "y \<in> set defaultRoles" "wf_roles u" "ensureRole x u = (Inr (), u')" "role_seeded y u"
  note st = ensureRole_step [OF a(3,4)]
  show "role_seeded y u'"
  proof (cases "fst y = fst x")
    case True
    hence "y = x" by (rule defaultRoles_names [OF a(2,1)])
    thus ?thesis using st by blast
  next
    case False
    thus ?thesis using st a(5) by blast
  qed
qed

lemma platforms_establish:
  assumes "foreach ensurePlatform defaultPlatforms s = (Inr (), s')"
  shows "roles s' = roles s \<and> (\<forall>x \<in> set defaultPlatforms. platform_seeded x s')"
proof (rule foreach_establishes [OF assms, where I = "\<lambda>u. roles u = roles s"])
  fix x u u' assume "roles u = roles s" "ensurePlatform x u = (Inr (), u')"
  thus "roles u' = roles s \<and> platform_seeded x u'" using ensurePlatform_step by auto
next
  fix x y u u' assume "ensurePlatform x u = (Inr (), u')" "platform_seeded y u"
  thus "platform_seeded y u'" using ensurePlatform_step by blast
qed simp

lemma settings_establish:
  assumes "foreach ensureSetting DefaultSettings s = (Inr (), s')"
  shows "(roles s' = roles s \<and> platforms s' = platforms s \<and> platform_protocols s' = platform_protocols s \<and>
          nodes s' = nodes s) \<and> (\<forall>x \<in> set DefaultSettings. setting_seeded x s')"
proof (rule foreach_establishes [OF assms, where I = "\<lambda>u. roles u = roles s \<and> platforms u = platforms s \<and>
          platform_protocols u = platform_protocols s \<and> nodes u = nodes s"])
  fix x u u'
  assume "roles u = roles s \<and> platforms u = platforms s \<and>
          platform_protocols u = platform_protocols s \<and> nodes u = nodes s" "ensureSetting x u = (Inr (), u')"
  thus "(roles u' = roles s \<and> platforms u' = platforms s \<and>
          platform_protocols u' = platform_protocols s \<and> nodes u' = nodes s) \<and> setting_seeded x u'"
    using ensureSetting_step [of x u u'] by auto
next
  fix x y u u' assume "ensureSetting x u = (Inr (), u')" "setting_seeded y u"
  thus "setting_seeded y u'" using ensureSetting_step by blast
qed simp

definition admin_row :: "string \<Rightarrow> user" where
  "admin_row hash =
     \<lparr>u_id = 0, u_username = ''admin'', u_name = ''Administrator'',
      u_email = ''admin@turjmp.local'', u_password_hash = hash, u_mfa_enabled = False,
      u_mfa_secret = '''', u_is_active = True, u_last_login_at = None,
      u_created_at = 0, u_updated_at = 0\<rparr>"

lemma ensureAdmin_created:
  assumes "ensureAdmin argon2 salt s = (Inr (), s')" and "GetUserByUsername ''admin'' s = Inl e"
  obtains hash v r s1 where "HashPassword argon2 salt ''admin123'' = Inr hash"
    "CreateUser (admin_row hash) s = (Inr v, s1)" "GetRoleByName ''super_admin'' s1 = Inr r"
    "SetUserRoles (u_id v) [r_id r] s1 = (Inr (), s')"
  using assms by (auto simp: ensureAdmin_def admin_row_def [symmetric] abind_app query_def
                       split: if_splits prod.splits sum.splits)

lemma ensureAdmin_step:
  assumes "ensureAdmin argon2 salt s = (Inr (), s')"
  shows "roles s' = roles s \<and> platforms s' = platforms s \<and> platform_protocols s' = platform_protocols s \<and>
         nodes s' = nodes s \<and> settings s' = settings s \<and> admin_seeded s'"
proof (cases "GetUserByUsername ''admin'' s")
  case (Inr u)
  thus ?thesis using assms GetUserByUsername_seeded by (auto simp: ensureAdmin_def)
next
  case (Inl e)
  obtain hash v r s1 where "HashPassword argon2 salt ''admin123'' = Inr hash"
    and c: "CreateUser (admin_row hash) s = (Inr v, s1)"
    and "GetRoleByName ''super_admin'' s1 = Inr r"
    and sr: "SetUserRoles (u_id v) [r_id r] s1 = (Inr (), s')"
    by (rule ensureAdmin_created [OF assms Inl])
  show ?thesis using CreateUser_frame [OF c] SetUserRoles_rows [OF sr]
    by (simp add: admin_seeded_def admin_row_def)
qed

text \<open>A first run, whatever was there before, leaves every part present.\<close>

lemma BootstrapDefaults_seeds:
  assumes "wf_roles s" and "BootstrapDefaults argon2 salt s = (Inr (), s')"
  shows "seeded s'"
proof -
  obtain s1 s2 s3 s4 where st: "foreach ensureRole defaultRoles s = (Inr (), s1)"
    "foreach ensurePlatform defaultPlatforms s1 = (Inr (), s2)" "EnsureRootNode s2 = (Inr (), s3)"
    "foreach ensureSetting DefaultSettings s3 = (Inr (), s4)" "ensureAdmin argon2 salt s4 = (Inr (), s')"
    using assms(2) by (auto simp: BootstrapDefaults_def abind_app split: prod.splits sum.splits)
  note r = roles_establish [OF assms(1) st(1)] and p = platforms_establish [OF st(2)]
    and n = EnsureRootNode_step [OF st(3)] and g = settings_establish [OF st(4)] and a = ensureAdmin_step [OF st(5)]
  have "role_seeded x s'" if "x \<in> set defaultRoles" for x
    using that r p n g a role_seeded_frame [of s' s1] by simp
  moreover have "platform_seeded x s'" if "x \<in> set defaultPlatforms" for x
    using that p n g a platform_seeded_frame [of s' s2] by simp
  moreover have "has_root s'" using n g a has_root_frame [of s' s3] by simp
  moreover have "setting_seeded x s'" if "x \<in> set DefaultSettings" for x
    using that g a setting_seeded_frame [of s' s4] by simp
  ultimately show ?thesis using a by (simp add: seeded_def)
qed

lemma seeded_clock: "seeded (s\<lparr>clock := t\<rparr>) = seeded s"
  by (simp add: seeded_def role_seeded_def GetRoleByName_def platform_seeded_def has_protocol_def has_root_def
                setting_seeded_def admin_seeded_def cong: option.case_cong)

lemma insert_links_one: "insert_links ok l [r] rows = Inr rows' \<Longrightarrow> (l, r) \<in> set rows'"
  by (auto simp: Let_def split: if_splits)

lemma SetUserRoles_one:
  assumes "SetUserRoles i [r] s = (Inr (), s')"
  shows "(i, r) \<in> set (user_roles s')"
  using assms insert_links_one [of _ i r]
  by (auto simp: SetUserRoles_def withTx_def Let_def simp del: insert_links.simps split: sum.splits prod.splits if_splits)

text \<open>
  The administrator of a fresh database, and of one whose administrator has been renamed or
  deleted.
\<close>

lemma ensureAdmin_resurrects:
  assumes "ensureAdmin argon2 salt s = (Inr (), s')" and "GetUserByUsername ''admin'' s = Inl e"
  shows "\<exists>u hash. GetUserByUsername ''admin'' s' = Inr u \<and> u_is_active u \<and>
           HashPassword argon2 salt ''admin123'' = Inr hash \<and> u_password_hash u = hash \<and>
           ''super_admin'' \<in> set (UserRoleNames (u_id u) s')"
proof -
  obtain hash v r s1 where c: "HashPassword argon2 salt ''admin123'' = Inr hash"
    "CreateUser (admin_row hash) s = (Inr v, s1)" "GetRoleByName ''super_admin'' s1 = Inr r"
    "SetUserRoles (u_id v) [r_id r] s1 = (Inr (), s')"
    by (rule ensureAdmin_created [OF assms])
  note cu = CreateUser_frame [OF c(2)] and sr = SetUserRoles_rows [OF c(4)]
  have none: "find (\<lambda>u. u_username u = ''admin'') (users s) = None"
    using assms(2) by (cases "find (\<lambda>u. u_username u = ''admin'') (users s)") (simp_all add: GetUserByUsername_def)
  have "find (\<lambda>u. u_username u = ''admin'') (users s') = Some v"
    using cu sr none by (simp add: find_append admin_row_def)
  hence "GetUserByUsername ''admin'' s' = Inr v" by (simp add: GetUserByUsername_def)
  moreover have "r \<in> set (roles s')" "r_name r = ''super_admin''"
    using c(3) sr find_Some_iff [of "\<lambda>r. r_name r = ''super_admin''" "roles s1" r]
    by (auto simp: GetRoleByName_def)
  moreover have "(u_id v, r_id r) \<in> set (user_roles s')" using SetUserRoles_one [OF c(4)] .
  ultimately show ?thesis using cu c(1) by (force simp: UserRoleNames_def UserRoles_def admin_row_def)
qed

text \<open>None of the earlier steps touches the users.\<close>

lemma foreach_keeps:
  "foreach f xs s = (res, s') \<Longrightarrow> (\<And>x u. g (snd (f x u)) = g u) \<Longrightarrow> g s' = g s"
proof (induction xs arbitrary: s)
  case (Cons x xs)
  obtain r u where u: "f x s = (r, u)" by (cases "f x s")
  have g: "g u = g s" using Cons.prems(2) [of x s] u by simp
  show ?case
  proof (cases r)
    case (Inl e)
    thus ?thesis using Cons.prems(1) u g by (simp add: abind_app)
  next
    case (Inr y)
    hence "foreach f xs u = (res, s')" using Cons.prems(1) u by (simp add: abind_app)
    from Cons.IH [OF this Cons.prems(2)] show ?thesis using g by simp
  qed
qed simp

lemma ensureRole_users: "users (snd (ensureRole x s)) = users s"
  by (cases x) (auto simp: ensureRole_def abind_app UpsertRole_def UpdateRole_def CreateRole_def Let_def bump_def
                     split: sum.splits prod.splits option.splits if_splits)

lemma ensurePlatform_users: "users (snd (ensurePlatform x s)) = users s"
  by (auto simp: ensurePlatform_def abind_app UpsertPlatform_def UpsertPlatformProtocol_def Let_def bump_def
           split: sum.splits prod.splits option.splits if_splits)

lemma ensureSetting_users: "users (snd (ensureSetting x s)) = users s"
  by (auto simp: ensureSetting_def UpsertSetting_def Let_def split: sum.splits option.splits if_splits)

lemma steps_keep_users:
  assumes "foreach ensureRole defaultRoles s = (Inr (), s1)"
    and "foreach ensurePlatform defaultPlatforms s1 = (Inr (), s2)" and "EnsureRootNode s2 = (Inr (), s3)"
    and "foreach ensureSetting DefaultSettings s3 = (Inr (), s4)"
  shows "users s4 = users s"
proof -
  have "users s1 = users s" using foreach_keeps [where g = users, OF assms(1) ensureRole_users] .
  moreover have "users s2 = users s1" using foreach_keeps [where g = users, OF assms(2) ensurePlatform_users] .
  moreover have "users s3 = users s2" using assms(3) by (auto simp: EnsureRootNode_def bump_def split: if_splits)
  moreover have "users s4 = users s3" using foreach_keeps [where g = users, OF assms(4) ensureSetting_users] .
  ultimately show ?thesis by simp
qed

text \<open>No statement of a start fails on a database with proper keys.\<close>

lemma foreach_succeeds:
  assumes "\<And>x u. \<exists>u'. f x u = (Inr (), u')"
  shows "\<exists>s'. foreach f xs s = (Inr (), s')"
proof (induction xs arbitrary: s)
  case (Cons x xs)
  obtain u where u: "f x s = (Inr (), u)" using assms by blast
  from Cons.IH obtain s' where "foreach f xs u = (Inr (), s')" by blast
  thus ?case using u by (simp add: abind_app)
qed simp

lemma ensureRole_succeeds: "\<exists>s'. ensureRole x s = (Inr (), s')"
proof (cases "GetRoleByName (fst x) s")
  case (Inl e)
  hence "find (\<lambda>r. r_name r = fst x) (roles s) = None"
    by (cases "find (\<lambda>r. r_name r = fst x) (roles s)") (simp_all add: GetRoleByName_def)
  hence "\<forall>r \<in> set (roles s). r_name r \<noteq> fst x" by (simp add: find_None_set)
  thus ?thesis using Inl
    by (cases x) (auto simp: ensureRole_def UpsertRole_def CreateRole_def Let_def abind_app)
next
  case (Inr r)
  thus ?thesis by (cases x) (auto simp: ensureRole_def UpsertRole_def abind_app Let_def split: prod.split sum.split)
qed

lemma ensurePlatform_succeeds: "\<exists>s'. ensurePlatform x s = (Inr (), s')"
proof -
  obtain name ty d proto port where x: "x = (name, ty, d, proto, port)" by (cases x)
  obtain p s1 where p: "UpsertPlatform name ty d s = (Inr p, s1)"
    by (cases "find (\<lambda>p. pl_name p = name) (platforms s)") (auto simp: UpsertPlatform_def Let_def)
  hence "p \<in> set (platforms s1)"
    by (auto simp: UpsertPlatform_def bump_def Let_def split: option.splits dest: find_Some_iff)
  hence "has_platform s1 (pl_id p)" by (auto simp: has_platform_def list_ex_iff)
  hence "\<exists>s'. UpsertPlatformProtocol (pl_id p) proto port s1 = (Inr (), s')"
    by (simp add: UpsertPlatformProtocol_def fk_def)
  thus ?thesis using p by (auto simp: ensurePlatform_def x abind_app)
qed

lemma ensureSetting_succeeds: "\<exists>s'. ensureSetting x s = (Inr (), s')"
  by (cases "find (\<lambda>v. st_key v = st_key x) (settings s)")
     (simp_all add: ensureSetting_def GetSetting_def UpsertSetting_def Let_def)

lemma SetUserRoles_succeeds:
  "has_user s i \<Longrightarrow> has_role s r \<Longrightarrow> \<exists>s'. SetUserRoles i [r] s = (Inr (), s')"
  by (auto simp: SetUserRoles_def withTx_def Let_def fk_def split: sum.split prod.split)

lemma ensureAdmin_succeeds:
  assumes "\<exists>h. argon2 (bytes_of ''admin123'') salt (word_of_int argonIterations) (word_of_int argonMemory)
           (word_of_int argonParallelism) (word_of_int argonKeyLength) = Some h"
    and "role_seeded (''super_admin'', d) s"
  shows "\<exists>s'. ensureAdmin argon2 salt s = (Inr (), s')"
proof (cases "find (\<lambda>u. u_username u = ''admin'') (users s)")
  case (Some u)
  thus ?thesis by (simp add: ensureAdmin_def GetUserByUsername_def)
next
  case None
  obtain hash where hash: "HashPassword argon2 salt ''admin123'' = Inr hash"
    using assms(1) by (auto simp: HashPassword_def)
  have "\<forall>u \<in> set (users s). u_username u \<noteq> ''admin''" using None by (simp add: find_None_set)
  then obtain v s1 where v: "CreateUser (admin_row hash) s = (Inr v, s1)"
    by (auto simp: CreateUser_def admin_row_def Let_def)
  note cu = CreateUser_frame [OF v]
  obtain r where r: "GetRoleByName ''super_admin'' s1 = Inr r"
    using assms(2) cu by (auto simp: role_seeded_def GetRoleByName_def split: sum.splits)
  hence "has_role s1 (r_id r)" using find_Some_iff [of "\<lambda>r. r_name r = ''super_admin''" "roles s1" r]
    by (auto simp: GetRoleByName_def has_role_def list_ex_iff)
  moreover have "has_user s1 (u_id v)" using cu by (simp add: has_user_def)
  ultimately obtain s' where "SetUserRoles (u_id v) [r_id r] s1 = (Inr (), s')"
    using SetUserRoles_succeeds by blast
  thus ?thesis using None hash v r
    by (simp add: ensureAdmin_def GetUserByUsername_def admin_row_def abind_app query_def)
qed

lemma BootstrapDefaults_succeeds:
  assumes "wf_roles s" and "\<exists>h. argon2 (bytes_of ''admin123'') salt (word_of_int argonIterations)
           (word_of_int argonMemory) (word_of_int argonParallelism) (word_of_int argonKeyLength) = Some h"
  shows "\<exists>s'. BootstrapDefaults argon2 salt s = (Inr (), s')"
proof -
  obtain s1 where s1: "foreach ensureRole defaultRoles s = (Inr (), s1)"
    using foreach_succeeds [where f = ensureRole, OF ensureRole_succeeds] by blast
  obtain s2 where s2: "foreach ensurePlatform defaultPlatforms s1 = (Inr (), s2)"
    using foreach_succeeds [where f = ensurePlatform, OF ensurePlatform_succeeds] by blast
  obtain s3 where s3: "EnsureRootNode s2 = (Inr (), s3)" by (cases "has_root s2") (simp_all add: EnsureRootNode_def)
  obtain s4 where s4: "foreach ensureSetting DefaultSettings s3 = (Inr (), s4)"
    using foreach_succeeds [where f = ensureSetting, OF ensureSetting_succeeds] by blast
  have "(''super_admin'', ''Full system administrator'') \<in> set defaultRoles" by (simp add: defaultRoles_def)
  hence "role_seeded (''super_admin'', ''Full system administrator'') s1"
    using roles_establish [OF assms(1) s1] by blast
  moreover have "roles s4 = roles s1"
    using platforms_establish [OF s2] EnsureRootNode_step [OF s3] settings_establish [OF s4] by simp
  ultimately have "role_seeded (''super_admin'', ''Full system administrator'') s4"
    using role_seeded_frame [of s4 s1] by blast
  from ensureAdmin_succeeds [of argon2 salt, OF assms(2) this] obtain s' where "ensureAdmin argon2 salt s4 = (Inr (), s')" by blast
  hence "BootstrapDefaults argon2 salt s = (Inr (), s')"
    by (simp only: BootstrapDefaults_def abind_app s1 s2 s3 s4 prod.case sum.case)
  thus ?thesis ..
qed

section \<open>Properties\<close>

text \<open>
  C40: A start always succeeds on a database with proper role keys, and starting again writes
  nothing: whatever the database held before the first start, a second one at any later time,
  with any salt, leaves it as it is.
\<close>

theorem bootstrap_idempotent:
  assumes "wf_roles s" and "\<exists>h. argon2 (bytes_of ''admin123'') salt (word_of_int argonIterations)
           (word_of_int argonMemory) (word_of_int argonParallelism) (word_of_int argonKeyLength) = Some h"
  shows "\<exists>s'. BootstrapDefaults argon2 salt s = (Inr (), s') \<and>
           (\<forall>salt' t. BootstrapDefaults argon2 salt' (s'\<lparr>clock := t\<rparr>) = (Inr (), s'\<lparr>clock := t\<rparr>))"
proof -
  obtain s' where s': "BootstrapDefaults argon2 salt s = (Inr (), s')"
    using BootstrapDefaults_succeeds [of s argon2 salt, OF assms] by blast
  moreover have "BootstrapDefaults argon2 salt' (s'\<lparr>clock := t\<rparr>) = (Inr (), s'\<lparr>clock := t\<rparr>)" for salt' t
    by (rule seeded_stays, subst seeded_clock, rule BootstrapDefaults_seeds [OF assms(1) s'])
  ultimately show ?thesis by blast
qed

text \<open>
  A start never leaves the server without an account of name admin: if there is none, because
  the first administrator has been renamed or deleted, one is created that is active, has the
  password admin123 and holds the role super_admin.
\<close>

theorem bootstrap_recreates_admin:
  assumes "wf_roles s" and "\<forall>u \<in> set (users s). u_username u \<noteq> ''admin''"
    and len: "\<And>p s. \<exists>h. argon2 p s (word_of_int argonIterations) (word_of_int argonMemory)
           (word_of_int argonParallelism) (word_of_int argonKeyLength) = Some h \<and> length h = 32"
  shows "\<exists>s' u. BootstrapDefaults argon2 salt s = (Inr (), s') \<and>
           GetUserByUsername ''admin'' s' = Inr u \<and> u_is_active u \<and>
           VerifyPassword argon2 ''admin123'' (u_password_hash u) = Inr True \<and>
           ''super_admin'' \<in> set (UserRoleNames (u_id u) s')"
proof -
  obtain h where h: "argon2 (bytes_of ''admin123'') salt (word_of_int argonIterations) (word_of_int argonMemory)
           (word_of_int argonParallelism) (word_of_int argonKeyLength) = Some h" using len by blast
  obtain s' where s': "BootstrapDefaults argon2 salt s = (Inr (), s')"
    using BootstrapDefaults_succeeds [of s argon2 salt, OF assms(1)] h by blast
  obtain s1 s2 s3 s4 where st: "foreach ensureRole defaultRoles s = (Inr (), s1)"
    "foreach ensurePlatform defaultPlatforms s1 = (Inr (), s2)" "EnsureRootNode s2 = (Inr (), s3)"
    "foreach ensureSetting DefaultSettings s3 = (Inr (), s4)" "ensureAdmin argon2 salt s4 = (Inr (), s')"
    using s' by (auto simp: BootstrapDefaults_def abind_app split: prod.splits sum.splits)
  have "users s4 = users s" using steps_keep_users [OF st(1-4)] .
  hence "find (\<lambda>u. u_username u = ''admin'') (users s4) = None" using assms(2) by (simp add: find_None_set)
  hence "GetUserByUsername ''admin'' s4 = Inl ErrNotFound" by (simp add: GetUserByUsername_def)
  from ensureAdmin_resurrects [OF st(5) this] obtain u hash where u: "GetUserByUsername ''admin'' s' = Inr u"
    "u_is_active u" "HashPassword argon2 salt ''admin123'' = Inr hash" "u_password_hash u = hash"
    "''super_admin'' \<in> set (UserRoleNames (u_id u) s')" by blast
  have "length h = 32" if "argon2 p s (word_of_int argonIterations) (word_of_int argonMemory)
           (word_of_int argonParallelism) (word_of_int argonKeyLength) = Some h" for p s h
    using len [of p s] that by auto
  from VerifyPassword_stored [OF u(3) this] have "VerifyPassword argon2 ''admin123'' hash = Inr True"
    using h by simp
  thus ?thesis using u s' by blast
qed

theorem bootstrap_idempotent_witness:
  "\<exists>s'. BootstrapDefaults sample_argon2 [1, 2] (empty_db 5) = (Inr (), s') \<and>
     BootstrapDefaults sample_argon2 [3] (s'\<lparr>clock := 99\<rparr>) = (Inr (), s'\<lparr>clock := 99\<rparr>)"
proof -
  have "wf_roles (empty_db 5)" by (simp add: wf_roles_def empty_db_def)
  from bootstrap_idempotent [OF this, of sample_argon2 "[1, 2]"] show ?thesis using sample_argon2_total by blast
qed

theorem bootstrap_recreates_admin_witness:
  "\<exists>s' u. BootstrapDefaults sample_argon2 [1, 2] (empty_db 5) = (Inr (), s') \<and>
     GetUserByUsername ''admin'' s' = Inr u \<and> u_is_active u \<and>
     VerifyPassword sample_argon2 ''admin123'' (u_password_hash u) = Inr True \<and>
     ''super_admin'' \<in> set (UserRoleNames (u_id u) s')"
  by (rule bootstrap_recreates_admin) (simp_all add: wf_roles_def empty_db_def sample_argon2_total)

end
