(* ===== verification/Httpx.thy ===== *)
theory Httpx
  imports Auth Complex_Main
begin

text \<open>
  The frame of the HTTP API: replies and their status codes, the signed-in principal
  (\<open>api/httpx/context.go\<close>), and the middleware that authenticates and throttles
  (\<open>api/middleware\<close>).
\<close>

section \<open>Requests and replies\<close>

text \<open>
  What the handlers read of a request; \<open>hq_route\<close> is the pattern of the matched route.  The
  body of a handler that binds one is an argument of its own, \<open>None\<close> when the JSON does not fit.
\<close>

record http_request =
  hq_method :: string
  hq_route :: string
  hq_path :: string
  hq_authorization :: string
  hq_proxy_auth :: string
  hq_client_ip :: string
  hq_param :: "string \<Rightarrow> string"
  hq_query :: "string \<Rightarrow> string"
  hq_host :: string
  hq_forwarded_host :: string

text \<open>
  A reply with data, without a body, with an error code, a redirection, or a file to save under
  a name.
\<close>

datatype 'a reply =
    Reply int 'a
  | Empty int
  | Refused int string
  | Redirect int string
  | Attachment string string

definition JSON :: "int \<Rightarrow> 'a \<Rightarrow> 'a reply" where
  "JSON status data = Reply status data"

definition Created :: "'a \<Rightarrow> 'a reply" where
  "Created data = JSON 201 data"

definition NoContent :: "'a reply" where
  "NoContent = Empty 204"

definition Error :: "error \<Rightarrow> 'a reply" where
  "Error e =
     (if error_is e ErrInvalidArgument then Refused 400 ''invalid_argument''
      else if error_is e ErrUnauthorized then Refused 401 ''unauthorized''
      else if error_is e ErrForbidden then Refused 403 ''forbidden''
      else if error_is e ErrNotFound then Refused 404 ''not_found''
      else if error_is e ErrConflict then Refused 409 ''conflict''
      else Refused 500 ''internal_error'')"

definition invalid_json :: "'a reply" where
  "invalid_json = Refused 400 ''invalid_json''"

text \<open>A handler runs on the state of the server; a middleware wraps one.\<close>

type_synonym ('s, 'a) handler = "'s \<Rightarrow> 'a reply \<times> 's"

definition refuse :: "error \<Rightarrow> ('s, 'a) handler" where
  "refuse e = (\<lambda>s. (Error e, s))"

definition RequireJSON :: "'b option \<Rightarrow> ('b \<Rightarrow> ('s, 'a) handler) \<Rightarrow> ('s, 'a) handler" where
  "RequireJSON body next =
     (case body of None \<Rightarrow> (\<lambda>s. (invalid_json, s)) | Some dst \<Rightarrow> next dst)"

text \<open>The end of most handlers: the error of a service, or its result.\<close>

definition answer :: "('a \<Rightarrow> 'b reply) \<Rightarrow> ('s, error, 'a) action \<Rightarrow> ('s, 'b) handler" where
  "answer ok m = (\<lambda>s. case m s of (Inl e, s') \<Rightarrow> (Error e, s') | (Inr a, s') \<Rightarrow> (ok a, s'))"

section \<open>Principals\<close>

record principal =
  pr_user_id :: int
  pr_username :: string
  pr_roles :: "string list"

definition PrincipalFromClaims :: "claims \<Rightarrow> principal" where
  "PrincipalFromClaims c =
     \<lparr>pr_user_id = cl_user_id c, pr_username = cl_username c, pr_roles = cl_roles c\<rparr>"

text \<open>The principal the middleware left in the context, if any.\<close>

definition MustPrincipal :: "principal option \<Rightarrow> (principal \<Rightarrow> ('s, 'a) handler) \<Rightarrow> ('s, 'a) handler" where
  "MustPrincipal p next = (case p of None \<Rightarrow> refuse ErrUnauthorized | Some p \<Rightarrow> next p)"

definition bearer :: string where
  "bearer = ''Bearer ''"

text \<open>\<open>parse\<close> is the verification of a token (\<open>None\<close>: refused).\<close>

definition Auth ::
    "(string \<Rightarrow> claims option) \<Rightarrow> http_request \<Rightarrow> (principal \<Rightarrow> ('s, 'a) handler) \<Rightarrow> ('s, 'a) handler" where
  "Auth parse req next =
     (let header = hq_authorization req
      in if \<not> has_prefix bearer header then refuse ErrUnauthorized
         else case parse (trim_space (drop (length bearer) header)) of
                None \<Rightarrow> refuse ErrUnauthorized
              | Some claims \<Rightarrow> next (PrincipalFromClaims claims))"

section \<open>The rate limiter\<close>

text \<open>
  The tokens of a bucket are rational numbers: the rounding of \<open>float64\<close> is not modelled.
  Times are nanoseconds.
\<close>

record rate_config =
  rl_enabled :: bool
  rl_per_second :: rat

record bucket =
  bk_tokens :: rat
  bk_last :: time

type_synonym buckets = "string \<rightharpoonup> bucket"

definition rate_burst :: "rate_config \<Rightarrow> rat" where
  "rate_burst cfg = (if rl_per_second cfg < 1 then 1 else rl_per_second cfg)"

definition elapsed_seconds :: "time \<Rightarrow> time \<Rightarrow> rat" where
  "elapsed_seconds since now = of_int (now - since) / 1000000000"

definition refill :: "rate_config \<Rightarrow> time \<Rightarrow> bucket option \<Rightarrow> rat" where
  "refill cfg now b =
     (let b = (case b of None \<Rightarrow> \<lparr>bk_tokens = rate_burst cfg, bk_last = now\<rparr> | Some b \<Rightarrow> b);
          tokens = bk_tokens b + elapsed_seconds (bk_last b) now * rl_per_second cfg
      in if tokens > rate_burst cfg then rate_burst cfg else tokens)"

definition take_token :: "rate_config \<Rightarrow> string \<Rightarrow> time \<Rightarrow> buckets \<Rightarrow> bool \<times> buckets" where
  "take_token cfg key now bs =
     (let tokens = refill cfg now (bs key)
      in if tokens < 1 then (False, bs(key \<mapsto> \<lparr>bk_tokens = tokens, bk_last = now\<rparr>))
         else (True, bs(key \<mapsto> \<lparr>bk_tokens = tokens - 1, bk_last = now\<rparr>)))"

definition rate_key :: "http_request \<Rightarrow> string" where
  "rate_key req = hq_client_ip req @ ''|'' @ hq_route req"

definition RateLimit ::
    "rate_config \<Rightarrow> http_request \<Rightarrow> time \<Rightarrow> ('s, 'a) handler \<Rightarrow> (buckets \<times> 's, 'a) handler" where
  "RateLimit cfg req now next = (\<lambda>(bs, s).
     if \<not> rl_enabled cfg \<or> rl_per_second cfg \<le> 0 then (case next s of (r, s') \<Rightarrow> (r, (bs, s')))
     else case take_token cfg (rate_key req) now bs of
            (False, bs') \<Rightarrow> (Refused 429 ''rate_limited'', (bs', s))
          | (True, bs') \<Rightarrow> (case next s of (r, s') \<Rightarrow> (r, (bs', s'))))"

text \<open>Requests as they arrive, with their keys and times; how many of one key go through.\<close>

fun arrivals :: "rate_config \<Rightarrow> (string \<times> time) list \<Rightarrow> buckets \<Rightarrow> bool list \<times> buckets" where
  "arrivals cfg [] bs = ([], bs)"
| "arrivals cfg ((key, now) # rest) bs =
     (case take_token cfg key now bs of
        (ok, bs') \<Rightarrow> (case arrivals cfg rest bs' of (oks, bs'') \<Rightarrow> (ok # oks, bs'')))"

definition admitted :: "rate_config \<Rightarrow> string \<Rightarrow> (string \<times> time) list \<Rightarrow> buckets \<Rightarrow> nat" where
  "admitted cfg key reqs bs =
     length (filter (\<lambda>(req, ok). fst req = key \<and> ok) (zip reqs (fst (arrivals cfg reqs bs))))"

lemma refill_None [simp]: "refill cfg now None = rate_burst cfg"
  by (simp add: refill_def elapsed_seconds_def)

lemma refill_Some:
  "refill cfg now (Some b) = min (rate_burst cfg) (bk_tokens b + elapsed_seconds (bk_last b) now * rl_per_second cfg)"
  by (auto simp: refill_def min_def Let_def)

lemma elapsed_add: "elapsed_seconds a b + elapsed_seconds b c = elapsed_seconds a c"
  by (simp add: elapsed_seconds_def field_simps)

lemma elapsed_nonneg: "a \<le> b \<Longrightarrow> 0 \<le> elapsed_seconds a b"
  by (simp add: elapsed_seconds_def)

text \<open>A bucket never holds more than it gains over the time that passes.\<close>

lemma refill_gain:
  assumes "t \<le> now" and "0 < rl_per_second cfg"
  shows "refill cfg now b \<le> refill cfg t b + elapsed_seconds t now * rl_per_second cfg"
proof (cases b)
  case None
  thus ?thesis using assms elapsed_nonneg [of t now] by simp
next
  case (Some k)
  have e: "elapsed_seconds (bk_last k) now = elapsed_seconds (bk_last k) t + elapsed_seconds t now"
    by (simp add: elapsed_add)
  have "0 \<le> elapsed_seconds t now * rl_per_second cfg" using assms elapsed_nonneg [of t now] by simp
  thus ?thesis using Some by (simp add: refill_Some e algebra_simps min_def)
qed

definition bucket_ok :: "time \<Rightarrow> bucket option \<Rightarrow> bool" where
  "bucket_ok t b = (case b of None \<Rightarrow> True | Some b \<Rightarrow> 0 \<le> bk_tokens b \<and> bk_last b \<le> t)"

lemma refill_nonneg:
  assumes "bucket_ok t b" and "0 < rl_per_second cfg"
  shows "0 \<le> refill cfg t b"
  using assms elapsed_nonneg
  by (cases b) (auto simp: refill_Some bucket_ok_def rate_burst_def intro!: add_nonneg_nonneg mult_nonneg_nonneg)

lemma admitted_Cons:
  "admitted cfg key ((k, now) # rest) bs =
     (case take_token cfg k now bs of (ok, bs') \<Rightarrow> (if k = key \<and> ok then 1 else 0) + admitted cfg key rest bs')"
  by (cases "take_token cfg k now bs") (auto simp: admitted_def split: prod.split)

lemma admitted_bound_from:
  assumes "0 < rl_per_second cfg" and "bucket_ok t (bs key)" and "sorted (t # map snd reqs @ [stop])"
  shows "of_nat (admitted cfg key reqs bs) \<le>
           refill cfg t (bs key) + elapsed_seconds t stop * rl_per_second cfg"
  using assms(2,3)
proof (induction reqs arbitrary: t bs)
  case Nil
  thus ?case using refill_nonneg [OF Nil.prems(1) assms(1)] elapsed_nonneg [of t stop] assms(1)
    by (simp add: admitted_def)
next
  case (Cons req rest)
  obtain k now where req: "req = (k, now)" by (cases req)
  obtain ok bs' where t: "take_token cfg k now bs = (ok, bs')" by (cases "take_token cfg k now bs")
  have le: "t \<le> now" and sorted: "sorted (t # map snd rest @ [stop])" "sorted (now # map snd rest @ [stop])"
    using Cons.prems(2) req by auto
  show ?case
  proof (cases "k = key")
    case False
    hence "bs' key = bs key" using t by (auto simp: take_token_def Let_def split: if_splits)
    thus ?thesis using Cons.IH [of t bs'] Cons.prems(1) sorted(1) t False by (simp add: req admitted_Cons)
  next
    case True
    let ?tokens = "refill cfg now (bs key)"
    have ok: "ok = (1 \<le> ?tokens)" and b: "bs' key = Some \<lparr>bk_tokens = ?tokens - (if ok then 1 else 0), bk_last = now\<rparr>"
      using t True by (auto simp: take_token_def Let_def split: if_splits)
    have "bucket_ok now (bs key)" using Cons.prems(1) le by (auto simp: bucket_ok_def split: option.splits)
    hence ok': "bucket_ok now (bs' key)"
      using refill_nonneg [of now "bs key" cfg] assms(1) by (simp add: b bucket_ok_def ok)
    have "refill cfg now (bs' key) \<le> ?tokens - (if ok then 1 else 0)"
      by (simp add: b refill_Some elapsed_seconds_def)
    moreover have "?tokens \<le> refill cfg t (bs key) + elapsed_seconds t now * rl_per_second cfg"
      by (rule refill_gain [OF le assms(1)])
    moreover have "of_nat (admitted cfg key rest bs') \<le>
        refill cfg now (bs' key) + elapsed_seconds now stop * rl_per_second cfg"
      by (rule Cons.IH [of now bs', OF ok' sorted(2)])
    moreover have "elapsed_seconds t now * rl_per_second cfg + elapsed_seconds now stop * rl_per_second cfg
        = elapsed_seconds t stop * rl_per_second cfg"
      by (simp add: elapsed_add flip: distrib_right)
    ultimately have "(if ok then 1 else 0) + of_nat (admitted cfg key rest bs') \<le>
        refill cfg t (bs key) + elapsed_seconds t stop * rl_per_second cfg" by linarith
    thus ?thesis using t True by (simp add: req admitted_Cons split: if_splits)
  qed
qed

text \<open>
  C39: The limiter lets through, of the requests of one client for one route that arrive within a
  window, no more than the burst and what the rate allows for the length of the window,
  whatever other clients send meanwhile and whatever was in the bucket before.
\<close>

theorem rate_limited:
  assumes "0 < rl_per_second cfg" and "bucket_ok start (bs key)"
    and "sorted (start # map snd reqs @ [stop])"
  shows "of_nat (admitted cfg key reqs bs) \<le>
           rate_burst cfg + rl_per_second cfg * elapsed_seconds start stop"
proof -
  have "refill cfg start (bs key) \<le> rate_burst cfg" by (cases "bs key") (simp_all add: refill_Some)
  thus ?thesis using admitted_bound_from [where bs = bs and key = key, OF assms] by (simp add: mult.commute)
qed

theorem rate_limited_witness:
  "of_nat (admitted \<lparr>rl_enabled = True, rl_per_second = 2\<rparr> ''a''
     [(''a'', 0), (''b'', 0), (''a'', 1), (''a'', 2), (''a'', 500000000)] Map.empty) \<le> (3 :: rat)"
  using rate_limited [of "\<lparr>rl_enabled = True, rl_per_second = 2\<rparr>" 0 Map.empty "''a''"
      "[(''a'', 0), (''b'', 0), (''a'', 1), (''a'', 2), (''a'', 500000000)]" 500000000]
  by (simp add: bucket_ok_def rate_burst_def elapsed_seconds_def)

end
