(* ===== verification/Rbac.thy ===== *)
theory Rbac
  imports Httpx Roles
begin

text \<open>
  Role-based access control: the table of policies and its adapter (\<open>rbac/adapter.go\<close>), the
  enforcer and its defaults (\<open>rbac/rbac.go\<close>, \<open>rbac/model.conf\<close>), and the decision the
  middleware takes (\<open>api/middleware/rbac.go\<close>).  Casbin itself is a parameter, a record of
  the functions the program calls; \<open>casbin_ok\<close> states its documented behaviour.
\<close>

section \<open>The table\<close>

text \<open>A row is the type of the policy and six values; the order is that of the ids.\<close>

type_synonym rule = "string list"
type_synonym rule_row = "string \<times> string list"

record policy_model =
  pm_p :: "rule list"
  pm_g :: "rule list"

record enforcer =
  en_rows :: "rule_row list"
  en_model :: policy_model

type_synonym 'a enforcer_action = "(enforcer, error, 'a) action"

definition padded :: "rule \<Rightarrow> string list" where
  "padded rule = take 6 (rule @ replicate 6 '''')"

text \<open>A row that is there already is a unique violation, which the insert ignores.\<close>

definition insertRule :: "string \<Rightarrow> rule \<Rightarrow> rule_row list \<Rightarrow> rule_row list" where
  "insertRule ptype rule rows =
     (if (ptype, padded rule) \<in> set rows then rows else rows @ [(ptype, padded rule)])"

definition Adapter_AddPolicy :: "string \<Rightarrow> rule \<Rightarrow> rule_row list \<Rightarrow> rule_row list" where
  "Adapter_AddPolicy ptype rule rows = insertRule ptype rule rows"

definition RemovePolicy :: "string \<Rightarrow> rule \<Rightarrow> rule_row list \<Rightarrow> rule_row list" where
  "RemovePolicy ptype rule rows = filter (\<lambda>row. row \<noteq> (ptype, padded rule)) rows"

text \<open>The clauses of the statement, or the error of a field out of range.\<close>

fun field_clauses :: "int \<Rightarrow> string list \<Rightarrow> error + (nat \<times> string) list" where
  "field_clauses field [] = Inr []"
| "field_clauses field (v # vs) =
     (if v = '''' then field_clauses (field + 1) vs
      else if field < 0 \<or> field > 5 then Inl (ErrOther ''casbin field index'')
      else rbind (field_clauses (field + 1) vs) (\<lambda>cs. Inr ((nat field, v) # cs)))"

definition RemoveFilteredPolicy ::
    "string \<Rightarrow> int \<Rightarrow> string list \<Rightarrow> (rule_row list, error, unit) action" where
  "RemoveFilteredPolicy ptype fieldIndex fieldValues = (\<lambda>rows.
     case field_clauses fieldIndex fieldValues of
       Inl e \<Rightarrow> (Inl e, rows)
     | Inr cs \<Rightarrow> (Inr (), filter (\<lambda>(t, vals). \<not> (t = ptype \<and> (\<forall>(i, v) \<in> set cs. vals ! i = v))) rows))"

definition SavePolicy :: "policy_model \<Rightarrow> rule_row list" where
  "SavePolicy m =
     fold (insertRule ''g'') (pm_g m) (fold (insertRule ''p'') (pm_p m) [])"

text \<open>The line of a row: empty values are left out.\<close>

definition policy_line :: "rule_row \<Rightarrow> string" where
  "policy_line row = fst row @ concat (map (\<lambda>v. '', '' @ v) (filter (\<lambda>v. v \<noteq> '''') (snd row)))"

section \<open>Casbin\<close>

record casbin =
  cb_line :: "string \<Rightarrow> policy_model \<Rightarrow> policy_model"
  cb_add :: "rule \<Rightarrow> unit enforcer_action"
  cb_remove :: "string \<Rightarrow> unit enforcer_action"
  cb_filtered :: "string \<Rightarrow> enforcer \<Rightarrow> error + rule list"
  cb_save :: "unit enforcer_action"
  cb_enforce :: "policy_model \<Rightarrow> string \<Rightarrow> string \<Rightarrow> string \<Rightarrow> error + bool"
  cb_keyMatch2 :: "string \<Rightarrow> string \<Rightarrow> bool"
  cb_regexMatch :: "string \<Rightarrow> string \<Rightarrow> bool"
  cb_linked :: "rule list \<Rightarrow> string \<Rightarrow> string \<Rightarrow> bool"

definition LoadPolicy :: "casbin \<Rightarrow> rule_row list \<Rightarrow> policy_model" where
  "LoadPolicy cb rows = fold (\<lambda>row. cb_line cb (policy_line row)) rows \<lparr>pm_p = [], pm_g = []\<rparr>"

definition defaultPolicies :: "rule list" where
  "defaultPolicies =
     [[''super_admin'', ''/api/v1/*'', ''.*''],
      [''admin'', ''/api/v1/*'', ''.*''],
      [''operator'', ''/api/v1/assets'', ''GET|POST''],
      [''operator'', ''/api/v1/assets/:id'', ''GET|PUT''],
      [''operator'', ''/api/v1/assets/tree'', ''GET''],
      [''operator'', ''/api/v1/assets/:id/accounts'', ''GET|POST''],
      [''operator'', ''/api/v1/assets/:id/accounts/:aid'', ''GET|PUT''],
      [''operator'', ''/api/v1/platforms'', ''GET''],
      [''operator'', ''/api/v1/platforms/:id/protocols'', ''GET''],
      [''operator'', ''/api/v1/authentication/connection-tokens/'', ''POST''],
      [''operator'', ''/api/v1/authentication/connection-tokens/sdk-url'', ''GET|POST''],
      [''operator'', ''/api/v1/dashboard/summary'', ''GET''],
      [''operator'', ''/api/v1/sessions'', ''GET|POST''],
      [''operator'', ''/api/v1/sessions/stream-token'', ''POST''],
      [''operator'', ''/api/v1/sessions/:id'', ''GET''],
      [''operator'', ''/api/v1/sessions/:id/recording'', ''GET''],
      [''operator'', ''/api/v1/sessions/:id/commands'', ''GET''],
      [''auditor'', ''/api/v1/dashboard/summary'', ''GET''],
      [''auditor'', ''/api/v1/sessions'', ''GET''],
      [''auditor'', ''/api/v1/sessions/stream-token'', ''POST''],
      [''auditor'', ''/api/v1/sessions/:id'', ''GET''],
      [''auditor'', ''/api/v1/sessions/:id/recording'', ''GET''],
      [''auditor'', ''/api/v1/sessions/:id/commands'', ''GET''],
      [''auditor'', ''/api/v1/audit-logs'', ''GET'']]"

definition ensureDefaultPolicies :: "casbin \<Rightarrow> unit enforcer_action" where
  "ensureDefaultPolicies cb = foreach (cb_add cb) defaultPolicies"

text \<open>The start of the server: the table is read, completed and written back.\<close>

definition NewEnforcer :: "casbin \<Rightarrow> unit enforcer_action" where
  "NewEnforcer cb = (\<lambda>e.
     abind (ensureDefaultPolicies cb) (\<lambda>_. cb_save cb) (e\<lparr>en_model := LoadPolicy cb (en_rows e)\<rparr>))"

text \<open>The matcher of \<open>model.conf\<close>, for one policy.\<close>

definition field :: "nat \<Rightarrow> rule \<Rightarrow> string" where
  "field i r = (if i < length r then r ! i else '''')"

definition matcher :: "casbin \<Rightarrow> policy_model \<Rightarrow> string \<Rightarrow> string \<Rightarrow> string \<Rightarrow> rule \<Rightarrow> bool" where
  "matcher cb m sub obj act r =
     ((sub = field 0 r \<or> cb_linked cb (pm_g m) sub (field 0 r)) \<and>
      cb_keyMatch2 cb obj (field 1 r) \<and> cb_regexMatch cb act (field 2 r))"

section \<open>The decision\<close>

definition subjects :: "principal \<Rightarrow> string list" where
  "subjects p = pr_username p # pr_roles p"

fun first_allowed :: "(string \<Rightarrow> error + bool) \<Rightarrow> string list \<Rightarrow> error + bool" where
  "first_allowed ask [] = Inr False"
| "first_allowed ask (s # ss) =
     rbind (ask s) (\<lambda>allowed. if allowed then Inr True else first_allowed ask ss)"

text \<open>The middleware around a handler; the principal is the one the \<open>Auth\<close> middleware stored.\<close>

definition RBAC ::
    "casbin \<Rightarrow> policy_model \<Rightarrow> http_request \<Rightarrow> principal \<Rightarrow> ('s, 'a) handler \<Rightarrow> ('s, 'a) handler" where
  "RBAC cb m req who next =
     (let path = (if hq_route req = '''' then hq_path req else hq_route req)
      in case first_allowed (\<lambda>subject. cb_enforce cb m subject path (hq_method req)) (subjects who) of
           Inl e \<Rightarrow> refuse e
         | Inr False \<Rightarrow> refuse ErrForbidden
         | Inr True \<Rightarrow> next)"

text \<open>The check of the handlers, which takes an error for a refusal.\<close>

definition isAllowed :: "casbin \<Rightarrow> policy_model \<Rightarrow> principal \<Rightarrow> string \<Rightarrow> string \<Rightarrow> bool" where
  "isAllowed cb m who obj act =
     (first_allowed (\<lambda>subject. cb_enforce cb m subject obj act) (subjects who) = Inr True)"

section \<open>What Casbin documents\<close>

text \<open>
  \<open>keyMatch2\<close> compares the segments of a path with those of a pattern: \<open>:name\<close> stands for one
  non-empty segment, a final \<open>*\<close> for any rest.
\<close>

fun segments_match :: "string list \<Rightarrow> string list \<Rightarrow> bool" where
  "segments_match [] [] = True"
| "segments_match (s # ss) (p # ps) =
     (if p = ''*'' \<and> ps = [] then True
      else if (if p \<noteq> [] \<and> hd p = CHR '':'' then s \<noteq> '''' else s = p) then segments_match ss ps
      else False)"
| "segments_match ss ps = False"

definition path_match :: "string \<Rightarrow> string \<Rightarrow> bool" where
  "path_match path pattern = segments_match (split_char (CHR ''/'') path) (split_char (CHR ''/'') pattern)"

text \<open>The alternatives of a method pattern such as \<open>GET|POST\<close>, found anywhere in the method.\<close>

definition method_match :: "string \<Rightarrow> string \<Rightarrow> bool" where
  "method_match meth pattern =
     (pattern = ''.*'' \<or> (\<exists>alt \<in> set (split_char (CHR ''|'') pattern). contains alt meth))"

definition path_char :: "char \<Rightarrow> bool" where
  "path_char c = (let n = of_char c :: nat
     in 97 \<le> n \<and> n \<le> 122 \<or> 65 \<le> n \<and> n \<le> 90 \<or> 48 \<le> n \<and> n \<le> 57 \<or> n = 45 \<or> n = 95)"

text \<open>Patterns on which the two matchers are what is written above, and values a line keeps.\<close>

definition plain_path :: "string \<Rightarrow> bool" where
  "plain_path p = list_all (\<lambda>c. path_char c \<or> c = CHR '':'' \<or> c = CHR ''/'') p"

definition plain_segment :: "string \<Rightarrow> bool" where
  "plain_segment s = (list_all path_char s \<or> hd s = CHR '':'' \<and> tl s \<noteq> '''' \<and> list_all path_char (tl s))"

definition plain_pattern :: "string \<Rightarrow> bool" where
  "plain_pattern p =
     (let parts = split_char (CHR ''/'') p
      in list_all plain_segment parts \<or>
         last parts = ''*'' \<and> 1 < length parts \<and> list_all plain_segment (butlast parts))"

definition plain_methods :: "string \<Rightarrow> bool" where
  "plain_methods p = (p = ''.*'' \<or>
     p \<noteq> '''' \<and> list_all (\<lambda>c. let n = of_char c :: nat in 65 \<le> n \<and> n \<le> 90 \<or> n = 124) p)"

definition line_value :: "string \<Rightarrow> bool" where
  "line_value v = (v \<noteq> '''' \<and> list_all (\<lambda>c. let n = of_char c :: nat
     in 33 \<le> n \<and> n < 127 \<and> n \<noteq> 34 \<and> n \<noteq> 35 \<and> n \<noteq> 44) v)"

definition plain_rule :: "rule \<Rightarrow> bool" where
  "plain_rule r = (length r = 3 \<and> list_all line_value r)"

text \<open>An empty value of a filter matches everything.\<close>

definition named :: "string \<Rightarrow> rule \<Rightarrow> bool" where
  "named name r = (name = '''' \<or> field 0 r = name)"

definition casbin_ok :: "casbin \<Rightarrow> bool" where
  "casbin_ok cb =
     ((\<forall>r e. cb_add cb r e = (Inr (),
         if r \<in> set (pm_p (en_model e)) then e
         else \<lparr>en_rows = Adapter_AddPolicy ''p'' r (en_rows e),
               en_model = (en_model e)\<lparr>pm_p := pm_p (en_model e) @ [r]\<rparr>\<rparr>)) \<and>
      (\<forall>name e. cb_remove cb name e = (Inr (),
         \<lparr>en_rows = snd (RemoveFilteredPolicy ''p'' 0 [name] (en_rows e)),
          en_model = (en_model e)\<lparr>pm_p := filter (\<lambda>r. \<not> named name r) (pm_p (en_model e))\<rparr>\<rparr>)) \<and>
      (\<forall>name e. cb_filtered cb name e = Inr (filter (named name) (pm_p (en_model e)))) \<and>
      (\<forall>e. cb_save cb e = (Inr (), e\<lparr>en_rows := SavePolicy (en_model e)\<rparr>)) \<and>
      (\<forall>m s obj act. (\<forall>r \<in> set (pm_p m). plain_rule r \<and> plain_pattern (r ! 1) \<and> plain_methods (r ! 2)) \<longrightarrow>
         cb_enforce cb m s obj act = Inr (list_ex (matcher cb m s obj act) (pm_p m))) \<and>
      (\<forall>path pattern. plain_path path \<and> plain_pattern pattern \<longrightarrow>
         cb_keyMatch2 cb path pattern = path_match path pattern) \<and>
      (\<forall>meth pattern. plain_methods pattern \<longrightarrow> cb_regexMatch cb meth pattern = method_match meth pattern) \<and>
      (\<forall>s r. cb_linked cb [] s r = (s = r)) \<and>
      (\<forall>r m. plain_rule r \<longrightarrow>
         cb_line cb (join '', '' (''p'' # r)) m =
           (if r \<in> set (pm_p m) then m else m\<lparr>pm_p := pm_p m @ [r]\<rparr>)))"

lemma casbin_add: "casbin_ok cb \<Longrightarrow> cb_add cb r e = (Inr (),
    if r \<in> set (pm_p (en_model e)) then e
    else \<lparr>en_rows = Adapter_AddPolicy ''p'' r (en_rows e), en_model = (en_model e)\<lparr>pm_p := pm_p (en_model e) @ [r]\<rparr>\<rparr>)"
  by (simp only: casbin_ok_def)

lemma casbin_remove: "casbin_ok cb \<Longrightarrow> cb_remove cb name e = (Inr (),
    \<lparr>en_rows = snd (RemoveFilteredPolicy ''p'' 0 [name] (en_rows e)),
     en_model = (en_model e)\<lparr>pm_p := filter (\<lambda>r. \<not> named name r) (pm_p (en_model e))\<rparr>\<rparr>)"
  by (simp only: casbin_ok_def)

lemma casbin_filtered: "casbin_ok cb \<Longrightarrow> cb_filtered cb name e = Inr (filter (named name) (pm_p (en_model e)))"
  by (simp only: casbin_ok_def)

lemma casbin_save: "casbin_ok cb \<Longrightarrow> cb_save cb e = (Inr (), e\<lparr>en_rows := SavePolicy (en_model e)\<rparr>)"
  by (simp only: casbin_ok_def)

lemma casbin_line: "casbin_ok cb \<Longrightarrow> plain_rule r \<Longrightarrow> cb_line cb (join '', '' (''p'' # r)) m =
    (if r \<in> set (pm_p m) then m else m\<lparr>pm_p := pm_p m @ [r]\<rparr>)"
  by (simp only: casbin_ok_def)

text \<open>Policies on which the decision is the documented one.\<close>

definition plain_policy :: "rule \<Rightarrow> bool" where
  "plain_policy r = (plain_rule r \<and> plain_pattern (r ! 1) \<and> plain_methods (r ! 2))"

definition plain_model :: "policy_model \<Rightarrow> bool" where
  "plain_model m = (pm_g m = [] \<and> distinct (pm_p m) \<and> (\<forall>r \<in> set (pm_p m). plain_policy r))"

lemma casbin_enforce:
  assumes "casbin_ok cb" and "plain_model m" and "plain_path obj"
  shows "cb_enforce cb m s obj act =
    Inr (\<exists>r \<in> set (pm_p m). s = r ! 0 \<and> path_match obj (r ! 1) \<and> method_match act (r ! 2))"
proof -
  have plain: "\<forall>r \<in> set (pm_p m). plain_rule r \<and> plain_pattern (r ! 1) \<and> plain_methods (r ! 2)" and g: "pm_g m = []"
    using assms(2) by (auto simp: plain_model_def plain_policy_def)
  have laws: "cb_enforce cb m s obj act = Inr (list_ex (matcher cb m s obj act) (pm_p m))"
    "\<And>pattern. plain_pattern pattern \<Longrightarrow> cb_keyMatch2 cb obj pattern = path_match obj pattern"
    "\<And>pattern. plain_methods pattern \<Longrightarrow> cb_regexMatch cb act pattern = method_match act pattern"
    "\<And>r. cb_linked cb [] s r = (s = r)"
    using assms(1,3) plain by (simp_all only: casbin_ok_def)
  have "matcher cb m s obj act r = (s = r ! 0 \<and> path_match obj (r ! 1) \<and> method_match act (r ! 2))"
    if "r \<in> set (pm_p m)" for r
    using plain that laws(2-4) g by (auto simp: matcher_def field_def plain_rule_def)
  thus ?thesis unfolding laws(1) list_ex_iff by auto
qed

lemma first_allowed_Inr:
  "(\<And>s. ask s = Inr (f s)) \<Longrightarrow> first_allowed ask ss = Inr (\<exists>s \<in> set ss. f s)"
  by (induction ss) auto

text \<open>What a principal may do: one policy of the user name or of a role.\<close>

definition may :: "policy_model \<Rightarrow> principal \<Rightarrow> string \<Rightarrow> string \<Rightarrow> bool" where
  "may m who obj act =
     (\<exists>r \<in> set (pm_p m). r ! 0 \<in> set (subjects who) \<and> path_match obj (r ! 1) \<and> method_match act (r ! 2))"

lemma asked:
  assumes "casbin_ok cb" and "plain_model m" and "plain_path obj"
  shows "first_allowed (\<lambda>s. cb_enforce cb m s obj act) (subjects who) = Inr (may m who obj act)"
proof -
  have "first_allowed (\<lambda>s. cb_enforce cb m s obj act) (subjects who) = Inr (\<exists>s \<in> set (subjects who).
      \<exists>r \<in> set (pm_p m). s = r ! 0 \<and> path_match obj (r ! 1) \<and> method_match act (r ! 2))"
    by (rule first_allowed_Inr) (rule casbin_enforce [OF assms])
  thus ?thesis by (auto simp: may_def)
qed

lemma isAllowed_may:
  "casbin_ok cb \<Longrightarrow> plain_model m \<Longrightarrow> plain_path obj \<Longrightarrow> isAllowed cb m who obj act = may m who obj act"
  by (simp add: isAllowed_def asked)

lemma RBAC_may:
  "casbin_ok cb \<Longrightarrow> plain_model m \<Longrightarrow> plain_path (hq_route req) \<Longrightarrow> hq_route req \<noteq> '''' \<Longrightarrow>
   RBAC cb m req who next = (if may m who (hq_route req) (hq_method req) then next else refuse ErrForbidden)"
  by (simp add: RBAC_def Let_def asked)

section \<open>Reading back what was written\<close>

lemma length_padded: "length (padded r) = 6"
  by (simp add: padded_def)

lemma padded_3: "length r = 3 \<Longrightarrow> padded r = r @ ['''', '''', '''']"
  by (simp add: padded_def numeral_eq_Suc)

lemma padded_inj: "length r = 3 \<Longrightarrow> length r' = 3 \<Longrightarrow> padded r = padded r' \<Longrightarrow> r = r'"
  by (simp add: padded_3)

lemma fold_insertRule:
  assumes "distinct rules" and "\<forall>r \<in> set rules. length r = 3" and "\<forall>r \<in> set rules. (''p'', padded r) \<notin> set rows"
  shows "fold (insertRule ''p'') rules rows = rows @ map (\<lambda>r. (''p'', padded r)) rules"
  using assms
proof (induction rules arbitrary: rows)
  case (Cons r rules)
  have "\<forall>r' \<in> set rules. (''p'', padded r') \<notin> set (rows @ [(''p'', padded r)])"
    using Cons.prems padded_inj [of _ r] by auto
  with Cons have "fold (insertRule ''p'') rules (rows @ [(''p'', padded r)]) =
      (rows @ [(''p'', padded r)]) @ map (\<lambda>r. (''p'', padded r)) rules" by simp
  moreover have "insertRule ''p'' r rows = rows @ [(''p'', padded r)]"
    using Cons.prems(3) by (simp add: insertRule_def)
  ultimately show ?case by simp
qed simp

lemma line_value_nonempty: "line_value v \<Longrightarrow> v \<noteq> ''''"
  by (simp add: line_value_def)

lemma policy_line_padded:
  assumes "plain_rule r"
  shows "policy_line (''p'', padded r) = join '', '' (''p'' # r)"
proof -
  obtain a b c where r: "r = [a, b, c]" using assms by (auto simp: plain_rule_def numeral_eq_Suc length_Suc_conv)
  have "a \<noteq> ''''" "b \<noteq> ''''" "c \<noteq> ''''"
    using assms line_value_nonempty by (auto simp: r plain_rule_def)
  thus ?thesis by (simp add: r policy_line_def padded_3)
qed

lemma fold_lines:
  assumes "casbin_ok cb" and "\<forall>r \<in> set rules. plain_rule r" and "distinct (pm_p m @ rules)"
  shows "fold (\<lambda>row. cb_line cb (policy_line row)) (map (\<lambda>r. (''p'', padded r)) rules) m =
         m\<lparr>pm_p := pm_p m @ rules\<rparr>"
  using assms(2,3)
proof (induction rules arbitrary: m)
  case (Cons r rules)
  have "cb_line cb (policy_line (''p'', padded r)) m = m\<lparr>pm_p := pm_p m @ [r]\<rparr>"
    using Cons.prems by (simp add: policy_line_padded casbin_line [OF assms(1)])
  thus ?case using Cons.IH [of "m\<lparr>pm_p := pm_p m @ [r]\<rparr>"] Cons.prems by simp
qed simp

lemma SavePolicy_plain:
  assumes "plain_model m"
  shows "SavePolicy m = map (\<lambda>r. (''p'', padded r)) (pm_p m)"
  using assms fold_insertRule [of "pm_p m" "[]"] by (simp add: SavePolicy_def plain_model_def plain_policy_def plain_rule_def)

lemma policies_read_back:
  assumes "casbin_ok cb" and "plain_model m"
  shows "LoadPolicy cb (SavePolicy m) = m"
proof -
  have "fold (\<lambda>row. cb_line cb (policy_line row)) (map (\<lambda>r. (''p'', padded r)) (pm_p m)) \<lparr>pm_p = [], pm_g = []\<rparr> =
      \<lparr>pm_p = pm_p m, pm_g = []\<rparr>"
    using fold_lines [OF assms(1), of "pm_p m" "\<lparr>pm_p = [], pm_g = []\<rparr>"] assms(2)
    by (simp add: plain_model_def plain_policy_def)
  thus ?thesis using assms(2) by (simp add: LoadPolicy_def SavePolicy_plain plain_model_def)
qed

section \<open>The start of the enforcer\<close>

lemma foreach_add:
  assumes "casbin_ok cb" and "distinct rules"
  shows "\<exists>rows. foreach (cb_add cb) rules e = (Inr (), \<lparr>en_rows = rows, en_model =
           (en_model e)\<lparr>pm_p := pm_p (en_model e) @ filter (\<lambda>r. r \<notin> set (pm_p (en_model e))) rules\<rparr>\<rparr>)"
  using assms(2)
proof (induction rules arbitrary: e)
  case Nil
  show ?case by (rule exI [of _ "en_rows e"]) simp
next
  case (Cons r rules)
  show ?case
  proof (cases "r \<in> set (pm_p (en_model e))")
    case True
    hence "cb_add cb r e = (Inr (), e)" by (simp add: casbin_add [OF assms(1)])
    thus ?thesis using Cons True by (simp add: abind_app)
  next
    case False
    define e' where "e' = \<lparr>en_rows = Adapter_AddPolicy ''p'' r (en_rows e),
        en_model = (en_model e)\<lparr>pm_p := pm_p (en_model e) @ [r]\<rparr>\<rparr>"
    have add: "cb_add cb r e = (Inr (), e')" using False by (simp add: casbin_add [OF assms(1)] e'_def)
    have "filter (\<lambda>x. x \<notin> set (pm_p (en_model e'))) rules = filter (\<lambda>x. x \<notin> set (pm_p (en_model e))) rules"
      using Cons.prems by (intro filter_cong) (auto simp: e'_def)
    moreover obtain rows where "foreach (cb_add cb) rules e' = (Inr (), \<lparr>en_rows = rows, en_model =
           (en_model e')\<lparr>pm_p := pm_p (en_model e') @ filter (\<lambda>r. r \<notin> set (pm_p (en_model e'))) rules\<rparr>\<rparr>)"
      using Cons.IH [of e'] Cons.prems by auto
    ultimately have "foreach (cb_add cb) (r # rules) e = (Inr (), \<lparr>en_rows = rows, en_model =
        (en_model e)\<lparr>pm_p := pm_p (en_model e) @ filter (\<lambda>r. r \<notin> set (pm_p (en_model e))) (r # rules)\<rparr>\<rparr>)"
      using False by (simp add: abind_app add) (simp add: e'_def)
    thus ?thesis by blast
  qed
qed

lemma defaultPolicies_distinct: "distinct defaultPolicies"
  by (simp add: defaultPolicies_def)

lemma defaultPolicies_plain: "\<forall>r \<in> set defaultPolicies. plain_policy r"
proof -
  have "list_all plain_policy defaultPolicies"
    by (simp add: defaultPolicies_def plain_policy_def plain_rule_def plain_pattern_def plain_segment_def
        path_char_def plain_methods_def line_value_def Let_def)
  thus ?thesis by (simp add: list_all_iff)
qed

definition started :: "policy_model \<Rightarrow> policy_model" where
  "started m = m\<lparr>pm_p := pm_p m @ filter (\<lambda>r. r \<notin> set (pm_p m)) defaultPolicies\<rparr>"

lemma started_plain: "plain_model m \<Longrightarrow> plain_model (started m)"
  using defaultPolicies_plain defaultPolicies_distinct by (auto simp: plain_model_def started_def)

text \<open>
  A start on what an earlier run saved: its policies, and every default that is missing among
  them.
\<close>

lemma NewEnforcer_on:
  assumes "casbin_ok cb" and "plain_model m" and "en_rows e = SavePolicy m"
  shows "NewEnforcer cb e = (Inr (), \<lparr>en_rows = SavePolicy (started m), en_model = started m\<rparr>)"
proof -
  let ?e = "e\<lparr>en_model := m\<rparr>"
  obtain rows where "foreach (cb_add cb) defaultPolicies ?e = (Inr (), \<lparr>en_rows = rows, en_model = started m\<rparr>)"
    using foreach_add [OF assms(1) defaultPolicies_distinct, of ?e] by (auto simp: started_def)
  thus ?thesis
    by (simp add: NewEnforcer_def ensureDefaultPolicies_def assms(3) policies_read_back [OF assms(1,2)] abind_app
                  casbin_save [OF assms(1)])
qed

text \<open>The first start, on an empty table.\<close>

lemma NewEnforcer_fresh:
  assumes "casbin_ok cb" and "en_rows e = []"
  shows "NewEnforcer cb e = (Inr (), \<lparr>en_rows = SavePolicy \<lparr>pm_p = defaultPolicies, pm_g = []\<rparr>,
           en_model = \<lparr>pm_p = defaultPolicies, pm_g = []\<rparr>\<rparr>)"
  using NewEnforcer_on [OF assms(1), of "\<lparr>pm_p = [], pm_g = []\<rparr>" e] assms(2)
  by (simp add: plain_model_def SavePolicy_def started_def)

section \<open>A stand-in for Casbin, for the witnesses\<close>

definition sample_matches :: "policy_model \<Rightarrow> string \<Rightarrow> string \<Rightarrow> string \<Rightarrow> rule \<Rightarrow> bool" where
  "sample_matches m sub obj act r =
     (sub = field 0 r \<and> path_match obj (field 1 r) \<and> method_match act (field 2 r))"

definition sample_line :: "string \<Rightarrow> policy_model \<Rightarrow> policy_model" where
  "sample_line line m =
     (case split_char (CHR '','') line of
        t # vs \<Rightarrow> (let r = map (drop 1) vs
                   in if t \<noteq> ''p'' \<or> r \<in> set (pm_p m) then m else m\<lparr>pm_p := pm_p m @ [r]\<rparr>)
      | [] \<Rightarrow> m)"

definition sample_casbin :: casbin where
  "sample_casbin =
     \<lparr>cb_line = sample_line,
      cb_add = (\<lambda>r e. (Inr (),
        if r \<in> set (pm_p (en_model e)) then e
        else \<lparr>en_rows = Adapter_AddPolicy ''p'' r (en_rows e),
              en_model = (en_model e)\<lparr>pm_p := pm_p (en_model e) @ [r]\<rparr>\<rparr>)),
      cb_remove = (\<lambda>name e. (Inr (),
        \<lparr>en_rows = snd (RemoveFilteredPolicy ''p'' 0 [name] (en_rows e)),
         en_model = (en_model e)\<lparr>pm_p := filter (\<lambda>r. \<not> named name r) (pm_p (en_model e))\<rparr>\<rparr>)),
      cb_filtered = (\<lambda>name e. Inr (filter (named name) (pm_p (en_model e)))),
      cb_save = (\<lambda>e. (Inr (), e\<lparr>en_rows := SavePolicy (en_model e)\<rparr>)),
      cb_enforce = (\<lambda>m s obj act. Inr (list_ex (sample_matches m s obj act) (pm_p m))),
      cb_keyMatch2 = path_match, cb_regexMatch = method_match, cb_linked = (\<lambda>g s r. s = r)\<rparr>"

lemma line_value_no_comma: "line_value v \<Longrightarrow> CHR '','' \<notin> set v"
  by (auto simp: line_value_def list_all_iff Let_def)

lemma sample_line_rule:
  assumes "plain_rule r"
  shows "sample_line (join '', '' (''p'' # r)) m =
    (if r \<in> set (pm_p m) then m else m\<lparr>pm_p := pm_p m @ [r]\<rparr>)"
proof -
  obtain a b c where r: "r = [a, b, c]" using assms by (auto simp: plain_rule_def numeral_eq_Suc length_Suc_conv)
  have n: "CHR '','' \<notin> set (CHR '' '' # a)" "CHR '','' \<notin> set (CHR '' '' # b)" "CHR '','' \<notin> set (CHR '' '' # c)"
    using assms line_value_no_comma by (auto simp: r plain_rule_def)
  have "split_char (CHR '','') (join '', '' (''p'' # r)) = [''p'', CHR '' '' # a, CHR '' '' # b, CHR '' '' # c]"
    using split_char_app [OF n(1), of "CHR '' '' # b @ CHR '','' # CHR '' '' # c"]
      split_char_app [OF n(2), of "CHR '' '' # c"] split_char_no_sep [OF n(3)] by (simp add: r)
  thus ?thesis by (simp add: sample_line_def r)
qed

lemma sample_casbin_ok: "casbin_ok sample_casbin"
proof -
  have "matcher sample_casbin m s obj act = sample_matches m s obj act" for m s obj act
    by (rule ext) (auto simp: matcher_def sample_matches_def sample_casbin_def)
  thus ?thesis unfolding casbin_ok_def by (simp add: sample_casbin_def sample_line_rule)
qed

end
