(* ===== verification/Listings.thy ===== *)
theory Listings
  imports AssetService StoreTokens
begin

text \<open>
  The listings of \<open>repository/store.go\<close> behind the console: assets with their platforms, the
  dashboard, the filtered and paged audit log, the commands of a session; the thin methods of
  the services over them; and the SSH host keys (\<open>service/host_keys.go\<close>).  Rows are kept in the
  order of their ids, so a listing by descending id is the reverse.
\<close>

section \<open>Assets and sessions\<close>

record asset_with_platform = asset +
  a_platform_name :: string
  a_platform_type :: string

definition with_platform :: "asset \<Rightarrow> platform \<Rightarrow> asset_with_platform" where
  "with_platform a p = asset.extend a \<lparr>a_platform_name = pl_name p, a_platform_type = pl_type p\<rparr>"

text \<open>An inner join: an asset without its platform is not listed.\<close>

definition Store_ListAssets :: "db \<Rightarrow> asset_with_platform list" where
  "Store_ListAssets s =
     concat (map (\<lambda>a. map (with_platform a) (filter (\<lambda>p. pl_id p = a_platform_id a) (platforms s))) (assets s))"

definition ListNodes :: "db \<Rightarrow> node list" where
  "ListNodes s = nodes s"

definition Tree :: "db \<Rightarrow> node list \<times> asset_with_platform list" where
  "Tree s = (ListNodes s, Store_ListAssets s)"

definition Store_ListPermissions :: "db \<Rightarrow> permission list" where
  "Store_ListPermissions s = permissions s"

definition Store_ListSessions :: "db \<Rightarrow> session list" where
  "Store_ListSessions s = rev (sessions s)"

section \<open>The dashboard\<close>

record session_summary = session +
  ss_username :: "string option"
  ss_user_name :: "string option"
  ss_asset_name :: "string option"
  ss_account_name :: "string option"

record dashboard =
  da_total_assets :: nat
  da_active_sessions :: nat
  da_today_sessions :: nat
  da_active_users :: nat
  da_recent :: "session_summary list"

definition summarize :: "db \<Rightarrow> session \<Rightarrow> session_summary" where
  "summarize s sess = session.extend sess
     \<lparr>ss_username = map_option u_username (find (\<lambda>u. u_id u = s_user_id sess) (users s)),
      ss_user_name = map_option u_name (find (\<lambda>u. u_id u = s_user_id sess) (users s)),
      ss_asset_name = map_option a_name (find (\<lambda>a. a_id a = s_asset_id sess) (assets s)),
      ss_account_name = map_option (\<lambda>a. if ac_name a = '''' then ac_username a else ac_name a)
        (find (\<lambda>a. ac_id a = s_account_id sess) (accounts s))\<rparr>"

definition DashboardSummary :: "time \<Rightarrow> int \<Rightarrow> db \<Rightarrow> dashboard" where
  "DashboardSummary todayStart recentLimit s =
     (let recentLimit = (if recentLimit \<le> 0 then 10 else recentLimit);
          running = filter (\<lambda>r. \<not> s_is_finished r) (sessions s)
      in \<lparr>da_total_assets = length (assets s), da_active_sessions = length running,
          da_today_sessions = length (filter (\<lambda>r. todayStart \<le> s_date_start r) (sessions s)),
          da_active_users = length (remdups (map s_user_id running)),
          da_recent = map (summarize s) (take (nat recentLimit) (rev (sessions s)))\<rparr>)"

section \<open>The audit log\<close>

record audit_filter =
  af_search :: string
  af_user_id :: int
  af_action :: string
  af_from :: "time option"
  af_to :: "time option"
  af_limit :: int
  af_offset :: int

definition audit_text :: "audit_log \<Rightarrow> string" where
  "audit_text l = al_action l @ '' '' @ al_resource l @ '' '' @ al_remote_addr l @ '' '' @ al_detail l @ '' '' @
     (case al_user_id l of None \<Rightarrow> '''' | Some i \<Rightarrow> show_int i)"

text \<open>The conditions of the query, for one row; \<open>LOWER\<close> maps ASCII letters.\<close>

definition auditLogWhere :: "db \<Rightarrow> audit_filter \<Rightarrow> audit_log \<Rightarrow> bool" where
  "auditLogWhere s f l =
     (let act = trim_space (af_action f); search = to_lower (trim_space (af_search f))
      in (0 < af_user_id f \<longrightarrow> al_user_id l = Some (af_user_id f)) \<and>
         (act \<noteq> '''' \<longrightarrow> al_action l = act) \<and>
         (case af_from f of None \<Rightarrow> True | Some t \<Rightarrow> t \<le> al_created_at l) \<and>
         (case af_to f of None \<Rightarrow> True | Some t \<Rightarrow> al_created_at l \<le> t) \<and>
         (search \<noteq> '''' \<longrightarrow> like (like_case s) (''%'' @ search @ ''%'') (map lower_char (audit_text l))))"

definition ListAuditLogs :: "audit_filter \<Rightarrow> db \<Rightarrow> audit_log list \<times> nat" where
  "ListAuditLogs f s =
     (let limit = (if af_limit f \<le> 0 then 50 else af_limit f); limit = (if limit > 500 then 500 else limit);
          offset = (if af_offset f < 0 then 0 else af_offset f);
          rows = filter (auditLogWhere s f) (audit_logs s)
      in (take (nat limit) (drop (nat offset) (rev rows)), length rows))"

text \<open>\<open>session_of\<close> reads the field of a detail (0 when there is none).\<close>

definition ListSessionCommandLogs :: "(string \<Rightarrow> int) \<Rightarrow> int \<Rightarrow> db \<Rightarrow> audit_log list" where
  "ListSessionCommandLogs session_of sessionID s =
     filter (\<lambda>l. session_of (al_detail l) = sessionID)
       (rev (filter (\<lambda>l. al_action l \<in> {''db.query'', ''ssh.command''}) (audit_logs s)))"

section \<open>Host keys\<close>

record host_key =
  hk_algorithm :: string
  hk_fingerprint :: string
  hk_private_key :: string
  hk_public_key :: string

type_synonym 'a key_action = "(host_key list, error, 'a) action"

definition GetHostKeyByAlgorithm :: "string \<Rightarrow> host_key list \<Rightarrow> error + host_key" where
  "GetHostKeyByAlgorithm algorithm keys = notFound (find (\<lambda>k. hk_algorithm k = algorithm) keys)"

definition CreateHostKey :: "host_key \<Rightarrow> host_key key_action" where
  "CreateHostKey key = (\<lambda>keys. (Inr key, keys @ [key]))"

text \<open>\<open>generate\<close> draws a key pair of an algorithm.\<close>

fun ensure_keys :: "(string \<Rightarrow> error + host_key) \<Rightarrow> string list \<Rightarrow> host_key list key_action" where
  "ensure_keys generate [] = ret []"
| "ensure_keys generate (algorithm # rest) = (\<lambda>keys.
     case GetHostKeyByAlgorithm algorithm keys of
       Inr key \<Rightarrow> abind (ensure_keys generate rest) (\<lambda>ks. ret (key # ks)) keys
     | Inl e \<Rightarrow>
         if \<not> error_is e ErrNotFound then (Inl e, keys)
         else abind (query (\<lambda>_. generate algorithm)) (\<lambda>key.
              abind (CreateHostKey key) (\<lambda>key.
              abind (ensure_keys generate rest) (\<lambda>ks. ret (key # ks)))) keys)"

definition EnsureDefaults :: "(string \<Rightarrow> error + host_key) \<Rightarrow> host_key list key_action" where
  "EnsureDefaults generate = ensure_keys generate [''ssh-ed25519'', ''ssh-rsa'']"

definition HostKeys_List :: "(string \<Rightarrow> error + host_key) \<Rightarrow> host_key list key_action" where
  "HostKeys_List generate = abind (EnsureDefaults generate) (\<lambda>_. query Inr)"

text \<open>\<open>parse\<close> is the key parser of the SSH library.\<close>

definition Signers ::
    "(string \<Rightarrow> error + host_key) \<Rightarrow> (string \<Rightarrow> error + 'k) \<Rightarrow> 'k list key_action" where
  "Signers generate parse =
     abind (HostKeys_List generate) (\<lambda>keys.
       query (\<lambda>_. fold (\<lambda>key acc. rbind acc (\<lambda>ks. rbind (parse (hk_private_key key)) (\<lambda>k. Inr (ks @ [k]))))
                keys (Inr [])))"

section \<open>Properties\<close>

lemma ensure_keys_steps:
  assumes "\<And>alg. \<exists>k. generate alg = Inr k \<and> hk_algorithm k = alg"
  shows "\<exists>ks new. ensure_keys generate algs keys = (Inr ks, keys @ new) \<and> map hk_algorithm ks = algs \<and>
    set ks \<subseteq> set (keys @ new)"
proof (induction algs arbitrary: keys)
  case (Cons alg algs)
  show ?case
  proof (cases "find (\<lambda>k. hk_algorithm k = alg) keys")
    case None
    obtain k where k: "generate alg = Inr k" "hk_algorithm k = alg" using assms by blast
    obtain ks new where "ensure_keys generate algs (keys @ [k]) = (Inr ks, (keys @ [k]) @ new)"
      "map hk_algorithm ks = algs" "set ks \<subseteq> set ((keys @ [k]) @ new)" using Cons.IH by blast
    thus ?thesis using None k
      by (intro exI [of _ "k # ks"] exI [of _ "k # new"])
         (auto simp: GetHostKeyByAlgorithm_def abind_app CreateHostKey_def)
  next
    case (Some k)
    have k: "hk_algorithm k = alg" "k \<in> set keys" using find_Some_iff [OF Some] by auto
    obtain ks new where "ensure_keys generate algs keys = (Inr ks, keys @ new)"
      "map hk_algorithm ks = algs" "set ks \<subseteq> set (keys @ new)" using Cons.IH by blast
    thus ?thesis using Some k
      by (intro exI [of _ "k # ks"] exI [of _ new])
         (auto simp: GetHostKeyByAlgorithm_def abind_app)
  qed
qed simp

lemma EnsureDefaults_ok:
  assumes "\<And>alg. \<exists>k. generate alg = Inr k \<and> hk_algorithm k = alg"
  shows "\<exists>ks new. EnsureDefaults generate keys = (Inr ks, keys @ new) \<and> map hk_algorithm ks = [''ssh-ed25519'', ''ssh-rsa'']"
proof -
  obtain ks new where "ensure_keys generate [''ssh-ed25519'', ''ssh-rsa''] keys = (Inr ks, keys @ new)"
    "map hk_algorithm ks = [''ssh-ed25519'', ''ssh-rsa'']"
    using ensure_keys_steps [where generate = generate and algs = "[''ssh-ed25519'', ''ssh-rsa'']" and keys = keys, OF assms]
    by auto
  thus ?thesis unfolding EnsureDefaults_def by (intro exI conjI)
qed

end
