(* ===== verification/Api.thy ===== *)
theory Api
  imports Rbac Listings SshFilter
begin

text \<open>
  The state the handlers share (\<open>Handler\<close> of \<open>api/handler/handlers.go\<close>): the database behind
  the services and the cache of the settings service, the tables of host keys and of command
  filter rules, the enforcer, and the stream tokens that are not yet redeemed; and how the
  actions of the components run on it.
\<close>

record stream_token =
  sm_principal :: principal
  sm_expires_at :: time

record api =
  api_settings :: settings_svc
  api_enforcer :: enforcer
  api_streams :: "string \<rightharpoonup> stream_token"
  api_host_keys :: "host_key list"
  api_acls :: "filter_rule list"

type_synonym 'a api_action = "(api, error, 'a) action"
type_synonym 'a api_handler = "(api, 'a) handler"

definition api_db :: "api \<Rightarrow> db" where
  "api_db a = sv_db (api_settings a)"

definition with_db :: "db \<Rightarrow> api \<Rightarrow> api" where
  "with_db s a = a\<lparr>api_settings := (api_settings a)\<lparr>sv_db := s\<rparr>\<rparr>"

definition on_store :: "'a store_action \<Rightarrow> 'a api_action" where
  "on_store m = (\<lambda>a. case m (api_db a) of (r, s) \<Rightarrow> (r, with_db s a))"

definition on_settings :: "'a settings_action \<Rightarrow> 'a api_action" where
  "on_settings m = (\<lambda>a. case m (api_settings a) of (r, sv) \<Rightarrow> (r, a\<lparr>api_settings := sv\<rparr>))"

definition on_enforcer :: "'a enforcer_action \<Rightarrow> 'a api_action" where
  "on_enforcer m = (\<lambda>a. case m (api_enforcer a) of (r, e) \<Rightarrow> (r, a\<lparr>api_enforcer := e\<rparr>))"

definition on_keys :: "'a key_action \<Rightarrow> 'a api_action" where
  "on_keys m = (\<lambda>a. case m (api_host_keys a) of (r, ks) \<Rightarrow> (r, a\<lparr>api_host_keys := ks\<rparr>))"

text \<open>A read of the database that may fail, and one that cannot.\<close>

definition asks :: "(db \<Rightarrow> error + 'a) \<Rightarrow> 'a api_action" where
  "asks q = query (\<lambda>a. q (api_db a))"

definition reads :: "(db \<Rightarrow> 'a) \<Rightarrow> 'a api_action" where
  "reads q = query (\<lambda>a. Inr (q (api_db a)))"

text \<open>A step taken when another has failed; its own error is dropped.\<close>

definition on_failure :: "('s, 'e, 'a) action \<Rightarrow> ('s, 'e, 'b) action \<Rightarrow> ('s, 'e, 'a) action" where
  "on_failure m cleanup = (\<lambda>s. case m s of (Inl e, s') \<Rightarrow> (Inl e, snd (cleanup s')) | ok \<Rightarrow> ok)"

text \<open>An id in the path; what is not a number reads as 0.\<close>

definition pathID :: "http_request \<Rightarrow> string \<Rightarrow> int" where
  "pathID req name = (case parse_int64 (hq_param req name) of None \<Rightarrow> 0 | Some i \<Rightarrow> i)"

lemma api_db_with_db [simp]: "api_db (with_db s a) = s"
  by (simp add: api_db_def with_db_def)

lemma with_db_enforcer [simp]: "api_enforcer (with_db s a) = api_enforcer a"
  by (simp add: with_db_def)

lemma with_db_streams [simp]: "api_streams (with_db s a) = api_streams a"
  by (simp add: with_db_def)

lemma with_db_same [simp]: "with_db (api_db a) a = a"
  by (simp add: api_db_def with_db_def)

lemma with_db_twice [simp]: "with_db s (with_db t a) = with_db s a"
  by (simp add: with_db_def)

lemma api_db_enforcer [simp]: "api_db (a\<lparr>api_enforcer := e\<rparr>) = api_db a"
  by (simp add: api_db_def)

lemma api_db_streams [simp]: "api_db (a\<lparr>api_streams := m\<rparr>) = api_db a"
  by (simp add: api_db_def)

lemma on_store_app: "on_store m a = (case m (api_db a) of (r, s) \<Rightarrow> (r, with_db s a))"
  by (simp add: on_store_def)

lemma on_enforcer_app: "on_enforcer m a = (case m (api_enforcer a) of (r, e) \<Rightarrow> (r, a\<lparr>api_enforcer := e\<rparr>))"
  by (simp add: on_enforcer_def)

lemma asks_app [simp]: "asks q a = (q (api_db a), a)"
  by (simp add: asks_def)

lemma reads_app [simp]: "reads q a = (Inr (q (api_db a)), a)"
  by (simp add: reads_def)

lemma answer_app:
  "answer ok m a = (case m a of (Inl e, s') \<Rightarrow> (Error e, s') | (Inr x, s') \<Rightarrow> (ok x, s'))"
  by (simp add: answer_def)

end
