(* ===== verification/RoleAdmin.thy ===== *)
theory RoleAdmin
  imports Api
begin

text \<open>
  The administration of roles and their permissions: the role handlers of
  \<open>api/handler/handlers.go\<close>, which keep the table of roles and the policies of the enforcer in
  step.  \<open>cb\<close> is Casbin.
\<close>

section \<open>The policies of a role\<close>

text \<open>Policies of fewer than three values are passed over.\<close>

definition addPolicies :: "casbin \<Rightarrow> string \<Rightarrow> rule list \<Rightarrow> unit enforcer_action" where
  "addPolicies cb name =
     foreach (\<lambda>policy. if length policy < 3 then ret () else cb_add cb [name, policy ! 1, policy ! 2])"

definition restoreRolePolicies :: "casbin \<Rightarrow> string \<Rightarrow> string \<Rightarrow> rule list \<Rightarrow> unit enforcer_action" where
  "restoreRolePolicies cb removeName restoreName policies =
     abind (attempt (cb_remove cb removeName)) (\<lambda>_.
     abind (addPolicies cb restoreName policies) (\<lambda>_. cb_save cb))"

definition renameRolePolicies :: "casbin \<Rightarrow> string \<Rightarrow> string \<Rightarrow> unit enforcer_action" where
  "renameRolePolicies cb oldName newName =
     abind (query (cb_filtered cb oldName)) (\<lambda>policies.
       if policies = [] then ret ()
       else abind (cb_remove cb oldName) (\<lambda>_.
              on_failure (abind (addPolicies cb newName policies) (\<lambda>_. cb_save cb))
                (restoreRolePolicies cb newName oldName policies)))"

definition clearRolePolicies :: "casbin \<Rightarrow> string \<Rightarrow> unit enforcer_action" where
  "clearRolePolicies cb name = abind (cb_remove cb name) (\<lambda>_. cb_save cb)"

section \<open>The handlers\<close>

definition h_ListRoles :: "role list api_handler" where
  "h_ListRoles = answer (JSON 200) (reads ListRoles)"

definition h_CreateRole :: "role option \<Rightarrow> role api_handler" where
  "h_CreateRole body = RequireJSON body (\<lambda>role. answer Created (on_store (CreateRole role)))"

definition h_GetRole :: "casbin \<Rightarrow> http_request \<Rightarrow> (role \<times> rule list) api_handler" where
  "h_GetRole cb req = answer (JSON 200)
     (abind (asks (GetRole (pathID req ''id''))) (\<lambda>role.
      abind (on_enforcer (query (cb_filtered cb (r_name role)))) (\<lambda>policies. ret (role, policies))))"

definition update_role :: "casbin \<Rightarrow> role \<Rightarrow> role api_action" where
  "update_role cb role =
     abind (asks (GetRole (r_id role))) (\<lambda>oldRole.
     abind (on_store (UpdateRole role)) (\<lambda>updated.
       if r_name oldRole \<noteq> r_name updated
       then abind (on_failure (on_enforcer (renameRolePolicies cb (r_name oldRole) (r_name updated)))
                     (on_store (UpdateRole oldRole))) (\<lambda>_. ret updated)
       else ret updated))"

definition h_UpdateRole :: "casbin \<Rightarrow> http_request \<Rightarrow> role option \<Rightarrow> role api_handler" where
  "h_UpdateRole cb req body =
     RequireJSON body (\<lambda>role. answer (JSON 200) (update_role cb (role\<lparr>r_id := pathID req ''id''\<rparr>)))"

definition delete_role :: "casbin \<Rightarrow> int \<Rightarrow> unit api_action" where
  "delete_role cb i =
     abind (asks (GetRole i)) (\<lambda>role.
     abind (on_store (DeleteRole (r_id role))) (\<lambda>_.
     on_enforcer (clearRolePolicies cb (r_name role))))"

definition h_DeleteRole :: "casbin \<Rightarrow> http_request \<Rightarrow> unit api_handler" where
  "h_DeleteRole cb req = answer (\<lambda>_. NoContent) (delete_role cb (pathID req ''id''))"

text \<open>Pairs of a path and a method.\<close>

definition set_permissions :: "casbin \<Rightarrow> string \<Rightarrow> (string \<times> string) list \<Rightarrow> rule list enforcer_action" where
  "set_permissions cb name entries =
     abind (cb_remove cb name) (\<lambda>_.
     abind (foreach (\<lambda>(path, meth). cb_add cb [name, path, meth]) entries) (\<lambda>_.
     abind (cb_save cb) (\<lambda>_. query (cb_filtered cb name))))"

definition h_SetRolePermissions ::
    "casbin \<Rightarrow> http_request \<Rightarrow> (string \<times> string) list option \<Rightarrow> rule list api_handler" where
  "h_SetRolePermissions cb req body = (\<lambda>a.
     case GetRole (pathID req ''id'') (api_db a) of
       Inl e \<Rightarrow> (Error e, a)
     | Inr role \<Rightarrow>
         RequireJSON body (\<lambda>entries.
           answer (JSON 200) (on_enforcer (set_permissions cb (r_name role) entries))) a)"

definition h_ListUserGroups :: "user_group list api_handler" where
  "h_ListUserGroups = answer (JSON 200) (reads ListUserGroups)"

section \<open>The policies after a sequence of additions\<close>

definition adds :: "rule list \<Rightarrow> rule list \<Rightarrow> rule list" where
  "adds rules ps = fold (\<lambda>r ps. if r \<in> set ps then ps else ps @ [r]) rules ps"

lemma adds_simps [simp]: "adds [] ps = ps" "adds (r # rules) ps = adds rules (if r \<in> set ps then ps else ps @ [r])"
  by (simp_all add: adds_def)

lemma set_adds [simp]: "set (adds rules ps) = set ps \<union> set rules"
  by (induction rules arbitrary: ps) auto

lemma distinct_adds: "distinct ps \<Longrightarrow> distinct (adds rules ps)"
  by (induction rules arbitrary: ps) auto

lemma adds_filter: "\<forall>r \<in> set rules. P r \<Longrightarrow> filter (\<lambda>r. \<not> P r) (adds rules ps) = filter (\<lambda>r. \<not> P r) ps"
  by (induction rules arbitrary: ps) auto

lemma foreach_map: "foreach f (map g xs) = foreach (\<lambda>x. f (g x)) xs"
  by (induction xs) simp_all

lemma foreach_adds:
  assumes "casbin_ok cb"
  shows "\<exists>rows. foreach (cb_add cb) rules e =
    (Inr (), \<lparr>en_rows = rows, en_model = (en_model e)\<lparr>pm_p := adds rules (pm_p (en_model e))\<rparr>\<rparr>)"
proof (induction rules arbitrary: e)
  case Nil
  show ?case by (rule exI [of _ "en_rows e"]) simp
next
  case (Cons r rules)
  show ?case using Cons.IH [of "snd (cb_add cb r e)"]
    by (auto simp: abind_app casbin_add [OF assms])
qed

lemma set_permissions_ok:
  assumes "casbin_ok cb"
  defines "m e \<equiv> en_model e"
  shows "set_permissions cb name entries e =
    (let new = (en_model e)\<lparr>pm_p := adds (map (\<lambda>(path, meth). [name, path, meth]) entries)
                 (filter (\<lambda>r. \<not> named name r) (pm_p (en_model e)))\<rparr>
     in (Inr (filter (named name) (pm_p new)), \<lparr>en_rows = SavePolicy new, en_model = new\<rparr>))"
proof -
  have map: "(\<lambda>(path, meth). cb_add cb [name, path, meth]) = (\<lambda>x. cb_add cb ((\<lambda>(path, meth). [name, path, meth]) x))"
    by auto
  obtain rows where "foreach (\<lambda>(path, meth). cb_add cb [name, path, meth]) entries (snd (cb_remove cb name e)) =
      (Inr (), \<lparr>en_rows = rows, en_model = (en_model e)\<lparr>pm_p := adds (map (\<lambda>(path, meth). [name, path, meth]) entries)
                 (filter (\<lambda>r. \<not> named name r) (pm_p (en_model e)))\<rparr>\<rparr>)"
    using foreach_adds [OF assms(1), of "map (\<lambda>(path, meth). [name, path, meth]) entries" "snd (cb_remove cb name e)"]
    unfolding map foreach_map by (auto simp: casbin_remove [OF assms(1)])
  thus ?thesis
    by (simp add: set_permissions_def abind_app casbin_remove [OF assms(1)] casbin_save [OF assms(1)]
        casbin_filtered [OF assms(1)] Let_def)
qed

lemma named_self [simp]: "named name [name, path, meth]"
  by (simp add: named_def field_def)

text \<open>
  Setting the permissions of a role replaces exactly its policies: afterwards the role has the
  ones given and no other, those of every other role are as before, in their order, and the
  table holds what the enforcer decides by.
\<close>

theorem role_permissions_set:
  assumes "casbin_ok cb" and "GetRole (pathID req ''id'') (api_db a) = Inr role" and "r_name role \<noteq> ''''"
  shows "\<exists>ps a'. h_SetRolePermissions cb req (Some entries) a = (Reply 200 ps, a') \<and> api_db a' = api_db a \<and>
     {r \<in> set (pm_p (en_model (api_enforcer a'))). field 0 r = r_name role} =
       {[r_name role, path, meth] | path meth. (path, meth) \<in> set entries} \<and>
     filter (\<lambda>r. field 0 r \<noteq> r_name role) (pm_p (en_model (api_enforcer a'))) =
       filter (\<lambda>r. field 0 r \<noteq> r_name role) (pm_p (en_model (api_enforcer a))) \<and>
     en_rows (api_enforcer a') = SavePolicy (en_model (api_enforcer a'))"
proof -
  let ?rule = "\<lambda>(path, meth). [r_name role, path, meth]"
  have n: "named (r_name role) = (\<lambda>r. field 0 r = r_name role)" using assms(3) by (auto simp: named_def)
  have "filter (\<lambda>r. \<not> named (r_name role) r) (adds (map ?rule entries) (filter (\<lambda>r. \<not> named (r_name role) r) (pm_p (en_model (api_enforcer a))))) =
      filter (\<lambda>r. \<not> named (r_name role) r) (filter (\<lambda>r. \<not> named (r_name role) r) (pm_p (en_model (api_enforcer a))))"
    by (rule adds_filter) auto
  thus ?thesis
    using assms(2)
    by (auto simp: h_SetRolePermissions_def RequireJSON_def answer_app on_enforcer_app JSON_def Let_def n
          set_permissions_ok [OF assms(1)] field_def)
qed

section \<open>Restarts\<close>

lemma plain_model_adds:
  assumes "plain_model m" and "\<forall>r \<in> set rules. plain_policy r"
  shows "plain_model (m\<lparr>pm_p := adds rules (filter P (pm_p m))\<rparr>)"
  using assms by (auto simp: plain_model_def distinct_adds)

definition policies :: "api \<Rightarrow> rule set" where
  "policies a = set (pm_p (en_model (api_enforcer a)))"

lemma start_after:
  assumes "casbin_ok cb" and "plain_model (en_model e)" and "en_rows e = SavePolicy (en_model e)"
  shows "NewEnforcer cb e = (Inr (), \<lparr>en_rows = SavePolicy (started (en_model e)), en_model = started (en_model e)\<rparr>)"
  using NewEnforcer_on [OF assms(1,2)] assms(3) by simp

lemma set_started: "set (pm_p (started m)) = set (pm_p m) \<union> set defaultPolicies"
  by (auto simp: started_def)

text \<open>
  C24: A default permission cannot be taken away for good: whatever the permissions of a role are set
  to, the next start of the server decides by them and by every default policy again.
\<close>

theorem removed_defaults_return:
  assumes "casbin_ok cb" and "plain_model (en_model (api_enforcer a))"
    and "GetRole (pathID req ''id'') (api_db a) = Inr role" and "r_name role \<noteq> ''''"
    and "\<forall>(path, meth) \<in> set entries. plain_policy [r_name role, path, meth]"
  shows "\<exists>ps a' e. h_SetRolePermissions cb req (Some entries) a = (Reply 200 ps, a') \<and>
     (\<forall>path meth. [r_name role, path, meth] \<in> policies a' \<longleftrightarrow> (path, meth) \<in> set entries) \<and>
     NewEnforcer cb (api_enforcer a') = (Inr (), e) \<and>
     set (pm_p (en_model e)) = policies a' \<union> set defaultPolicies"
proof -
  define rules where "rules = map (\<lambda>(path, meth). [r_name role, path, meth]) entries"
  define new where "new = (en_model (api_enforcer a))\<lparr>pm_p := adds rules
      (filter (\<lambda>r. \<not> named (r_name role) r) (pm_p (en_model (api_enforcer a))))\<rparr>"
  have run: "h_SetRolePermissions cb req (Some entries) a = (Reply 200 (filter (named (r_name role)) (pm_p new)),
      a\<lparr>api_enforcer := \<lparr>en_rows = SavePolicy new, en_model = new\<rparr>\<rparr>)"
    using assms(3)
    by (simp add: h_SetRolePermissions_def RequireJSON_def answer_app on_enforcer_app JSON_def Let_def
          set_permissions_ok [OF assms(1)] new_def rules_def)
  have "\<forall>r \<in> set rules. plain_policy r" using assms(5) by (auto simp: rules_def)
  hence "plain_model new" unfolding new_def by (rule plain_model_adds [OF assms(2)])
  hence "NewEnforcer cb \<lparr>en_rows = SavePolicy new, en_model = new\<rparr> =
      (Inr (), \<lparr>en_rows = SavePolicy (started new), en_model = started new\<rparr>)"
    using start_after [OF assms(1), of "\<lparr>en_rows = SavePolicy new, en_model = new\<rparr>"] by simp
  moreover have "[r_name role, path, meth] \<in> set (pm_p new) \<longleftrightarrow> (path, meth) \<in> set entries" for path meth
    by (auto simp: new_def rules_def named_def field_def)
  ultimately show ?thesis unfolding run by (auto simp: policies_def set_started)
qed

section \<open>Deleting a role\<close>

lemma clear_ok:
  assumes "casbin_ok cb"
  shows "clearRolePolicies cb name e =
    (let new = (en_model e)\<lparr>pm_p := filter (\<lambda>r. \<not> named name r) (pm_p (en_model e))\<rparr>
     in (Inr (), \<lparr>en_rows = SavePolicy new, en_model = new\<rparr>))"
  by (simp add: clearRolePolicies_def abind_app casbin_remove [OF assms] casbin_save [OF assms] Let_def)

text \<open>
  A deleted role leaves nothing behind: no user holds it and no policy names it, while the
  policies of the other roles stay.  But nothing keeps a role from having the empty name, and the
  empty name filters nothing out: deleting that role deletes every policy of every role, so that
  until the next start nobody may do anything.
\<close>

theorem role_deleted:
  assumes "casbin_ok cb" and "GetRole (pathID req ''id'') (api_db a) = Inr role" and "foreign_keys (api_db a)"
  shows "\<exists>a'. h_DeleteRole cb req a = (NoContent, a') \<and>
     (\<forall>v \<in> set (roles (api_db a')). r_id v \<noteq> r_id role) \<and>
     (\<forall>u. (u, r_id role) \<notin> set (user_roles (api_db a'))) \<and>
     (r_name role \<noteq> '''' \<longrightarrow> policies a' = {r \<in> policies a. field 0 r \<noteq> r_name role}) \<and>
     (r_name role = '''' \<longrightarrow> policies a' = {}) \<and>
     en_rows (api_enforcer a') = SavePolicy (en_model (api_enforcer a'))"
  using assms(2,3)
  by (auto simp: h_DeleteRole_def delete_role_def answer_app abind_app on_store_app on_enforcer_app
        clear_ok [OF assms(1)] Let_def DeleteRole_def policies_def named_def)

section \<open>Renaming a role\<close>

text \<open>Whatever Casbin answers, a rename that fails leaves the role with the name it had.\<close>

lemma on_failure_Inl:
  "on_failure m cleanup s = (Inl e, s') \<longleftrightarrow> (\<exists>t. m s = (Inl e, t) \<and> s' = snd (cleanup t))"
  by (auto simp: on_failure_def split: prod.splits sum.splits)

lemma on_failure_Inr: "on_failure m cleanup s = (Inr x, s') \<longleftrightarrow> m s = (Inr x, s')"
  by (auto simp: on_failure_def split: prod.splits sum.splits)

definition role_shown :: "role \<Rightarrow> int \<times> string \<times> string" where
  "role_shown r = (r_id r, r_name r, r_description r)"

lemma UpdateRole_restore:
  assumes "wf_roles s" and "GetRole (r_id r) s = Inr old" and "UpdateRole r s = (Inr new, s1)"
  shows "map role_shown (roles (snd (UpdateRole old s1))) = map role_shown (roles s)"
proof -
  have old: "find (\<lambda>v. r_id v = r_id r) (roles s) = Some old" "old \<in> set (roles s)" "r_id old = r_id r"
    using assms(2) find_Some_iff [of "\<lambda>v. r_id v = r_id r" "roles s" old] by (auto simp: GetRole_def)
  define upd where "upd = (\<lambda>v :: role. v\<lparr>r_name := r_name r, r_description := r_description r, r_updated_at := clock s\<rparr>)"
  have s1: "roles s1 = update_rows (\<lambda>v. r_id v = r_id r) upd (roles s)" "clock s1 = clock s"
    using assms(3) old(1) by (auto simp: UpdateRole_def upd_def Let_def split: if_splits)
  have same: "v = old" if "v \<in> set (roles s)" "r_id v = r_id r \<or> r_name v = r_name old" for v
    using that old assms(1) distinct_map_eq [of r_id "roles s" v old] distinct_map_eq [of r_name "roles s" v old]
    by (auto simp: wf_roles_def)
  have "upd old \<in> set (roles s1)" using old by (auto simp: s1 update_rows_def intro: image_eqI [of _ _ old])
  moreover have "r_id (upd old) = r_id old" by (simp add: upd_def)
  ultimately have "find (\<lambda>v. r_id v = r_id old) (roles s1) \<noteq> None" by (auto simp: find_None_set)
  moreover have "\<not> (\<exists>v \<in> set (roles s1). r_name v = r_name old \<and> r_id v \<noteq> r_id old)"
    using same old(3) by (auto simp: s1 update_rows_def upd_def)
  ultimately have "roles (snd (UpdateRole old s1)) = update_rows (\<lambda>v. r_id v = r_id old)
      (\<lambda>v. v\<lparr>r_name := r_name old, r_description := r_description old, r_updated_at := clock s1\<rparr>) (roles s1)"
    by (auto simp: UpdateRole_def Let_def split: option.split)
  thus ?thesis using same old(3)
    by (auto simp: s1 update_rows_def upd_def role_shown_def)
qed

lemma refused_roles_kept:
  assumes "wf_roles (api_db a)" and "h_UpdateRole cb req (Some role) a = (Refused status code, a')"
  shows "map role_shown (roles (api_db a')) = map role_shown (roles (api_db a))"
proof -
  let ?r = "role\<lparr>r_id := pathID req ''id''\<rparr>"
  obtain e where e: "update_role cb ?r a = (Inl e, a')"
    using assms(2) by (auto simp: h_UpdateRole_def RequireJSON_def answer_app JSON_def split: prod.splits sum.splits)
  show ?thesis
  proof (cases "GetRole (pathID req ''id'') (api_db a)")
    case (Inl x)
    thus ?thesis using e by (simp add: update_role_def abind_app)
  next
    case (Inr old)
    note found = Inr
    hence old: "GetRole (r_id ?r) (api_db a) = Inr old" by simp
    show ?thesis
    proof (cases "UpdateRole ?r (api_db a)")
      case (Pair res s1)
      show ?thesis
      proof (cases res)
        case (Inl x)
        hence "roles s1 = roles (api_db a)"
          using Pair by (auto simp: UpdateRole_def Let_def split: option.splits if_splits)
        thus ?thesis using e found Pair Inl
          by (auto simp: update_role_def abind_app on_store_app)
      next
        case (Inr new)
        have ren: "on_failure (on_enforcer (renameRolePolicies cb (r_name old) (r_name new)))
            (on_store (UpdateRole old)) (with_db s1 a) = (Inl e, a')"
          using e found Pair Inr
          by (auto simp: update_role_def abind_app on_store_app split: if_splits prod.splits sum.splits)
        then obtain t where "on_enforcer (renameRolePolicies cb (r_name old) (r_name new)) (with_db s1 a) = (Inl e, t)"
          "a' = snd (on_store (UpdateRole old) t)" by (auto simp: on_failure_Inl)
        hence "api_db a' = snd (UpdateRole old s1)"
          by (auto simp: on_enforcer_app on_store_app split: prod.splits)
        thus ?thesis using UpdateRole_restore [OF assms(1) old] Pair Inr by simp
      qed
    qed
  qed
qed

subsection \<open>The policies of a renamed role\<close>

definition under_name :: "string \<Rightarrow> rule \<Rightarrow> rule" where
  "under_name name p = [name, p ! 1, p ! 2]"

lemma addPolicies_foreach:
  "\<forall>p \<in> set ps. length p = 3 \<Longrightarrow> addPolicies cb name ps = foreach (cb_add cb) (map (under_name name) ps)"
  unfolding addPolicies_def foreach_map under_name_def by (induction ps) simp_all

lemma under_own_name: "length p = 3 \<Longrightarrow> field 0 p = name \<Longrightarrow> under_name name p = p"
  by (auto simp: under_name_def field_def numeral_3_eq_3 length_Suc_conv)

text \<open>Casbin whose saving may fail: the model is then what it was.\<close>

definition with_save :: "casbin \<Rightarrow> (enforcer \<Rightarrow> (error + unit) \<times> enforcer) \<Rightarrow> casbin" where
  "with_save cb save = cb\<lparr>cb_save := save\<rparr>"

lemma with_save_simps [simp]:
  "cb_add (with_save cb save) = cb_add cb" "cb_remove (with_save cb save) = cb_remove cb"
  "cb_filtered (with_save cb save) = cb_filtered cb" "cb_save (with_save cb save) = save"
  by (simp_all add: with_save_def)

lemma addPolicies_ok:
  assumes "casbin_ok cb" and "\<forall>p \<in> set ps. length p = 3"
  shows "\<exists>rows. addPolicies (with_save cb save) name ps e =
    (Inr (), \<lparr>en_rows = rows, en_model = (en_model e)\<lparr>pm_p := adds (map (under_name name) ps) (pm_p (en_model e))\<rparr>\<rparr>)"
  using foreach_adds [OF assms(1), of "map (under_name name) ps" e]
  by (simp add: addPolicies_foreach [OF assms(2)])

lemma rename_outcome:
  assumes cb: "casbin_ok cb" and len: "\<forall>p \<in> set (pm_p (en_model e)). length p = 3"
    and save: "\<And>u. en_model (snd (save u)) = en_model u"
    and names: "old \<noteq> ''''" "new \<noteq> old"
    and run: "renameRolePolicies (with_save cb save) old new e = (res, e')"
  defines "ps \<equiv> set (pm_p (en_model e))" and "qs \<equiv> set (pm_p (en_model e'))"
  shows "res = Inr () \<Longrightarrow> qs = {p \<in> ps. field 0 p \<noteq> old} \<union> under_name new ` {p \<in> ps. field 0 p = old}"
    and "res = Inl x \<Longrightarrow> new \<noteq> '''' \<Longrightarrow> qs = {p \<in> ps. field 0 p \<noteq> new}"
proof -
  let ?mine = "filter (named old) (pm_p (en_model e))"
  have n: "named old = (\<lambda>p. field 0 p = old)" using names by (auto simp: named_def)
  have mine: "\<forall>p \<in> set ?mine. length p = 3" using len by simp
  obtain r1 where e1: "cb_remove cb old e = (Inr (), \<lparr>en_rows = r1,
      en_model = (en_model e)\<lparr>pm_p := filter (\<lambda>p. \<not> named old p) (pm_p (en_model e))\<rparr>\<rparr>)"
    using casbin_remove [OF cb] by blast
  define m1 where "m1 = (en_model e)\<lparr>pm_p := filter (\<lambda>p. \<not> named old p) (pm_p (en_model e))\<rparr>"
  obtain r2 where e2: "addPolicies (with_save cb save) new ?mine \<lparr>en_rows = r1, en_model = m1\<rparr> =
      (Inr (), \<lparr>en_rows = r2, en_model = m1\<lparr>pm_p := adds (map (under_name new) ?mine) (pm_p m1)\<rparr>\<rparr>)"
    using addPolicies_ok [OF cb mine, of save new "\<lparr>en_rows = r1, en_model = m1\<rparr>"] by auto
  define m2 where "m2 = m1\<lparr>pm_p := adds (map (under_name new) ?mine) (pm_p m1)\<rparr>"
  obtain sr e3 where e3: "save \<lparr>en_rows = r2, en_model = m2\<rparr> = (sr, e3)" by force
  have m3: "en_model e3 = m2" using save [of "\<lparr>en_rows = r2, en_model = m2\<rparr>"] e3 by simp
  have moved: "set (pm_p m2) = {p \<in> ps. field 0 p \<noteq> old} \<union> under_name new ` {p \<in> ps. field 0 p = old}"
    by (auto simp: m2_def m1_def n ps_def)
  have own: "under_name old p = p" if "p \<in> ps" "field 0 p = old" for p
    using under_own_name [of p old] len that by (simp add: ps_def)
  show "qs = {p \<in> ps. field 0 p \<noteq> old} \<union> under_name new ` {p \<in> ps. field 0 p = old}" if ok: "res = Inr ()"
  proof (cases "?mine = []")
    case True
    hence "e' = e" using run by (simp add: renameRolePolicies_def abind_app casbin_filtered [OF cb])
    thus ?thesis using True by (auto simp: qs_def ps_def filter_empty_conv n)
  next
    case False
    hence "e' = e3 \<and> sr = Inr ()" using run ok e1 e2 e3
      by (auto simp: renameRolePolicies_def abind_app casbin_filtered [OF cb] on_failure_Inr m1_def [symmetric] m2_def [symmetric]
          split: sum.splits prod.splits)
    thus ?thesis using moved m3 by (simp add: qs_def)
  qed
  show "qs = {p \<in> ps. field 0 p \<noteq> new}" if bad: "res = Inl x" and new: "new \<noteq> ''''"
  proof (cases "?mine = []")
    case True
    thus ?thesis using run bad by (simp add: renameRolePolicies_def abind_app casbin_filtered [OF cb])
  next
    case False
    have e': "e' = snd (restoreRolePolicies (with_save cb save) new old ?mine e3)"
      using run bad e1 e2 e3 False
      by (auto simp: renameRolePolicies_def abind_app casbin_filtered [OF cb] on_failure_Inl m1_def [symmetric] m2_def [symmetric]
          split: sum.splits prod.splits)
    obtain r4 where e4: "cb_remove cb new e3 = (Inr (), \<lparr>en_rows = r4,
        en_model = m2\<lparr>pm_p := filter (\<lambda>p. \<not> named new p) (pm_p m2)\<rparr>\<rparr>)"
      using casbin_remove [OF cb, of new e3] m3 by simp
    define m4 where "m4 = m2\<lparr>pm_p := filter (\<lambda>p. \<not> named new p) (pm_p m2)\<rparr>"
    obtain r5 where e5: "addPolicies (with_save cb save) old ?mine \<lparr>en_rows = r4, en_model = m4\<rparr> =
        (Inr (), \<lparr>en_rows = r5, en_model = m4\<lparr>pm_p := adds (map (under_name old) ?mine) (pm_p m4)\<rparr>\<rparr>)"
      using addPolicies_ok [OF cb mine, of save old "\<lparr>en_rows = r4, en_model = m4\<rparr>"] by auto
    have "en_model e' = m4\<lparr>pm_p := adds (map (under_name old) ?mine) (pm_p m4)\<rparr>"
      using save [of "\<lparr>en_rows = r5, en_model = m4\<lparr>pm_p := adds (map (under_name old) ?mine) (pm_p m4)\<rparr>\<rparr>"] e4 e5
      by (simp add: e' restoreRolePolicies_def abind_app attempt_app m4_def [symmetric])
    hence "qs = {p \<in> set (pm_p m2). field 0 p \<noteq> new} \<union> under_name old ` {p \<in> ps. field 0 p = old}"
      using new by (auto simp: qs_def m4_def n ps_def named_def)
    moreover have "{p \<in> set (pm_p m2). field 0 p \<noteq> new} = {p \<in> ps. field 0 p \<noteq> old \<and> field 0 p \<noteq> new}"
      unfolding moved by (auto simp: under_name_def field_def)
    moreover have "under_name old ` {p \<in> ps. field 0 p = old} = {p \<in> ps. field 0 p = old}"
      using own by force
    ultimately show ?thesis using names by auto
  qed
qed

lemma update_role_policies:
  assumes cb: "casbin_ok cb" and len: "\<forall>p \<in> policies a. length p = 3"
    and save: "\<And>u. en_model (snd (save u)) = en_model u"
    and old: "GetRole (r_id role) (api_db a) = Inr old" and names: "r_name old \<noteq> ''''" "r_name role \<noteq> ''''"
    and run: "update_role (with_save cb save) role a = (res, a')"
  shows "res = Inr new \<Longrightarrow> policies a' = {p \<in> policies a. field 0 p \<noteq> r_name old} \<union>
      under_name (r_name role) ` {p \<in> policies a. field 0 p = r_name old} \<and> r_name new = r_name role"
    and "res = Inl x \<Longrightarrow> policies a' = policies a \<or> policies a' = {p \<in> policies a. field 0 p \<noteq> r_name role}"
proof -
  have own: "under_name (r_name old) ` {p \<in> policies a. field 0 p = r_name old} = {p \<in> policies a. field 0 p = r_name old}"
    using under_own_name len by force
  have enf: "api_enforcer (snd (on_store m b)) = api_enforcer b" for m :: "'c store_action" and b
    by (simp add: on_store_app with_db_def split: prod.split)
  obtain ru b where up: "on_store (UpdateRole role) a = (ru, b)" by force
  have same: "policies b = policies a" using enf [of "UpdateRole role" a] up by (simp add: policies_def)
  have name: "r_name u = r_name role" if "ru = Inr u" for u
    using up that by (auto simp: on_store_app UpdateRole_def Let_def split: prod.splits option.splits if_splits)
  have moved: "(res = Inr new \<longrightarrow> policies a' = {p \<in> policies a. field 0 p \<noteq> r_name old} \<union>
        under_name (r_name role) ` {p \<in> policies a. field 0 p = r_name old}) \<and>
      (res = Inl x \<longrightarrow> policies a' = {p \<in> policies a. field 0 p \<noteq> r_name role})"
    if u: "ru = Inr u" and ne: "r_name role \<noteq> r_name old" for u
  proof -
    obtain er e where ren: "renameRolePolicies (with_save cb save) (r_name old) (r_name role) (api_enforcer b) = (er, e)" by force
    have "\<forall>p \<in> set (pm_p (en_model (api_enforcer b))). length p = 3" using len same by (simp add: policies_def)
    note out = rename_outcome [OF cb this save names(1) ne ren]
    have r: "policies a' = set (pm_p (en_model e)) \<and> (res = Inr new \<longrightarrow> er = Inr ()) \<and> (res = Inl x \<longrightarrow> er = Inl x)"
      using run old up u ne ren name [OF u] enf [of "UpdateRole old" "b\<lparr>api_enforcer := e\<rparr>"]
      by (cases er) (auto simp: update_role_def abind_app on_failure_def on_enforcer_app policies_def)
    have p: "set (pm_p (en_model (api_enforcer b))) = policies a" using same by (simp add: policies_def)
    show ?thesis using r out(1) out(2) [of x] names(2) unfolding p by auto
  qed
  show "policies a' = {p \<in> policies a. field 0 p \<noteq> r_name old} \<union>
      under_name (r_name role) ` {p \<in> policies a. field 0 p = r_name old} \<and> r_name new = r_name role" if ok: "res = Inr new"
  proof (cases ru)
    case (Inl e)
    thus ?thesis using run old up ok by (simp add: update_role_def abind_app)
  next
    case (Inr u)
    hence n: "r_name new = r_name role"
      using run old up ok name by (auto simp: update_role_def abind_app split: if_splits sum.splits prod.splits)
    show ?thesis
    proof (cases "r_name role = r_name old")
      case True
      hence "a' = b" using run old up Inr ok name by (simp add: update_role_def abind_app)
      thus ?thesis using n same own True by auto
    next
      case False
      show ?thesis using moved [OF Inr False] ok n by simp
    qed
  qed
  show "policies a' = policies a \<or> policies a' = {p \<in> policies a. field 0 p \<noteq> r_name role}" if bad: "res = Inl x"
  proof (cases ru)
    case (Inl e)
    hence "a' = b" using run old up bad by (simp add: update_role_def abind_app)
    thus ?thesis using same by simp
  next
    case (Inr u)
    show ?thesis
    proof (cases "r_name role = r_name old")
      case True
      thus ?thesis using run old up Inr bad name by (simp add: update_role_def abind_app)
    next
      case False
      show ?thesis using moved [OF Inr False] bad by simp
    qed
  qed
qed


section \<open>Witnesses\<close>

definition default_model :: policy_model where
  "default_model = \<lparr>pm_p = defaultPolicies, pm_g = []\<rparr>"

lemma default_model_plain: "plain_model default_model"
  using defaultPolicies_plain defaultPolicies_distinct by (simp add: plain_model_def default_model_def)

definition sample_api :: "db \<Rightarrow> api" where
  "sample_api s =
     \<lparr>api_settings = \<lparr>sv_db = s, sv_cache = Map.empty\<rparr>,
      api_enforcer = \<lparr>en_rows = SavePolicy default_model, en_model = default_model\<rparr>, api_streams = Map.empty,
      api_host_keys = [], api_acls = []\<rparr>"

definition role_http :: http_request where
  "role_http =
     \<lparr>hq_method = ''POST'', hq_route = ''/api/v1/roles/:id/permissions'', hq_path = ''/api/v1/roles/3/permissions'',
      hq_authorization = '''', hq_proxy_auth = '''', hq_client_ip = ''10.0.0.1'',
      hq_param = (\<lambda>_. ''3''), hq_query = (\<lambda>_. ''''), hq_host = '''', hq_forwarded_host = ''''\<rparr>"

definition sample_role :: "string \<Rightarrow> role" where
  "sample_role name = \<lparr>r_id = 3, r_name = name, r_description = '''', r_created_at = 0, r_updated_at = 0\<rparr>"

definition role_db :: "string \<Rightarrow> db" where
  "role_db name = (empty_db 5)\<lparr>roles := [sample_role name], user_roles := [(7, 3)], next_id := (\<lambda>_. 9)\<rparr>"

lemma role_http_id: "pathID role_http ''id'' = 3"
  by (simp add: pathID_def role_http_def literal_numbers)

lemma role_db_found: "GetRole (pathID role_http ''id'') (api_db (sample_api (role_db name))) = Inr (sample_role name)"
  by (simp add: role_http_id GetRole_def api_db_def sample_api_def role_db_def sample_role_def)

theorem role_permissions_set_witness:
  "\<exists>ps a'. h_SetRolePermissions sample_casbin role_http (Some [(''/api/v1/users'', ''GET'')])
     (sample_api (role_db ''operator'')) = (Reply 200 ps, a') \<and>
     {r \<in> set (pm_p (en_model (api_enforcer a'))). field 0 r = ''operator''} =
       {[''operator'', ''/api/v1/users'', ''GET'']}"
  using role_permissions_set [OF sample_casbin_ok role_db_found [of "''operator''"], of "[(''/api/v1/users'', ''GET'')]"]
  by (auto simp: sample_role_def)

theorem removed_defaults_return_witness:
  "\<exists>ps a' e. h_SetRolePermissions sample_casbin role_http (Some []) (sample_api (role_db ''operator'')) = (Reply 200 ps, a') \<and>
     [''operator'', ''/api/v1/assets'', ''GET|POST''] \<notin> policies a' \<and>
     NewEnforcer sample_casbin (api_enforcer a') = (Inr (), e) \<and>
     [''operator'', ''/api/v1/assets'', ''GET|POST''] \<in> set (pm_p (en_model e))"
proof -
  have m: "plain_model (en_model (api_enforcer (sample_api (role_db ''operator''))))"
    by (simp add: sample_api_def default_model_plain)
  have "[''operator'', ''/api/v1/assets'', ''GET|POST''] \<in> set defaultPolicies" by (simp add: defaultPolicies_def)
  moreover have "r_name (sample_role ''operator'') = ''operator''" by (simp add: sample_role_def)
  ultimately show ?thesis
    using removed_defaults_return [OF sample_casbin_ok m role_db_found [of "''operator''"], of "[]"] by auto
qed

theorem role_deleted_witness:
  "\<exists>a'. h_DeleteRole sample_casbin role_http (sample_api (role_db '''')) = (NoContent, a') \<and> policies a' = {} \<and>
     policies (sample_api (role_db '''')) \<noteq> {}"
proof -
  have "foreign_keys (api_db (sample_api (role_db '''')))"
    by (simp add: api_db_def sample_api_def role_db_def empty_db_def)
  from role_deleted [OF sample_casbin_ok role_db_found [of "''''"] this]
  show ?thesis by (auto simp: sample_role_def policies_def sample_api_def default_model_def defaultPolicies_def)
qed

lemma rename_unsaved:
  assumes "casbin_ok cb" and "\<exists>p \<in> set (pm_p (en_model e)). named old p"
    and "\<forall>p \<in> set (pm_p (en_model e)). length p = 3" and "\<And>u. save u = (Inl x, u)"
  shows "fst (renameRolePolicies (with_save cb save) old new e) = Inl x"
proof -
  let ?mine = "filter (named old) (pm_p (en_model e))"
  have mine: "?mine \<noteq> []" "\<forall>p \<in> set ?mine. length p = 3" using assms(2,3) by (auto simp: filter_empty_conv)
  show ?thesis
    using mine(1) addPolicies_ok [OF assms(1) mine(2), of save new "snd (cb_remove cb old e)"]
    by (auto simp: renameRolePolicies_def abind_app casbin_filtered [OF assms(1)] casbin_remove [OF assms(1)]
        on_failure_def assms(4))
qed


end
