(* ===== verification/Router.thy ===== *)
theory Router
  imports RoleAdmin AuthService
begin

text \<open>
  The routes of the HTTP API and the middleware in front of each (\<open>api/router.go\<close>), and what
  the default policies allow whom.  Which route a request matches is gin's work.
\<close>

section \<open>Routes\<close>

text \<open>Open to anybody, to any signed-in user, or to whom the policies admit.\<close>

datatype access = Public | SignedIn | Secured

text \<open>The group of a route, its method, its pattern, and the name of its handler.\<close>

type_synonym route = "access \<times> string \<times> string \<times> string"

definition routes :: "route list" where
  "routes =
     [(Public, ''GET'', ''/health'', ''health''),
      (Public, ''GET'', ''/ws/terminal'', ''WebTerminal''),
      (Public, ''GET'', ''/ws/db-terminal'', ''DBWebTerminal''),
      (Public, ''GET'', ''/health/ready'', ''ready''),
      (Public, ''GET'', ''/metrics'', ''metrics''),
      (Public, ''POST'', ''/api/v1/auth/login'', ''Login''),
      (Public, ''POST'', ''/api/v1/auth/refresh'', ''Refresh''),
      (Public, ''POST'', ''/api/v1/authentication/super-connection-tokens/verify/'', ''VerifyConnectionToken''),
      (Public, ''POST'', ''/api/v1/proxy/sessions'', ''ProxyCreateSession''),
      (Public, ''GET'', ''/api/v1/proxy/sessions/:id'', ''ProxyGetSession''),
      (Public, ''PATCH'', ''/api/v1/proxy/sessions/:id'', ''ProxyUpdateSession''),
      (Public, ''GET'', ''/api/v1/proxy/ssh/host-keys'', ''ProxyHostKeys''),
      (Public, ''POST'', ''/api/v1/proxy/rdp-native/resolve'', ''ProxyResolveNativeRDP''),
      (Public, ''POST'', ''/api/v1/proxy/rdp-native/sessions/start'', ''ProxyStartNativeRDPSession''),
      (Public, ''POST'', ''/api/v1/proxy/rdp-native/sessions/finish-active'', ''ProxyFinishActiveNativeRDPSessions''),
      (Public, ''POST'', ''/api/v1/proxy/rdp-native/sessions/:id/finish'', ''ProxyFinishNativeRDPSession''),
      (Public, ''GET'', ''/api/v1/proxy/settings/:key'', ''ProxyGetSetting''),
      (Public, ''GET'', ''/api/v1/proxy/command-filter-acls'', ''ProxyCommandFilterACLs''),
      (Public, ''POST'', ''/api/v1/proxy/audit-logs'', ''ProxyCreateAuditLog''),
      (SignedIn, ''GET'', ''/api/v1/auth/access'', ''Access''),
      (SignedIn, ''POST'', ''/api/v1/auth/logout'', ''Logout''),
      (SignedIn, ''POST'', ''/api/v1/auth/mfa/setup'', ''MFASetup''),
      (SignedIn, ''POST'', ''/api/v1/auth/mfa/verify'', ''MFAVerify''),
      (SignedIn, ''GET'', ''/api/v1/auth/rdp-proxy-credential'', ''GetMyRDPProxyCredential''),
      (SignedIn, ''PUT'', ''/api/v1/auth/rdp-proxy-credential'', ''SetMyRDPProxyCredential''),
      (SignedIn, ''POST'', ''/api/v1/auth/rdp-proxy-credential/reset'', ''ResetMyRDPProxyCredential''),
      (SignedIn, ''DELETE'', ''/api/v1/auth/rdp-proxy-credential'', ''DisableMyRDPProxyCredential''),
      (Secured, ''GET'', ''/api/v1/users'', ''ListUsers''),
      (Secured, ''POST'', ''/api/v1/users'', ''CreateUser''),
      (Secured, ''GET'', ''/api/v1/users/:id'', ''GetUser''),
      (Secured, ''PUT'', ''/api/v1/users/:id'', ''UpdateUser''),
      (Secured, ''DELETE'', ''/api/v1/users/:id'', ''DeleteUser''),
      (Secured, ''GET'', ''/api/v1/users/:id/rdp-proxy-credential'', ''GetUserRDPProxyCredential''),
      (Secured, ''PUT'', ''/api/v1/users/:id/rdp-proxy-credential'', ''SetUserRDPProxyCredential''),
      (Secured, ''POST'', ''/api/v1/users/:id/rdp-proxy-credential/reset'', ''ResetUserRDPProxyCredential''),
      (Secured, ''DELETE'', ''/api/v1/users/:id/rdp-proxy-credential'', ''DisableUserRDPProxyCredential''),
      (Secured, ''GET'', ''/api/v1/roles'', ''ListRoles''),
      (Secured, ''POST'', ''/api/v1/roles'', ''CreateRole''),
      (Secured, ''GET'', ''/api/v1/roles/:id'', ''GetRole''),
      (Secured, ''PUT'', ''/api/v1/roles/:id'', ''UpdateRole''),
      (Secured, ''DELETE'', ''/api/v1/roles/:id'', ''DeleteRole''),
      (Secured, ''POST'', ''/api/v1/roles/:id/permissions'', ''SetRolePermissions''),
      (Secured, ''GET'', ''/api/v1/user-groups'', ''ListUserGroups''),
      (Secured, ''GET'', ''/api/v1/platforms'', ''ListPlatforms''),
      (Secured, ''POST'', ''/api/v1/platforms'', ''CreatePlatform''),
      (Secured, ''GET'', ''/api/v1/platforms/:id/protocols'', ''ListPlatformProtocols''),
      (Secured, ''GET'', ''/api/v1/assets/tree'', ''AssetTree''),
      (Secured, ''GET'', ''/api/v1/assets'', ''ListAssets''),
      (Secured, ''POST'', ''/api/v1/assets'', ''CreateAsset''),
      (Secured, ''GET'', ''/api/v1/assets/:id'', ''GetAsset''),
      (Secured, ''PUT'', ''/api/v1/assets/:id'', ''UpdateAsset''),
      (Secured, ''DELETE'', ''/api/v1/assets/:id'', ''DeleteAsset''),
      (Secured, ''GET'', ''/api/v1/assets/:id/accounts'', ''ListAccounts''),
      (Secured, ''POST'', ''/api/v1/assets/:id/accounts'', ''CreateAccount''),
      (Secured, ''GET'', ''/api/v1/assets/:id/accounts/:aid'', ''GetAccount''),
      (Secured, ''PUT'', ''/api/v1/assets/:id/accounts/:aid'', ''UpdateAccount''),
      (Secured, ''DELETE'', ''/api/v1/assets/:id/accounts/:aid'', ''DeleteAccount''),
      (Secured, ''GET'', ''/api/v1/permissions'', ''ListPermissions''),
      (Secured, ''POST'', ''/api/v1/permissions'', ''CreatePermission''),
      (Secured, ''GET'', ''/api/v1/permissions/:id'', ''GetPermission''),
      (Secured, ''PUT'', ''/api/v1/permissions/:id'', ''UpdatePermission''),
      (Secured, ''DELETE'', ''/api/v1/permissions/:id'', ''DeletePermission''),
      (Secured, ''POST'', ''/api/v1/authentication/connection-tokens/'', ''IssueConnectionToken''),
      (Secured, ''GET'', ''/api/v1/authentication/connection-tokens/sdk-url'', ''SDKConnectionToken''),
      (Secured, ''POST'', ''/api/v1/authentication/connection-tokens/sdk-url'', ''SDKConnectionToken''),
      (Secured, ''GET'', ''/api/v1/dashboard/summary'', ''DashboardSummary''),
      (Secured, ''GET'', ''/api/v1/sessions'', ''ListSessions''),
      (Secured, ''POST'', ''/api/v1/sessions/stream-token'', ''IssueSessionStreamToken''),
      (Public, ''GET'', ''/api/v1/sessions/stream'', ''StreamSessions''),
      (Secured, ''POST'', ''/api/v1/sessions'', ''CreateSession''),
      (Secured, ''GET'', ''/api/v1/sessions/:id'', ''GetSession''),
      (Secured, ''GET'', ''/api/v1/sessions/:id/recording'', ''SessionRecording''),
      (Secured, ''POST'', ''/api/v1/sessions/:id/force-finish'', ''ForceFinishSession''),
      (Secured, ''GET'', ''/api/v1/sessions/:id/commands'', ''ListSessionCommands''),
      (Secured, ''GET'', ''/api/v1/settings'', ''ListSettings''),
      (Secured, ''GET'', ''/api/v1/settings/ssh-fingerprint'', ''SSHFingerprint''),
      (Secured, ''GET'', ''/api/v1/settings/:key'', ''GetSetting''),
      (Secured, ''PUT'', ''/api/v1/settings/:key'', ''UpdateSetting''),
      (Secured, ''GET'', ''/api/v1/audit-logs'', ''ListAuditLogs'')]"

text \<open>
  \<open>run\<close> is the handler of a name, given the principal the middleware stored; \<open>NoRoute\<close> serves the
  web interface.
\<close>

definition dispatch ::
    "(string \<Rightarrow> claims option) \<Rightarrow> casbin \<Rightarrow> (string \<Rightarrow> principal option \<Rightarrow> 'a api_handler) \<Rightarrow>
     http_request \<Rightarrow> 'a api_handler" where
  "dispatch parse cb run req = (\<lambda>a.
     case find (\<lambda>(g, meth, path, name). meth = hq_method req \<and> path = hq_route req) routes of
       None \<Rightarrow> run ''NoRoute'' None a
     | Some (g, meth, path, name) \<Rightarrow>
         (case g of
            Public \<Rightarrow> run name None a
          | SignedIn \<Rightarrow> Auth parse req (\<lambda>who. run name (Some who)) a
          | Secured \<Rightarrow>
              Auth parse req (\<lambda>who. RBAC cb (en_model (api_enforcer a)) req who (run name (Some who))) a))"

text \<open>
  In front of every route stands the rate limiter.  (The middleware before and behind it counts,
  logs and recovers from panics.)
\<close>

definition limited_dispatch ::
    "rate_config \<Rightarrow> (string \<Rightarrow> claims option) \<Rightarrow> casbin \<Rightarrow> (string \<Rightarrow> principal option \<Rightarrow> 'a api_handler) \<Rightarrow>
     http_request \<Rightarrow> time \<Rightarrow> (buckets \<times> api, 'a) handler" where
  "limited_dispatch cfg parse cb run req now = RateLimit cfg req now (dispatch parse cb run req)"

lemma limited_dispatch_cases:
  "limited_dispatch cfg parse cb run req now (bs, a) =
     (if rl_enabled cfg \<and> 0 < rl_per_second cfg \<and> refill cfg now (bs (rate_key req)) < 1
      then (Refused 429 ''rate_limited'', snd (take_token cfg (rate_key req) now bs), a)
      else (fst (dispatch parse cb run req a),
            if rl_enabled cfg \<and> 0 < rl_per_second cfg then snd (take_token cfg (rate_key req) now bs) else bs,
            snd (dispatch parse cb run req a)))"
  by (auto simp: limited_dispatch_def RateLimit_def take_token_def Let_def split: prod.split)

section \<open>Who gets through\<close>

lemma routes_plain: "(g, meth, path, name) \<in> set routes \<Longrightarrow> plain_path path \<and> path \<noteq> ''''"
proof -
  have "list_all (\<lambda>(g, meth, path, name). plain_path path \<and> path \<noteq> '''') routes"
    by (simp add: routes_def plain_path_def path_char_def Let_def)
  thus "(g, meth, path, name) \<in> set routes \<Longrightarrow> plain_path path \<and> path \<noteq> ''''"
    by (auto simp: list_all_iff)
qed

text \<open>The principal of a request with a valid bearer token.\<close>

definition signed_in_as :: "(string \<Rightarrow> claims option) \<Rightarrow> http_request \<Rightarrow> principal option" where
  "signed_in_as parse req =
     (if has_prefix bearer (hq_authorization req)
      then map_option PrincipalFromClaims (parse (trim_space (drop (length bearer) (hq_authorization req))))
      else None)"

lemma Auth_signed_in:
  "Auth parse req next = (case signed_in_as parse req of None \<Rightarrow> refuse ErrUnauthorized | Some who \<Rightarrow> next who)"
  by (simp add: Auth_def signed_in_as_def Let_def split: option.split)

definition route_of :: "http_request \<Rightarrow> route option" where
  "route_of req = find (\<lambda>(g, meth, path, name). meth = hq_method req \<and> path = hq_route req) routes"

lemma route_of_Some:
  assumes "route_of req = Some (g, meth, path, name)"
  shows "(g, meth, path, name) \<in> set routes \<and> meth = hq_method req \<and> path = hq_route req"
  using find_Some_iff [OF assms [unfolded route_of_def]] by auto

lemma dispatch_secured:
  assumes "casbin_ok cb" and "plain_model (en_model (api_enforcer a))"
    and "route_of req = Some (Secured, meth, path, name)"
  shows "dispatch parse cb run req a =
    (case signed_in_as parse req of
       None \<Rightarrow> (Refused 401 ''unauthorized'', a)
     | Some who \<Rightarrow> if may (en_model (api_enforcer a)) who path meth then run name (Some who) a
                   else (Refused 403 ''forbidden'', a))"
proof -
  note r = route_of_Some [OF assms(3)]
  have "plain_path (hq_route req)" "hq_route req \<noteq> ''''" using r routes_plain by blast+
  hence rb: "RBAC cb (en_model (api_enforcer a)) req who nxt =
      (if may (en_model (api_enforcer a)) who path meth then nxt else refuse ErrForbidden)" for who and nxt :: "'a api_handler"
    using RBAC_may [OF assms(1,2)] r by metis
  have "dispatch parse cb run req a =
      Auth parse req (\<lambda>who. RBAC cb (en_model (api_enforcer a)) req who (run name (Some who))) a"
    using assms(3) unfolding dispatch_def route_of_def by simp
  thus ?thesis by (simp add: rb Auth_signed_in refuse_def Error_def split: option.split)
qed

text \<open>
  C4: A handler of the secured group runs exactly for a request with a valid access token whose user
  name or one of whose roles has a policy that matches the route and the method; every other
  request is refused, and changes nothing.
\<close>

theorem secured_routes_gated:
  assumes "casbin_ok cb" and "plain_model (en_model (api_enforcer a))"
    and "route_of req = Some (Secured, meth, path, name)"
  shows "(\<forall>who. signed_in_as parse req = Some who \<and> may (en_model (api_enforcer a)) who path meth \<longrightarrow>
           dispatch parse cb run req a = run name (Some who) a) \<and>
    (\<not> (\<exists>who. signed_in_as parse req = Some who \<and> may (en_model (api_enforcer a)) who path meth) \<longrightarrow>
       (\<exists>status code. dispatch parse cb run req a = (Refused status code, a) \<and> status \<in> {401, 403}))"
  using dispatch_secured [where parse = parse and run = run, OF assms] by (auto split: option.split)

section \<open>What the default policies allow\<close>

text \<open>The pattern and the methods of each default policy of a role, in their parts.\<close>

definition policy_parts :: "string \<Rightarrow> (string list \<times> string) list" where
  "policy_parts name =
     map (\<lambda>r. (split_char (CHR ''/'') (r ! 1), r ! 2)) (filter (\<lambda>r. r ! 0 = name) defaultPolicies)"

definition role_allows :: "string \<Rightarrow> string list \<Rightarrow> string \<Rightarrow> bool" where
  "role_allows name path meth =
     list_ex (\<lambda>(pattern, meths). if method_match meth meths then segments_match path pattern else False)
       (policy_parts name)"

definition route_parts :: "(access \<times> string \<times> string list \<times> string) list" where
  "route_parts = map (\<lambda>(g, meth, path, name). (g, meth, split_char (CHR ''/'') path, name)) routes"

definition operator_handlers :: "string list" where
  "operator_handlers =
     [''ListAssets'', ''CreateAsset'', ''GetAsset'', ''UpdateAsset'', ''AssetTree'', ''ListAccounts'',
      ''CreateAccount'', ''GetAccount'', ''UpdateAccount'', ''ListPlatforms'', ''ListPlatformProtocols'',
      ''IssueConnectionToken'', ''SDKConnectionToken'', ''DashboardSummary'', ''ListSessions'',
      ''CreateSession'', ''IssueSessionStreamToken'', ''GetSession'', ''SessionRecording'',
      ''ListSessionCommands'']"

definition auditor_handlers :: "string list" where
  "auditor_handlers =
     [''DashboardSummary'', ''ListSessions'', ''IssueSessionStreamToken'', ''GetSession'',
      ''SessionRecording'', ''ListSessionCommands'', ''ListAuditLogs'']"

lemmas split_routes = route_parts_def [unfolded routes_def, simplified]

lemmas split_policies =
  policy_parts_def [of "''auditor''", unfolded defaultPolicies_def, simplified]
  policy_parts_def [of "''operator''", unfolded defaultPolicies_def, simplified]
  policy_parts_def [of "''admin''", unfolded defaultPolicies_def, simplified]
  policy_parts_def [of "''super_admin''", unfolded defaultPolicies_def, simplified]

lemmas allows_simps = role_allows_def split_routes split_policies method_match_def contains_def

lemma auditor_allows:
  "list_all (\<lambda>(g, meth, path, name). g = Secured \<longrightarrow>
     role_allows ''auditor'' path meth = (name \<in> set auditor_handlers)) route_parts"
  by (simp add: allows_simps auditor_handlers_def)

lemma operator_allows:
  "list_all (\<lambda>(g, meth, path, name). g = Secured \<longrightarrow>
     role_allows ''operator'' path meth = (name \<in> set operator_handlers)) route_parts"
  by (simp add: allows_simps operator_handlers_def)

lemma admins_allow:
  "list_all (\<lambda>(g, meth, path, name). g = Secured \<longrightarrow>
     role_allows ''admin'' path meth \<and> role_allows ''super_admin'' path meth) route_parts"
  by (simp add: allows_simps)

lemma role_allows_iff:
  "role_allows s (split_char (CHR ''/'') path) meth \<longleftrightarrow>
     (\<exists>r \<in> set defaultPolicies. r ! 0 = s \<and> path_match path (r ! 1) \<and> method_match meth (r ! 2))"
  by (auto simp: role_allows_def policy_parts_def list_ex_iff path_match_def)

lemma default_subjects: "r \<in> set defaultPolicies \<Longrightarrow> r ! 0 \<in> {''super_admin'', ''admin'', ''operator'', ''auditor''}"
proof -
  have "list_all (\<lambda>r. r ! 0 \<in> {''super_admin'', ''admin'', ''operator'', ''auditor''}) defaultPolicies"
    by (simp add: defaultPolicies_def)
  thus "r \<in> set defaultPolicies \<Longrightarrow> r ! 0 \<in> {''super_admin'', ''admin'', ''operator'', ''auditor''}"
    by (simp add: list_all_iff)
qed

lemma route_in_parts:
  "(g, meth, path, name) \<in> set routes \<Longrightarrow> (g, meth, split_char (CHR ''/'') path, name) \<in> set route_parts"
  by (force simp: route_parts_def)

lemma role_table:
  assumes "(Secured, meth, path, name) \<in> set routes"
  shows "role_allows ''auditor'' (split_char (CHR ''/'') path) meth = (name \<in> set auditor_handlers)"
    and "role_allows ''operator'' (split_char (CHR ''/'') path) meth = (name \<in> set operator_handlers)"
    and "role_allows ''admin'' (split_char (CHR ''/'') path) meth"
    and "role_allows ''super_admin'' (split_char (CHR ''/'') path) meth"
  using auditor_allows operator_allows admins_allow route_in_parts [OF assms]
  unfolding list_all_iff by fastforce+

text \<open>
  C23: What a principal may do under the default policies, route by route: the two administrator
  roles everything, an operator and an auditor the handlers listed.  The user name counts like a
  role.
\<close>

theorem default_access:
  assumes "(Secured, meth, path, name) \<in> set routes"
  shows "may \<lparr>pm_p = defaultPolicies, pm_g = []\<rparr> who path meth \<longleftrightarrow>
    (\<exists>s \<in> set (subjects who). s = ''super_admin'' \<or> s = ''admin'' \<or>
       (s = ''operator'' \<and> name \<in> set operator_handlers) \<or> (s = ''auditor'' \<and> name \<in> set auditor_handlers))"
proof -
  have "may \<lparr>pm_p = defaultPolicies, pm_g = []\<rparr> who path meth \<longleftrightarrow>
      (\<exists>s \<in> set (subjects who). s \<in> {''super_admin'', ''admin'', ''operator'', ''auditor''} \<and>
         role_allows s (split_char (CHR ''/'') path) meth)"
    unfolding may_def role_allows_iff using default_subjects by fastforce
  thus ?thesis using role_table [OF assms] by auto
qed

section \<open>The first administrator without a second factor\<close>

definition setup_claims :: "auth_env \<Rightarrow> fresh \<Rightarrow> user \<Rightarrow> claims" where
  "setup_claims env fr user =
     \<lparr>cl_user_id = u_id user, cl_username = u_username user, cl_roles = [], cl_id = f_jti fr,
      cl_subject = show_int (u_id user), cl_issued_at = f_now fr, cl_expires_at = f_now fr + access_ttl (ae_jwt env)\<rparr>"

lemma setup_login:
  assumes "Login env fr unix username password code s = (Inr res, s')" and "lr_require_mfa_setup res"
  shows "\<exists>user. GetUserByUsername username s = Inr user \<and> u_username user = username \<and> lr_roles res = [] \<and>
    lr_access_token res = sign_jwt (ae_jwt env) (setup_claims env fr user)"
proof -
  obtain user where user: "GetUserByUsername username s = Inr user"
    using assms(1) by (cases "GetUserByUsername username s") (auto simp: Login_def)
  hence n: "u_username user = username"
    using find_Some_iff [of "\<lambda>u. u_username u = username" "users s" user] by (auto simp: GetUserByUsername_def)
  have "issueSetupTokens env fr user s = (Inr res, s')"
  proof -
    have "\<not> lr_require_mfa_setup r" if "issueTokens env fr user t = (Inr r, t')" for r t t'
      using that by (auto simp: issueTokens_def issueTokensWithRoles_def Let_def abind_app
                          split: prod.splits sum.splits)
    thus ?thesis using assms user
      by (auto simp: Login_def mfa_challenge_def Let_def abind_app split: if_splits sum.splits prod.splits error.splits)
  qed
  thus ?thesis using user n
    by (auto simp: issueSetupTokens_def issueTokensWithRoles_def SignAccessToken_def setup_claims_def Let_def abind_app
             split: prod.splits sum.splits)
qed

text \<open>
  C22: Where the server demands a second factor and the account admin has not enrolled one, its login
  hands out a token that carries no role and is meant for the enrolment only.  Because the user
  name is a subject of the policies and a default policy names admin, that token opens every
  secured route.
\<close>

theorem setup_token_of_admin:
  assumes "casbin_ok cb" and "plain_model (en_model (api_enforcer a))"
    and "set defaultPolicies \<subseteq> policies a"
    and "Login env fr unix ''admin'' password code s = (Inr res, s')" and "lr_require_mfa_setup res"
    and "\<And>user. GetUserByUsername ''admin'' s = Inr user \<Longrightarrow>
           parse (sign_jwt (ae_jwt env) (setup_claims env fr user)) = Some (setup_claims env fr user)"
    and "trim_space (lr_access_token res) = lr_access_token res"
    and "hq_authorization req = bearer @ lr_access_token res"
    and "route_of req = Some (Secured, meth, path, name)"
  shows "lr_roles res = [] \<and> (\<exists>who. pr_roles who = [] \<and> dispatch parse cb run req a = run name (Some who) a)"
proof -
  note r = route_of_Some [OF assms(9)]
  obtain c where c: "parse (lr_access_token res) = Some c" "cl_username c = ''admin''" "cl_roles c = []"
    "lr_roles res = []" using setup_login [OF assms(4,5)] assms(6) by (fastforce simp: setup_claims_def)
  have who: "signed_in_as parse req = Some (PrincipalFromClaims c)"
    using assms(7,8) c(1) by (simp add: signed_in_as_def)
  have "(Secured, meth, path, name) \<in> set routes" using r by blast
  from role_table(3) [OF this] obtain p where "p \<in> set defaultPolicies" "p ! 0 = ''admin''"
    "path_match path (p ! 1)" "method_match meth (p ! 2)" by (auto simp: role_allows_iff)
  hence "may (en_model (api_enforcer a)) (PrincipalFromClaims c) path meth"
    using assms(3) c(2) by (auto simp: may_def policies_def subjects_def PrincipalFromClaims_def)
  hence "dispatch parse cb run req a = run name (Some (PrincipalFromClaims c)) a"
    using dispatch_secured [where parse = parse and run = run, OF assms(1,2,9)] who by simp
  moreover have "pr_roles (PrincipalFromClaims c) = []" using c(3) by (simp add: PrincipalFromClaims_def)
  ultimately show ?thesis using c(4) by blast
qed

section \<open>Witnesses\<close>

definition sample_http :: http_request where
  "sample_http =
     \<lparr>hq_method = ''DELETE'', hq_route = ''/api/v1/users/:id'', hq_path = ''/api/v1/users/7'',
      hq_authorization = ''Bearer admin'', hq_proxy_auth = '''', hq_client_ip = ''10.0.0.1'',
      hq_param = (\<lambda>_. ''7''), hq_query = (\<lambda>_. ''''), hq_host = '''', hq_forwarded_host = ''''\<rparr>"

lemma sample_http_route: "route_of sample_http = Some (Secured, ''DELETE'', ''/api/v1/users/:id'', ''DeleteUser'')"
  by (simp add: route_of_def routes_def sample_http_def)

definition nobody :: principal where
  "nobody = \<lparr>pr_user_id = 9, pr_username = ''eve'', pr_roles = [''operator'']\<rparr>"

theorem secured_routes_gated_witness:
  "\<exists>status code. dispatch (\<lambda>_. None) sample_casbin (\<lambda>name who a. (Reply 200 name, a)) sample_http (sample_api (empty_db 1)) =
     (Refused status code, sample_api (empty_db 1)) \<and> status \<in> {401, 403}"
proof -
  have m: "plain_model (en_model (api_enforcer (sample_api (empty_db 1))))"
    by (simp add: sample_api_def default_model_plain)
  have "signed_in_as (\<lambda>_. None) sample_http = None" by (simp add: signed_in_as_def)
  with secured_routes_gated [where parse = "\<lambda>_. None" and run = "\<lambda>name who a. (Reply 200 name, a)",
      OF sample_casbin_ok m sample_http_route] show ?thesis by simp
qed

theorem default_access_witness:
  "\<not> may \<lparr>pm_p = defaultPolicies, pm_g = []\<rparr> nobody ''/api/v1/users/:id'' ''DELETE''"
proof -
  have "(Secured, ''DELETE'', ''/api/v1/users/:id'', ''DeleteUser'') \<in> set routes"
    by (rule route_of_Some [OF sample_http_route, THEN conjunct1])
  from default_access [OF this] show ?thesis
    by (simp add: nobody_def subjects_def operator_handlers_def)
qed

definition mfa_db :: "string \<Rightarrow> db" where
  "mfa_db stored = (auth_db stored)\<lparr>users := [(auth_user stored)\<lparr>u_username := ''admin''\<rparr>],
     settings := [\<lparr>st_key = ''security.mfa_required'', st_value = ''true'', st_category = '''', st_label = '''',
       st_description = '''', st_input_type = ''toggle'', st_options = '''', st_updated_at = 0\<rparr>]\<rparr>"

lemma mfa_db_setting: "settingBool (mfa_db stored) ''security.mfa_required'' False"
  by (simp add: settingBool_def GetSetting_def mfa_db_def literal_words_trimmed json_bool_def)

lemma mfa_db_user: "GetUserByUsername ''admin'' (mfa_db stored) = Inr ((auth_user stored)\<lparr>u_username := ''admin''\<rparr>)"
  by (simp add: GetUserByUsername_def mfa_db_def)

lemma mfa_db_refresh: "refresh_tokens (mfa_db stored) = []"
  by (simp add: mfa_db_def auth_db_def empty_db_def)

lemma mfa_db_fk: "has_user (mfa_db stored) 7"
  by (simp add: has_user_def mfa_db_def auth_user_def)

theorem setup_token_of_admin_witness:
  "\<exists>stored res s'. Login sample_auth_env sample_fresh 60 ''admin'' ''pw'' '''' (mfa_db stored) = (Inr res, s') \<and>
     lr_require_mfa_setup res \<and> lr_roles res = [] \<and>
     (\<exists>parse who. dispatch parse sample_casbin (\<lambda>name who a. (Reply 200 name, a)) sample_http (sample_api s') =
        (Reply 200 ''DeleteUser'', sample_api s'))"
proof -
  obtain stored where v: "VerifyPassword sample_argon2 ''pw'' stored = Inr True" using sample_stored by blast
  let ?s = "mfa_db stored"
  have "\<exists>res s'. Login sample_auth_env sample_fresh 60 ''admin'' ''pw'' '''' ?s = (Inr res, s') \<and>
      lr_require_mfa_setup res \<and> lr_access_token res = ''admin''"
    using v mfa_db_setting [of stored] mfa_db_user [of stored] mfa_db_fk [of stored]
    by (simp add: fk_def Login_def sample_auth_env_def auth_user_def Let_def abind_app
        issueSetupTokens_def issueTokensWithRoles_def SignAccessToken_def NewRefreshToken_def CreateRefreshToken_def
        mfa_db_refresh)
  then obtain res s' where l: "Login sample_auth_env sample_fresh 60 ''admin'' ''pw'' '''' ?s = (Inr res, s')"
    "lr_require_mfa_setup res" "lr_access_token res = ''admin''" by blast
  let ?parse = "\<lambda>_. Some (setup_claims sample_auth_env sample_fresh ((auth_user stored)\<lparr>u_username := ''admin''\<rparr>))"
  have m: "plain_model (en_model (api_enforcer (sample_api s')))" by (simp add: sample_api_def default_model_plain)
  have d: "set defaultPolicies \<subseteq> policies (sample_api s')" by (simp add: sample_api_def policies_def default_model_def)
  have u: "?parse (sign_jwt (ae_jwt sample_auth_env) (setup_claims sample_auth_env sample_fresh user)) =
      Some (setup_claims sample_auth_env sample_fresh user)" if "GetUserByUsername ''admin'' ?s = Inr user" for user
    using that by (simp add: mfa_db_user)
  have t: "trim_space (lr_access_token res) = lr_access_token res" unfolding l(3) by (rule literal_words_trimmed)
  have h: "hq_authorization sample_http = bearer @ lr_access_token res" by (simp add: l(3) sample_http_def bearer_def)
  from setup_token_of_admin [where parse = ?parse and run = "\<lambda>name who a. (Reply 200 name, a)",
      OF sample_casbin_ok m d l(1,2) u t h sample_http_route] show ?thesis using l by blast
qed

end
