(* ===== verification/Requests.thy ===== *)
theory Requests
  imports Api Listings Paths Json NetAddr Sdk
begin

text \<open>
  What the handlers of \<open>api/handler/handlers.go\<close> read from a request and decide from it without
  a service: pages, filters, times, the host of a launch URL, where a recording may lie, and the
  one-time tokens of the session stream.
\<close>

section \<open>Query parameters\<close>

fun firstQuery :: "http_request \<Rightarrow> string list \<Rightarrow> string" where
  "firstQuery req [] = ''''"
| "firstQuery req (key # keys) = (if hq_query req key \<noteq> '''' then hq_query req key else firstQuery req keys)"

definition queryIntOrDefault :: "string \<Rightarrow> int \<Rightarrow> int" where
  "queryIntOrDefault raw fallback = (case parse_int64 raw of None \<Rightarrow> fallback | Some n \<Rightarrow> n)"

definition queryPagination :: "http_request \<Rightarrow> int \<Rightarrow> int \<Rightarrow> int \<Rightarrow> int \<times> int" where
  "queryPagination req defaultPage defaultPerPage maxPerPage =
     (let page = queryIntOrDefault (hq_query req ''page'') defaultPage;
          perPage = queryIntOrDefault (hq_query req ''per_page'') defaultPerPage;
          page = (if page < 1 then defaultPage else page);
          perPage = (if perPage < 1 then defaultPerPage else perPage);
          perPage = (if perPage > maxPerPage then maxPerPage else perPage)
      in (page, perPage))"

definition queryInt64OrZero :: "string \<Rightarrow> int" where
  "queryInt64OrZero raw = (case parse_int64 (trim_space raw) of None \<Rightarrow> 0 | Some n \<Rightarrow> n)"

text \<open>
  \<open>parse\<close> is \<open>time.Parse\<close> with a layout.  A date without a time means its first instant, or its
  last when it ends a range.
\<close>

definition day :: int where
  "day = 86400000000000"

definition queryTime :: "(string \<Rightarrow> string \<Rightarrow> time option) \<Rightarrow> string \<Rightarrow> bool \<Rightarrow> time option" where
  "queryTime parse raw endOfDay =
     (let raw = trim_space raw
      in if raw = '''' then None
         else case parse ''2006-01-02T15:04:05Z07:00'' raw of
                Some t \<Rightarrow> Some t
              | None \<Rightarrow> map_option (\<lambda>t. if endOfDay then t + day - 1 else t) (parse ''2006-01-02'' raw))"

text \<open>The product of two \<open>int\<close>s wraps around.\<close>

definition mul64 :: "int \<Rightarrow> int \<Rightarrow> int" where
  "mul64 a b = wrap64 (a * b)"

text \<open>The items of a page; \<open>None\<close> is the panic of a slice with a negative bound.\<close>

definition page_of :: "int \<Rightarrow> int \<Rightarrow> 'a list \<Rightarrow> 'a list option" where
  "page_of page perPage xs =
     (let total = int (length xs);
          start = mul64 (page - 1) perPage;
          start = (if start > total then total else start);
          stop = start + perPage;
          stop = (if stop > total then total else stop)
      in if start < 0 \<or> stop < start then None
         else Some (take (nat (stop - start)) (drop (nat start) xs)))"

section \<open>Filters\<close>

definition asset_shown :: "string \<Rightarrow> string \<Rightarrow> string \<Rightarrow> asset_with_platform \<Rightarrow> bool" where
  "asset_shown sought typ status a =
     ((sought = '''' \<or> contains sought (to_lower (a_name a)) \<or> contains sought (to_lower (a_address a))) \<and>
      (typ = '''' \<or> to_lower (a_platform_type a) = typ) \<and>
      (status = '''' \<or> status = ''all'' \<or>
        (let wantActive = status \<in> {''active'', ''true'', ''1''};
             wantInactive = status \<in> {''inactive'', ''false'', ''0''}
         in (wantActive \<or> wantInactive) \<longrightarrow> a_is_active a = wantActive)))"

definition filterAssets :: "http_request \<Rightarrow> asset_with_platform list \<Rightarrow> asset_with_platform list" where
  "filterAssets req rows =
     (let sought = to_lower (trim_space (firstQuery req [''q'', ''search'']));
          typ = to_lower (trim_space (firstQuery req [''platform_type'', ''protocol'']));
          status = to_lower (trim_space (firstQuery req [''status'', ''is_active'']))
      in if sought = '''' \<and> typ = '''' \<and> status = '''' then rows
         else filter (asset_shown sought typ status) rows)"

definition haystack :: "session \<Rightarrow> string" where
  "haystack s = to_lower (join '' '' [show_int (s_user_id s), show_int (s_asset_id s),
     show_int (s_account_id s), s_protocol s, s_type s, s_login_from s, s_remote_addr s])"

definition filterSessions ::
    "(string \<Rightarrow> string \<Rightarrow> time option) \<Rightarrow> http_request \<Rightarrow> session list \<Rightarrow> session list" where
  "filterSessions parse req rows =
     (let status = to_lower (trim_space (hq_query req ''status''));
          sought = to_lower (trim_space (firstQuery req [''q'', ''search'']));
          userID = queryInt64OrZero (hq_query req ''user_id'');
          assetID = queryInt64OrZero (hq_query req ''asset_id'');
          from = queryTime parse (hq_query req ''date_from'') False;
          to = queryTime parse (hq_query req ''date_to'') True
      in if status = '''' \<and> sought = '''' \<and> userID = 0 \<and> assetID = 0 \<and> from = None \<and> to = None then rows
         else filter (\<lambda>s.
                \<not> (status = ''active'' \<and> s_is_finished s) \<and>
                \<not> (status = ''ended'' \<and> \<not> s_is_finished s) \<and>
                (userID = 0 \<or> s_user_id s = userID) \<and>
                (assetID = 0 \<or> s_asset_id s = assetID) \<and>
                (sought = '''' \<or> contains sought (haystack s)) \<and>
                (case from of None \<Rightarrow> True | Some t \<Rightarrow> \<not> s_date_start s < t) \<and>
                (case to of None \<Rightarrow> True | Some t \<Rightarrow> \<not> t < s_date_start s)) rows)"

section \<open>Launch requests\<close>

text \<open>A positive id; \<open>ParseInt\<close> does not trim.\<close>

definition queryInt64 :: "string \<Rightarrow> error + int" where
  "queryInt64 raw =
     (if trim_space raw = '''' then Inl ErrInvalidArgument
      else case parse_int64 raw of
             None \<Rightarrow> Inl ErrInvalidArgument
           | Some n \<Rightarrow> if n \<le> 0 then Inl ErrInvalidArgument else Inr n)"

definition query_sdk_input :: "http_request \<Rightarrow> error + sdk_input" where
  "query_sdk_input req =
     rbind (queryInt64 (hq_query req ''asset_id'')) (\<lambda>assetID.
     rbind (queryInt64 (hq_query req ''account_id'')) (\<lambda>accountID.
       Inr \<lparr>i_asset_id = assetID, i_account_id = accountID, i_protocol = hq_query req ''protocol'',
            i_connect_method = hq_query req ''connect_method'', i_is_reusable = False,
            i_connect_options = '''', si_proxy_host = hq_query req ''proxy_host'',
            si_format = hq_query req ''format''\<rparr>))"

definition bindSDKURLInput ::
    "http_request \<Rightarrow> sdk_input option \<Rightarrow> (sdk_input \<Rightarrow> ('s, 'a) handler) \<Rightarrow> ('s, 'a) handler" where
  "bindSDKURLInput req body nxt =
     (if hq_method req \<noteq> ''GET'' then RequireJSON body nxt
      else case query_sdk_input req of Inl e \<Rightarrow> refuse e | Inr input \<Rightarrow> nxt input)"

definition requestProxyHost :: "http_request \<Rightarrow> string" where
  "requestProxyHost req =
     (let host = trim_space (hq_forwarded_host req);
          host = (if host = '''' then hq_host req else host);
          host = (if CHR '','' \<in> set host then trim_space (hd (split_char (CHR '','') host)) else host)
      in case SplitHostPort host of
           Inr (parsed, port) \<Rightarrow> if parsed \<noteq> '''' then parsed else trim_set bracket host
         | Inl _ \<Rightarrow> trim_set bracket host)"

section \<open>Recordings\<close>

definition isRemoteRecordingURL :: "string \<Rightarrow> bool" where
  "isRemoteRecordingURL path =
     (let lower = to_lower path in has_prefix ''http://'' lower \<or> has_prefix ''https://'' lower)"

text \<open>\<open>json.Unmarshal\<close> skips the white space around the text.\<close>

definition json_space :: "char \<Rightarrow> bool" where
  "json_space c = (let n = of_char c :: nat in n = 32 \<or> n = 9 \<or> n = 10 \<or> n = 13)"

definition settingStringValue :: "string \<Rightarrow> string" where
  "settingStringValue raw =
     (case json_string (trim_set json_space raw) of
        Some decoded \<Rightarrow> decoded
      | None \<Rightarrow> trim_set (\<lambda>c. c = chr 34) raw)"

text \<open>\<open>filepath.Abs\<close> in the working directory \<open>cwd\<close>.\<close>

definition path_abs :: "string \<Rightarrow> string \<Rightarrow> string" where
  "path_abs cwd p = path_clean (if has_prefix ''/'' p then p else cwd @ ''/'' @ p)"

definition allowedDirs :: "string \<Rightarrow> db \<Rightarrow> string list" where
  "allowedDirs recordingDir s =
     recordingDir # (case GetSetting ''recording.local.path'' s of
        Inl _ \<Rightarrow> [] | Inr st \<Rightarrow> [settingStringValue (st_value st)])"

definition isAllowedLocalRecordingPath :: "string \<Rightarrow> string \<Rightarrow> string \<Rightarrow> db \<Rightarrow> bool" where
  "isAllowedLocalRecordingPath cwd recordingDir path s =
     (let recordingAbs = path_clean (path_abs cwd path)
      in list_ex (\<lambda>dir.
           let dir = trim_space dir; dirAbs = path_clean (path_abs cwd dir)
           in dir \<noteq> '''' \<and> (recordingAbs = dirAbs \<or> has_prefix (dirAbs @ ''/'') recordingAbs))
         (allowedDirs recordingDir s))"

section \<open>Stream tokens\<close>

definition newOpaqueToken :: "byte list \<Rightarrow> string" where
  "newOpaqueToken raw = raw_url_encode raw"

definition sixty_seconds :: int where
  "sixty_seconds = 60000000000"

text \<open>Expired tokens go when a new one is issued.\<close>

definition issue_stream_token ::
    "string \<Rightarrow> time \<Rightarrow> principal \<Rightarrow> (string \<rightharpoonup> stream_token) \<Rightarrow> string \<rightharpoonup> stream_token" where
  "issue_stream_token token now who m =
     (\<lambda>k. case m k of None \<Rightarrow> None | Some v \<Rightarrow> if now > sm_expires_at v then None else Some v)
       (token \<mapsto> \<lparr>sm_principal = who, sm_expires_at = now + sixty_seconds\<rparr>)"

definition consumeStreamToken ::
    "time \<Rightarrow> string \<Rightarrow> (string \<rightharpoonup> stream_token) \<Rightarrow> principal option \<times> (string \<rightharpoonup> stream_token)" where
  "consumeStreamToken now token m =
     (case m token of
        None \<Rightarrow> (None, m)
      | Some v \<Rightarrow> (if now > sm_expires_at v then None else Some (sm_principal v), m(token := None)))"

section \<open>Pages\<close>

lemma mul64_small: "0 \<le> a * b \<Longrightarrow> a * b < 2 ^ 63 \<Longrightarrow> mul64 a b = a * b"
  by (simp add: mul64_def wrap64_id int64_range_def)

lemma queryPagination_bounds:
  assumes "queryPagination req p n m = (page, perPage)" and "1 \<le> p" "1 \<le> n" "n \<le> m"
  shows "1 \<le> page \<and> 1 \<le> perPage \<and> perPage \<le> m"
  using assms by (auto simp: queryPagination_def Let_def split: if_splits)

text \<open>
  A page of the asset list is the slice it should be as long as the number of items before it
  fits into 63 bits; beyond that the product of page and size can turn negative, and the handler
  panics on a slice with a negative bound.
\<close>

theorem asset_pages:
  assumes "queryPagination req 1 20 100 = (page, perPage)"
  shows "((page - 1) * perPage < 2 ^ 63 \<longrightarrow>
            page_of page perPage xs = Some (take (nat perPage) (drop (nat ((page - 1) * perPage)) xs))) \<and>
         (page_of page perPage xs = None \<longleftrightarrow> mul64 (page - 1) perPage < 0)"
proof -
  have b: "1 \<le> page" "1 \<le> perPage" using queryPagination_bounds [OF assms] by auto
  have "page_of page perPage xs = Some (take (nat perPage) (drop (nat ((page - 1) * perPage)) xs))"
    if "(page - 1) * perPage < 2 ^ 63"
  proof -
    obtain k where k: "(page - 1) * perPage = k" "0 \<le> k" using b by simp
    have m: "mul64 (page - 1) perPage = k" using mul64_small [of "page - 1" perPage] k that by simp
    obtain n where n: "perPage = int n" using b by (metis nat_0_le order_trans zero_le_one)
    obtain i where i: "k = int i" using k(2) by (metis nat_0_le)
    show ?thesis unfolding page_of_def m k(1) Let_def by (auto simp: n i nat_int_add)
  qed
  moreover have "page_of page perPage xs = None \<longleftrightarrow> mul64 (page - 1) perPage < 0"
    using b by (auto simp: page_of_def Let_def)
  ultimately show ?thesis by blast
qed

section \<open>Recordings are served from their directories\<close>

lemma foldl_enter_plain:
  "\<forall>w \<in> set ws. w \<noteq> '''' \<and> w \<noteq> ''.'' \<and> w \<noteq> ''..'' \<Longrightarrow> foldl enter d ws = d @ ws"
  by (induction ws arbitrary: d) (simp_all add: enter_def)

lemma foldl_enter_names:
  "\<forall>w \<in> set d. w \<noteq> '''' \<and> w \<noteq> ''.'' \<and> w \<noteq> ''..'' \<Longrightarrow>
   \<forall>w \<in> set (foldl enter d ws). w \<noteq> '''' \<and> w \<noteq> ''.'' \<and> w \<noteq> ''..''"
proof (induction ws arbitrary: d)
  case (Cons v ws)
  have "\<forall>w \<in> set (enter d v). w \<noteq> '''' \<and> w \<noteq> ''.'' \<and> w \<noteq> ''..''"
    using Cons.prems by (auto simp: enter_def dest: in_set_butlastD)
  from Cons.IH [OF this] show ?case by simp
qed simp

lemma walk_join_walk: "walk (join ''/'' (walk p)) = walk p"
proof (cases "walk p = []")
  case True
  thus ?thesis by (simp add: walk_def enter_def)
next
  case False
  have "split_char (CHR ''/'') (join ''/'' (walk p)) = walk p" by (rule split_join_words [OF walk_words False])
  hence "walk (join ''/'' (walk p)) = foldl enter [] (walk p)" by (simp add: walk_def)
  also have "\<dots> = [] @ walk p" by (rule foldl_enter_plain, unfold walk_def, rule foldl_enter_names) simp
  also have "\<dots> = walk p" by simp
  finally show ?thesis .
qed

lemma clean_clean: "path_clean (path_clean (''/'' @ p)) = path_clean (''/'' @ p)"
  using clean_rooted [of p] clean_rooted [of "join ''/'' (walk p)"] walk_join_walk by simp

lemma no_double_slash: "path_words ws \<Longrightarrow> \<not> has_prefix ''//'' (''/'' @ join ''/'' ws)"
proof (cases ws)
  case (Cons w vs)
  moreover assume "path_words ws"
  ultimately obtain c cs where "w = c # cs" "c \<noteq> CHR ''/''" by (cases w) (auto simp: path_words_def)
  thus ?thesis using Cons by (cases vs) (auto simp: has_prefix_iff)
qed (simp add: has_prefix_iff)

text \<open>The absolute name of a path before it is cleaned.\<close>

definition absolute :: "string \<Rightarrow> string \<Rightarrow> string" where
  "absolute cwd p = (if has_prefix ''/'' p then p else cwd @ ''/'' @ p)"

lemma path_abs_absolute:
  assumes "has_prefix ''/'' cwd"
  obtains q where "absolute cwd p = ''/'' @ q" and "path_clean (path_abs cwd p) = path_clean (''/'' @ q)"
proof -
  have "has_prefix ''/'' (absolute cwd p)" using assms by (auto simp: absolute_def has_prefix_iff)
  then obtain q where q: "absolute cwd p = ''/'' @ q" by (auto simp: has_prefix_iff)
  hence "path_clean (path_abs cwd p) = path_clean (''/'' @ q)"
    using clean_clean [of q] by (simp add: path_abs_def absolute_def split: if_splits)
  thus ?thesis using q that by blast
qed

text \<open>
  A path lies in a directory if the walk along it, every \<open>.\<close> and \<open>..\<close> obeyed, passes through the
  directory; a directory that is the root admits only itself.
\<close>

definition lies_in :: "string \<Rightarrow> string \<Rightarrow> string \<Rightarrow> bool" where
  "lies_in cwd dir path =
     (if walk (absolute cwd dir) = [] then walk (absolute cwd path) = []
      else beneath (absolute cwd dir) (absolute cwd path))"

lemma allowed_recording_iff:
  assumes "has_prefix ''/'' cwd"
  shows "isAllowedLocalRecordingPath cwd recordingDir path s \<longleftrightarrow>
    (\<exists>dir \<in> set (allowedDirs recordingDir s). trim_space dir \<noteq> '''' \<and> lies_in cwd (trim_space dir) path)"
proof -
  obtain q where q: "absolute cwd path = ''/'' @ q" "path_clean (path_abs cwd path) = path_clean (''/'' @ q)"
    by (rule path_abs_absolute [OF assms])
  have one: "(path_clean (path_abs cwd path) = path_clean (path_abs cwd dir) \<or>
      has_prefix (path_clean (path_abs cwd dir) @ ''/'') (path_clean (path_abs cwd path))) \<longleftrightarrow>
      (if walk (absolute cwd dir) = [] then walk (absolute cwd path) = []
       else beneath (absolute cwd dir) (absolute cwd path))" for dir
  proof -
    obtain d where d: "absolute cwd dir = ''/'' @ d" "path_clean (path_abs cwd dir) = path_clean (''/'' @ d)"
      by (rule path_abs_absolute [OF assms])
    show ?thesis
    proof (cases "walk d = []")
      case True
      have "\<not> has_prefix ''//'' (''/'' @ join ''/'' (walk q))"
        by (rule no_double_slash [OF walk_words])
      moreover have "''/'' @ join ''/'' (walk q) = ''/'' \<longleftrightarrow> walk q = []"
        using join_words_Nil [OF walk_words, of q] by simp
      ultimately show ?thesis using True unfolding q d walk_leading clean_rooted by simp
    next
      case False
      thus ?thesis using clean_prefix [OF False, of q] walk_leading [of d] walk_leading [of q]
        unfolding q d by (simp add: beneath_def)
    qed
  qed
  show ?thesis unfolding isAllowedLocalRecordingPath_def Let_def list_ex_iff lies_in_def using one by blast
qed

section \<open>Stream tokens are redeemed once\<close>

definition stream_claim :: "string \<times> time \<Rightarrow> (string \<rightharpoonup> stream_token) \<Rightarrow> bool \<times> (string \<rightharpoonup> stream_token)" where
  "stream_claim r m = (case consumeStreamToken (snd r) (fst r) m of (who, m') \<Rightarrow> (who \<noteq> None, m'))"

interpretation stream_once: one_shot stream_claim fst "\<lambda>k m. m k \<noteq> None"
  by unfold_locales (auto simp: stream_claim_def consumeStreamToken_def split: option.splits if_splits)

text \<open>
  C36: A stream token lets its owner in once: redeemed within sixty seconds it yields the principal
  it was issued to, later nobody; and however many connections present it, in whatever order,
  with whatever else happens short of issuing the same token again, at most one gets through.
\<close>

theorem stream_token_once:
  assumes "\<And>f m. Other f \<in> set es \<Longrightarrow> m token = None \<Longrightarrow> f m token = None"
  shows "successes fst token (fst (run_steps stream_claim es (issue_stream_token token now who m))) \<le> 1 \<and>
    fst (consumeStreamToken later token (issue_stream_token token now who m)) =
      (if later \<le> now + sixty_seconds then Some who else None)"
proof -
  have "successes fst token (fst (run_steps stream_claim es (issue_stream_token token now who m))) \<le> 1"
    by (rule stream_once.at_most_once) (use assms in auto)
  thus ?thesis by (simp add: consumeStreamToken_def issue_stream_token_def)
qed

section \<open>Witnesses\<close>

definition paging_http :: http_request where
  "paging_http =
     \<lparr>hq_method = ''GET'', hq_route = ''/api/v1/assets'', hq_path = ''/api/v1/assets'',
      hq_authorization = '''', hq_proxy_auth = '''', hq_client_ip = ''10.0.0.1'', hq_param = (\<lambda>_. ''''),
      hq_query = (\<lambda>k. if k = ''page'' then show_int 4611686018427387905 else if k = ''per_page'' then ''2'' else ''''),
      hq_host = '''', hq_forwarded_host = ''''\<rparr>"

lemma paging_numbers: "parse_int64 (show_int 4611686018427387905) = Some 4611686018427387905"
  by (rule parse_show_int64) (simp add: int64_range_def)

theorem asset_pages_witness: "page_of 4611686018427387905 2 [1, 2, 3 :: nat] = None"
proof -
  have "queryPagination paging_http 1 20 100 = (4611686018427387905, 2)"
    by (simp add: queryPagination_def paging_http_def queryIntOrDefault_def paging_numbers literal_numbers)
  moreover have "mul64 (4611686018427387905 - 1) 2 < 0" by (simp add: mul64_def wrap64_def)
  ultimately show ?thesis using asset_pages [of paging_http] by blast
qed

theorem stream_token_once_witness:
  "successes fst ''t'' (fst (run_steps stream_claim [Claim (''t'', 5), Other (\<lambda>m. m(''u'' := None)), Claim (''t'', 6)]
     (issue_stream_token ''t'' 1 \<lparr>pr_user_id = 7, pr_username = ''ann'', pr_roles = []\<rparr> Map.empty))) \<le> 1"
  using stream_token_once [of "[Claim (''t'', 5), Other (\<lambda>m. m(''u'' := None)), Claim (''t'', 6)]" "''t''"]
  by simp

end
