(* ===== verification/Handlers.thy ===== *)
theory Handlers
  imports Requests RoleAdmin UserService AccessServices RdpNative
begin

text \<open>
  The handlers of \<open>api/handler/handlers.go\<close>: each binds its request, calls a service, and
  answers with what the service returned or with the status of its error.  The data of a reply
  is the value handed to the JSON encoder, which leaves out the fields the models hide.
  What a call draws (ids, random bytes, times) is the record \<open>draws\<close>; the services'
  configuration is the record \<open>server\<close>.
\<close>

section \<open>The server\<close>

record server =
  hv_auth :: auth_env
  hv_parse_token :: "string \<Rightarrow> claims option"
  hv_min_length :: int
  hv_native :: native_env
  hv_box :: secret_box
  hv_tokens :: token_env
  hv_proxy :: proxy_config
  hv_url_host :: "string \<Rightarrow> string option"
  hv_generate :: "string \<Rightarrow> error + host_key"
  hv_casbin :: casbin
  hv_session_of :: "string \<Rightarrow> int"
  hv_parse_time :: "string \<Rightarrow> string \<Rightarrow> time option"
  hv_cwd :: string
  hv_is_dir :: "string \<Rightarrow> bool option"

record draws =
  dw_fresh :: fresh
  dw_salt :: "byte list"
  dw_nonce :: "byte list"
  dw_uuid :: string
  dw_now :: time
  dw_unix :: int
  dw_later :: time

section \<open>Sign-in\<close>

definition h_Login :: "server \<Rightarrow> draws \<Rightarrow> (string \<times> string \<times> string) option \<Rightarrow> login_result api_handler" where
  "h_Login sv dw body = RequireJSON body (\<lambda>(username, password, code).
     answer (JSON 200) (on_store (Login (hv_auth sv) (dw_fresh dw) (dw_unix dw) username password code)))"

definition h_Refresh :: "server \<Rightarrow> draws \<Rightarrow> string option \<Rightarrow> login_result api_handler" where
  "h_Refresh sv dw body = RequireJSON body (\<lambda>token.
     answer (JSON 200) (on_store (Refresh (hv_auth sv) (dw_fresh dw) (dw_now dw) token)))"

definition consoleAccessChecks :: "(string \<times> string \<times> string) list" where
  "consoleAccessChecks =
     [(''dashboard'', ''/api/v1/dashboard/summary'', ''GET''),
      (''assets'', ''/api/v1/assets'', ''GET''),
      (''asset_create'', ''/api/v1/assets'', ''POST''),
      (''asset_update'', ''/api/v1/assets/:id'', ''PUT''),
      (''asset_delete'', ''/api/v1/assets/:id'', ''DELETE''),
      (''accounts'', ''/api/v1/assets/:id/accounts'', ''GET''),
      (''account_create'', ''/api/v1/assets/:id/accounts'', ''POST''),
      (''account_update'', ''/api/v1/assets/:id/accounts/:aid'', ''PUT''),
      (''account_delete'', ''/api/v1/assets/:id/accounts/:aid'', ''DELETE''),
      (''platforms'', ''/api/v1/platforms'', ''GET''),
      (''platform_protocols'', ''/api/v1/platforms/:id/protocols'', ''GET''),
      (''platform_create'', ''/api/v1/platforms'', ''POST''),
      (''users'', ''/api/v1/users'', ''GET''),
      (''user_create'', ''/api/v1/users'', ''POST''),
      (''user_update'', ''/api/v1/users/:id'', ''PUT''),
      (''user_delete'', ''/api/v1/users/:id'', ''DELETE''),
      (''user_rdp_proxy_credential'', ''/api/v1/users/:id/rdp-proxy-credential'', ''GET''),
      (''roles'', ''/api/v1/roles'', ''GET''),
      (''role_create'', ''/api/v1/roles'', ''POST''),
      (''role_update'', ''/api/v1/roles/:id'', ''PUT''),
      (''role_delete'', ''/api/v1/roles/:id'', ''DELETE''),
      (''permissions'', ''/api/v1/permissions'', ''GET''),
      (''permission_create'', ''/api/v1/permissions'', ''POST''),
      (''permission_update'', ''/api/v1/permissions/:id'', ''PUT''),
      (''permission_delete'', ''/api/v1/permissions/:id'', ''DELETE''),
      (''sessions'', ''/api/v1/sessions'', ''GET''),
      (''session_force_finish'', ''/api/v1/sessions/:id/force-finish'', ''POST''),
      (''connection_tokens'', ''/api/v1/authentication/connection-tokens/'', ''POST''),
      (''audit_logs'', ''/api/v1/audit-logs'', ''GET''),
      (''settings'', ''/api/v1/settings'', ''GET''),
      (''setting_update'', ''/api/v1/settings/:key'', ''PUT'')]"

definition h_Access :: "server \<Rightarrow> principal option \<Rightarrow> (string \<times> bool) list api_handler" where
  "h_Access sv p = MustPrincipal p (\<lambda>who a.
     (JSON 200 (map (\<lambda>(key, obj, act). (key, isAllowed (hv_casbin sv) (en_model (api_enforcer a)) who obj act))
                  consoleAccessChecks), a))"

definition h_Logout :: "principal option \<Rightarrow> unit api_handler" where
  "h_Logout p = MustPrincipal p (\<lambda>who. answer (\<lambda>_. NoContent) (on_store (Logout (pr_user_id who))))"

definition h_MFASetup :: "server \<Rightarrow> draws \<Rightarrow> principal option \<Rightarrow> totp_setup api_handler" where
  "h_MFASetup sv dw p = MustPrincipal p (\<lambda>who.
     answer (JSON 200) (on_store (SetupMFA (hv_auth sv) (dw_salt dw) (pr_user_id who))))"

definition h_MFAVerify :: "server \<Rightarrow> draws \<Rightarrow> principal option \<Rightarrow> string option \<Rightarrow> unit api_handler" where
  "h_MFAVerify sv dw p body = RequireJSON body (\<lambda>code. MustPrincipal p (\<lambda>who.
     answer (\<lambda>_. NoContent) (on_store (VerifyMFA (hv_auth sv) (dw_unix dw) (pr_user_id who) code))))"

section \<open>RDP proxy credentials\<close>

definition credential_detail :: "int \<Rightarrow> string \<Rightarrow> string" where
  "credential_detail target act =
     ''{'' @ json_text ''action'' @ '':'' @ json_text act @ '','' @ json_text ''source'' @ '':'' @ json_text ''web'' @
     '','' @ json_text ''target_user_id'' @ '':'' @ show_int target @ ''}''"

text \<open>The entry is written after the change, if a principal is there; its own failure is dropped.\<close>

definition auditRDPProxyCredential :: "http_request \<Rightarrow> principal option \<Rightarrow> int \<Rightarrow> string \<Rightarrow> unit api_action" where
  "auditRDPProxyCredential req p target act =
     (case p of
        None \<Rightarrow> ret ()
      | Some who \<Rightarrow>
          abind (attempt (on_store (Audit (Some (pr_user_id who)) (''rdp_proxy_credential.'' @ act)
            (show_int target) (hq_client_ip req) (credential_detail target act)))) (\<lambda>_. ret ()))"

definition audited :: "'a api_action \<Rightarrow> unit api_action \<Rightarrow> 'a api_action" where
  "audited m audit = abind m (\<lambda>x. abind audit (\<lambda>_. ret x))"

definition setRDPProxyCredential ::
    "server \<Rightarrow> draws \<Rightarrow> http_request \<Rightarrow> principal option \<Rightarrow> string option \<Rightarrow> int \<Rightarrow> credential_status api_handler" where
  "setRDPProxyCredential sv dw req p body userID = RequireJSON body (\<lambda>password.
     answer (JSON 200) (audited
       (on_store (Credentials_Set (ae_argon2 (hv_auth sv)) (dw_salt dw) (hv_min_length sv) userID password))
       (auditRDPProxyCredential req p userID ''set'')))"

text \<open>\<open>Reset\<close> of the service is \<open>Set\<close>.\<close>

definition resetRDPProxyCredential ::
    "server \<Rightarrow> draws \<Rightarrow> http_request \<Rightarrow> principal option \<Rightarrow> string option \<Rightarrow> int \<Rightarrow> credential_status api_handler" where
  "resetRDPProxyCredential sv dw req p body userID = RequireJSON body (\<lambda>password.
     answer (JSON 200) (audited
       (on_store (Credentials_Set (ae_argon2 (hv_auth sv)) (dw_salt dw) (hv_min_length sv) userID password))
       (auditRDPProxyCredential req p userID ''reset'')))"

definition disable_credential :: "http_request \<Rightarrow> principal option \<Rightarrow> int \<Rightarrow> credential_status api_handler" where
  "disable_credential req p userID = answer (JSON 200) (audited (on_store (Credentials_Disable userID))
     (auditRDPProxyCredential req p userID ''disable''))"

definition h_GetMyRDPProxyCredential :: "principal option \<Rightarrow> credential_status api_handler" where
  "h_GetMyRDPProxyCredential p = MustPrincipal p (\<lambda>who.
     answer (JSON 200) (asks (Credentials_Status (pr_user_id who))))"

definition h_SetMyRDPProxyCredential ::
    "server \<Rightarrow> draws \<Rightarrow> http_request \<Rightarrow> principal option \<Rightarrow> string option \<Rightarrow> credential_status api_handler" where
  "h_SetMyRDPProxyCredential sv dw req p body = MustPrincipal p (\<lambda>who.
     setRDPProxyCredential sv dw req p body (pr_user_id who))"

definition h_ResetMyRDPProxyCredential ::
    "server \<Rightarrow> draws \<Rightarrow> http_request \<Rightarrow> principal option \<Rightarrow> string option \<Rightarrow> credential_status api_handler" where
  "h_ResetMyRDPProxyCredential sv dw req p body = MustPrincipal p (\<lambda>who.
     resetRDPProxyCredential sv dw req p body (pr_user_id who))"

definition h_DisableMyRDPProxyCredential :: "http_request \<Rightarrow> principal option \<Rightarrow> credential_status api_handler" where
  "h_DisableMyRDPProxyCredential req p = MustPrincipal p (\<lambda>who. disable_credential req p (pr_user_id who))"

definition h_GetUserRDPProxyCredential :: "http_request \<Rightarrow> credential_status api_handler" where
  "h_GetUserRDPProxyCredential req = answer (JSON 200) (asks (Credentials_Status (pathID req ''id'')))"

definition h_SetUserRDPProxyCredential ::
    "server \<Rightarrow> draws \<Rightarrow> http_request \<Rightarrow> principal option \<Rightarrow> string option \<Rightarrow> credential_status api_handler" where
  "h_SetUserRDPProxyCredential sv dw req p body = setRDPProxyCredential sv dw req p body (pathID req ''id'')"

definition h_ResetUserRDPProxyCredential ::
    "server \<Rightarrow> draws \<Rightarrow> http_request \<Rightarrow> principal option \<Rightarrow> string option \<Rightarrow> credential_status api_handler" where
  "h_ResetUserRDPProxyCredential sv dw req p body = resetRDPProxyCredential sv dw req p body (pathID req ''id'')"

definition h_DisableUserRDPProxyCredential :: "http_request \<Rightarrow> principal option \<Rightarrow> credential_status api_handler" where
  "h_DisableUserRDPProxyCredential req p = disable_credential req p (pathID req ''id'')"

section \<open>Users\<close>

definition h_ListUsers :: "user list api_handler" where
  "h_ListUsers = answer (JSON 200) (reads Store_ListUsers)"

definition h_CreateUser :: "server \<Rightarrow> draws \<Rightarrow> user_input option \<Rightarrow> user api_handler" where
  "h_CreateUser sv dw body = RequireJSON body (\<lambda>input.
     answer Created (on_store (Users_Create (ae_argon2 (hv_auth sv)) (dw_salt dw) (hv_min_length sv) input)))"

definition h_GetUser :: "http_request \<Rightarrow> (user \<times> role list) api_handler" where
  "h_GetUser req = answer (JSON 200) (asks (Users_Get (pathID req ''id'')))"

definition h_UpdateUser :: "server \<Rightarrow> draws \<Rightarrow> http_request \<Rightarrow> user_input option \<Rightarrow> user api_handler" where
  "h_UpdateUser sv dw req body = RequireJSON body (\<lambda>input.
     answer (JSON 200) (on_store
       (Users_Update (ae_argon2 (hv_auth sv)) (dw_salt dw) (hv_min_length sv) (pathID req ''id'') input)))"

definition h_DeleteUser :: "http_request \<Rightarrow> unit api_handler" where
  "h_DeleteUser req = answer (\<lambda>_. NoContent) (on_store (Users_Delete (pathID req ''id'')))"

section \<open>Platforms and assets\<close>

record platform_input =
  pf_name :: string
  pf_type :: string
  pf_description :: string
  pf_protocol :: string
  pf_port :: int

definition h_ListPlatforms :: "platform list api_handler" where
  "h_ListPlatforms = answer (JSON 200) (reads ListPlatforms)"

definition h_ListPlatformProtocols :: "http_request \<Rightarrow> platform_protocol list api_handler" where
  "h_ListPlatformProtocols req = answer (JSON 200) (reads (ListPlatformProtocols (pathID req ''id'')))"

text \<open>A port that is refused leaves the platform behind.\<close>

definition h_CreatePlatform :: "platform_input option \<Rightarrow> platform api_handler" where
  "h_CreatePlatform body = RequireJSON body (\<lambda>input.
     if trim_space (pf_name input) = '''' \<or> trim_space (pf_type input) = '''' then refuse ErrInvalidArgument
     else answer Created
       (abind (on_store (UpsertPlatform (pf_name input) (pf_type input) (pf_description input))) (\<lambda>p.
          if trim_space (pf_protocol input) = '''' then ret p
          else if pf_port input \<le> 0 then throw ErrInvalidArgument
          else abind (on_store (UpsertPlatformProtocol (pl_id p) (pf_protocol input) (pf_port input))) (\<lambda>_. ret p))))"

text \<open>The whole list, or a page with its numbers; a panic is answered by the recovery middleware.\<close>

datatype 'a listing = All "'a list" | Page "'a list" int int int

definition h_ListAssets :: "http_request \<Rightarrow> asset_with_platform listing api_handler" where
  "h_ListAssets req = (\<lambda>a.
     let assets = filterAssets req (Store_ListAssets (api_db a))
     in if hq_query req ''page'' = '''' \<and> hq_query req ''per_page'' = '''' then (JSON 200 (All assets), a)
        else case queryPagination req 1 20 100 of (page, perPage) \<Rightarrow>
               (case page_of page perPage assets of
                  None \<Rightarrow> (Empty 500, a)
                | Some items \<Rightarrow> (JSON 200 (Page items (int (length assets)) page perPage), a)))"

definition h_CreateAsset :: "asset_input option \<Rightarrow> asset api_handler" where
  "h_CreateAsset body = RequireJSON body (\<lambda>input. answer Created (on_store (Assets_CreateAsset input)))"

definition h_GetAsset :: "http_request \<Rightarrow> asset api_handler" where
  "h_GetAsset req = answer (JSON 200) (asks (GetAsset (pathID req ''id'')))"

definition h_UpdateAsset :: "http_request \<Rightarrow> asset option \<Rightarrow> asset api_handler" where
  "h_UpdateAsset req body = RequireJSON body (\<lambda>asset.
     answer (JSON 200) (on_store (Assets_UpdateAsset (pathID req ''id'') asset)))"

definition h_DeleteAsset :: "http_request \<Rightarrow> unit api_handler" where
  "h_DeleteAsset req = answer (\<lambda>_. NoContent) (on_store (DeleteAsset (pathID req ''id'')))"

definition h_AssetTree :: "(node list \<times> asset_with_platform list) api_handler" where
  "h_AssetTree = answer (JSON 200) (reads Tree)"

section \<open>Accounts\<close>

definition h_ListAccounts :: "http_request \<Rightarrow> account list api_handler" where
  "h_ListAccounts req = answer (JSON 200) (reads (Assets_ListAccounts (pathID req ''id'')))"

definition h_CreateAccount :: "server \<Rightarrow> draws \<Rightarrow> http_request \<Rightarrow> account_input option \<Rightarrow> account api_handler" where
  "h_CreateAccount sv dw req body = RequireJSON body (\<lambda>input.
     answer Created (on_store
       (Assets_CreateAccount (hv_box sv) (dw_nonce dw) (dw_salt dw) (pathID req ''id'') input)))"

definition h_GetAccount :: "http_request \<Rightarrow> account api_handler" where
  "h_GetAccount req = answer (\<lambda>a. JSON 200 (blank a)) (asks (GetAssetAccount (pathID req ''id'') (pathID req ''aid'')))"

definition h_UpdateAccount :: "server \<Rightarrow> draws \<Rightarrow> http_request \<Rightarrow> account_input option \<Rightarrow> account api_handler" where
  "h_UpdateAccount sv dw req body = RequireJSON body (\<lambda>input.
     answer (JSON 200) (on_store (Assets_UpdateAccount (hv_box sv) (dw_nonce dw) (dw_salt dw)
       (pathID req ''id'') (pathID req ''aid'') input)))"

definition h_DeleteAccount :: "http_request \<Rightarrow> unit api_handler" where
  "h_DeleteAccount req = answer (\<lambda>_. NoContent) (on_store (DeleteAccount (pathID req ''id'') (pathID req ''aid'')))"

section \<open>Permissions\<close>

definition h_ListPermissions :: "permission list api_handler" where
  "h_ListPermissions = answer (JSON 200) (reads Store_ListPermissions)"

definition h_CreatePermission :: "permission_input option \<Rightarrow> permission api_handler" where
  "h_CreatePermission body = RequireJSON body (\<lambda>input. answer Created (on_store (Permissions_Create input)))"

definition h_GetPermission :: "http_request \<Rightarrow> (permission \<times> permission_links) api_handler" where
  "h_GetPermission req = answer (JSON 200) (asks (GetPermission (pathID req ''id'')))"

definition h_UpdatePermission :: "http_request \<Rightarrow> permission_input option \<Rightarrow> permission api_handler" where
  "h_UpdatePermission req body = RequireJSON body (\<lambda>input.
     answer (JSON 200) (on_store (Permissions_Update (pathID req ''id'') input)))"

definition h_DeletePermission :: "http_request \<Rightarrow> unit api_handler" where
  "h_DeletePermission req = answer (\<lambda>_. NoContent) (on_store (DeletePermission (pathID req ''id'')))"

section \<open>Connection tokens\<close>

definition h_IssueConnectionToken ::
    "draws \<Rightarrow> principal option \<Rightarrow> issue_input option \<Rightarrow> (string \<times> time \<times> int) api_handler" where
  "h_IssueConnectionToken dw p body = RequireJSON body (\<lambda>input. MustPrincipal p (\<lambda>who.
     answer (\<lambda>t. Created (t_value t, t_expires_at t, 300))
       (on_store (Issue (dw_uuid dw) (dw_now dw) (pr_user_id who) input))))"

definition h_SDKConnectionToken ::
    "server \<Rightarrow> draws \<Rightarrow> http_request \<Rightarrow> principal option \<Rightarrow> sdk_input option \<Rightarrow> sdk_result api_handler" where
  "h_SDKConnectionToken sv dw req p body = bindSDKURLInput req body (\<lambda>input. MustPrincipal p (\<lambda>who.
     let input = (if si_proxy_host input = '''' then input\<lparr>si_proxy_host := requestProxyHost req\<rparr> else input)
     in answer Created (on_store (BuildSDKURL (hv_url_host sv) (dw_uuid dw) (dw_now dw) (dw_later dw)
          (pr_user_id who) input (hv_proxy sv)))))"

text \<open>The body: the token, an address nobody reads, the expected protocol, and whether to consume.\<close>

definition h_VerifyConnectionToken ::
    "server \<Rightarrow> draws \<Rightarrow> http_request \<Rightarrow> (string \<times> string \<times> string \<times> bool option) option \<Rightarrow>
     verify_result api_handler" where
  "h_VerifyConnectionToken sv dw req body = RequireJSON body (\<lambda>(token, remoteAddr, expected, consume).
     answer (JSON 200) (on_store (VerifyWithOptions (hv_tokens sv) (dw_now dw) token (hq_proxy_auth req)
       (hq_client_ip req) \<lparr>o_expected_protocol = expected, o_consume = (case consume of None \<Rightarrow> True | Some b \<Rightarrow> b)\<rparr>)))"

section \<open>Host keys\<close>

definition h_SSHFingerprint :: "server \<Rightarrow> (string \<times> string \<times> string) list api_handler" where
  "h_SSHFingerprint sv = answer
     (\<lambda>keys. JSON 200 (map (\<lambda>k. (hk_algorithm k, hk_fingerprint k, hk_public_key k)) keys))
     (on_keys (HostKeys_List (hv_generate sv)))"

section \<open>The interface of the proxies\<close>

text \<open>Every handler of this group starts with the check of the shared secret and the address.\<close>

definition proxyAuthorized :: "server \<Rightarrow> http_request \<Rightarrow> bool" where
  "proxyAuthorized sv req = AuthorizeProxy (hv_tokens sv) (hq_proxy_auth req) (hq_client_ip req)"

definition proxied :: "server \<Rightarrow> http_request \<Rightarrow> 'a api_handler \<Rightarrow> 'a api_handler" where
  "proxied sv req nxt = (if \<not> proxyAuthorized sv req then refuse ErrUnauthorized else nxt)"

definition h_ProxyHostKeys :: "server \<Rightarrow> http_request \<Rightarrow> host_key list api_handler" where
  "h_ProxyHostKeys sv req = proxied sv req (answer (JSON 200) (on_keys (HostKeys_List (hv_generate sv))))"

definition h_ProxyResolveNativeRDP :: "server \<Rightarrow> http_request \<Rightarrow> native_input option \<Rightarrow> native_resolved api_handler" where
  "h_ProxyResolveNativeRDP sv req body = proxied sv req (RequireJSON body (\<lambda>input.
     answer (JSON 200) (asks (Resolve (hv_native sv) input))))"

definition h_ProxyStartNativeRDPSession ::
    "server \<Rightarrow> http_request \<Rightarrow> native_input option \<Rightarrow> (int \<times> native_resolved) api_handler" where
  "h_ProxyStartNativeRDPSession sv req body = proxied sv req (RequireJSON body (\<lambda>input.
     let input = (if trim_space (ni_remote_addr input) = '''' then input\<lparr>ni_remote_addr := hq_client_ip req\<rparr> else input)
     in answer Created (on_store (StartSession (hv_native sv) input))))"

definition h_ProxyFinishNativeRDPSession :: "server \<Rightarrow> http_request \<Rightarrow> string option \<Rightarrow> (bool \<times> string) api_handler" where
  "h_ProxyFinishNativeRDPSession sv req body = proxied sv req (RequireJSON body (\<lambda>reason.
     answer (JSON 200) (on_store (FinishSession (pathID req ''id'') reason))))"

definition h_ProxyFinishActiveNativeRDPSessions ::
    "server \<Rightarrow> http_request \<Rightarrow> string option \<Rightarrow> (string \<times> int list \<times> int list) api_handler" where
  "h_ProxyFinishActiveNativeRDPSessions sv req body = proxied sv req (RequireJSON body (\<lambda>reason.
     answer (JSON 200) (on_store (FinishActiveSessions reason))))"

definition h_ProxyCreateSession :: "server \<Rightarrow> http_request \<Rightarrow> session option \<Rightarrow> session api_handler" where
  "h_ProxyCreateSession sv req body = proxied sv req (RequireJSON body (\<lambda>sess.
     answer Created (on_store (Sessions_Create sess))))"

definition h_ProxyGetSession :: "server \<Rightarrow> http_request \<Rightarrow> session api_handler" where
  "h_ProxyGetSession sv req = proxied sv req (answer (JSON 200) (asks (GetSession (pathID req ''id''))))"

definition h_ProxyUpdateSession :: "server \<Rightarrow> draws \<Rightarrow> http_request \<Rightarrow> (bool \<times> string) option \<Rightarrow> session api_handler" where
  "h_ProxyUpdateSession sv dw req body = proxied sv req (RequireJSON body (\<lambda>(finished, recordingPath).
     answer (JSON 200) (on_store (Sessions_Update (dw_now dw) (pathID req ''id'') finished recordingPath))))"

definition h_ProxyGetSetting :: "server \<Rightarrow> http_request \<Rightarrow> setting api_handler" where
  "h_ProxyGetSetting sv req = proxied sv req (answer (JSON 200) (asks (GetSetting (hq_param req ''key''))))"

definition h_ProxyCommandFilterACLs :: "server \<Rightarrow> http_request \<Rightarrow> filter_rule list api_handler" where
  "h_ProxyCommandFilterACLs sv req = proxied sv req (answer (JSON 200) (query (\<lambda>a. Inr (api_acls a))))"

definition h_ProxyCreateAuditLog ::
    "server \<Rightarrow> http_request \<Rightarrow> (int option \<times> string \<times> string \<times> string \<times> string) option \<Rightarrow> unit api_handler" where
  "h_ProxyCreateAuditLog sv req body = proxied sv req (RequireJSON body (\<lambda>(userID, act, resource, remoteAddr, detail).
     answer (\<lambda>_. NoContent) (on_store (Audit userID act resource remoteAddr detail))))"


section \<open>The dashboard, sessions and the stream\<close>

text \<open>Midnight of the day of \<open>now\<close>, in UTC.\<close>

definition today :: "time \<Rightarrow> time" where
  "today now = now - now mod day"

definition h_DashboardSummary :: "draws \<Rightarrow> dashboard api_handler" where
  "h_DashboardSummary dw = answer (JSON 200) (reads (DashboardSummary (today (dw_now dw)) 10))"

definition h_IssueSessionStreamToken :: "draws \<Rightarrow> principal option \<Rightarrow> (string \<times> time \<times> int) api_handler" where
  "h_IssueSessionStreamToken dw p = MustPrincipal p (\<lambda>who a.
     let token = newOpaqueToken (dw_salt dw)
     in (Created (token, dw_now dw + sixty_seconds, 60),
         a\<lparr>api_streams := issue_stream_token token (dw_now dw) who (api_streams a)\<rparr>))"

definition h_ListSessions :: "server \<Rightarrow> http_request \<Rightarrow> session list api_handler" where
  "h_ListSessions sv req =
     answer (\<lambda>rows. JSON 200 (filterSessions (hv_parse_time sv) req rows)) (reads Store_ListSessions)"

definition writeSessionSnapshot :: "server \<Rightarrow> http_request \<Rightarrow> api \<Rightarrow> session list" where
  "writeSessionSnapshot sv req a = filterSessions (hv_parse_time sv) req (Store_ListSessions (api_db a))"

definition authorizePrincipal ::
    "server \<Rightarrow> principal \<Rightarrow> string \<Rightarrow> string \<Rightarrow> api \<Rightarrow> (error + principal) \<times> api" where
  "authorizePrincipal sv who obj act = (\<lambda>a.
     if isAllowed (hv_casbin sv) (en_model (api_enforcer a)) who obj act then (Inr who, a) else (Inl ErrForbidden, a))"

text \<open>A stream token in the query is redeemed; otherwise the access token of the header counts.\<close>

definition authorizeWebSocket :: "server \<Rightarrow> draws \<Rightarrow> http_request \<Rightarrow> string \<Rightarrow> string \<Rightarrow> principal api_action" where
  "authorizeWebSocket sv dw req obj act = (\<lambda>a.
     let streamToken = trim_space (hq_query req ''stream_token'');
         header = hq_authorization req;
         rawToken = trim_space (if has_prefix bearer header then drop (length bearer) header else header)
     in if streamToken \<noteq> '''' then
          (case consumeStreamToken (dw_now dw) streamToken (api_streams a) of
             (None, m) \<Rightarrow> (Inl ErrUnauthorized, a\<lparr>api_streams := m\<rparr>)
           | (Some who, m) \<Rightarrow> authorizePrincipal sv who obj act (a\<lparr>api_streams := m\<rparr>))
        else if rawToken = '''' then (Inl ErrUnauthorized, a)
        else case hv_parse_token sv rawToken of
               None \<Rightarrow> (Inl ErrUnauthorized, a)
             | Some claims \<Rightarrow> authorizePrincipal sv (PrincipalFromClaims claims) obj act a)"

text \<open>What the stream sends before the client leaves: a snapshot per tick.\<close>

definition h_StreamSessions ::
    "server \<Rightarrow> draws \<Rightarrow> http_request \<Rightarrow> api list \<Rightarrow> session list list api_handler" where
  "h_StreamSessions sv dw req ticks =
     answer (\<lambda>_. Reply 101 (map (writeSessionSnapshot sv req) ticks))
       (authorizeWebSocket sv dw req ''/api/v1/sessions'' ''GET'')"

definition h_CreateSession :: "session option \<Rightarrow> session api_handler" where
  "h_CreateSession body = RequireJSON body (\<lambda>sess. answer Created (on_store (Sessions_Create sess)))"

definition h_GetSession :: "http_request \<Rightarrow> session api_handler" where
  "h_GetSession req = answer (JSON 200) (asks (GetSession (pathID req ''id'')))"

text \<open>The path, the URL and whether it is available.\<close>

definition h_SessionRecording :: "server \<Rightarrow> http_request \<Rightarrow> (string \<times> string \<times> bool) api_handler" where
  "h_SessionRecording sv req = (\<lambda>a.
     case GetSession (pathID req ''id'') (api_db a) of
       Inl e \<Rightarrow> (Error e, a)
     | Inr session \<Rightarrow>
         let path = trim_space (s_recording_path session);
             download = (hq_query req ''download'' = ''1'');
             url = ''/api/v1/sessions/'' @ show_int (s_id session) @ ''/recording?download=1''
         in if path = '''' then (Error ErrNotFound, a)
            else if isRemoteRecordingURL path
            then (if download then (Redirect 302 path, a) else (JSON 200 (path, path, True), a))
            else if \<not> isAllowedLocalRecordingPath (hv_cwd sv) (RecordingDir (px_rdp (hv_proxy sv))) path (api_db a)
            then (JSON 200 (path, '''', False), a)
            else if hv_is_dir sv path \<noteq> Some False then (JSON 200 (path, '''', False), a)
            else if download then (Attachment path (path_base path), a)
            else (JSON 200 (path, url, True), a))"

definition h_ForceFinishSession :: "draws \<Rightarrow> http_request \<Rightarrow> principal option \<Rightarrow> session api_handler" where
  "h_ForceFinishSession dw req p = answer (JSON 200)
     (abind (on_store (ForceFinish (dw_now dw) (pathID req ''id''))) (\<lambda>session.
      case p of
        None \<Rightarrow> ret session
      | Some who \<Rightarrow>
          abind (attempt (on_store (Audit (Some (pr_user_id who)) ''session.force_finish'' (show_int (s_id session))
            (hq_client_ip req) ''{}''))) (\<lambda>_. ret session)))"

definition h_ListSessionCommands :: "server \<Rightarrow> http_request \<Rightarrow> audit_log list api_handler" where
  "h_ListSessionCommands sv req =
     answer (JSON 200) (reads (ListSessionCommandLogs (hv_session_of sv) (pathID req ''id'')))"

section \<open>Settings and the audit log\<close>

definition h_ListSettings :: "(string \<Rightarrow> setting list) api_handler" where
  "h_ListSettings = answer (JSON 200) (on_settings Settings_List)"

definition h_GetSetting :: "http_request \<Rightarrow> setting api_handler" where
  "h_GetSetting req = answer (JSON 200) (on_settings (Settings_Get (hq_param req ''key'')))"

definition h_UpdateSetting :: "server \<Rightarrow> draws \<Rightarrow> http_request \<Rightarrow> string option \<Rightarrow> setting api_handler" where
  "h_UpdateSetting sv dw req body = RequireJSON body (\<lambda>v.
     answer (JSON 200) (on_settings (Settings_Update (hv_box sv) (dw_nonce dw) (hq_param req ''key'') v)))"

definition h_ListAuditLogs :: "server \<Rightarrow> http_request \<Rightarrow> audit_log listing api_handler" where
  "h_ListAuditLogs sv req = (\<lambda>a.
     case queryPagination req 1 50 500 of (page, perPage) \<Rightarrow>
       (case ListAuditLogs
               \<lparr>af_search = firstQuery req [''q'', ''search''], af_user_id = queryInt64OrZero (hq_query req ''user_id''),
                af_action = hq_query req ''action'',
                af_from = queryTime (hv_parse_time sv) (hq_query req ''date_from'') False,
                af_to = queryTime (hv_parse_time sv) (hq_query req ''date_to'') True,
                af_limit = perPage, af_offset = mul64 (page - 1) perPage\<rparr> (api_db a) of
          (logs, n) \<Rightarrow> (JSON 200 (Page logs (int n) page perPage), a)))"

section \<open>The interface of the proxies is closed\<close>

lemma proxied_refused:
  assumes "\<not> proxyAuthorized sv req"
  shows "proxied sv req nxt a = (Refused 401 ''unauthorized'', a)"
  using assms by (simp add: proxied_def refuse_def Error_def)

lemma VerifyWithOptions_refused:
  "\<not> AuthorizeProxy env secret ip \<Longrightarrow> VerifyWithOptions env now v secret ip opts s = (Inl ErrUnauthorized, s)"
  by (simp add: VerifyWithOptions_def)

text \<open>
  C13: Without the shared secret, or from an address that is not on the list, every handler of the
  proxies' interface answers 401 and changes nothing, and the verification of tokens, which
  would hand out credentials, does the same once its body has been read.
\<close>

theorem proxy_interface_closed:
  assumes "\<not> proxyAuthorized sv req"
  shows "h_ProxyHostKeys sv req a = (Refused 401 ''unauthorized'', a)
     \<and> h_ProxyResolveNativeRDP sv req input a = (Refused 401 ''unauthorized'', a)
     \<and> h_ProxyStartNativeRDPSession sv req input a = (Refused 401 ''unauthorized'', a)
     \<and> h_ProxyFinishNativeRDPSession sv req reason a = (Refused 401 ''unauthorized'', a)
     \<and> h_ProxyFinishActiveNativeRDPSessions sv req reason a = (Refused 401 ''unauthorized'', a)
     \<and> h_ProxyCreateSession sv req sess a = (Refused 401 ''unauthorized'', a)
     \<and> h_ProxyGetSession sv req a = (Refused 401 ''unauthorized'', a)
     \<and> h_ProxyUpdateSession sv dw req upd a = (Refused 401 ''unauthorized'', a)
     \<and> h_ProxyGetSetting sv req a = (Refused 401 ''unauthorized'', a)
     \<and> h_ProxyCommandFilterACLs sv req a = (Refused 401 ''unauthorized'', a)
     \<and> h_ProxyCreateAuditLog sv req entry a = (Refused 401 ''unauthorized'', a)
     \<and> h_VerifyConnectionToken sv dw req (Some body) a = (Refused 401 ''unauthorized'', a)"
  using assms
  by (simp_all add: h_ProxyHostKeys_def h_ProxyResolveNativeRDP_def h_ProxyStartNativeRDPSession_def
      h_ProxyFinishNativeRDPSession_def h_ProxyFinishActiveNativeRDPSessions_def h_ProxyCreateSession_def
      h_ProxyGetSession_def h_ProxyUpdateSession_def h_ProxyGetSetting_def h_ProxyCommandFilterACLs_def
      h_ProxyCreateAuditLog_def proxied_refused h_VerifyConnectionToken_def RequireJSON_def answer_app on_store_app
      VerifyWithOptions_refused proxyAuthorized_def Error_def split: prod.split)

section \<open>Recordings\<close>

text \<open>
  C37: The recording of a session is sent as a file only when its path, as the session stores it, lies
  in the configured recording directory or in the one the settings name, and is a file; only a
  path that is a URL is redirected to; and a file that lies there is sent to whoever downloads it.
  A path is judged as it is written: links in the file system are not resolved.
\<close>

theorem recordings_confined:
  assumes "has_prefix ''/'' (hv_cwd sv)"
  defines "ours path s \<equiv> \<exists>dir \<in> set (allowedDirs (RecordingDir (px_rdp (hv_proxy sv))) s).
      trim_space dir \<noteq> '''' \<and> lies_in (hv_cwd sv) (trim_space dir) path"
  shows "(\<forall>path name a'. h_SessionRecording sv req a = (Attachment path name, a') \<longrightarrow>
       a' = a \<and> ours path (api_db a) \<and> hv_is_dir sv path = Some False \<and>
       (\<exists>session. GetSession (pathID req ''id'') (api_db a) = Inr session \<and> path = trim_space (s_recording_path session))) \<and>
     (\<forall>status url a'. h_SessionRecording sv req a = (Redirect status url, a') \<longrightarrow> isRemoteRecordingURL url) \<and>
     (\<forall>session. GetSession (pathID req ''id'') (api_db a) = Inr session \<and> hq_query req ''download'' = ''1'' \<and>
       (let path = trim_space (s_recording_path session)
        in path \<noteq> '''' \<and> \<not> isRemoteRecordingURL path \<and> ours path (api_db a) \<and> hv_is_dir sv path = Some False) \<longrightarrow>
       h_SessionRecording sv req a =
         (Attachment (trim_space (s_recording_path session)) (path_base (trim_space (s_recording_path session))), a))"
proof -
  note ours = allowed_recording_iff [OF assms(1), of "RecordingDir (px_rdp (hv_proxy sv))", folded ours_def]
  show ?thesis
    unfolding h_SessionRecording_def ours Let_def
    by (auto simp: Error_def JSON_def split: sum.splits if_splits error.splits)
qed

definition sample_server :: server where
  "sample_server =
     \<lparr>hv_auth = sample_auth_env, hv_parse_token = (\<lambda>_. None), hv_min_length = 8, hv_native = sample_native_env,
      hv_box = xor_box, hv_tokens = sample_tokens_env, hv_proxy = native_config, hv_url_host = sample_url_host,
      hv_generate = (\<lambda>_. Inl ErrInvalidArgument), hv_casbin = sample_casbin, hv_session_of = (\<lambda>_. 0),
      hv_parse_time = (\<lambda>_ _. None), hv_cwd = ''/srv'', hv_is_dir = (\<lambda>_. None)\<rparr>"

theorem proxy_interface_closed_witness:
  "h_ProxyGetSetting sample_server role_http (sample_api (empty_db 1)) =
     (Refused 401 ''unauthorized'', sample_api (empty_db 1))"
proof -
  have "\<not> proxyAuthorized sample_server role_http"
    by (simp add: proxyAuthorized_def AuthorizeProxy_def sample_server_def sample_tokens_env_def role_http_def)
  from proxy_interface_closed [OF this] show ?thesis by blast
qed

definition recording_db :: "string \<Rightarrow> db" where
  "recording_db path = (empty_db 1)\<lparr>sessions :=
     [\<lparr>s_id = 3, s_user_id = 1, s_asset_id = 1, s_account_id = 1, s_protocol = ''ssh'', s_type = ''normal'',
       s_login_from = '''', s_remote_addr = '''', s_recording_path = path, s_is_finished = True, s_date_start = 0,
       s_date_end = None, s_created_at = 0, s_updated_at = 0\<rparr>]\<rparr>"

definition recording_server :: server where
  "recording_server = sample_server\<lparr>hv_is_dir := (\<lambda>_. Some False),
     hv_proxy := native_config\<lparr>px_rdp := (px_rdp native_config)\<lparr>recording_path := ''rec''\<rparr>\<rparr>\<rparr>"

definition recording_http :: http_request where
  "recording_http = role_http\<lparr>hq_query := (\<lambda>_. ''1'')\<rparr>"

theorem recordings_confined_witness:
  "h_SessionRecording recording_server recording_http (sample_api (recording_db ''/srv/rec/a/../b.guac'')) =
     (Attachment ''/srv/rec/a/../b.guac'' (path_base ''/srv/rec/a/../b.guac''),
      sample_api (recording_db ''/srv/rec/a/../b.guac'')) \<and>
   (\<forall>name a'. h_SessionRecording recording_server recording_http (sample_api (recording_db ''/srv/rec/../../etc/passwd'')) \<noteq>
      (Attachment ''/srv/rec/../../etc/passwd'' name, a'))"
proof -
  let ?a = "\<lambda>p. sample_api (recording_db p)"
  have r: "has_prefix ''/'' (hv_cwd recording_server)" "hv_cwd recording_server = ''/srv''"
    by (simp_all add: recording_server_def sample_server_def has_prefix_def)
  have dir: "allowedDirs (RecordingDir (px_rdp (hv_proxy recording_server))) (api_db (?a p)) = [''rec'']" for p
    by (simp add: allowedDirs_def GetSetting_def recording_db_def empty_db_def recording_server_def api_db_def sample_api_def
        RecordingDir_def)
  have w: "lies_in ''/srv'' ''rec'' ''/srv/rec/a/../b.guac''" "\<not> lies_in ''/srv'' ''rec'' ''/srv/rec/../../etc/passwd''"
    by (simp_all add: lies_in_def absolute_def walk_def enter_def has_prefix_def beneath_def)
  have found: "GetSession (pathID recording_http ''id'') (api_db (?a p)) = Inr (hd (sessions (recording_db p)))" for p
    by (simp add: recording_http_def role_http_def pathID_def literal_numbers GetSession_def api_db_def sample_api_def recording_db_def)
  have t: "trim_space ''/srv/rec/a/../b.guac'' = ''/srv/rec/a/../b.guac''" by (rule trim_space_solid) (simp add: solid_def)
  have l: "\<not> isRemoteRecordingURL ''/srv/rec/a/../b.guac''"
    by (simp add: isRemoteRecordingURL_def Let_def to_lower_ascii ascii_def lower_char_def has_prefix_def)
  have ours: "(\<exists>d \<in> set (allowedDirs (RecordingDir (px_rdp (hv_proxy recording_server))) (api_db (?a p))).
      trim_space d \<noteq> '''' \<and> lies_in ''/srv'' (trim_space d) q) \<longleftrightarrow> lies_in ''/srv'' ''rec'' q" for p q
    unfolding dir by (simp add: literal_words_trimmed)
  have rest: "hq_query recording_http ''download'' = ''1''" "hv_is_dir recording_server p = Some False"
    "s_recording_path (hd (sessions (recording_db p))) = p" for p
    by (simp_all add: recording_http_def recording_server_def recording_db_def)
  note c = recordings_confined [OF r(1), of recording_http, unfolded r(2)]
  show ?thesis
  proof (intro conjI allI)
    note served = c [of "?a ''/srv/rec/a/../b.guac''", THEN conjunct2, THEN conjunct2,
      THEN spec [of _ "hd (sessions (recording_db ''/srv/rec/a/../b.guac''))"], THEN mp]
    show "h_SessionRecording recording_server recording_http (?a ''/srv/rec/a/../b.guac'') =
        (Attachment ''/srv/rec/a/../b.guac'' (path_base ''/srv/rec/a/../b.guac''), ?a ''/srv/rec/a/../b.guac'')"
      using served unfolding found rest t Let_def ours using l w(1) by simp
    show "h_SessionRecording recording_server recording_http (?a ''/srv/rec/../../etc/passwd'') \<noteq>
        (Attachment ''/srv/rec/../../etc/passwd'' name, a')" for name a'
      using c [of "?a ''/srv/rec/../../etc/passwd''", THEN conjunct1] w(2) unfolding ours by blast
  qed
qed

end
