(* ===== verification/RdpServer.thy ===== *)
theory RdpServer
  imports DbTypes Config Paths RdpNative "HOL-Library.Multiset"
begin

text \<open>
  The web RDP proxy (\<open>proxy/rdp/types.go\<close>, \<open>server.go\<close>, \<open>native_resolver.go\<close>) and the storage
  of its recordings (\<open>recorder/storage.go\<close>).  A browser's connection is the list of what it makes
  the proxy do; the answers of the API, of guacd and of the file system are the record
  \<open>rdp_env\<close>.  A tunnel outlives the connect call, so connections and closings interleave in a
  step relation.
\<close>

section \<open>Types (types.go)\<close>

record rdp_account =
  rd_username :: string
  rd_secret :: string
  rd_secret_type :: string

record rdp_auth =
  rx_target :: targetConfig
  rx_account :: rdp_account
  rx_user_id :: int
  rx_asset_id :: int
  rx_account_id :: int

record rdp_session =
  ri_user_id :: int
  ri_asset_id :: int
  ri_account_id :: int
  ri_protocol :: string
  ri_type :: string
  ri_connect_method :: string
  ri_remote_addr :: string
  ri_recording_path :: string

definition isRDPProtocol :: "string \<Rightarrow> bool" where
  "isRDPProtocol protocol = equal_fold protocol ''rdp''"

definition rdpTargetPort :: "targetConfig \<Rightarrow> int" where
  "rdpTargetPort target = (if Port target > 0 then Port target else 3389)"

definition parsePositiveInt :: "string \<Rightarrow> int \<Rightarrow> int" where
  "parsePositiveInt raw fallback =
     (let raw = trim_space raw
      in if raw = '''' then fallback
         else case json_int raw of
                Some n \<Rightarrow> if n > 0 then n
                          else (case parse_int64 (trim_set (\<lambda>c. c = chr 34) raw) of
                                  Some parsed \<Rightarrow> if parsed > 0 then parsed else fallback
                                | None \<Rightarrow> fallback)
              | None \<Rightarrow> (case parse_int64 (trim_set (\<lambda>c. c = chr 34) raw) of
                           Some parsed \<Rightarrow> if parsed > 0 then parsed else fallback
                         | None \<Rightarrow> fallback))"

definition validateRDPAuth :: "rdp_auth \<Rightarrow> string + unit" where
  "validateRDPAuth auth =
     (if \<not> isRDPProtocol (Protocol (rx_target auth)) then Inl ''the token is not for RDP''
      else if Address (rx_target auth) = '''' then Inl ''the RDP target needs an address''
      else if rd_username (rx_account auth) = '''' then Inl ''an RDP user name is needed''
      else Inr ())"

text \<open>\<open>NativeResolver.Resolve\<close>.\<close>

definition NativeResolver_Resolve ::
    "(string \<Rightarrow> string \<Rightarrow> string \<Rightarrow> string + rdp_auth) \<Rightarrow> string \<Rightarrow> string \<Rightarrow> string \<Rightarrow> string + rdp_auth" where
  "NativeResolver_Resolve api routeUsername password remoteAddr =
     rbind (api routeUsername password remoteAddr) (\<lambda>auth. rbind (validateRDPAuth auth) (\<lambda>_. Inr auth))"

section \<open>The storage of recordings (storage.go)\<close>

definition path_join :: "string \<Rightarrow> string \<Rightarrow> string" where
  "path_join dir name =
     (if dir = '''' then (if name = '''' then '''' else path_clean name)
      else if name = '''' then path_clean dir else path_clean (dir @ ''/'' @ name))"

definition NewLocalStorage :: "string \<Rightarrow> string" where
  "NewLocalStorage basePath = (if basePath = '''' then ''./recordings'' else basePath)"

definition storage_path :: "string \<Rightarrow> string \<Rightarrow> string" where
  "storage_path base sessionID = path_join base (sessionID @ ''.cast'')"

text \<open>The errors of the four calls, in order; a cancelled context fails after the copy.\<close>

record storage_env =
  sg_mkdir :: "string option"
  sg_create :: "string \<Rightarrow> string option"
  sg_copy :: "string option"
  sg_cancelled :: "string option"

definition Put :: "storage_env \<Rightarrow> string \<Rightarrow> string \<Rightarrow> (string \<times> string option)" where
  "Put env base sessionID =
     (let path = storage_path base sessionID
      in case sg_mkdir env of Some e \<Rightarrow> ('''', Some e)
         | None \<Rightarrow> (case sg_create env path of Some e \<Rightarrow> ('''', Some e)
         | None \<Rightarrow> (case sg_copy env of Some e \<Rightarrow> ('''', Some e)
         | None \<Rightarrow> (path, sg_cancelled env))))"

section \<open>The server (server.go)\<close>

record guac_config =
  gc_width :: int
  gc_height :: int
  gc_dpi :: int
  gc_parameters :: "(string \<times> string) list"

text \<open>
  \<open>re_entries\<close> is the recording directory as it is when a session ends: the names in order, and
  whether each is a directory.  \<open>re_guac\<close> are the defaults of the Guacamole library.
\<close>

record rdp_env =
  re_verify :: "string \<Rightarrow> string \<Rightarrow> string + rdp_auth"
  re_create :: "rdp_session \<Rightarrow> string + int"
  re_mkdir :: "string option"
  re_dial :: "string option"
  re_guac :: "int \<times> int \<times> int"
  re_handshake :: "guac_config \<Rightarrow> string option"
  re_entries :: "(string \<times> bool) list"
  re_open :: "string \<Rightarrow> string option"
  re_stat :: "string \<Rightarrow> string option"
  re_storage :: storage_env

datatype rdp_event =
    RdpVerify string string "string + rdp_auth"
  | RdpCreate rdp_session "string + int"
  | GuacDial string
  | GuacHandshake guac_config
  | GuacCloseStream
  | GuacCloseTunnel
  | RdpFinish int string
  | WsClose int

record tunnel =
  tn_session_id :: int
  tn_recording_name :: string
  tn_closed :: bool

definition rdp_session_info :: "rdp_auth \<Rightarrow> string \<Rightarrow> rdp_session" where
  "rdp_session_info auth remote =
     \<lparr>ri_user_id = rx_user_id auth, ri_asset_id = rx_asset_id auth, ri_account_id = rx_account_id auth,
      ri_protocol = ''rdp'', ri_type = ''rdp'', ri_connect_method = ''web_rdp'', ri_remote_addr = remote,
      ri_recording_path = ''''\<rparr>"

definition or_default :: "string \<Rightarrow> string \<Rightarrow> string" where
  "or_default v fallback = (if v = '''' then fallback else v)"

text \<open>The query is a function; an absent parameter is empty.\<close>

definition guacdConfig :: "rdp_env \<Rightarrow> rdp_config \<Rightarrow> rdp_auth \<Rightarrow> (string \<Rightarrow> string) \<Rightarrow> string \<Rightarrow> guac_config" where
  "guacdConfig env cfg auth q recordingName =
     \<lparr>gc_width = parsePositiveInt (q ''width'') (fst (re_guac env)),
      gc_height = parsePositiveInt (q ''height'') (fst (snd (re_guac env))),
      gc_dpi = parsePositiveInt (q ''dpi'') (snd (snd (re_guac env))),
      gc_parameters =
        [(''hostname'', Address (rx_target auth)), (''port'', show_int (rdpTargetPort (rx_target auth))),
         (''username'', rd_username (rx_account auth)), (''password'', rd_secret (rx_account auth)),
         (''security'', or_default (q ''security'') ''any''),
         (''ignore-cert'', or_default (q ''ignore_cert'') ''true''),
         (''recording-path'', RecordingDir cfg), (''recording-name'', recordingName),
         (''create-recording-path'', ''true'')]\<rparr>"

text \<open>What follows once a session exists: whether there is a tunnel in the end.\<close>

definition open_tunnel ::
    "rdp_env \<Rightarrow> rdp_config \<Rightarrow> (string \<Rightarrow> string) \<Rightarrow> rdp_auth \<Rightarrow> int \<Rightarrow> rdp_event list \<times> bool" where
  "open_tunnel env cfg q auth sid =
     (if re_mkdir env \<noteq> None then ([RdpFinish sid '''', WsClose 1011], False)
      else if re_dial env \<noteq> None then ([GuacDial (GuacdListenAddr cfg), RdpFinish sid '''', WsClose 1011], False)
      else let gc = guacdConfig env cfg auth q (show_int sid)
           in if re_handshake env gc \<noteq> None
              then ([GuacDial (GuacdListenAddr cfg), GuacHandshake gc, GuacCloseStream, RdpFinish sid '''', WsClose 1011],
                    False)
              else ([GuacDial (GuacdListenAddr cfg), GuacHandshake gc], True))"

text \<open>The slot goes back when there is no tunnel; otherwise the tunnel keeps it.\<close>

definition connect ::
    "rdp_env \<Rightarrow> rdp_config \<Rightarrow> (string \<Rightarrow> string) \<Rightarrow> string \<Rightarrow> limiter \<Rightarrow>
     rdp_event list \<times> tunnel option \<times> limiter" where
  "connect env cfg q remote l =
     (case acquire l of
        (False, l) \<Rightarrow> ([WsClose 1013], None, l)
      | (True, l) \<Rightarrow>
          let token = q ''token''; answer = re_verify env token remote; asked = RdpVerify token remote answer
          in if token = '''' then ([WsClose 1008], None, release l)
             else case answer of
                    Inl e \<Rightarrow> ([asked, WsClose 1008], None, release l)
                  | Inr auth \<Rightarrow>
                      if validateRDPAuth auth \<noteq> Inr () then ([asked, WsClose 1008], None, release l)
                      else let info = rdp_session_info auth remote; created = re_create env info
                           in case created of
                                Inl e \<Rightarrow> ([asked, RdpCreate info created, WsClose 1011], None, release l)
                              | Inr sid \<Rightarrow>
                                  (case open_tunnel env cfg q auth sid of
                                     (rest, True) \<Rightarrow>
                                       (asked # RdpCreate info created # rest,
                                        Some \<lparr>tn_session_id = sid, tn_recording_name = show_int sid, tn_closed = False\<rparr>, l)
                                   | (rest, False) \<Rightarrow> (asked # RdpCreate info created # rest, None, release l)))"

text \<open>
  The file of a recording: \<open>filepath.Glob\<close> of the name and a star in a directory whose path has no
  pattern characters is the names that start with it.
\<close>

definition is_file :: "(string \<times> bool) list \<Rightarrow> string \<Rightarrow> bool" where
  "is_file entries name = ((name, False) \<in> set entries)"

definition findRecordingFile :: "(string \<times> bool) list \<Rightarrow> string \<Rightarrow> string \<Rightarrow> string option" where
  "findRecordingFile entries dir recordingName =
     (case find (is_file entries) [recordingName, recordingName @ ''.guac''] of
        Some name \<Rightarrow> Some (path_join dir name)
      | None \<Rightarrow> map_option (\<lambda>e. path_join dir (fst e))
          (find (\<lambda>(name, is_dir). has_prefix recordingName name \<and> \<not> is_dir) entries))"

definition storeRecording :: "rdp_env \<Rightarrow> rdp_config \<Rightarrow> string \<Rightarrow> string option" where
  "storeRecording env cfg recordingName =
     (case findRecordingFile (re_entries env) (RecordingDir cfg) recordingName of
        None \<Rightarrow> None
      | Some path \<Rightarrow>
          if re_open env path \<noteq> None then None
          else if re_stat env path \<noteq> None then None
          else case Put (re_storage env) (NewLocalStorage (RecordingDir cfg)) (''rdp-'' @ recordingName) of
                 (stored, None) \<Rightarrow> Some stored
               | (stored, Some e) \<Rightarrow> None)"

definition finishSession :: "rdp_env \<Rightarrow> rdp_config \<Rightarrow> int \<Rightarrow> string \<Rightarrow> rdp_event list" where
  "finishSession env cfg sid recordingName =
     [RdpFinish sid (case storeRecording env cfg recordingName of None \<Rightarrow> '''' | Some path \<Rightarrow> path)]"

text \<open>\<open>sessionTunnel.Close\<close>, which a \<open>sync.Once\<close> guards.\<close>

definition Tunnel_Close :: "rdp_env \<Rightarrow> rdp_config \<Rightarrow> tunnel \<Rightarrow> limiter \<Rightarrow> rdp_event list \<times> tunnel \<times> limiter" where
  "Tunnel_Close env cfg t l =
     (if tn_closed t then ([], t, l)
      else (GuacCloseTunnel # finishSession env cfg (tn_session_id t) (tn_recording_name t),
            t\<lparr>tn_closed := True\<rparr>, release l))"

section \<open>Connections and closings\<close>

record rdp_state =
  rw_slots :: limiter
  rw_tunnels :: "tunnel list"
  rw_events :: "rdp_event list"

text \<open>
  The answers may differ from step to step.  The Guacamole library closes a tunnel when either
  side ends, possibly more than once.
\<close>

inductive rdp_step :: "rdp_config \<Rightarrow> rdp_state \<Rightarrow> rdp_state \<Rightarrow> bool" for cfg where
  Connect: "connect env cfg q remote (rw_slots s) = (evs, t, l) \<Longrightarrow>
    rdp_step cfg s \<lparr>rw_slots = l, rw_tunnels = rw_tunnels s @ (case t of None \<Rightarrow> [] | Some t \<Rightarrow> [t]),
                    rw_events = rw_events s @ evs\<rparr>"
| Close: "i < length (rw_tunnels s) \<Longrightarrow> Tunnel_Close env cfg (rw_tunnels s ! i) (rw_slots s) = (evs, t, l) \<Longrightarrow>
    rdp_step cfg s \<lparr>rw_slots = l, rw_tunnels = (rw_tunnels s)[i := t], rw_events = rw_events s @ evs\<rparr>"

definition rdp_start :: "rdp_config \<Rightarrow> rdp_state" where
  "rdp_start cfg = \<lparr>rw_slots = newLimiter (RDP_ConnectionLimit cfg), rw_tunnels = [], rw_events = []\<rparr>"

inductive rdp_run :: "rdp_config \<Rightarrow> rdp_state \<Rightarrow> bool" for cfg where
  start: "rdp_run cfg (rdp_start cfg)"
| step: "rdp_run cfg s \<Longrightarrow> rdp_step cfg s s' \<Longrightarrow> rdp_run cfg s'"

definition created_ids :: "rdp_event list \<Rightarrow> int list" where
  "created_ids evs =
     concat (map (\<lambda>e. case e of RdpCreate info (Inr sid) \<Rightarrow> [sid] | _ \<Rightarrow> []) evs)"

definition finished_ids :: "rdp_event list \<Rightarrow> int list" where
  "finished_ids evs = concat (map (\<lambda>e. case e of RdpFinish sid path \<Rightarrow> [sid] | _ \<Rightarrow> []) evs)"

definition open_ids :: "tunnel list \<Rightarrow> int list" where
  "open_ids ts = map tn_session_id (filter (\<lambda>t. \<not> tn_closed t) ts)"

lemmas id_lists = created_ids_def finished_ids_def open_ids_def

text \<open>What one connection does to the slots and to the sessions.\<close>

lemma connect_balanced:
  assumes "connect env cfg q remote l = (evs, t, l')" and "chan_len l \<le> chan_cap l"
  shows "mset (created_ids evs) = mset (finished_ids evs) + mset (open_ids (case t of None \<Rightarrow> [] | Some t \<Rightarrow> [t]))"
    and "chan_len l' = chan_len l + length (open_ids (case t of None \<Rightarrow> [] | Some t \<Rightarrow> [t]))"
    and "chan_cap l' = chan_cap l" and "chan_len l' \<le> chan_cap l'"
  using assms unfolding connect_def open_tunnel_def Let_def acquire_def release_def
  by (auto simp: id_lists split: if_splits sum.splits prod.splits)

lemma close_balanced:
  assumes "Tunnel_Close env cfg t l = (evs, t', l')"
  shows "mset (finished_ids evs) + mset (open_ids [t']) = mset (open_ids [t])" and "created_ids evs = []"
    and "chan_len l' = chan_len l - length (open_ids [t]) + length (open_ids [t'])" and "chan_cap l' = chan_cap l"
  using assms unfolding Tunnel_Close_def finishSession_def release_def
  by (auto simp: id_lists split: if_splits)

definition rdp_balanced :: "rdp_config \<Rightarrow> rdp_state \<Rightarrow> bool" where
  "rdp_balanced cfg s =
     (chan_len (rw_slots s) = length (open_ids (rw_tunnels s)) \<and>
      chan_len (rw_slots s) \<le> chan_cap (rw_slots s) \<and>
      chan_cap (rw_slots s) = nat (RDP_ConnectionLimit cfg) \<and>
      mset (created_ids (rw_events s)) = mset (finished_ids (rw_events s)) + mset (open_ids (rw_tunnels s)))"

lemma open_ids_append: "open_ids (ts @ us) = open_ids ts @ open_ids us"
  by (simp add: open_ids_def)

lemma ids_append:
  "created_ids (a @ b) = created_ids a @ created_ids b" "finished_ids (a @ b) = finished_ids a @ finished_ids b"
  by (simp_all add: id_lists)

lemma open_ids_update:
  assumes "i < length ts"
  shows "mset (open_ids (ts[i := t])) + mset (open_ids [ts ! i]) = mset (open_ids ts) + mset (open_ids [t])"
proof -
  have ts: "ts = take i ts @ [ts ! i] @ drop (Suc i) ts" using assms by (simp add: id_take_nth_drop)
  have u: "ts[i := t] = take i ts @ [t] @ drop (Suc i) ts" using assms by (simp add: upd_conv_take_nth_drop)
  have "open_ids ts = open_ids (take i ts) @ open_ids [ts ! i] @ open_ids (drop (Suc i) ts)"
    by (subst ts) (simp only: open_ids_append)
  moreover have "open_ids (ts[i := t]) = open_ids (take i ts) @ open_ids [t] @ open_ids (drop (Suc i) ts)"
    by (subst u) (simp only: open_ids_append)
  ultimately show ?thesis by simp
qed

lemma open_ids_nth: "i < length ts \<Longrightarrow> length (open_ids [ts ! i]) \<le> length (open_ids ts)"
  using open_ids_append [of "take i ts" "drop i ts"] open_ids_append [of "[ts ! i]" "drop (Suc i) ts"]
  by (simp add: Cons_nth_drop_Suc)

lemma rdp_step_balanced: "rdp_step cfg s s' \<Longrightarrow> rdp_balanced cfg s \<Longrightarrow> rdp_balanced cfg s'"
proof (induction rule: rdp_step.induct)
  case (Connect env q remote s evs t l)
  thus ?case using connect_balanced [OF Connect.hyps]
    by (simp add: rdp_balanced_def open_ids_append ids_append)
next
  case (Close i s env evs t l)
  have m: "mset (open_ids ((rw_tunnels s)[i := t])) + mset (open_ids [rw_tunnels s ! i]) =
      mset (open_ids (rw_tunnels s)) + mset (open_ids [t])" by (rule open_ids_update [OF Close.hyps(1)])
  have n: "length (open_ids ((rw_tunnels s)[i := t])) + length (open_ids [rw_tunnels s ! i]) =
      length (open_ids (rw_tunnels s)) + length (open_ids [t])"
    using arg_cong [OF m, of size] by simp
  note b = close_balanced [OF Close.hyps(2)]
  have le: "length (open_ids [t]) \<le> length (open_ids [rw_tunnels s ! i])"
    using arg_cong [OF b(1), of size] by simp
  have "mset (created_ids (rw_events s)) = mset (finished_ids (rw_events s)) + mset (finished_ids evs) +
      mset (open_ids ((rw_tunnels s)[i := t]))"
  proof -
    have "mset (open_ids ((rw_tunnels s)[i := t])) + mset (finished_ids evs) = mset (open_ids (rw_tunnels s))"
      using m unfolding b(1) [symmetric] by (simp only: add.assoc [symmetric] add_right_cancel)
    thus ?thesis using Close.prems unfolding rdp_balanced_def by (simp add: ac_simps)
  qed
  moreover have "length (open_ids [rw_tunnels s ! i]) \<le> length (open_ids (rw_tunnels s))"
    by (rule open_ids_nth [OF Close.hyps(1)])
  ultimately show ?case using Close.prems n le b by (auto simp: rdp_balanced_def ids_append)
qed

text \<open>
  C30: At every moment the web RDP proxy serves at most as many sessions as configured; each open
  tunnel holds one slot; and every session the API created has been finished exactly once or
  belongs to exactly one open tunnel, however connections and closings interleave and however
  often a tunnel is closed.
\<close>

theorem rdp_sessions_balanced:
  assumes "rdp_run cfg s"
  shows "mset (created_ids (rw_events s)) = mset (finished_ids (rw_events s)) + mset (open_ids (rw_tunnels s)) \<and>
    chan_len (rw_slots s) = length (open_ids (rw_tunnels s)) \<and>
    int (length (open_ids (rw_tunnels s))) \<le> RDP_ConnectionLimit cfg"
proof -
  have pos: "0 < RDP_ConnectionLimit cfg" by (simp add: RDP_ConnectionLimit_def)
  have "rdp_balanced cfg s" using assms
  proof induction
    case start
    show ?case using pos by (simp add: rdp_balanced_def rdp_start_def newLimiter_def id_lists)
  next
    case (step s s')
    show ?case by (rule rdp_step_balanced [OF step.hyps(2) step.IH])
  qed
  thus ?thesis using pos by (auto simp: rdp_balanced_def)
qed

text \<open>What a connection may do before and after a token is verified.\<close>

fun rdp_event_ok :: "rdp_auth \<Rightarrow> string \<Rightarrow> rdp_event \<Rightarrow> bool" where
  "rdp_event_ok auth remote (RdpCreate info r) =
     (ri_user_id info = rx_user_id auth \<and> ri_asset_id info = rx_asset_id auth \<and>
      ri_account_id info = rx_account_id auth \<and> ri_remote_addr info = remote)"
| "rdp_event_ok auth remote (GuacHandshake gc) =
     (map_of (gc_parameters gc) ''hostname'' = Some (Address (rx_target auth)) \<and>
      map_of (gc_parameters gc) ''username'' = Some (rd_username (rx_account auth)) \<and>
      map_of (gc_parameters gc) ''password'' = Some (rd_secret (rx_account auth)))"
| "rdp_event_ok auth remote _ = True"

fun rdp_closes :: "rdp_event \<Rightarrow> bool" where
  "rdp_closes (WsClose code) = True"
| "rdp_closes _ = False"

lemma validateRDPAuth_ok:
  "validateRDPAuth auth = Inr () \<longleftrightarrow> isRDPProtocol (Protocol (rx_target auth)) \<and>
     Address (rx_target auth) \<noteq> '''' \<and> rd_username (rx_account auth) \<noteq> ''''"
  by (simp add: validateRDPAuth_def)

lemma handshake_ok: "rdp_event_ok auth remote (GuacHandshake (guacdConfig env cfg auth q name))"
  by (simp add: guacdConfig_def)

text \<open>
  C11: A browser without a token that the API accepts for RDP, with an address and a user name, gets
  its socket closed and nothing else: no session, no connection to guacd.  With one, the session
  carries the user, the asset and the account of the token, and guacd is given the token's
  machine and credentials, whatever else the browser asks for in its query; the only tunnel there
  is belongs to the session just created.
\<close>

theorem rdp_connect_gated:
  assumes "connect env cfg q remote l = (evs, t, l')"
  shows "(case re_verify env (q ''token'') remote of
       Inl e \<Rightarrow> list_all (\<lambda>e. rdp_closes e \<or> e = RdpVerify (q ''token'') remote (re_verify env (q ''token'') remote)) evs \<and> t = None
     | Inr auth \<Rightarrow>
         if q ''token'' = '''' \<or> validateRDPAuth auth \<noteq> Inr ()
         then list_all (\<lambda>e. rdp_closes e \<or> e = RdpVerify (q ''token'') remote (Inr auth)) evs \<and> t = None
         else list_all (rdp_event_ok auth remote) evs \<and>
              (\<forall>tun. t = Some tun \<longrightarrow> created_ids evs = [tn_session_id tun] \<and> finished_ids evs = []))"
proof (cases "re_verify env (q ''token'') remote")
  case (Inl e)
  thus ?thesis using assms by (auto simp: connect_def Let_def acquire_def split: if_splits)
next
  case (Inr auth)
  have ids: "rdp_event_ok auth remote (RdpCreate (rdp_session_info auth remote) r)" for r
    by (simp add: rdp_session_info_def)
  show ?thesis using assms Inr handshake_ok [of auth remote] ids
    by (auto simp: connect_def open_tunnel_def Let_def acquire_def id_lists split: if_splits sum.splits)
qed

section \<open>Which recording is stored\<close>

text \<open>
  The file stored for a session is one whose name starts with the session's number, its own if
  there is one.  A session without a recording of its own gets that of any later session whose
  number starts with the same digits.
\<close>

theorem recording_may_be_foreign:
  "(findRecordingFile entries dir name = None \<longleftrightarrow> (\<forall>e \<in> set entries. has_prefix name (fst e) \<longrightarrow> snd e)) \<and>
   (is_file entries name \<longrightarrow> findRecordingFile entries dir name = Some (path_join dir name)) \<and>
   findRecordingFile [(''10.guac'', False)] dir ''1'' = Some (path_join dir ''10.guac'')"
proof -
  have "is_file entries (name @ ext) \<Longrightarrow> \<exists>e \<in> set entries. has_prefix name (fst e) \<and> \<not> snd e" for ext
    unfolding is_file_def by (rule bexI [of _ "(name @ ext, False)"]) (auto simp: has_prefix_iff)
  from this [of "[]"] this [of "''.guac''"]
  have "findRecordingFile entries dir name = None \<longleftrightarrow> (\<forall>e \<in> set entries. has_prefix name (fst e) \<longrightarrow> snd e)"
    by (auto simp: findRecordingFile_def find_None_iff split: option.split) blast
  thus ?thesis by (simp add: findRecordingFile_def is_file_def has_prefix_def)
qed

section \<open>Witnesses\<close>

definition sample_rdp_auth :: rdp_auth where
  "sample_rdp_auth =
     \<lparr>rx_target = \<lparr>Address = ''10.0.0.9'', Port = 0, Protocol = ''rdp''\<rparr>,
      rx_account = \<lparr>rd_username = ''root'', rd_secret = ''pw'', rd_secret_type = ''password''\<rparr>,
      rx_user_id = 7, rx_asset_id = 3, rx_account_id = 4\<rparr>"

definition sample_rdp_env :: rdp_env where
  "sample_rdp_env =
     \<lparr>re_verify = (\<lambda>token remote. if token = ''tok'' then Inr sample_rdp_auth else Inl ''unauthorized''),
      re_create = (\<lambda>info. Inr 1), re_mkdir = None, re_dial = None, re_guac = (1024, 768, 96),
      re_handshake = (\<lambda>gc. None), re_entries = [(''1.guac'', False)], re_open = (\<lambda>p. None), re_stat = (\<lambda>p. None),
      re_storage = \<lparr>sg_mkdir = None, sg_create = (\<lambda>p. None), sg_copy = None, sg_cancelled = None\<rparr>\<rparr>"

definition token_query :: "string \<Rightarrow> string" where
  "token_query k = (if k = ''token'' then ''tok'' else '''')"

lemma sample_rdp_valid: "validateRDPAuth sample_rdp_auth = Inr ()"
  by (simp add: validateRDPAuth_ok sample_rdp_auth_def isRDPProtocol_def equal_fold_def)

lemma sample_rdp_connected:
  obtains evs l where "connect sample_rdp_env cfg token_query ''9.9.9.9'' (newLimiter (RDP_ConnectionLimit cfg)) =
      (evs, Some \<lparr>tn_session_id = 1, tn_recording_name = show_int 1, tn_closed = False\<rparr>, l)"
    and "created_ids evs = [1]"
proof -
  have "0 < chan_cap (newLimiter (RDP_ConnectionLimit cfg))"
    by (simp add: newLimiter_def)
  thus ?thesis using that sample_rdp_valid
    by (simp add: connect_def acquire_def open_tunnel_def Let_def sample_rdp_env_def token_query_def newLimiter_def id_lists)
qed

theorem rdp_sessions_balanced_witness:
  "\<exists>s. rdp_run (px_rdp (c_proxy sample_config)) s \<and> created_ids (rw_events s) = [1] \<and> finished_ids (rw_events s) = [1] \<and> chan_len (rw_slots s) = 0"
proof -
  let ?cfg = "px_rdp (c_proxy sample_config)"
  let ?s0 = "rdp_start ?cfg" and ?t = "\<lparr>tn_session_id = 1, tn_recording_name = show_int 1, tn_closed = False\<rparr>"
  obtain evs l where c: "connect sample_rdp_env ?cfg token_query ''9.9.9.9'' (rw_slots ?s0) = (evs, Some ?t, l)"
    "created_ids evs = [1]"
    using sample_rdp_connected [of ?cfg] by (auto simp: rdp_start_def)
  let ?s1 = "\<lparr>rw_slots = l, rw_tunnels = [?t], rw_events = evs\<rparr>"
  have "rdp_step ?cfg ?s0 ?s1" using rdp_step.Connect [OF c(1)] by (simp add: rdp_start_def)
  hence r1: "rdp_run ?cfg ?s1" by (rule rdp_run.step [OF rdp_run.start])
  obtain more t l' where d: "Tunnel_Close sample_rdp_env ?cfg ?t l = (more, t, l')" "tn_closed t" "created_ids more = []"
    by (simp add: Tunnel_Close_def finishSession_def id_lists)
  let ?s2 = "\<lparr>rw_slots = l', rw_tunnels = [t], rw_events = evs @ more\<rparr>"
  have "rdp_step ?cfg ?s1 ?s2" using rdp_step.Close [of 0 ?s1 sample_rdp_env ?cfg more t l'] d(1) by simp
  hence r2: "rdp_run ?cfg ?s2" by (rule rdp_run.step [OF r1])
  have "mset (finished_ids (evs @ more)) = {#1#} \<and> chan_len l' = 0"
    using rdp_sessions_balanced [OF r2] c(2) d(2,3) by (simp add: ids_append open_ids_def)
  hence "finished_ids (evs @ more) = [1] \<and> chan_len l' = 0" by simp
  thus ?thesis using r2 c(2) d(3) by (intro exI [of _ ?s2]) (simp add: ids_append)
qed

theorem rdp_connect_gated_witness:
  "\<exists>evs tun l. connect sample_rdp_env (px_rdp (c_proxy sample_config)) token_query ''9.9.9.9''
       (newLimiter (RDP_ConnectionLimit (px_rdp (c_proxy sample_config)))) = (evs, Some tun, l) \<and>
     created_ids evs = [tn_session_id tun] \<and> list_all (rdp_event_ok sample_rdp_auth ''9.9.9.9'') evs"
proof -
  obtain evs l tun where c: "connect sample_rdp_env (px_rdp (c_proxy sample_config)) token_query ''9.9.9.9''
       (newLimiter (RDP_ConnectionLimit (px_rdp (c_proxy sample_config)))) = (evs, Some tun, l)"
    using sample_rdp_connected by blast
  from rdp_connect_gated [OF c] have "created_ids evs = [tn_session_id tun] \<and>
      list_all (rdp_event_ok sample_rdp_auth ''9.9.9.9'') evs"
    using sample_rdp_valid by (simp add: sample_rdp_env_def token_query_def)
  thus ?thesis using c by blast
qed

end
