(* ===== verification/NativeEngine.thy ===== *)
theory NativeEngine
  imports RdpServer NetAddr
begin

text \<open>
  The wrapper of the FreeRDP proxy (\<open>proxy/rdp/native_engine.go\<close>): its configuration and the
  checks on it, the file it renders, starting the process, and what it makes of the process's
  output: lines, classified and redacted, in a queue that drops what does not fit.  The file
  system and the process are the record \<open>engine_env\<close>; error texts of the system are parameters.
\<close>

section \<open>Errors and events\<close>

datatype engine_error_kind = ConfigError | MissingError | StartError | ExitError | CanceledError

record engine_error =
  ee_kind :: engine_error_kind
  ee_op :: string
  ee_path :: string
  ee_err :: string

fun kind_text :: "engine_error_kind \<Rightarrow> string" where
  "kind_text ConfigError = ''config''"
| "kind_text MissingError = ''missing''"
| "kind_text StartError = ''start''"
| "kind_text ExitError = ''exit''"
| "kind_text CanceledError = ''canceled''"

text \<open>An absent operation, path or cause is empty.\<close>

definition engine_error_text :: "engine_error \<Rightarrow> string" where
  "engine_error_text e = join '': ''
     (''native rdp engine'' #
      (if ee_op e \<noteq> '''' then [ee_op e] else []) @ [kind_text (ee_kind e)] @
      (if ee_path e \<noteq> '''' then [ee_path e] else []) @
      (if ee_err e \<noteq> '''' then [ee_err e] else []))"

definition engine_fail :: "engine_error_kind \<Rightarrow> string \<Rightarrow> string \<Rightarrow> string \<Rightarrow> engine_error + 'a" where
  "engine_fail k oper path err = Inl \<lparr>ee_kind = k, ee_op = oper, ee_path = path, ee_err = err\<rparr>"

datatype engine_event_type =
  Started | Authenticated | TargetDialFailed | TargetLoginFailed | Disconnected | ProcessExited | Debug

record engine_event =
  ev_type :: engine_event_type
  ev_source :: string
  ev_line :: string
  ev_code :: int

section \<open>Configuration\<close>

record native_target =
  nt_host :: string
  nt_port :: int
  nt_username :: string
  nt_password :: string

record engine_config =
  EnginePath :: string
  WorkDir :: string
  ListenHost :: string
  ListenPort :: int
  CertPath :: string
  KeyPath :: string
  FixedTarget :: native_target
  APIBaseURL :: string
  ProxyAuthSecret :: string
  PluginName :: string
  RequiredPluginName :: string
  MaxConnections :: int
  IdleTimeout :: int

definition Redacted :: "engine_config \<Rightarrow> engine_config" where
  "Redacted c =
     c\<lparr>FixedTarget := (FixedTarget c)\<lparr>nt_password := ''[redacted]''\<rparr>,
       ProxyAuthSecret := (if ProxyAuthSecret c \<noteq> '''' then ''[redacted]'' else ProxyAuthSecret c)\<rparr>"

definition splitNativeListenAddr :: "string \<Rightarrow> engine_error + string \<times> int" where
  "splitNativeListenAddr addr =
     (case SplitHostPort addr of
        Inl e \<Rightarrow> engine_fail ConfigError ''listen addr'' addr e
      | Inr (host, portRaw) \<Rightarrow>
          let host = (if host = '''' then ''0.0.0.0'' else host)
          in case parse_int64 portRaw of
               None \<Rightarrow> engine_fail ConfigError ''listen addr'' addr ''port is invalid''
             | Some port \<Rightarrow>
                 if port \<le> 0 \<or> port > 65535 then engine_fail ConfigError ''listen addr'' addr ''port is invalid''
                 else Inr (host, port))"

definition trim_slashes :: "string \<Rightarrow> string" where
  "trim_slashes = trim_right (\<lambda>c. c = CHR ''/'')"

definition NativeEngineConfigFromAppConfig :: "config \<Rightarrow> native_target \<Rightarrow> engine_error + engine_config" where
  "NativeEngineConfigFromAppConfig cfg target =
     (let rdp = px_rdp (c_proxy cfg)
      in rbind (splitNativeListenAddr (NativeListenAddr rdp)) (\<lambda>(host, port).
           Inr \<lparr>EnginePath = NativeEngineCommand rdp, WorkDir = NativeEngineWorkDir rdp, ListenHost = host,
                ListenPort = port, CertPath = native_cert_path rdp, KeyPath = native_key_path rdp,
                FixedTarget = (if nt_port target \<le> 0 then target\<lparr>nt_port := 3389\<rparr> else target),
                APIBaseURL = trim_slashes (api_base_url (c_proxy cfg)),
                ProxyAuthSecret = pa_secret (c_proxy_auth cfg), PluginName = ''turjmp'',
                RequiredPluginName = ''turjmp'', MaxConnections = RDP_ConnectionLimit rdp,
                IdleTimeout = RDP_IdleTimeout rdp\<rparr>))"

definition NativeEngineConfigFromResolvedAuth :: "config \<Rightarrow> rdp_auth \<Rightarrow> string + engine_config" where
  "NativeEngineConfigFromResolvedAuth cfg auth =
     rbind (validateRDPAuth auth) (\<lambda>_.
       case NativeEngineConfigFromAppConfig cfg
              \<lparr>nt_host = Address (rx_target auth), nt_port = rdpTargetPort (rx_target auth),
               nt_username = rd_username (rx_account auth), nt_password = rd_secret (rx_account auth)\<rparr> of
         Inl e \<Rightarrow> Inl (engine_error_text e) | Inr c \<Rightarrow> Inr c)"

text \<open>The first complaint, in the order of the checks.\<close>

definition validateNativeEngineRuntimeConfig :: "engine_config \<Rightarrow> engine_error + unit" where
  "validateNativeEngineRuntimeConfig c =
     (if trim_space (EnginePath c) = '''' then engine_fail ConfigError ''engine'' '''' ''path is required''
      else if trim_space (WorkDir c) = '''' then engine_fail ConfigError ''work dir'' '''' ''path is required''
      else if trim_space (ListenHost c) = '''' then engine_fail ConfigError ''listen host'' '''' ''host is required''
      else if ListenPort c \<le> 0 \<or> ListenPort c > 65535
      then engine_fail ConfigError ''listen port'' '''' ''port is invalid''
      else if trim_space (CertPath c) = '''' then engine_fail ConfigError ''certificate'' '''' ''path is required''
      else if trim_space (KeyPath c) = '''' then engine_fail ConfigError ''private key'' '''' ''path is required''
      else if trim_space (APIBaseURL c) = '''' then engine_fail ConfigError ''api base url'' '''' ''url is required''
      else if trim_space (ProxyAuthSecret c) = '''' then engine_fail ConfigError ''proxy auth'' '''' ''secret is required''
      else Inr ())"

section \<open>The rendered file\<close>

definition newline :: char where
  "newline = chr 10"

definition escapeINIValue :: "string \<Rightarrow> string" where
  "escapeINIValue v = filter (\<lambda>c. c \<noteq> newline) (filter (\<lambda>c. c \<noteq> chr 13) v)"

definition writeINISection :: "string \<Rightarrow> string" where
  "writeINISection name = ''['' @ name @ '']'' @ [newline]"

definition writeINIKey :: "string \<Rightarrow> string \<Rightarrow> string" where
  "writeINIKey key v = key @ ''='' @ escapeINIValue v @ [newline]"

text \<open>\<open>int(d.Seconds())\<close> of a duration in nanoseconds.\<close>

definition whole_seconds :: "int \<Rightarrow> int" where
  "whole_seconds d = go_div d 1000000000"

definition security_keys :: string where
  "security_keys =
     writeINIKey ''ServerNlaSecurity'' ''false'' @ writeINIKey ''ServerTlsSecurity'' ''true'' @
     writeINIKey ''ServerRdpSecurity'' ''true'' @ writeINIKey ''ClientNlaSecurity'' ''true'' @
     writeINIKey ''ClientTlsSecurity'' ''true'' @ writeINIKey ''ClientRdpSecurity'' ''true'' @
     writeINIKey ''ClientAllowFallbackToTls'' ''true''"

definition renderFreeRDPProxyDynamicConfig :: "engine_config \<Rightarrow> string" where
  "renderFreeRDPProxyDynamicConfig c =
     (let pluginName = or_default (PluginName c) ''turjmp'';
          requiredPluginName = or_default (RequiredPluginName c) pluginName
      in writeINISection ''Server'' @ writeINIKey ''Host'' (ListenHost c) @
         writeINIKey ''Port'' (show_int (ListenPort c)) @ [newline] @
         writeINISection ''Target'' @ writeINIKey ''FixedTarget'' ''false'' @ [newline] @
         writeINISection ''Security'' @ security_keys @ [newline] @
         writeINISection ''Certificates'' @ writeINIKey ''CertificateFile'' (CertPath c) @
         writeINIKey ''PrivateKeyFile'' (KeyPath c) @ [newline] @
         writeINISection ''Plugins'' @ writeINIKey ''Modules'' pluginName @
         writeINIKey ''Required'' requiredPluginName @ [newline] @
         writeINISection ''Turjmp'' @ writeINIKey ''APIBaseURL'' (trim_slashes (APIBaseURL c)) @
         writeINIKey ''ProxyAuth'' (ProxyAuthSecret c) @
         writeINIKey ''MaxConnections'' (show_int (MaxConnections c)) @
         writeINIKey ''IdleTimeoutSeconds'' (show_int (whole_seconds (IdleTimeout c))))"

definition renderFreeRDPProxyFixedTargetConfig :: "engine_config \<Rightarrow> string" where
  "renderFreeRDPProxyFixedTargetConfig c =
     writeINISection ''Server'' @ writeINIKey ''Host'' (ListenHost c) @
     writeINIKey ''Port'' (show_int (ListenPort c)) @ [newline] @
     writeINISection ''Target'' @ writeINIKey ''FixedTarget'' ''true'' @
     writeINIKey ''Host'' (nt_host (FixedTarget c)) @ writeINIKey ''Port'' (show_int (nt_port (FixedTarget c))) @
     writeINIKey ''User'' (nt_username (FixedTarget c)) @
     writeINIKey ''Password'' (nt_password (FixedTarget c)) @ [newline] @
     writeINISection ''Security'' @ security_keys @ [newline] @
     writeINISection ''Certificates'' @ writeINIKey ''CertificateFile'' (CertPath c) @
     writeINIKey ''PrivateKeyFile'' (KeyPath c)"

section \<open>The lines of the file\<close>

text \<open>A value as one line: what is left of it without its line breaks.\<close>

definition one_line :: "string \<Rightarrow> string" where
  "one_line v = filter (\<lambda>c. (of_char c :: nat) \<notin> {10, 13}) v"

definition key_line :: "string \<Rightarrow> string \<Rightarrow> string" where
  "key_line k v = k @ ''='' @ one_line v"

definition security_lines :: "string list" where
  "security_lines =
     [''[Security]'', ''ServerNlaSecurity=false'', ''ServerTlsSecurity=true'', ''ServerRdpSecurity=true'',
      ''ClientNlaSecurity=true'', ''ClientTlsSecurity=true'', ''ClientRdpSecurity=true'',
      ''ClientAllowFallbackToTls=true'', '''']"

definition ini_name :: "string \<Rightarrow> bool" where
  "ini_name s = list_all solid s"

lemma newline_not_solid: "\<not> solid newline" "newline \<noteq> CHR ''=''" "newline \<noteq> CHR ''[''" "newline \<noteq> CHR '']''"
  by (simp_all add: newline_def solid_def Let_def char_of_eq_iff)

lemma ini_name_newline: "ini_name s \<Longrightarrow> newline \<notin> set s"
  using newline_not_solid by (auto simp: ini_name_def list_all_iff)

lemma of_char_of_nat_10: "of_char (chr 10) = (10 :: nat)"
  and of_char_of_nat_13: "of_char (chr 13) = (13 :: nat)"
  by simp_all

lemma escapeINIValue_one_line: "escapeINIValue v = one_line v"
proof -
  have "c \<noteq> newline \<longleftrightarrow> (of_char c :: nat) \<noteq> 10" "c \<noteq> chr 13 \<longleftrightarrow> (of_char c :: nat) \<noteq> 13" for c
    unfolding newline_def by (metis char_of_char of_char_of_nat_10, metis char_of_char of_char_of_nat_13)
  thus ?thesis by (auto simp: escapeINIValue_def one_line_def intro: filter_cong)
qed

lemma one_line_newline: "newline \<notin> set (one_line v)"
  by (simp add: one_line_def newline_def)

lemma lines_section:
  "ini_name s \<Longrightarrow> split_char newline (writeINISection s @ rest) = (''['' @ s @ '']'') # split_char newline rest"
  using split_char_app [of newline "''['' @ s @ '']''" rest] ini_name_newline [of s] newline_not_solid
  by (simp add: writeINISection_def)

lemma lines_key:
  "ini_name k \<Longrightarrow> split_char newline (writeINIKey k v @ rest) = key_line k v # split_char newline rest"
  using split_char_app [of newline "k @ ''='' @ one_line v" rest] ini_name_newline [of k] newline_not_solid
    one_line_newline [of v]
  by (simp add: writeINIKey_def key_line_def escapeINIValue_one_line)

lemma lines_last_key: "ini_name k \<Longrightarrow> split_char newline (writeINIKey k v) = [key_line k v, '''']"
  using lines_key [of k v "[]"] by simp

lemma lines_blank: "split_char newline (newline # rest) = '''' # split_char newline rest"
  by simp

lemma ini_names:
  "list_all ini_name [''Server'', ''Target'', ''Security'', ''Certificates'', ''Plugins'', ''Turjmp'', ''Host'', ''Port'',
     ''FixedTarget'', ''User'', ''Password'', ''ServerNlaSecurity'', ''ServerTlsSecurity'', ''ServerRdpSecurity'',
     ''ClientNlaSecurity'', ''ClientTlsSecurity'', ''ClientRdpSecurity'', ''ClientAllowFallbackToTls'',
     ''CertificateFile'', ''PrivateKeyFile'', ''Modules'', ''Required'', ''APIBaseURL'', ''ProxyAuth'',
     ''MaxConnections'', ''IdleTimeoutSeconds'']"
  by (simp add: ini_name_def solid_def Let_def)

lemma literal_lines: "one_line ''true'' = ''true''" "one_line ''false'' = ''false''"
  by (simp_all add: one_line_def)

lemmas lines_simps = lines_section lines_key lines_last_key lines_blank

lemma lines_security: "split_char newline (writeINISection ''Security'' @ security_keys @ newline # rest) =
    security_lines @ split_char newline rest"
  using ini_names by (simp add: security_keys_def security_lines_def key_line_def literal_lines lines_simps del: split_char.simps)

text \<open>
  C35: Whatever the configured texts contain, line breaks and brackets included, the two rendered
  configuration files have exactly these lines: every key stands on a line of its own under its
  section, with its value on the rest of that line, the line breaks of the value left out and
  nothing else; no value adds, ends or hides a line.
\<close>

theorem rendered_lines:
  "split_char newline (renderFreeRDPProxyDynamicConfig c) =
     [''[Server]'', key_line ''Host'' (ListenHost c), key_line ''Port'' (show_int (ListenPort c)), '''',
      ''[Target]'', ''FixedTarget=false'', ''''] @ security_lines @
     [''[Certificates]'', key_line ''CertificateFile'' (CertPath c), key_line ''PrivateKeyFile'' (KeyPath c), '''',
      ''[Plugins]'', key_line ''Modules'' (or_default (PluginName c) ''turjmp''),
      key_line ''Required'' (or_default (RequiredPluginName c) (or_default (PluginName c) ''turjmp'')), '''',
      ''[Turjmp]'', key_line ''APIBaseURL'' (trim_slashes (APIBaseURL c)),
      key_line ''ProxyAuth'' (ProxyAuthSecret c), key_line ''MaxConnections'' (show_int (MaxConnections c)),
      key_line ''IdleTimeoutSeconds'' (show_int (whole_seconds (IdleTimeout c))), ''''] \<and>
   split_char newline (renderFreeRDPProxyFixedTargetConfig c) =
     [''[Server]'', key_line ''Host'' (ListenHost c), key_line ''Port'' (show_int (ListenPort c)), '''',
      ''[Target]'', ''FixedTarget=true'', key_line ''Host'' (nt_host (FixedTarget c)),
      key_line ''Port'' (show_int (nt_port (FixedTarget c))), key_line ''User'' (nt_username (FixedTarget c)),
      key_line ''Password'' (nt_password (FixedTarget c)), ''''] @ security_lines @
     [''[Certificates]'', key_line ''CertificateFile'' (CertPath c), key_line ''PrivateKeyFile'' (KeyPath c), '''']"
proof -
  have "key_line ''FixedTarget'' ''true'' = ''FixedTarget=true''" "key_line ''FixedTarget'' ''false'' = ''FixedTarget=false''"
    by (simp_all add: key_line_def literal_lines)
  thus ?thesis using ini_names
    by (simp add: renderFreeRDPProxyDynamicConfig_def renderFreeRDPProxyFixedTargetConfig_def Let_def lines_simps
        lines_security del: split_char.simps)
qed

section \<open>What the process prints\<close>

text \<open>
  \<open>bufio.Scanner\<close>: the lines without a carriage return at their end, up to the first one that does
  not fit into its buffer of 64 KiB, where it stops for good.
\<close>

definition scan_lines :: "string \<Rightarrow> string list" where
  "scan_lines text =
     (let pieces = split_char newline text;
          raw = (if last pieces = '''' then butlast pieces else pieces)
      in map (\<lambda>l. if has_suffix [chr 13] l then butlast l else l) (takeWhile (\<lambda>l. length l < 65536) raw))"

definition containsAny :: "string \<Rightarrow> string list \<Rightarrow> bool" where
  "containsAny v needles = list_ex (\<lambda>needle. contains needle v) needles"

definition classify_line :: "string \<Rightarrow> engine_event_type" where
  "classify_line line =
     (let normalized = to_lower line
      in if containsAny normalized [''authenticat'', ''login successful'', ''nla succeeded''] then Authenticated
         else if containsAny normalized [''target''] \<and>
                 containsAny normalized [''connect failed'', ''connection refused'', ''no route to host'', ''timed out'',
                                         ''timeout'', ''unreachable''] then TargetDialFailed
         else if containsAny normalized [''logon failure'', ''login failed'', ''authentication failed'', ''credentials'',
                                         ''access denied''] then TargetLoginFailed
         else if containsAny normalized [''disconnect'', ''disconnected'', ''connection closed''] then Disconnected
         else Debug)"

definition redaction :: string where
  "redaction = ''[redacted]''"

text \<open>The value ends before a space, a tab, a comma or a semicolon.\<close>

definition value_end :: "char \<Rightarrow> bool" where
  "value_end c = (of_char c \<in> {32 :: nat, 9, 44, 59})"

text \<open>One separator; \<open>True\<close> when the value reached the end of the line and the loop is left.\<close>

definition redact_sep :: "string \<Rightarrow> string \<Rightarrow> string \<Rightarrow> string \<times> bool" where
  "redact_sep line field sep =
     (case index_of (field @ sep) line of
        None \<Rightarrow> (line, False)
      | Some idx \<Rightarrow>
          let start = idx + length (field @ sep); rest = dropWhile (\<lambda>c. \<not> value_end c) (drop start line)
          in if rest = [] then (take start line @ redaction, True)
             else (take start line @ redaction @ rest, False))"

definition redactKeyValue :: "string \<Rightarrow> string \<Rightarrow> string" where
  "redactKeyValue line field =
     (case redact_sep line field ''='' of
        (line, True) \<Rightarrow> line
      | (line, False) \<Rightarrow> fst (redact_sep line field '': ''))"

definition redactNativeEngineLogLine :: "string \<Rightarrow> string" where
  "redactNativeEngineLogLine line =
     foldl redactKeyValue line
       [''Password'', ''TargetPassword'', ''ProxyAuth'', ''PrivateKeyContent'', ''CertificateContent'']"

definition classifyNativeEngineEvent :: "string \<Rightarrow> string \<Rightarrow> engine_event" where
  "classifyNativeEngineEvent source line =
     \<lparr>ev_type = classify_line line, ev_source = source, ev_line = redactNativeEngineLogLine line, ev_code = 0\<rparr>"

text \<open>A queue of 32 events that drops what does not fit.\<close>

definition emitNativeEngineEvent :: "engine_event list \<Rightarrow> engine_event \<Rightarrow> engine_event list" where
  "emitNativeEngineEvent events event = (if length events < 32 then events @ [event] else events)"

definition scanNativeEngineEvents :: "string \<Rightarrow> string \<Rightarrow> engine_event list \<Rightarrow> engine_event list" where
  "scanNativeEngineEvents source text events =
     foldl emitNativeEngineEvent events (map (classifyNativeEngineEvent source) (scan_lines text))"

section \<open>Checks and start\<close>

text \<open>
  \<open>en_look\<close>, \<open>en_open\<close>: the error of looking a command up or opening a file; \<open>en_early\<close>: the process
  has left within a tenth of a second, with what error.
\<close>

record engine_env =
  eg_look :: "string \<Rightarrow> string option"
  eg_open :: "string \<Rightarrow> string option"
  eg_mkdir :: "string \<Rightarrow> string option"
  eg_write :: "string \<Rightarrow> string option"
  eg_stdout :: "string option"
  eg_stderr :: "string option"
  eg_start :: "string option"
  eg_early :: "string option option"

definition requireReadableFile :: "engine_env \<Rightarrow> string \<Rightarrow> string \<Rightarrow> engine_error + unit" where
  "requireReadableFile env oper path =
     (if trim_space path = '''' then engine_fail MissingError oper '''' ''path is required''
      else case eg_open env path of
             Some e \<Rightarrow> engine_fail MissingError oper path e
           | None \<Rightarrow> Inr ())"

definition ValidateNativeEngineConfig :: "engine_env \<Rightarrow> config \<Rightarrow> engine_error + unit" where
  "ValidateNativeEngineConfig env cfg =
     (let rdp = px_rdp (c_proxy cfg)
      in if \<not> native_enabled rdp then Inr ()
         else case eg_look env (NativeEngineCommand rdp) of
                Some e \<Rightarrow> engine_fail MissingError ''engine'' (NativeEngineCommand rdp) e
              | None \<Rightarrow>
                  rbind (requireReadableFile env ''certificate'' (native_cert_path rdp)) (\<lambda>_.
                  rbind (requireReadableFile env ''private key'' (native_key_path rdp)) (\<lambda>_.
                    case eg_mkdir env (NativeEngineWorkDir rdp) of
                      Some e \<Rightarrow> engine_fail ConfigError ''work dir'' (NativeEngineWorkDir rdp) e
                    | None \<Rightarrow> Inr ())))"

datatype engine_effect = WriteFile string string | Spawn string "string list"

definition Engine_Start :: "engine_env \<Rightarrow> engine_config \<Rightarrow> engine_effect list \<times> (engine_error + unit)" where
  "Engine_Start env c =
     (case validateNativeEngineRuntimeConfig c of
        Inl e \<Rightarrow> ([], Inl e)
      | Inr _ \<Rightarrow>
          let configPath = path_join (WorkDir c) ''freerdp-proxy.ini'';
              write = WriteFile configPath (renderFreeRDPProxyDynamicConfig c);
              run = Spawn (EnginePath c) [configPath]
          in case eg_mkdir env (WorkDir c) of Some e \<Rightarrow> ([], engine_fail ConfigError ''work dir'' (WorkDir c) e)
             | None \<Rightarrow> (case eg_write env configPath of
                 Some e \<Rightarrow> ([write], engine_fail ConfigError ''render config'' configPath e)
             | None \<Rightarrow> (case eg_stdout env of Some e \<Rightarrow> ([write], engine_fail StartError ''stdout pipe'' '''' e)
             | None \<Rightarrow> (case eg_stderr env of Some e \<Rightarrow> ([write], engine_fail StartError ''stderr pipe'' '''' e)
             | None \<Rightarrow> (case eg_start env of
                 Some e \<Rightarrow> ([write, run], engine_fail StartError ''start'' (EnginePath c) e)
             | None \<Rightarrow> ([write, run],
                  (case eg_early env of
                     None \<Rightarrow> Inr ()
                   | Some err \<Rightarrow> engine_fail StartError ''start'' (EnginePath c)
                       (case err of None \<Rightarrow> ''process exited during startup'' | Some e \<Rightarrow> e))))))))"

section \<open>What is shown of a line\<close>

lemma redact_sep_hit:
  assumes "index_of (field @ sep) (pre @ (field @ sep) @ v @ rest) = Some (length pre)"
    and "list_all (\<lambda>c. \<not> value_end c) v" and "rest = [] \<or> value_end (hd rest)"
  shows "redact_sep (pre @ (field @ sep) @ v @ rest) field sep =
     (pre @ (field @ sep) @ redaction @ rest, rest = [])"
proof -
  have "dropWhile (\<lambda>c. \<not> value_end c) (v @ rest) = rest"
    using assms(2,3) by (cases rest) (auto simp: list_all_iff dropWhile_append)
  hence d: "dropWhile (\<lambda>c. \<not> value_end c) (drop (length pre + length (field @ sep)) (pre @ (field @ sep) @ v @ rest)) = rest"
    by simp
  have t: "take (length pre + length (field @ sep)) (pre @ (field @ sep) @ v @ rest) = pre @ field @ sep" by simp
  show ?thesis unfolding redact_sep_def assms(1) option.case Let_def d t by simp
qed

text \<open>
  A value that follows the first occurrence of a field's name and an equals sign, up to a space, a
  tab, a comma or a semicolon, is replaced, and nothing else of the line is when the name is not
  also followed by a colon; but only that first occurrence is: a second one keeps its value, and
  so does one with a colon before a last value that ends the line.
\<close>

theorem first_value_redacted:
  assumes "index_of (field @ ''='') (pre @ (field @ ''='') @ v @ rest) = Some (length pre)"
    and "list_all (\<lambda>c. \<not> value_end c) v" and "rest = [] \<or> value_end (hd rest)"
    and "\<not> contains (field @ '': '') (pre @ (field @ ''='') @ redaction @ rest)"
  shows "redactKeyValue (pre @ (field @ ''='') @ v @ rest) field = pre @ (field @ ''='') @ redaction @ rest \<and>
    redactKeyValue ''Password=a Password=b'' ''Password'' = ''Password=[redacted] Password=b'' \<and>
    redactKeyValue ''Password: a Password=b'' ''Password'' = ''Password: a Password=[redacted]''"
proof -
  have i: "index_of (field @ '': '') (pre @ (field @ ''='') @ redaction @ rest) = None"
    using assms(4) by (simp add: contains_def)
  have "redactKeyValue (pre @ (field @ ''='') @ v @ rest) field = pre @ (field @ ''='') @ redaction @ rest"
    using i unfolding redactKeyValue_def redact_sep_hit [OF assms(1-3)] by (cases "rest = []") (simp_all add: redact_sep_def)
  moreover have "redactKeyValue ''Password=a Password=b'' ''Password'' = ''Password=[redacted] Password=b''"
    "redactKeyValue ''Password: a Password=b'' ''Password'' = ''Password: a Password=[redacted]''"
    by (simp_all add: redactKeyValue_def redact_sep_def has_prefix_def value_end_def redaction_def)
  ultimately show ?thesis by blast
qed

section \<open>What a line is taken for\<close>

lemma contains_part: "contains p q \<Longrightarrow> contains q s \<Longrightarrow> contains p s"
  unfolding contains_iff by (metis append.assoc)

text \<open>
  C18: The order of the cases decides: a line that says the authentication failed contains the first
  case's word and is reported as a successful authentication; a failed login is reported as such
  only for a line that names neither the authentication nor the target's connection.
\<close>

theorem failed_authentication_misreported:
  "(contains ''authentication failed'' (to_lower line) \<longrightarrow> classify_line line = Authenticated) \<and>
   (classify_line line = TargetLoginFailed \<longrightarrow> \<not> contains ''authentication failed'' (to_lower line))"
proof -
  have "contains ''authenticat'' ''authentication failed''" by (simp add: contains_def has_prefix_def)
  hence "contains ''authentication failed'' (to_lower line) \<Longrightarrow> classify_line line = Authenticated"
    using contains_part [of "''authenticat''" "''authentication failed''" "to_lower line"]
    by (simp add: classify_line_def containsAny_def)
  thus ?thesis by auto
qed

section \<open>What is started\<close>

lemma split_addr_port: "splitNativeListenAddr addr = Inr (host, port) \<Longrightarrow> 0 < port \<and> port \<le> 65535 \<and> host \<noteq> ''''"
  by (auto simp: splitNativeListenAddr_def engine_fail_def Let_def split: sum.splits prod.splits option.splits if_splits)

text \<open>
  The process is started only with a configuration that passed every check, a port between 1 and
  65535 among them, after the file was written; it is given the file's name alone, so neither the
  shared secret nor a password is among its arguments.
\<close>

theorem engine_started_checked:
  assumes "Engine_Start env c = (effects, r)" and "Spawn path args \<in> set effects"
  shows "path = EnginePath c \<and> args = [path_join (WorkDir c) ''freerdp-proxy.ini''] \<and>
    effects = [WriteFile (path_join (WorkDir c) ''freerdp-proxy.ini'') (renderFreeRDPProxyDynamicConfig c), Spawn path args] \<and>
    0 < ListenPort c \<and> ListenPort c \<le> 65535 \<and> trim_space (ProxyAuthSecret c) \<noteq> '''' \<and>
    trim_space (CertPath c) \<noteq> '''' \<and> trim_space (KeyPath c) \<noteq> ''''"
proof -
  have v: "validateNativeEngineRuntimeConfig c = Inr ()"
    using assms by (cases "validateNativeEngineRuntimeConfig c") (auto simp: Engine_Start_def)
  hence "0 < ListenPort c \<and> ListenPort c \<le> 65535 \<and> trim_space (ProxyAuthSecret c) \<noteq> '''' \<and>
      trim_space (CertPath c) \<noteq> '''' \<and> trim_space (KeyPath c) \<noteq> ''''"
    by (auto simp: validateNativeEngineRuntimeConfig_def engine_fail_def split: if_splits)
  thus ?thesis using assms v by (auto simp: Engine_Start_def Let_def split: option.splits)
qed

text \<open>The events shown of a process never outgrow the queue, whatever it prints.\<close>

lemma scan_bounded: "length events \<le> 32 \<Longrightarrow> length (scanNativeEngineEvents source text events) \<le> 32"
proof -
  have "length events \<le> 32 \<Longrightarrow> length (foldl emitNativeEngineEvent events more) \<le> 32" for more
    by (induction more arbitrary: events) (simp_all add: emitNativeEngineEvent_def)
  thus "length events \<le> 32 \<Longrightarrow> length (scanNativeEngineEvents source text events) \<le> 32"
    by (simp add: scanNativeEngineEvents_def)
qed

section \<open>Witnesses\<close>

definition sample_engine :: engine_config where
  "sample_engine =
     \<lparr>EnginePath = ''freerdp-proxy'', WorkDir = ''run'', ListenHost = ''0.0.0.0'', ListenPort = 33890,
      CertPath = ''cert.pem'', KeyPath = ''key.pem'',
      FixedTarget = \<lparr>nt_host = '''', nt_port = 3389, nt_username = '''', nt_password = ''''\<rparr>,
      APIBaseURL = ''http://api'', ProxyAuthSecret = ''shared'', PluginName = '''', RequiredPluginName = '''',
      MaxConnections = 20, IdleTimeout = 3600000000000\<rparr>"

definition sample_engine_env :: engine_env where
  "sample_engine_env =
     \<lparr>eg_look = (\<lambda>_. None), eg_open = (\<lambda>_. None), eg_mkdir = (\<lambda>_. None), eg_write = (\<lambda>_. None),
      eg_stdout = None, eg_stderr = None, eg_start = None, eg_early = None\<rparr>"

lemma sample_engine_valid: "validateNativeEngineRuntimeConfig sample_engine = Inr ()"
proof -
  have "trim_space t = t" if "t \<in> {''freerdp-proxy'', ''run'', ''0.0.0.0'', ''cert.pem'', ''key.pem'', ''http://api'', ''shared''}" for t
    using that by (intro trim_space_solid) (auto simp: solid_def)
  thus ?thesis by (simp add: validateNativeEngineRuntimeConfig_def sample_engine_def)
qed

theorem engine_started_checked_witness:
  "\<exists>effects r path args. Engine_Start sample_engine_env sample_engine = (effects, r) \<and> Spawn path args \<in> set effects \<and>
     args = [path_join ''run'' ''freerdp-proxy.ini'']"
proof -
  obtain effects r where s: "Engine_Start sample_engine_env sample_engine = (effects, r)" by force
  hence e: "Spawn ''freerdp-proxy'' [path_join ''run'' ''freerdp-proxy.ini''] \<in> set effects"
    using sample_engine_valid by (auto simp: Engine_Start_def sample_engine_env_def sample_engine_def Let_def)
  from engine_started_checked [OF s e] show ?thesis using s e by blast
qed

theorem first_value_redacted_witness:
  "redactKeyValue ''login Password=a, retry'' ''Password'' = ''login Password=[redacted], retry''"
proof -
  have "index_of (''Password'' @ ''='') (''login '' @ (''Password'' @ ''='') @ ''a'' @ '', retry'') = Some (length ''login '')"
    by (simp add: has_prefix_def)
  moreover have "list_all (\<lambda>c. \<not> value_end c) ''a''" by (simp add: value_end_def)
  moreover have "'', retry'' = '''' \<or> value_end (hd '', retry'')" by (simp add: value_end_def)
  moreover have "\<not> contains (''Password'' @ '': '') (''login '' @ (''Password'' @ ''='') @ redaction @ '', retry'')"
    by (simp add: contains_def has_prefix_def redaction_def)
  ultimately show ?thesis
    using first_value_redacted [of "''Password''" "''login ''" "''a''" "'', retry''"] by (simp add: redaction_def)
qed

theorem failed_authentication_misreported_witness:
  "classify_line ''authentication failed'' = Authenticated"
proof -
  have "to_lower ''authentication failed'' = ''authentication failed''"
    by (subst to_lower_ascii) (simp_all add: ascii_def lower_char_def)
  hence "contains ''authentication failed'' (to_lower ''authentication failed'')" by (simp add: contains_def has_prefix_def)
  thus ?thesis using failed_authentication_misreported [of "''authentication failed''"] by blast
qed

end
