(* ===== verification/WebTerminal.thy ===== *)
theory WebTerminal
  imports Dsn "HOL-Library.Word"
begin

text \<open>
  The database terminal in the browser (\<open>proxy/db/web_terminal.go\<close>): a \<open>usql\<close> process behind a
  pseudo terminal.  What the browser types passes a guard that holds back the client's own
  commands; what the process prints passes a scrubber that removes the connection string and the
  token from the stream.
\<close>

section \<open>The guard\<close>

definition client_command :: "string \<Rightarrow> bool" where
  "client_command line = has_prefix [chr 92] (trim_space line)"

text \<open>One byte: what is let through, and the line so far.\<close>

definition guard_byte :: "string \<Rightarrow> char \<Rightarrow> string \<times> string" where
  "guard_byte line b =
     (let n = of_char b :: nat
      in if n = 13 \<or> n = 10 then (if client_command line then [chr 21] else [b], '''')
         else if n = 3 \<or> n = 21 then ([b], '''')
         else if n = 8 \<or> n = 127 then ([b], butlast line)
         else ([b], line @ [b]))"

fun Filter :: "string \<Rightarrow> string \<Rightarrow> string \<times> string" where
  "Filter line [] = ([], line)"
| "Filter line (b # bs) =
     (case guard_byte line b of (out, line) \<Rightarrow>
      case Filter line bs of (rest, line) \<Rightarrow> (out @ rest, line))"

section \<open>Messages of the browser\<close>

record resize_message =
  rm_type :: string
  rm_rows :: int
  rm_cols :: int

text \<open>\<open>decode\<close> is the JSON library; what it cannot decode is \<open>None\<close>.\<close>

definition parseResizeMessage :: "(string \<Rightarrow> resize_message option) \<Rightarrow> string \<Rightarrow> resize_message option" where
  "parseResizeMessage decode data =
     (case decode data of
        None \<Rightarrow> None
      | Some msg \<Rightarrow> if rm_type msg \<noteq> ''resize'' \<or> rm_rows msg \<le> 0 \<or> rm_cols msg \<le> 0 then None else Some msg)"

datatype db_frame = DbBinary string | DbText string | DbOther

datatype pty_action = PtyWrite string | PtySize "16 word" "16 word" | PtyUnsupported

text \<open>\<open>decode_input\<close> gives the field \<open>data\<close>, empty if absent.\<close>

fun db_copyWSInput ::
    "(string \<Rightarrow> resize_message option) \<Rightarrow> (string \<Rightarrow> string option) \<Rightarrow> string \<Rightarrow> db_frame list \<Rightarrow> pty_action list" where
  "db_copyWSInput decode decode_input line [] = []"
| "db_copyWSInput decode decode_input line (DbBinary data # fs) =
     (case Filter line data of (out, line) \<Rightarrow> PtyWrite out # db_copyWSInput decode decode_input line fs)"
| "db_copyWSInput decode decode_input line (DbText data # fs) =
     (case parseResizeMessage decode data of
        Some msg \<Rightarrow> PtySize (of_int (rm_rows msg)) (of_int (rm_cols msg)) # db_copyWSInput decode decode_input line fs
      | None \<Rightarrow>
          let typed = (case decode_input data of Some d \<Rightarrow> if d \<noteq> '''' then d else data | None \<Rightarrow> data)
          in case Filter line typed of (out, line) \<Rightarrow> PtyWrite out # db_copyWSInput decode decode_input line fs)"
| "db_copyWSInput decode decode_input line (DbOther # fs) = [PtyUnsupported]"

section \<open>The scrubber\<close>

definition redacted :: string where
  "redacted = ''[redacted]''"

record scrubber =
  sb_values :: "string list"
  sb_tail :: string
  sb_keep :: nat

text \<open>Longest first; the order of equally long values is that of the arguments.\<close>

definition newTerminalOutputScrubber :: "string list \<Rightarrow> scrubber option" where
  "newTerminalOutputScrubber args =
     (let vs = rev (remdups (rev (filter (\<lambda>v. v \<noteq> '''') args)))
      in if vs = [] then None
         else Some \<lparr>sb_values = sort_key (\<lambda>v. - int (length v)) vs, sb_tail = '''',
                    sb_keep = foldr (\<lambda>v m. max (length v) m) vs 0 - 1\<rparr>)"

definition scrub_text :: "string list \<Rightarrow> string \<Rightarrow> string" where
  "scrub_text vs text = foldl (\<lambda>t v. replace_all v redacted t) text vs"

definition Scrub :: "scrubber \<Rightarrow> string \<Rightarrow> bool \<Rightarrow> string \<times> scrubber" where
  "Scrub s data flush =
     (let combined = scrub_text (sb_values s) (sb_tail s @ data)
      in if \<not> flush \<and> length combined \<le> sb_keep s then ('''', s\<lparr>sb_tail := combined\<rparr>)
         else let emitLen = (if flush then length combined else length combined - sb_keep s)
              in (take emitLen combined, s\<lparr>sb_tail := drop emitLen combined\<rparr>))"

text \<open>The frames sent for the chunks the process prints; the last one is the flushed tail.\<close>

fun scrubbed_frames :: "scrubber \<Rightarrow> string list \<Rightarrow> string list" where
  "scrubbed_frames s [] = [fst (Scrub s '''' True)]"
| "scrubbed_frames s (data # chunks) =
     (case Scrub s data False of (emit, s) \<Rightarrow> emit # scrubbed_frames s chunks)"

definition copyPTYOutput :: "scrubber option \<Rightarrow> string list \<Rightarrow> string list" where
  "copyPTYOutput sc chunks =
     filter (\<lambda>f. f \<noteq> '''') (case sc of None \<Rightarrow> chunks | Some s \<Rightarrow> scrubbed_frames s chunks)"

section \<open>The guard holds back the client's commands\<close>

text \<open>
  The keys the guard knows are the line breaks, the interrupt, the kill and the two erase keys;
  every other byte is part of the line to it.
\<close>

definition plain_key :: "char \<Rightarrow> bool" where
  "plain_key c = ((of_char c :: nat) \<notin> {3, 8, 10, 13, 21, 127})"

text \<open>A line of the client's own commands: after white space it starts with a backslash.\<close>

definition command_line :: "string \<Rightarrow> bool" where
  "command_line l = has_prefix [chr 92] (strip_front wide_spaces l)"

lemma backslash_solid: "solid (chr 92)"
  by (simp add: solid_def)

lemma strip_front_suffix: "\<exists>u. s = u @ strip_front ws s"
proof (induction "length s" arbitrary: s rule: less_induct)
  case less
  show ?case
  proof (cases "s \<noteq> [] \<and> 0 < space_len ws s")
    case True
    hence "length (drop (space_len ws s) s) < length s" by simp
    from less [OF this] obtain u where "drop (space_len ws s) s = u @ strip_front ws s"
      using True by (auto simp: strip_front.simps [of ws s])
    hence "s = (take (space_len ws s) s @ u) @ strip_front ws s"
      using append_take_drop_id [of "space_len ws s" s] by simp
    thus ?thesis by blast
  next
    case False
    hence "strip_front ws s = s" by (subst strip_front.simps) auto
    thus ?thesis by simp
  qed
qed

lemma client_command_iff: "client_command l \<longleftrightarrow> command_line l"
proof -
  define m where "m = strip_front wide_spaces l"
  have t: "trim_space l = rev (strip_front (map rev wide_spaces) (rev m))" by (simp add: trim_space_def m_def)
  show ?thesis
  proof (cases m)
    case Nil
    thus ?thesis using t by (simp add: client_command_def command_line_def m_def strip_front.simps [of _ "[]"])
  next
    case (Cons c r)
    obtain u where u: "rev m = u @ strip_front (map rev wide_spaces) (rev m)" using strip_front_suffix by blast
    hence m: "m = trim_space l @ rev u" using t by (metis rev_append rev_rev_ident)
    show ?thesis
    proof (cases "c = chr 92")
      case True
      obtain u' where "strip_front (map rev wide_spaces) (rev r @ c # []) = u' @ c # []"
        using strip_front_keeps [OF backslash_solid rev_spaces_solid_free [OF wide_spaces_solid_free]] True by metis
      hence "trim_space l = c # rev u'" using t Cons by simp
      thus ?thesis using True Cons by (simp add: client_command_def command_line_def m_def [symmetric])
    next
      case False
      have "\<not> command_line l" using Cons False by (simp add: command_line_def m_def [symmetric])
      moreover have "\<not> client_command l"
        using m Cons False by (cases "trim_space l") (auto simp: client_command_def)
      ultimately show ?thesis by blast
    qed
  qed
qed

lemma Filter_append:
  "Filter line (a @ b) = (let (x, line) = Filter line a; (y, line) = Filter line b in (x @ y, line))"
  by (induction a arbitrary: line) (simp_all add: Let_def split: prod.split)

lemma Filter_plain: "list_all plain_key t \<Longrightarrow> Filter line t = (t, line @ t)"
  by (induction t arbitrary: line) (simp_all add: guard_byte_def plain_key_def Let_def)

lemma Filter_lines:
  assumes "list_all (\<lambda>(l, b). list_all plain_key l \<and> (of_char b :: nat) \<in> {10, 13}) ls"
  shows "Filter '''' (concat (map (\<lambda>(l, b). l @ [b]) ls)) =
    (concat (map (\<lambda>(l, b). l @ [if command_line l then chr 21 else b]) ls), '''')"
  using assms
  by (induction ls)
    (auto simp: Filter_append Filter_plain guard_byte_def client_command_iff [symmetric] Let_def)

text \<open>What a frame types.\<close>

definition typed_in ::
    "(string \<Rightarrow> resize_message option) \<Rightarrow> (string \<Rightarrow> string option) \<Rightarrow> db_frame \<Rightarrow> string" where
  "typed_in decode decode_input f =
     (case f of
        DbBinary data \<Rightarrow> data
      | DbText data \<Rightarrow>
          if parseResizeMessage decode data \<noteq> None then ''''
          else (case decode_input data of Some d \<Rightarrow> if d \<noteq> '''' then d else data | None \<Rightarrow> data)
      | DbOther \<Rightarrow> '''')"

fun pty_bytes :: "pty_action \<Rightarrow> string" where
  "pty_bytes (PtyWrite s) = s"
| "pty_bytes a = ''''"

lemma copyWSInput_Filter:
  "DbOther \<notin> set fs \<Longrightarrow>
   concat (map pty_bytes (db_copyWSInput decode decode_input line fs)) =
   fst (Filter line (concat (map (typed_in decode decode_input) fs)))"
proof (induction fs arbitrary: line)
  case (Cons f fs)
  thus ?case
    by (cases f) (auto simp: typed_in_def Filter_append Let_def split: prod.split option.split)
qed simp



end
