(* ===== verification/ApiClient.thy ===== *)
theory ApiClient
  imports Handlers SshServer RdpServer DbTypes
begin

text \<open>
  How the proxies reach the API: the three copies of \<open>APIClient\<close> (\<open>proxy/ssh\<close>, \<open>proxy/db\<close> and
  \<open>proxy/rdp/api_client.go\<close>), the envelope of \<open>api/httpx/context.go\<close> they unpack, and the
  handlers at the other end.  JSON is a tree; what a string is after it was written and read is
  that of \<open>Json\<close>, so bytes that are no UTF-8 do not survive.  The API writes its keys in lower
  case, so that the reader's tolerance for other letter cases makes no difference.
\<close>

section \<open>JSON trees\<close>

datatype json =
    JNull
  | JBool bool
  | JInt int
  | JText string
  | JList "json list"
  | JObject "(string \<times> json) list"

primrec wire :: "json \<Rightarrow> json" where
  "wire JNull = JNull"
| "wire (JBool b) = JBool b"
| "wire (JInt i) = JInt i"
| "wire (JText s) = JText (through_json s)"
| "wire (JList js) = JList (map wire js)"
| "wire (JObject kvs) = JObject (map (map_prod id wire) kvs)"

text \<open>
  Reading into a Go value: \<open>null\<close> and a missing member leave the zero value, any other tree of
  the wrong kind is an error (\<open>None\<close>).
\<close>

fun as_object :: "json \<Rightarrow> (string \<times> json) list option" where
  "as_object (JObject kvs) = Some kvs"
| "as_object JNull = Some []"
| "as_object _ = None"

fun as_text :: "json \<Rightarrow> string option" where
  "as_text (JText s) = Some s"
| "as_text JNull = Some ''''"
| "as_text _ = None"

fun as_int :: "json \<Rightarrow> int option" where
  "as_int (JInt i) = Some i"
| "as_int JNull = Some 0"
| "as_int _ = None"

fun as_bool :: "json \<Rightarrow> bool option" where
  "as_bool (JBool b) = Some b"
| "as_bool JNull = Some False"
| "as_bool _ = None"

fun as_list :: "json \<Rightarrow> json list option" where
  "as_list (JList js) = Some js"
| "as_list JNull = Some []"
| "as_list _ = None"

text \<open>Into a pointer, which stays \<open>nil\<close>.\<close>

definition as_pointer :: "(json \<Rightarrow> 'a option) \<Rightarrow> json \<Rightarrow> 'a option option" where
  "as_pointer dec j = (if j = JNull then Some None else map_option Some (dec j))"

definition field :: "string \<Rightarrow> (string \<times> json) list \<Rightarrow> json" where
  "field k kvs = (case map_of (rev kvs) k of None \<Rightarrow> JNull | Some j \<Rightarrow> j)"

definition of_pointer :: "('a \<Rightarrow> json) \<Rightarrow> 'a option \<Rightarrow> json" where
  "of_pointer enc p = (case p of None \<Rightarrow> JNull | Some x \<Rightarrow> enc x)"

section \<open>The client\<close>

record api_client =
  kc_base :: string
  kc_secret :: string

definition NewAPIClient :: "config \<Rightarrow> api_client" where
  "NewAPIClient cfg =
     \<lparr>kc_base = trim_right (\<lambda>c. c = CHR ''/'') (api_base_url (c_proxy cfg)),
      kc_secret = pa_secret (c_proxy_auth cfg)\<rparr>"

record api_call =
  call_method :: string
  call_url :: string
  call_secret :: string
  call_body :: "json option"

text \<open>
  Sending a call: an error of the connection, or the status and the body (\<open>None\<close>: not JSON).
\<close>

type_synonym 's transport = "api_call \<Rightarrow> ('s, string, int \<times> json option) action"

text \<open>The envelope: the data, still undecoded, and the error.\<close>

definition envelope :: "json \<Rightarrow> (json option \<times> (string \<times> string) option) option" where
  "envelope j =
     Option.bind (as_object j) (\<lambda>kvs.
     Option.bind (as_pointer as_object (field ''error'' kvs)) (\<lambda>e.
       case e of
         None \<Rightarrow> Some (map_of (rev kvs) ''data'', None)
       | Some es \<Rightarrow>
           Option.bind (as_text (field ''code'' es)) (\<lambda>code.
           Option.bind (as_text (field ''message'' es)) (\<lambda>message.
             Some (map_of (rev kvs) ''data'', Some (code, message))))))"

text \<open>
  A status of 204 leaves the destination as it is, which is what decoding \<open>null\<close> does.
\<close>

definition unpack :: "int \<times> json option \<Rightarrow> string + json option" where
  "unpack = (\<lambda>(status, body).
     if status = 204 then Inr (Some JNull)
     else case Option.bind body envelope of
            None \<Rightarrow> Inl ''the answer is not an envelope''
          | Some (data, err) \<Rightarrow>
              if status < 200 \<or> 300 \<le> status
              then (case err of
                      Some (code, message) \<Rightarrow> Inl (code @ '': '' @ message)
                    | None \<Rightarrow> Inl (''status '' @ show_int status))
              else Inr data)"

definition client_do ::
    "api_client \<Rightarrow> 's transport \<Rightarrow> string \<Rightarrow> string \<Rightarrow> json option \<Rightarrow> (json \<Rightarrow> 'a option) \<Rightarrow> ('s, string, 'a) action" where
  "client_do c send method path body dec = (\<lambda>s.
     case send \<lparr>call_method = method, call_url = kc_base c @ path, call_secret = kc_secret c,
                call_body = map_option wire body\<rparr> s of
       (Inl e, s') \<Rightarrow> (Inl e, s')
     | (Inr reply, s') \<Rightarrow>
         (case unpack reply of
            Inl e \<Rightarrow> Inl e
          | Inr None \<Rightarrow> Inl ''unexpected end of JSON input''
          | Inr (Some data) \<Rightarrow> (case dec data of None \<Rightarrow> Inl ''the data does not fit'' | Some v \<Rightarrow> Inr v), s'))"

text \<open>Without a destination the data is not looked at.\<close>

definition client_send ::
    "api_client \<Rightarrow> 's transport \<Rightarrow> string \<Rightarrow> string \<Rightarrow> json option \<Rightarrow> ('s, string, unit) action" where
  "client_send c send method path body = (\<lambda>s.
     case send \<lparr>call_method = method, call_url = kc_base c @ path, call_secret = kc_secret c,
                call_body = map_option wire body\<rparr> s of
       (Inl e, s') \<Rightarrow> (Inl e, s')
     | (Inr reply, s') \<Rightarrow> (case unpack reply of Inl e \<Rightarrow> Inl e | Inr _ \<Rightarrow> Inr (), s'))"

definition verify_path :: string where
  "verify_path = ''/api/v1/authentication/super-connection-tokens/verify/''"

definition sessions_path :: string where
  "sessions_path = ''/api/v1/proxy/sessions''"

definition session_path :: "int \<Rightarrow> string" where
  "session_path i = sessions_path @ ''/'' @ show_int i"

section \<open>Verifying a token\<close>

definition verify_body :: "string \<Rightarrow> string \<Rightarrow> string \<Rightarrow> bool \<Rightarrow> json" where
  "verify_body token remoteAddr expected consume =
     JObject [(''token'', JText token), (''remote_addr'', JText remoteAddr),
              (''expected_protocol'', JText expected), (''consume'', JBool consume)]"

definition dec_target :: "json \<Rightarrow> targetConfig option" where
  "dec_target j =
     Option.bind (as_object j) (\<lambda>t.
     Option.bind (as_text (field ''address'' t)) (\<lambda>address.
     Option.bind (as_int (field ''port'' t)) (\<lambda>port.
     Option.bind (as_text (field ''protocol'' t)) (\<lambda>protocol.
       Some \<lparr>Address = address, Port = port, Protocol = protocol\<rparr>))))"

definition default_port :: "int \<Rightarrow> targetConfig \<Rightarrow> targetConfig" where
  "default_port p t = (if Port t = 0 then t\<lparr>Port := p\<rparr> else t)"

text \<open>User, asset and account of the token.\<close>

definition dec_ids :: "json \<Rightarrow> (int \<times> int \<times> int) option" where
  "dec_ids j =
     Option.bind (as_object j) (\<lambda>t.
     Option.bind (as_int (field ''user_id'' t)) (\<lambda>user.
     Option.bind (as_int (field ''asset_id'' t)) (\<lambda>asset.
     Option.bind (as_int (field ''account_id'' t)) (\<lambda>account.
       Some (user, asset, account)))))"

definition dec_ssh_account :: "json \<Rightarrow> ssh_account option" where
  "dec_ssh_account j =
     Option.bind (as_object j) (\<lambda>t.
     Option.bind (as_text (field ''username'' t)) (\<lambda>username.
     Option.bind (as_text (field ''secret'' t)) (\<lambda>secret.
     Option.bind (as_text (field ''secret_type'' t)) (\<lambda>secret_type.
     Option.bind (as_text (field ''ssh_key_type'' t)) (\<lambda>ssh_key_type.
     Option.bind (as_text (field ''passphrase'' t)) (\<lambda>passphrase.
     Option.bind (as_bool (field ''su_enabled'' t)) (\<lambda>su_enabled.
     Option.bind (as_text (field ''su_method'' t)) (\<lambda>su_method.
     Option.bind (as_pointer as_int (field ''su_account_id'' t)) (\<lambda>su_account_id.
     Option.bind (as_text (field ''db_name'' t)) (\<lambda>db_name.
       Some \<lparr>sa_username = username, sa_secret = secret, sa_secret_type = secret_type,
             sa_ssh_key_type = ssh_key_type, sa_passphrase = passphrase, sa_su_enabled = su_enabled,
             sa_su_method = su_method, sa_su_account_id = su_account_id, sa_db_name = db_name\<rparr>))))))))))"

definition dec_ssh_auth :: "json \<Rightarrow> ssh_auth option" where
  "dec_ssh_auth j =
     Option.bind (as_object j) (\<lambda>out.
     Option.bind (dec_ids (field ''token'' out)) (\<lambda>(user, asset, account).
     Option.bind (dec_target (field ''target'' out)) (\<lambda>target.
     Option.bind (dec_ssh_account (field ''account'' out)) (\<lambda>acc.
       Some \<lparr>au_target = default_port 22 target, au_account = acc, au_user_id = user,
             au_asset_id = asset, au_account_id = account\<rparr>))))"

definition ssh_VerifyConnectionToken ::
    "api_client \<Rightarrow> 's transport \<Rightarrow> string \<Rightarrow> string \<Rightarrow> ('s, string, ssh_auth) action" where
  "ssh_VerifyConnectionToken c send token remoteAddr =
     client_do c send ''POST'' verify_path (Some (verify_body token remoteAddr ''ssh'' True)) dec_ssh_auth"

definition dec_db_auth :: "json \<Rightarrow> authResult option" where
  "dec_db_auth j =
     Option.bind (as_object j) (\<lambda>out.
     Option.bind (dec_ids (field ''token'' out)) (\<lambda>(user, asset, account).
     Option.bind (Option.bind (as_object (field ''token'' out)) (\<lambda>t. as_text (field ''connect_method'' t))) (\<lambda>connect_method.
     Option.bind (dec_target (field ''target'' out)) (\<lambda>target.
     Option.bind (as_object (field ''account'' out)) (\<lambda>t.
     Option.bind (as_text (field ''username'' t)) (\<lambda>username.
     Option.bind (as_text (field ''secret'' t)) (\<lambda>secret.
     Option.bind (as_text (field ''secret_type'' t)) (\<lambda>secret_type.
     Option.bind (as_text (field ''db_name'' t)) (\<lambda>db_name.
       Some \<lparr>Target = default_port (protocolDefaultPort (Protocol target)) target,
             Account = \<lparr>AccUsername = username, Secret = secret, SecretType = secret_type, DBName = db_name\<rparr>,
             AuthUserID = user, AuthAssetID = asset, AuthAccountID = account,
             AuthConnectMethod = connect_method\<rparr>)))))))))"

definition verifyConnectionToken ::
    "api_client \<Rightarrow> 's transport \<Rightarrow> string \<Rightarrow> string \<Rightarrow> string \<Rightarrow> bool \<Rightarrow> ('s, string, authResult) action" where
  "verifyConnectionToken c send token remoteAddr expected consume =
     client_do c send ''POST'' verify_path (Some (verify_body token remoteAddr expected consume)) dec_db_auth"

definition dec_rdp_account :: "json \<Rightarrow> rdp_account option" where
  "dec_rdp_account j =
     Option.bind (as_object j) (\<lambda>t.
     Option.bind (as_text (field ''username'' t)) (\<lambda>username.
     Option.bind (as_text (field ''secret'' t)) (\<lambda>secret.
     Option.bind (as_text (field ''secret_type'' t)) (\<lambda>secret_type.
       Some \<lparr>rd_username = username, rd_secret = secret, rd_secret_type = secret_type\<rparr>))))"

definition rdp_port :: "targetConfig \<Rightarrow> targetConfig" where
  "rdp_port t = (if isRDPProtocol (Protocol t) then default_port 3389 t else t)"

definition dec_rdp_auth :: "json \<Rightarrow> rdp_auth option" where
  "dec_rdp_auth j =
     Option.bind (as_object j) (\<lambda>out.
     Option.bind (dec_ids (field ''token'' out)) (\<lambda>(user, asset, account).
     Option.bind (dec_target (field ''target'' out)) (\<lambda>target.
     Option.bind (dec_rdp_account (field ''account'' out)) (\<lambda>acc.
       Some \<lparr>rx_target = rdp_port target, rx_account = acc, rx_user_id = user, rx_asset_id = asset,
             rx_account_id = account\<rparr>))))"

definition rdp_VerifyConnectionToken ::
    "api_client \<Rightarrow> 's transport \<Rightarrow> string \<Rightarrow> string \<Rightarrow> ('s, string, rdp_auth) action" where
  "rdp_VerifyConnectionToken c send token remoteAddr =
     client_do c send ''POST'' verify_path (Some (verify_body token remoteAddr ''rdp'' True)) dec_rdp_auth"

text \<open>The native resolver answers without the token around the ids.\<close>

definition dec_native_auth :: "json \<Rightarrow> rdp_auth option" where
  "dec_native_auth j =
     Option.bind (as_object j) (\<lambda>out.
     Option.bind (dec_ids j) (\<lambda>(user, asset, account).
     Option.bind (dec_target (field ''target'' out)) (\<lambda>target.
     Option.bind (dec_rdp_account (field ''account'' out)) (\<lambda>acc.
       Some \<lparr>rx_target = rdp_port target, rx_account = acc, rx_user_id = user, rx_asset_id = asset,
             rx_account_id = account\<rparr>))))"

definition resolve_path :: string where
  "resolve_path = ''/api/v1/proxy/rdp-native/resolve''"

definition native_body :: "string \<Rightarrow> string \<Rightarrow> string \<Rightarrow> json" where
  "native_body route password remoteAddr =
     JObject [(''route_username'', JText route), (''password'', JText password), (''remote_addr'', JText remoteAddr)]"

definition ResolveNativeRDP ::
    "api_client \<Rightarrow> 's transport \<Rightarrow> string \<Rightarrow> string \<Rightarrow> string \<Rightarrow> ('s, string, rdp_auth) action" where
  "ResolveNativeRDP c send route password remoteAddr =
     client_do c send ''POST'' resolve_path (Some (native_body route password remoteAddr)) dec_native_auth"


section \<open>Sessions, settings, rules, keys, audit entries\<close>

definition dec_id :: "json \<Rightarrow> int option" where
  "dec_id j = Option.bind (as_object j) (\<lambda>out. as_int (field ''id'' out))"

definition ssh_CreateSession ::
    "api_client \<Rightarrow> 's transport \<Rightarrow> ssh_info \<Rightarrow> string \<Rightarrow> ('s, string, int) action" where
  "ssh_CreateSession c send info recordingPath =
     client_do c send ''POST'' sessions_path
       (Some (JObject
         [(''user_id'', JInt (in_user info)), (''asset_id'', JInt (in_asset info)),
          (''account_id'', JInt (in_account info)), (''protocol'', JText (in_protocol info)),
          (''type'', JText (or_default (in_type info) ''normal'')), (''login_from'', JText (in_method info)),
          (''remote_addr'', JText (in_remote info)), (''recording_path'', JText recordingPath)])) dec_id"

definition db_CreateSession :: "api_client \<Rightarrow> 's transport \<Rightarrow> sessionInfo \<Rightarrow> ('s, string, sessionInfo) action" where
  "db_CreateSession c send session =
     client_do c send ''POST'' sessions_path
       (Some (JObject
         [(''user_id'', JInt (SiUserID session)), (''asset_id'', JInt (SiAssetID session)),
          (''account_id'', JInt (SiAccountID session)), (''protocol'', JText (SiProtocol session)),
          (''type'', JText (or_default (SiType session) ''db_proxy'')),
          (''login_from'', JText (or_default (SiConnectMethod session) ''db_client'')),
          (''remote_addr'', JText (SiRemoteAddr session))]))
       (\<lambda>j. map_option (\<lambda>i. session\<lparr>SiSessionID := i\<rparr>) (dec_id j))"

definition rdp_CreateSession :: "api_client \<Rightarrow> 's transport \<Rightarrow> rdp_session \<Rightarrow> ('s, string, int) action" where
  "rdp_CreateSession c send session =
     client_do c send ''POST'' sessions_path
       (Some (JObject
         [(''user_id'', JInt (ri_user_id session)), (''asset_id'', JInt (ri_asset_id session)),
          (''account_id'', JInt (ri_account_id session)), (''protocol'', JText (ri_protocol session)),
          (''type'', JText (or_default (ri_type session) ''rdp'')),
          (''login_from'', JText (or_default (ri_connect_method session) ''web_rdp'')),
          (''remote_addr'', JText (ri_remote_addr session)),
          (''recording_path'', JText (ri_recording_path session))])) dec_id"

definition client_FinishSession :: "api_client \<Rightarrow> 's transport \<Rightarrow> int \<Rightarrow> string \<Rightarrow> ('s, string, unit) action" where
  "client_FinishSession c send i recordingPath =
     client_send c send ''PATCH'' (session_path i)
       (Some (JObject [(''is_finished'', JBool True), (''recording_path'', JText recordingPath)]))"

definition db_FinishSession :: "api_client \<Rightarrow> 's transport \<Rightarrow> int \<Rightarrow> ('s, string, unit) action" where
  "db_FinishSession c send i =
     client_send c send ''PATCH'' (session_path i) (Some (JObject [(''is_finished'', JBool True)]))"

definition dec_session_info :: "json \<Rightarrow> sessionInfo option" where
  "dec_session_info j =
     Option.bind (as_object j) (\<lambda>out.
     Option.bind (as_int (field ''id'' out)) (\<lambda>i.
     Option.bind (dec_ids j) (\<lambda>(user, asset, account).
     Option.bind (as_text (field ''protocol'' out)) (\<lambda>protocol.
     Option.bind (as_text (field ''type'' out)) (\<lambda>type.
     Option.bind (as_text (field ''login_from'' out)) (\<lambda>login_from.
     Option.bind (as_text (field ''remote_addr'' out)) (\<lambda>remote_addr.
     Option.bind (as_bool (field ''is_finished'' out)) (\<lambda>is_finished.
       Some \<lparr>SiUserID = user, SiAssetID = asset, SiAccountID = account, SiProtocol = protocol,
             SiType = type, SiConnectMethod = login_from, SiRemoteAddr = remote_addr, SiSessionID = i,
             SiIsFinished = is_finished\<rparr>))))))))"

definition db_GetSession :: "api_client \<Rightarrow> 's transport \<Rightarrow> int \<Rightarrow> ('s, string, sessionInfo) action" where
  "db_GetSession c send i = client_do c send ''GET'' (session_path i) None dec_session_info"

text \<open>The audit entries of the database proxies; nobody's entry has no user.\<close>

definition audit_path :: string where
  "audit_path = ''/api/v1/proxy/audit-logs''"

definition db_Audit ::
    "api_client \<Rightarrow> 's transport \<Rightarrow> int \<Rightarrow> string \<Rightarrow> string \<Rightarrow> string \<Rightarrow> string \<Rightarrow> ('s, string, unit) action" where
  "db_Audit c send userID act resource remoteAddr detail =
     client_send c send ''POST'' audit_path
       (Some (JObject
         [(''user_id'', if 0 < userID then JInt userID else JNull), (''action'', JText act),
          (''resource'', JText resource), (''remote_addr'', JText remoteAddr), (''detail'', JText detail)]))"

definition acls_path :: string where
  "acls_path = ''/api/v1/proxy/command-filter-acls''"

definition dec_rule :: "json \<Rightarrow> filter_rule option" where
  "dec_rule j =
     Option.bind (as_object j) (\<lambda>r.
     Option.bind (as_int (field ''id'' r)) (\<lambda>i.
     Option.bind (as_text (field ''name'' r)) (\<lambda>name.
     Option.bind (as_text (field ''pattern'' r)) (\<lambda>pattern.
     Option.bind (as_text (field ''action'' r)) (\<lambda>act.
       Some \<lparr>fr_id = i, fr_name = name, fr_pattern = pattern, fr_action = act\<rparr>)))))"

definition client_ListCommandFilterACLs :: "api_client \<Rightarrow> 's transport \<Rightarrow> ('s, string, filter_rule list) action" where
  "client_ListCommandFilterACLs c send =
     client_do c send ''GET'' acls_path None (\<lambda>j. Option.bind (as_list j) (\<lambda>js. those (map dec_rule js)))"

definition host_keys_path :: string where
  "host_keys_path = ''/api/v1/proxy/ssh/host-keys''"

definition client_GetHostKeys :: "api_client \<Rightarrow> 's transport \<Rightarrow> ('s, string, string list) action" where
  "client_GetHostKeys c send =
     client_do c send ''GET'' host_keys_path None
       (\<lambda>j. Option.bind (as_list j) (\<lambda>js.
          those (map (\<lambda>k. Option.bind (as_object k) (\<lambda>kvs. as_text (field ''private_key'' kvs))) js)))"

section \<open>The other end\<close>

text \<open>
  What the handlers need besides: the draws of the call, the address of the caller, the texts of
  the errors, how times are written and read, and the members of a verified token that no proxy
  reads.
\<close>

record api_end =
  ae_server :: server
  ae_draws :: draws
  ae_client_ip :: string
  ae_message :: "string \<Rightarrow> string"
  ae_show_time :: "time \<Rightarrow> string"
  ae_parse_time :: "string \<Rightarrow> time option"
  ae_user :: "user \<Rightarrow> json"
  ae_asset :: "asset \<Rightarrow> json"

definition time_json :: "api_end \<Rightarrow> time \<Rightarrow> json" where
  "time_json e t = JText (ae_show_time e t)"

definition token_json :: "api_end \<Rightarrow> connection_token \<Rightarrow> json" where
  "token_json e t = JObject
     ([(''id'', JInt (t_id t)), (''value'', JText (t_value t)), (''user_id'', JInt (t_user_id t)),
       (''asset_id'', JInt (t_asset_id t)), (''account_id'', JInt (t_account_id t)),
       (''protocol'', JText (t_protocol t)), (''connect_method'', JText (t_connect_method t)),
       (''is_reusable'', JBool (t_is_reusable t)), (''connect_options'', JText (t_connect_options t))] @
      (case t_used_at t of None \<Rightarrow> [] | Some u \<Rightarrow> [(''used_at'', time_json e u)]) @
      [(''expires_at'', time_json e (t_expires_at t)), (''created_at'', time_json e (t_created_at t))])"

definition target_json :: "string \<Rightarrow> int \<Rightarrow> string \<Rightarrow> json" where
  "target_json address port protocol =
     JObject [(''address'', JText address), (''port'', JInt port), (''protocol'', JText protocol)]"

definition verify_json :: "api_end \<Rightarrow> verify_result \<Rightarrow> json" where
  "verify_json e r = JObject
     [(''token'', token_json e (vr_token r)), (''user'', ae_user e (vr_user r)), (''asset'', ae_asset e (vr_asset r)),
      (''account'', let a = vr_account r in JObject
         [(''id'', JInt (ac_id a)), (''username'', JText (ac_username a)), (''secret'', JText (ac_secret a)),
          (''secret_type'', JText (ac_secret_type a)), (''ssh_key_type'', JText (ac_ssh_key_type a)),
          (''passphrase'', JText (ac_passphrase a)), (''su_enabled'', JBool (ac_su_enabled a)),
          (''su_method'', JText (ac_su_method a)), (''su_account_id'', of_pointer JInt (ac_su_account_id a)),
          (''db_name'', JText (ac_db_name a))]),
      (''target'', target_json (vr_address r) (vr_port r) (vr_protocol r))]"

definition resolved_json :: "native_resolved \<Rightarrow> json" where
  "resolved_json r = JObject
     [(''user_id'', JInt (nr_user_id r)), (''asset_id'', JInt (nr_asset_id r)), (''account_id'', JInt (nr_account_id r)),
      (''target'', target_json (nr_address r) (nr_port r) (nr_protocol r)),
      (''account'', JObject [(''username'', JText (nr_username r)), (''secret'', JText (nr_secret r)),
                            (''secret_type'', JText (nr_secret_type r))])]"

definition session_json :: "api_end \<Rightarrow> session \<Rightarrow> json" where
  "session_json e s = JObject
     ([(''id'', JInt (s_id s)), (''user_id'', JInt (s_user_id s)), (''asset_id'', JInt (s_asset_id s)),
       (''account_id'', JInt (s_account_id s)), (''protocol'', JText (s_protocol s)), (''type'', JText (s_type s)),
       (''login_from'', JText (s_login_from s)), (''remote_addr'', JText (s_remote_addr s)),
       (''recording_path'', JText (s_recording_path s)), (''is_finished'', JBool (s_is_finished s)),
       (''date_start'', time_json e (s_date_start s))] @
      (case s_date_end s of None \<Rightarrow> [] | Some t \<Rightarrow> [(''date_end'', time_json e t)]) @
      [(''created_at'', time_json e (s_created_at s)), (''updated_at'', time_json e (s_updated_at s))])"

definition rule_json :: "filter_rule \<Rightarrow> json" where
  "rule_json r = JObject
     [(''id'', JInt (fr_id r)), (''name'', JText (fr_name r)), (''pattern'', JText (fr_pattern r)),
      (''action'', JText (fr_action r))]"

definition key_json :: "host_key \<Rightarrow> json" where
  "key_json k = JObject
     [(''algorithm'', JText (hk_algorithm k)), (''fingerprint'', JText (hk_fingerprint k)),
      (''private_key'', JText (hk_private_key k)), (''public_key'', JText (hk_public_key k))]"

text \<open>The bodies the handlers bind.\<close>

definition bind_verify :: "json \<Rightarrow> (string \<times> string \<times> string \<times> bool option) option" where
  "bind_verify j =
     Option.bind (as_object j) (\<lambda>b.
     Option.bind (as_text (field ''token'' b)) (\<lambda>token.
     Option.bind (as_text (field ''remote_addr'' b)) (\<lambda>remote.
     Option.bind (as_text (field ''expected_protocol'' b)) (\<lambda>expected.
     Option.bind (as_pointer as_bool (field ''consume'' b)) (\<lambda>consume.
       Some (token, remote, expected, consume))))))"

definition bind_native :: "json \<Rightarrow> native_input option" where
  "bind_native j =
     Option.bind (as_object j) (\<lambda>b.
     Option.bind (as_text (field ''route_username'' b)) (\<lambda>route.
     Option.bind (as_text (field ''password'' b)) (\<lambda>password.
     Option.bind (as_text (field ''remote_addr'' b)) (\<lambda>remote.
       Some \<lparr>ni_route_username = route, ni_password = password, ni_remote_addr = remote\<rparr>))))"

definition as_time :: "api_end \<Rightarrow> json \<Rightarrow> time option" where
  "as_time e j = (if j = JNull then Some 0 else Option.bind (as_text j) (ae_parse_time e))"

definition bind_session :: "api_end \<Rightarrow> json \<Rightarrow> session option" where
  "bind_session e j =
     Option.bind (as_object j) (\<lambda>b.
     Option.bind (as_int (field ''id'' b)) (\<lambda>i.
     Option.bind (dec_ids j) (\<lambda>(user, asset, account).
     Option.bind (as_text (field ''protocol'' b)) (\<lambda>protocol.
     Option.bind (as_text (field ''type'' b)) (\<lambda>type.
     Option.bind (as_text (field ''login_from'' b)) (\<lambda>login_from.
     Option.bind (as_text (field ''remote_addr'' b)) (\<lambda>remote_addr.
     Option.bind (as_text (field ''recording_path'' b)) (\<lambda>recording_path.
     Option.bind (as_bool (field ''is_finished'' b)) (\<lambda>is_finished.
     Option.bind (as_time e (field ''date_start'' b)) (\<lambda>date_start.
     Option.bind (as_pointer (as_time e) (field ''date_end'' b)) (\<lambda>date_end.
     Option.bind (as_time e (field ''created_at'' b)) (\<lambda>created_at.
     Option.bind (as_time e (field ''updated_at'' b)) (\<lambda>updated_at.
       Some \<lparr>s_id = i, s_user_id = user, s_asset_id = asset, s_account_id = account, s_protocol = protocol,
             s_type = type, s_login_from = login_from, s_remote_addr = remote_addr,
             s_recording_path = recording_path, s_is_finished = is_finished, s_date_start = date_start,
             s_date_end = date_end, s_created_at = created_at, s_updated_at = updated_at\<rparr>)))))))))))))"

definition bind_update :: "json \<Rightarrow> (bool \<times> string) option" where
  "bind_update j =
     Option.bind (as_object j) (\<lambda>b.
     Option.bind (as_bool (field ''is_finished'' b)) (\<lambda>finished.
     Option.bind (as_text (field ''recording_path'' b)) (\<lambda>path.
       Some (finished, path))))"

definition bind_audit :: "json \<Rightarrow> (int option \<times> string \<times> string \<times> string \<times> string) option" where
  "bind_audit j =
     Option.bind (as_object j) (\<lambda>b.
     Option.bind (as_pointer as_int (field ''user_id'' b)) (\<lambda>user.
     Option.bind (as_text (field ''action'' b)) (\<lambda>act.
     Option.bind (as_text (field ''resource'' b)) (\<lambda>resource.
     Option.bind (as_text (field ''remote_addr'' b)) (\<lambda>remote.
     Option.bind (as_text (field ''detail'' b)) (\<lambda>detail.
       Some (user, act, resource, remote, detail)))))))"

text \<open>A reply on the wire.\<close>

definition reply_json :: "api_end \<Rightarrow> ('a \<Rightarrow> json) \<Rightarrow> 'a reply \<Rightarrow> int \<times> json option" where
  "reply_json e enc r =
     (case r of
        Reply status data \<Rightarrow> (status, Some (wire (JObject [(''data'', enc data)])))
      | Refused status code \<Rightarrow>
          (status, Some (wire (JObject [(''error'', JObject [(''code'', JText code), (''message'', JText (ae_message e code))])])))
      | Empty status \<Rightarrow> (status, None)
      | Redirect status _ \<Rightarrow> (status, None)
      | Attachment _ _ \<Rightarrow> (200, None))"

definition served :: "api_end \<Rightarrow> ('a \<Rightarrow> json) \<Rightarrow> 'a api_handler \<Rightarrow> (api, string, int \<times> json option) action" where
  "served e enc h = (\<lambda>a. case h a of (r, a') \<Rightarrow> (Inr (reply_json e enc r), a'))"

definition call_request :: "api_end \<Rightarrow> api_call \<Rightarrow> string \<Rightarrow> http_request" where
  "call_request e call param =
     \<lparr>hq_method = call_method call, hq_route = '''', hq_path = '''', hq_authorization = '''',
      hq_proxy_auth = call_secret call, hq_client_ip = ae_client_ip e, hq_param = (\<lambda>_. param),
      hq_query = (\<lambda>_. ''''), hq_host = '''', hq_forwarded_host = ''''\<rparr>"

text \<open>The calls the proxies make, as the router hands them out (\<open>Router\<close> has the table).\<close>

definition api_transport :: "api_end \<Rightarrow> string \<Rightarrow> api transport" where
  "api_transport e base call =
     (let method = call_method call; path = drop (length base) (call_url call);
          sv = ae_server e; dw = ae_draws e; req = call_request e call '''';
          prefix = sessions_path @ ''/'';
          item = call_request e call (drop (length prefix) path);
          body = call_body call
      in if method = ''POST'' \<and> path = verify_path
         then served e (verify_json e) (h_VerifyConnectionToken sv dw req (Option.bind body bind_verify))
         else if method = ''POST'' \<and> path = resolve_path
         then served e resolved_json (h_ProxyResolveNativeRDP sv req (Option.bind body bind_native))
         else if method = ''POST'' \<and> path = sessions_path
         then served e (session_json e) (h_ProxyCreateSession sv req (Option.bind body (bind_session e)))
         else if method = ''PATCH'' \<and> has_prefix prefix path
         then served e (session_json e) (h_ProxyUpdateSession sv dw item (Option.bind body bind_update))
         else if method = ''GET'' \<and> has_prefix prefix path
         then served e (session_json e) (h_ProxyGetSession sv item)
         else if method = ''POST'' \<and> path = audit_path
         then served e (\<lambda>_. JNull) (h_ProxyCreateAuditLog sv req (Option.bind body bind_audit))
         else if method = ''GET'' \<and> path = acls_path
         then served e (\<lambda>rs. JList (map rule_json rs)) (h_ProxyCommandFilterACLs sv req)
         else if method = ''GET'' \<and> path = host_keys_path
         then served e (\<lambda>ks. JList (map key_json ks)) (h_ProxyHostKeys sv req)
         else (\<lambda>a. (Inr (404, None), a)))"


section \<open>What a proxy is told\<close>

text \<open>The error a client makes of a refusal.\<close>

definition refusal :: "api_end \<Rightarrow> error \<Rightarrow> string" where
  "refusal e err =
     (case (Error err :: unit reply) of
        Refused _ code \<Rightarrow> through_json code @ '': '' @ through_json (ae_message e code)
      | _ \<Rightarrow> '''')"

definition ssh_auth_of :: "verify_result \<Rightarrow> ssh_auth" where
  "ssh_auth_of r =
     (let a = vr_account r; t = vr_token r; tj = through_json
      in \<lparr>au_target = default_port 22 \<lparr>Address = tj (vr_address r), Port = vr_port r, Protocol = tj (vr_protocol r)\<rparr>,
          au_account = \<lparr>sa_username = tj (ac_username a), sa_secret = tj (ac_secret a),
                        sa_secret_type = tj (ac_secret_type a), sa_ssh_key_type = tj (ac_ssh_key_type a),
                        sa_passphrase = tj (ac_passphrase a), sa_su_enabled = ac_su_enabled a,
                        sa_su_method = tj (ac_su_method a), sa_su_account_id = ac_su_account_id a,
                        sa_db_name = tj (ac_db_name a)\<rparr>,
          au_user_id = t_user_id t, au_asset_id = t_asset_id t, au_account_id = t_account_id t\<rparr>)"

definition db_auth_of :: "verify_result \<Rightarrow> authResult" where
  "db_auth_of r =
     (let a = vr_account r; t = vr_token r; tj = through_json; protocol = tj (vr_protocol r)
      in \<lparr>Target = default_port (protocolDefaultPort protocol)
                    \<lparr>Address = tj (vr_address r), Port = vr_port r, Protocol = protocol\<rparr>,
          Account = \<lparr>AccUsername = tj (ac_username a), Secret = tj (ac_secret a),
                     SecretType = tj (ac_secret_type a), DBName = tj (ac_db_name a)\<rparr>,
          AuthUserID = t_user_id t, AuthAssetID = t_asset_id t, AuthAccountID = t_account_id t,
          AuthConnectMethod = tj (t_connect_method t)\<rparr>)"

definition rdp_auth_of :: "verify_result \<Rightarrow> rdp_auth" where
  "rdp_auth_of r =
     (let a = vr_account r; t = vr_token r; tj = through_json
      in \<lparr>rx_target = rdp_port \<lparr>Address = tj (vr_address r), Port = vr_port r, Protocol = tj (vr_protocol r)\<rparr>,
          rx_account = \<lparr>rd_username = tj (ac_username a), rd_secret = tj (ac_secret a), rd_secret_type = tj (ac_secret_type a)\<rparr>,
          rx_user_id = t_user_id t, rx_asset_id = t_asset_id t, rx_account_id = t_account_id t\<rparr>)"

definition native_auth_of :: "native_resolved \<Rightarrow> rdp_auth" where
  "native_auth_of r =
     (let tj = through_json
      in \<lparr>rx_target = rdp_port \<lparr>Address = tj (nr_address r), Port = nr_port r, Protocol = tj (nr_protocol r)\<rparr>,
          rx_account = \<lparr>rd_username = tj (nr_username r), rd_secret = tj (nr_secret r), rd_secret_type = tj (nr_secret_type r)\<rparr>,
          rx_user_id = nr_user_id r, rx_asset_id = nr_asset_id r, rx_account_id = nr_account_id r\<rparr>)"

text \<open>The result of a call in terms of what the service behind it returned.\<close>

definition told :: "api_end \<Rightarrow> ('a \<Rightarrow> 'b) \<Rightarrow> (api, error, 'a) action \<Rightarrow> (api, string, 'b) action" where
  "told e f m = (\<lambda>a. case m a of (Inl err, a') \<Rightarrow> (Inl (refusal e err), a') | (Inr x, a') \<Rightarrow> (Inr (f x), a'))"

definition if_admitted :: "api_end \<Rightarrow> string \<Rightarrow> (api, error, 'a) action \<Rightarrow> (api, error, 'a) action" where
  "if_admitted e secret m =
     (if AuthorizeProxy (hv_tokens (ae_server e)) secret (ae_client_ip e) then m else throw ErrUnauthorized)"

lemma error_shape: "\<exists>status code. (Error err :: 'a reply) = Refused status code \<and> (Error err :: 'b reply) = Refused status code \<and>
    status \<noteq> 204 \<and> \<not> (200 \<le> status \<and> status < 300)"
  by (auto simp: Error_def)

lemma unpack_refusal: "unpack (reply_json e enc (Error err :: 'a reply)) = Inl (refusal e err)"
proof -
  obtain status code where s: "(Error err :: 'a reply) = Refused status code" "(Error err :: unit reply) = Refused status code"
      "status \<noteq> 204" "\<not> (200 \<le> status \<and> status < 300)"
    using error_shape [of err] by blast
  have "unpack (reply_json e enc (Refused status code)) = Inl (through_json code @ '': '' @ through_json (ae_message e code))"
    using s(3,4) by (auto simp: unpack_def reply_json_def envelope_def field_def as_pointer_def)
  thus ?thesis using s(1,2) by (simp add: refusal_def)
qed

lemma unpack_data:
  "200 \<le> status \<Longrightarrow> status < 300 \<Longrightarrow> status \<noteq> 204 \<Longrightarrow>
   unpack (reply_json e enc (Reply status d)) = Inr (Some (wire (enc d)))"
  by (simp add: unpack_def reply_json_def envelope_def field_def as_pointer_def)

lemma unpack_empty: "unpack (reply_json e enc NoContent) = Inr (Some JNull)"
  by (simp add: unpack_def reply_json_def NoContent_def)

lemma client_do_told:
  assumes "send \<lparr>call_method = method, call_url = kc_base c @ path, call_secret = kc_secret c,
      call_body = map_option wire body\<rparr> = served e enc (answer (JSON status) m)"
    and "status = 200 \<or> status = 201" and "\<And>x. dec (wire (enc x)) = Some (f x)"
  shows "client_do c send method path body dec = told e f m"
proof
  fix a
  show "client_do c send method path body dec a = told e f m a"
    using assms unpack_data [of status e enc]
    by (cases "m a" rule: prod.exhaust)
       (auto simp: client_do_def told_def served_def answer_def JSON_def unpack_refusal split: sum.splits)
qed

lemma proxied_answer:
  "proxied sv req (answer ok m) = answer ok (if proxyAuthorized sv req then m else throw ErrUnauthorized)"
  by (simp add: proxied_def answer_def refuse_def throw_def fun_eq_iff)


lemmas json_defs = field_def as_pointer_def of_pointer_def time_json_def target_json_def dec_ids_def dec_target_def

lemma dec_ids_token: "dec_ids (wire (token_json e t)) = Some (t_user_id t, t_asset_id t, t_account_id t)"
  by (cases "t_used_at t") (simp_all add: json_defs token_json_def)

lemma token_connect_method:
  "Option.bind (as_object (wire (token_json e t))) (\<lambda>t. as_text (field ''connect_method'' t)) = Some (through_json (t_connect_method t))"
  by (cases "t_used_at t") (simp_all add: json_defs token_json_def)

lemma dec_target_json:
  "dec_target (wire (target_json address port protocol)) =
    Some \<lparr>Address = through_json address, Port = port, Protocol = through_json protocol\<rparr>"
  by (simp add: json_defs)

lemma verify_members:
  "as_object (wire (verify_json e r)) = Some (map (map_prod id wire)
     [(''token'', token_json e (vr_token r)), (''user'', ae_user e (vr_user r)), (''asset'', ae_asset e (vr_asset r)),
      (''account'', let a = vr_account r in JObject
         [(''id'', JInt (ac_id a)), (''username'', JText (ac_username a)), (''secret'', JText (ac_secret a)),
          (''secret_type'', JText (ac_secret_type a)), (''ssh_key_type'', JText (ac_ssh_key_type a)),
          (''passphrase'', JText (ac_passphrase a)), (''su_enabled'', JBool (ac_su_enabled a)),
          (''su_method'', JText (ac_su_method a)), (''su_account_id'', of_pointer JInt (ac_su_account_id a)),
          (''db_name'', JText (ac_db_name a))]),
      (''target'', target_json (vr_address r) (vr_port r) (vr_protocol r))])"
  by (simp add: verify_json_def)

lemma dec_ssh_auth_json: "dec_ssh_auth (wire (verify_json e r)) = Some (ssh_auth_of r)"
  unfolding dec_ssh_auth_def verify_members
  by (cases "ac_su_account_id (vr_account r)")
     (simp_all add: field_def dec_ids_token dec_target_json dec_ssh_account_def as_pointer_def of_pointer_def ssh_auth_of_def Let_def)

lemma token_connect_bind:
  "Option.bind (as_object (wire (token_json e t))) (\<lambda>kvs. Option.bind
     (as_text (case map_of (rev kvs) ''connect_method'' of None \<Rightarrow> JNull | Some j \<Rightarrow> j)) g) = g (through_json (t_connect_method t))"
  using token_connect_method [of e t] by (auto simp: field_def Option.bind_eq_Some_conv)

lemma dec_db_auth_json: "dec_db_auth (wire (verify_json e r)) = Some (db_auth_of r)"
  unfolding dec_db_auth_def verify_members
  by (simp add: field_def dec_ids_token token_connect_bind dec_target_json db_auth_of_def Let_def)

lemma dec_rdp_auth_json: "dec_rdp_auth (wire (verify_json e r)) = Some (rdp_auth_of r)"
  unfolding dec_rdp_auth_def verify_members
  by (simp add: field_def dec_ids_token dec_target_json dec_rdp_account_def rdp_auth_of_def Let_def)

lemma dec_native_auth_json: "dec_native_auth (wire (resolved_json r)) = Some (native_auth_of r)"
  by (simp add: dec_native_auth_def resolved_json_def field_def dec_ids_def dec_target_json dec_rdp_account_def
      native_auth_of_def Let_def)

text \<open>The routes by their paths.\<close>

lemma paths_apart:
  "verify_path \<noteq> resolve_path" "verify_path \<noteq> sessions_path" "resolve_path \<noteq> sessions_path"
  "audit_path \<noteq> verify_path" "audit_path \<noteq> resolve_path" "audit_path \<noteq> sessions_path"
  "\<not> has_prefix (sessions_path @ ''/'') acls_path" "\<not> has_prefix (sessions_path @ ''/'') host_keys_path"
  "acls_path \<noteq> host_keys_path"
  by (simp_all add: verify_path_def resolve_path_def sessions_path_def audit_path_def acls_path_def host_keys_path_def has_prefix_def)

lemma bind_verify_body:
  "Option.bind (map_option wire (Some (verify_body token remote expected consume))) bind_verify =
    Some (through_json token, through_json remote, through_json expected, Some consume)"
  by (simp add: verify_body_def bind_verify_def field_def as_pointer_def)

text \<open>Every client verifies a token with the same call.\<close>

definition api_verification :: "api_end \<Rightarrow> string \<Rightarrow> string \<Rightarrow> string \<Rightarrow> bool \<Rightarrow> verify_result api_action" where
  "api_verification e secret token expected consume =
     on_store (VerifyWithOptions (hv_tokens (ae_server e)) (dw_now (ae_draws e)) (through_json token) secret
       (ae_client_ip e) \<lparr>o_expected_protocol = through_json expected, o_consume = consume\<rparr>)"

lemma verify_call:
  assumes "\<And>r. dec (wire (verify_json e r)) = Some (f r)"
  shows "client_do c (api_transport e (kc_base c)) ''POST'' verify_path (Some (verify_body token remote expected consume)) dec =
    told e f (api_verification e (kc_secret c) token expected consume)"
  by (rule client_do_told [where enc = "verify_json e" and status = 200])
     (simp_all add: assms api_transport_def Let_def bind_verify_body [simplified] h_VerifyConnectionToken_def RequireJSON_def
       call_request_def api_verification_def)

text \<open>
  A proxy that verifies a token over HTTP is told what the API's verification found, under the
  secret of its own configuration: the error by its code, or the token's user, asset and
  account, the target, and the decrypted credentials, each in its place.  The API's state is
  the one the verification leaves, so a one-time token is used up exactly when the proxy is told
  so or the answer gets lost on the way.
\<close>

theorem tokens_verified_over_the_api:
  "ssh_VerifyConnectionToken c (api_transport e (kc_base c)) token remote =
     told e ssh_auth_of (api_verification e (kc_secret c) token ''ssh'' True) \<and>
   rdp_VerifyConnectionToken c (api_transport e (kc_base c)) token remote =
     told e rdp_auth_of (api_verification e (kc_secret c) token ''rdp'' True) \<and>
   verifyConnectionToken c (api_transport e (kc_base c)) token remote expected consume =
     told e db_auth_of (api_verification e (kc_secret c) token expected consume)"
  using verify_call [where dec = dec_ssh_auth and f = ssh_auth_of, OF dec_ssh_auth_json]
    verify_call [where dec = dec_rdp_auth and f = rdp_auth_of, OF dec_rdp_auth_json]
    verify_call [where dec = dec_db_auth and f = db_auth_of, OF dec_db_auth_json]
  by (simp add: ssh_VerifyConnectionToken_def rdp_VerifyConnectionToken_def verifyConnectionToken_def)


section \<open>Sessions over the API\<close>

text \<open>A session as the API stores it for a proxy, with what travelled as JSON.\<close>

definition session_of :: "int \<Rightarrow> int \<Rightarrow> int \<Rightarrow> string \<Rightarrow> string \<Rightarrow> string \<Rightarrow> string \<Rightarrow> string \<Rightarrow> session" where
  "session_of user asset account protocol type login_from remote recording =
     \<lparr>s_id = 0, s_user_id = user, s_asset_id = asset, s_account_id = account, s_protocol = through_json protocol,
      s_type = through_json type, s_login_from = through_json login_from, s_remote_addr = through_json remote,
      s_recording_path = through_json recording, s_is_finished = False, s_date_start = 0, s_date_end = None,
      s_created_at = 0, s_updated_at = 0\<rparr>"

lemma bind_session_body:
  "bind_session e (wire (JObject
     [(''user_id'', JInt user), (''asset_id'', JInt asset), (''account_id'', JInt account), (''protocol'', JText protocol),
      (''type'', JText type), (''login_from'', JText login_from), (''remote_addr'', JText remote),
      (''recording_path'', JText recording)])) =
     Some (session_of user asset account protocol type login_from remote recording)"
  "bind_session e (wire (JObject
     [(''user_id'', JInt user), (''asset_id'', JInt asset), (''account_id'', JInt account), (''protocol'', JText protocol),
      (''type'', JText type), (''login_from'', JText login_from), (''remote_addr'', JText remote)])) =
     Some (session_of user asset account protocol type login_from remote '''')"
  by (simp_all add: bind_session_def field_def as_pointer_def as_time_def dec_ids_def session_of_def)

lemma bind_update_body:
  "bind_update (wire (JObject [(''is_finished'', JBool True), (''recording_path'', JText path)])) = Some (True, through_json path)"
  "bind_update (wire (JObject [(''is_finished'', JBool True)])) = Some (True, '''')"
  by (simp_all add: bind_update_def field_def)

lemma dec_id_session: "dec_id (wire (session_json e s)) = Some (s_id s)"
  by (cases "s_date_end s") (simp_all add: dec_id_def session_json_def field_def time_json_def)

lemma dec_session_info_json:
  "dec_session_info (wire (session_json e s)) =
     Some \<lparr>SiUserID = s_user_id s, SiAssetID = s_asset_id s, SiAccountID = s_account_id s,
           SiProtocol = through_json (s_protocol s), SiType = through_json (s_type s),
           SiConnectMethod = through_json (s_login_from s), SiRemoteAddr = through_json (s_remote_addr s),
           SiSessionID = s_id s, SiIsFinished = s_is_finished s\<rparr>"
  by (cases "s_date_end s") (simp_all add: dec_session_info_def dec_ids_def session_json_def field_def time_json_def)

lemma sessions_call:
  assumes "bind_session e (wire body) = Some sess" and "\<And>s. dec (wire (session_json e s)) = Some (f s)"
  shows "client_do c (api_transport e (kc_base c)) ''POST'' sessions_path (Some body) dec =
    told e f (if_admitted e (kc_secret c) (on_store (Sessions_Create sess)))"
  using paths_apart
  by (intro client_do_told [where enc = "session_json e" and status = 201])
     (simp_all add: assms api_transport_def Let_def h_ProxyCreateSession_def RequireJSON_def call_request_def
       proxied_answer proxyAuthorized_def if_admitted_def Created_def [abs_def])

lemma session_paths:
  "session_path i \<noteq> verify_path" "session_path i \<noteq> resolve_path" "session_path i \<noteq> sessions_path"
  "has_prefix (sessions_path @ ''/'') (session_path i)"
  "drop (length (sessions_path @ ''/'')) (session_path i) = show_int i"
  by (auto simp: session_path_def verify_path_def resolve_path_def sessions_path_def has_prefix_def)

lemma client_send_told:
  assumes "send \<lparr>call_method = method, call_url = kc_base c @ path, call_secret = kc_secret c,
      call_body = map_option wire body\<rparr> = served e enc (answer ok m)"
    and "(\<forall>x. ok x = NoContent) \<or> (\<forall>x. ok x = JSON 200 x)"
  shows "client_send c send method path body = told e (\<lambda>_. ()) m"
proof
  fix a
  show "client_send c send method path body a = told e (\<lambda>_. ()) m a"
    using assms unpack_data [of 200 e enc] unpack_empty [of e enc]
    by (cases "m a" rule: prod.exhaust)
       (auto simp: client_send_def told_def served_def answer_def JSON_def unpack_refusal split: sum.splits)
qed

lemma finish_call:
  assumes "bind_update (wire body) = Some (True, path)" and "int64_range i"
  shows "client_send c (api_transport e (kc_base c)) ''PATCH'' (session_path i) (Some body) =
    told e (\<lambda>_. ()) (if_admitted e (kc_secret c) (on_store (Sessions_Update (dw_now (ae_draws e)) i True path)))"
  using assms session_paths [of i]
  by (intro client_send_told [where enc = "session_json e" and ok = "JSON 200"])
     (simp_all add: api_transport_def Let_def h_ProxyUpdateSession_def RequireJSON_def call_request_def
       proxied_answer proxyAuthorized_def if_admitted_def pathID_def)


lemma get_call:
  assumes "int64_range i"
  shows "db_GetSession c (api_transport e (kc_base c)) i =
    told e (\<lambda>s. the (dec_session_info (wire (session_json e s)))) (if_admitted e (kc_secret c) (asks (GetSession i)))"
  unfolding db_GetSession_def using assms session_paths [of i]
  by (intro client_do_told [where enc = "session_json e" and status = 200])
     (simp_all add: api_transport_def Let_def h_ProxyGetSession_def call_request_def dec_session_info_json
       proxied_answer proxyAuthorized_def if_admitted_def pathID_def)

text \<open>
  The sessions the proxies open and close are the sessions the API stores: with the shared secret
  a session is created with exactly the data of the proxy, and closed under its id, the recording
  kept when the proxy gives one; without the secret nothing is stored and the proxy is told.
\<close>

theorem sessions_kept_over_the_api:
  assumes "int64_range i"
  shows "ssh_CreateSession c (api_transport e (kc_base c)) info recording =
      told e s_id (if_admitted e (kc_secret c) (on_store (Sessions_Create (session_of (in_user info) (in_asset info)
        (in_account info) (in_protocol info) (or_default (in_type info) ''normal'') (in_method info) (in_remote info) recording)))) \<and>
    rdp_CreateSession c (api_transport e (kc_base c)) rs =
      told e s_id (if_admitted e (kc_secret c) (on_store (Sessions_Create (session_of (ri_user_id rs) (ri_asset_id rs)
        (ri_account_id rs) (ri_protocol rs) (or_default (ri_type rs) ''rdp'')
        (or_default (ri_connect_method rs) ''web_rdp'') (ri_remote_addr rs) (ri_recording_path rs))))) \<and>
    db_CreateSession c (api_transport e (kc_base c)) ds =
      told e (\<lambda>s. ds\<lparr>SiSessionID := s_id s\<rparr>) (if_admitted e (kc_secret c) (on_store (Sessions_Create (session_of (SiUserID ds)
        (SiAssetID ds) (SiAccountID ds) (SiProtocol ds) (or_default (SiType ds) ''db_proxy'')
        (or_default (SiConnectMethod ds) ''db_client'') (SiRemoteAddr ds) '''')))) \<and>
    client_FinishSession c (api_transport e (kc_base c)) i recording =
      told e (\<lambda>_. ()) (if_admitted e (kc_secret c)
        (on_store (Sessions_Update (dw_now (ae_draws e)) i True (through_json recording)))) \<and>
    db_FinishSession c (api_transport e (kc_base c)) i =
      told e (\<lambda>_. ()) (if_admitted e (kc_secret c) (on_store (Sessions_Update (dw_now (ae_draws e)) i True '''')))"
  unfolding ssh_CreateSession_def rdp_CreateSession_def db_CreateSession_def client_FinishSession_def db_FinishSession_def
  by (intro conjI sessions_call finish_call assms bind_session_body bind_update_body) (simp_all add: dec_id_session)

text \<open>The other calls: native resolving, audit entries, command filter rules, host keys.\<close>

lemma bind_native_body:
  "bind_native (wire (native_body route password remote)) =
    Some \<lparr>ni_route_username = through_json route, ni_password = through_json password, ni_remote_addr = through_json remote\<rparr>"
  by (simp add: bind_native_def native_body_def field_def)

definition renamed :: "filter_rule \<Rightarrow> filter_rule" where
  "renamed r = r\<lparr>fr_name := through_json (fr_name r), fr_pattern := through_json (fr_pattern r),
                fr_action := through_json (fr_action r)\<rparr>"

lemma dec_rules_json:
  "Option.bind (as_list (wire (JList (map rule_json rs)))) (\<lambda>js. those (map dec_rule js)) = Some (map renamed rs)"
proof -
  have "dec_rule (wire (rule_json r)) = Some (renamed r)" for r
    by (simp add: dec_rule_def rule_json_def renamed_def field_def)
  thus ?thesis by (induction rs) auto
qed

lemma dec_keys_json:
  "Option.bind (as_list (wire (JList (map key_json ks)))) (\<lambda>js. those (map
     (\<lambda>k. Option.bind (as_object k) (\<lambda>kvs. as_text (field ''private_key'' kvs))) js)) =
   Some (map (\<lambda>k. through_json (hk_private_key k)) ks)"
  by (induction ks) (auto simp: key_json_def field_def)

lemmas served_defs = api_transport_def Let_def RequireJSON_def call_request_def proxied_answer proxyAuthorized_def if_admitted_def

lemma resolve_call:
  "ResolveNativeRDP c (api_transport e (kc_base c)) route password remote =
     told e native_auth_of (if_admitted e (kc_secret c) (asks (Resolve (hv_native (ae_server e))
       \<lparr>ni_route_username = through_json route, ni_password = through_json password, ni_remote_addr = through_json remote\<rparr>)))"
  unfolding ResolveNativeRDP_def using paths_apart
  by (intro client_do_told [where enc = resolved_json and status = 200])
     (simp_all add: dec_native_auth_json h_ProxyResolveNativeRDP_def bind_native_body served_defs)

lemma audit_call:
  "db_Audit c (api_transport e (kc_base c)) user act resource remote detail =
     told e (\<lambda>_. ()) (if_admitted e (kc_secret c) (on_store (Audit (if 0 < user then Some user else None)
       (through_json act) (through_json resource) (through_json remote) (through_json detail))))"
  unfolding db_Audit_def using paths_apart
  by (intro client_send_told [where enc = "\<lambda>_. JNull" and ok = "\<lambda>_. NoContent"])
     (simp_all add: h_ProxyCreateAuditLog_def bind_audit_def field_def as_pointer_def served_defs)

lemma rules_call:
  "client_ListCommandFilterACLs c (api_transport e (kc_base c)) =
     told e (map renamed) (if_admitted e (kc_secret c) (query (\<lambda>a. Inr (api_acls a))))"
  unfolding client_ListCommandFilterACLs_def using paths_apart
  by (intro client_do_told [where enc = "\<lambda>rs. JList (map rule_json rs)" and status = 200] dec_rules_json)
     (simp_all add: h_ProxyCommandFilterACLs_def served_defs)

lemma host_keys_call:
  "client_GetHostKeys c (api_transport e (kc_base c)) =
     told e (map (\<lambda>k. through_json (hk_private_key k)))
       (if_admitted e (kc_secret c) (on_keys (HostKeys_List (hv_generate (ae_server e)))))"
  unfolding client_GetHostKeys_def using paths_apart
  by (intro client_do_told [where enc = "\<lambda>ks. JList (map key_json ks)" and status = 200] dec_keys_json)
     (simp_all add: h_ProxyHostKeys_def served_defs)


definition sample_client :: api_client where
  "sample_client = \<lparr>kc_base = ''http://api'', kc_secret = ''guess''\<rparr>"

definition sample_end :: api_end where
  "sample_end =
     \<lparr>ae_server = sample_server,
      ae_draws = \<lparr>dw_fresh = sample_fresh, dw_salt = [], dw_nonce = [], dw_uuid = ''u'', dw_now = 5, dw_unix = 5, dw_later = 6\<rparr>,
      ae_client_ip = ''10.0.0.9'', ae_message = (\<lambda>_. ''no''), ae_show_time = show_int, ae_parse_time = (\<lambda>_. None),
      ae_user = (\<lambda>_. JNull), ae_asset = (\<lambda>_. JNull)\<rparr>"

theorem sessions_kept_over_the_api_witness:
  "db_FinishSession sample_client (api_transport sample_end (kc_base sample_client)) 7 (sample_api (empty_db 1)) =
     (Inl ''unauthorized: no'', sample_api (empty_db 1))"
proof -
  have "int64_range 7" by (simp add: int64_range_def)
  note told_by = sessions_kept_over_the_api [OF this, THEN conjunct2, THEN conjunct2, THEN conjunct2, THEN conjunct2,
    of sample_client sample_end]
  have "\<not> AuthorizeProxy (hv_tokens (ae_server sample_end)) (kc_secret sample_client) (ae_client_ip sample_end)"
    by (simp add: AuthorizeProxy_def sample_end_def sample_server_def sample_tokens_env_def sample_client_def)
  moreover have "refusal sample_end ErrUnauthorized = ''unauthorized: no''"
    by (simp add: refusal_def Error_def sample_end_def through_json_ascii ascii_def)
  ultimately show ?thesis by (simp add: told_by told_def if_admitted_def throw_def)
qed

end
