(* ===== verification/Recorder.thy ===== *)
theory Recorder
  imports Json Prelude
begin

text \<open>
  The recordings of \<open>recorder/cast.go\<close>: a file of JSON lines, the header of the terminal first,
  then an event for each piece of output and each change of the window, and the writer that
  records what it shows.  How a time offset is written as a number is the parameter \<open>num\<close>;
  whether the file or the terminal takes a write is decided by the arguments of each call.
\<close>

section \<open>The file\<close>

text \<open>\<open>None\<close> is the nil writer of a session that is not recorded.\<close>

record cast_writer =
  cw_path :: string
  cw_started :: int
  cw_text :: string

definition newline :: char where
  "newline = CHR 0x0A"

definition quoted :: "string \<Rightarrow> string" where
  "quoted s = [chr 34] @ s @ [chr 34]"

text \<open>The keys of a Go map are written in order.\<close>

definition cast_header :: "int \<Rightarrow> int \<Rightarrow> int \<Rightarrow> string" where
  "cast_header width height timestamp =
     ''{'' @ quoted ''env'' @ '':{'' @ quoted ''TERM'' @ '':'' @ quoted ''xterm-256color'' @ ''},'' @
     quoted ''height'' @ '':'' @ show_int height @ '','' @ quoted ''timestamp'' @ '':'' @ show_int timestamp @ '','' @
     quoted ''version'' @ '':2,'' @ quoted ''width'' @ '':'' @ show_int width @ ''}'' @ [newline]"

definition NewCastWriter ::
    "(string \<Rightarrow> string option) \<Rightarrow> (string \<Rightarrow> string option) \<Rightarrow> string option \<Rightarrow> int \<Rightarrow> int \<Rightarrow> string \<Rightarrow> int \<Rightarrow> int \<Rightarrow>
     string + cast_writer" where
  "NewCastWriter mkdir create write now unix path width height =
     (case mkdir path of
        Some e \<Rightarrow> Inl e
      | None \<Rightarrow>
          (case create path of
             Some e \<Rightarrow> Inl e
           | None \<Rightarrow>
               let width = (if width \<le> 0 then 80 else width);
                   height = (if height \<le> 0 then 24 else height)
               in case write of
                    Some e \<Rightarrow> Inl e
                  | None \<Rightarrow> Inr \<lparr>cw_path = path, cw_started = now, cw_text = cast_header width height unix\<rparr>))"

definition cast_path :: "cast_writer option \<Rightarrow> string" where
  "cast_path w = (case w of None \<Rightarrow> '''' | Some w \<Rightarrow> cw_path w)"

text \<open>An event; \<open>err\<close> is the error of the write, which then leaves nothing in the file.\<close>

definition cast_line :: "(int \<Rightarrow> string) \<Rightarrow> int \<Rightarrow> char \<Rightarrow> string \<Rightarrow> string" where
  "cast_line num since kind data = ''['' @ num since @ '','' @ quoted [kind] @ '','' @ json_text data @ '']'' @ [newline]"

definition WriteOutput ::
    "(int \<Rightarrow> string) \<Rightarrow> int \<Rightarrow> string option \<Rightarrow> string \<Rightarrow> cast_writer option \<Rightarrow> string option \<times> cast_writer option" where
  "WriteOutput num now err p w =
     (case w of
        None \<Rightarrow> (None, None)
      | Some r \<Rightarrow>
          if p = '''' then (None, w)
          else if err \<noteq> None then (err, w)
          else (None, Some (r\<lparr>cw_text := cw_text r @ cast_line num (now - cw_started r) (CHR ''o'') p\<rparr>)))"

definition WriteResize ::
    "(int \<Rightarrow> string) \<Rightarrow> int \<Rightarrow> string option \<Rightarrow> int \<Rightarrow> int \<Rightarrow> cast_writer option \<Rightarrow> string option \<times> cast_writer option" where
  "WriteResize num now err cols rows w =
     (case w of
        None \<Rightarrow> (None, None)
      | Some r \<Rightarrow>
          if cols \<le> 0 \<or> rows \<le> 0 then (None, w)
          else if err \<noteq> None then (err, w)
          else (None, Some (r\<lparr>cw_text := cw_text r @
                 cast_line num (now - cw_started r) (CHR ''r'') (show_int cols @ ''x'' @ show_int rows)\<rparr>)))"

section \<open>Recording what is shown\<close>

text \<open>
  The terminal takes as many bytes of a write as \<open>accept\<close> says.  The result has the count and the
  error of \<open>io.Writer\<close>, the recording, and what the terminal has shown so far.
\<close>

definition recording_write ::
    "(int \<Rightarrow> string) \<Rightarrow> int \<Rightarrow> string option \<Rightarrow> (string \<Rightarrow> nat \<times> string option) \<Rightarrow> string \<Rightarrow>
     cast_writer option \<times> string \<Rightarrow> (nat \<times> string option) \<times> cast_writer option \<times> string" where
  "recording_write num now err accept p = (\<lambda>(w, shown).
     case WriteOutput num now err p w of
       (Some e, w') \<Rightarrow> ((0, Some e), w', shown)
     | (None, w') \<Rightarrow> (accept p, w', shown @ take (fst (accept p)) p))"

text \<open>What happens to a session that is recorded: output, and changes of the window.\<close>

datatype session_event =
    Output int "string option" "string \<Rightarrow> nat \<times> string option" string
  | Resize int "string option" int int

fun session_step :: "(int \<Rightarrow> string) \<Rightarrow> session_event \<Rightarrow> cast_writer option \<times> string \<Rightarrow> cast_writer option \<times> string" where
  "session_step num (Output now err accept p) s = snd (recording_write num now err accept p s)"
| "session_step num (Resize now err cols rows) (w, shown) = (snd (WriteResize num now err cols rows w), shown)"

section \<open>Lines\<close>

lemma utf8_rest_high:
  assumes "1 < utf8_len s" and "b \<in> set (take (utf8_len s) s)"
  shows "128 \<le> uint b"
proof -
  obtain a t where s: "s = a # t" using assms by (cases s) (auto simp: utf8_len_def)
  have lo: "lead a = Some (k, lo, hi) \<Longrightarrow> 128 \<le> lo" for k lo hi by (auto simp: lead_def split: if_splits)
  have a: "\<not> uint a < 128" using assms(1) unfolding s utf8_len_lead by auto
  then obtain k lo hi where l: "lead a = Some (k, lo, hi)" "k \<le> length t" "utf8_len s = k + 1"
      "in_range lo hi (hd t)" "list_all (in_range 0x80 0xBF) (take (k - 1) (tl t))"
    using assms(1) unfolding s utf8_len_lead by (auto split: if_splits option.splits)
  from lead_pos [OF l(1)] l(2) obtain c u where t: "t = c # u" by (cases t) auto
  have "b = a \<or> b = c \<or> b \<in> set (take (k - 1) u)"
    using assms(2) l(3) lead_pos [OF l(1)] by (cases k) (auto simp: s t)
  thus ?thesis using a l(4,5) lo [OF l(1)] by (auto simp: t in_range_def list_all_iff)
qed

lemma ascii_escape_newline: "n < 128 \<Longrightarrow> newline \<notin> set (ascii_escape n)"
proof -
  have "list_all (\<lambda>n. newline \<notin> set (ascii_escape n)) [0..<128]" by code_simp
  thus "n < 128 \<Longrightarrow> newline \<notin> set (ascii_escape n)" by (simp add: list_all_iff)
qed

lemma json_escape_newline: "newline \<notin> set (json_escape s)"
proof (induction s rule: json_escape.induct)
  case (1 s)
  show ?case
  proof (cases s)
    case Nil
    thus ?thesis by (simp add: json_escape.simps)
  next
    case (Cons c t)
    let ?n = "utf8_len (bytes_of s)"
    consider "?n = 0" | "?n = 1" | "1 < ?n" by linarith
    thus ?thesis
    proof cases
      case 1
      thus ?thesis using "1.IH"(1) [OF Cons refl] Cons
        by (simp add: json_escape.simps [of "c # t"] newline_def special_codes)
    next
      case 2
      hence "of_char c < (128 :: nat)" using utf8_len_ascii Cons by blast
      thus ?thesis using "1.IH"(2) [OF Cons refl] 2 Cons ascii_escape_newline
        by (simp add: json_escape.simps [of "c # t"])
    next
      case 3
      have "newline \<notin> set (take ?n s)"
      proof
        assume "newline \<in> set (take ?n s)"
        hence "of_char newline \<in> set (take ?n (bytes_of s))"
          by (auto simp: bytes_of_def take_map)
        hence "128 \<le> uint (of_char newline :: byte)" using utf8_rest_high [of "bytes_of s"] 3 by blast
        thus False by (simp add: newline_def)
      qed
      moreover have "newline \<notin> set (rune_escape r)" if "newline \<notin> set r" for r
        using that by (simp add: rune_escape_def newline_def special_codes)
      ultimately show ?thesis using "1.IH"(3) [OF Cons refl] 3 Cons
        by (simp add: json_escape.simps [of "c # t"] Let_def)
    qed
  qed
qed

text \<open>Exactly one line.\<close>

definition one_line_more :: "string \<Rightarrow> bool" where
  "one_line_more text = (\<exists>l. text = l @ [newline] \<and> newline \<notin> set l)"

lemma cast_line_one:
  assumes "newline \<notin> set (num t)" and "kind \<noteq> newline"
  shows "one_line_more (cast_line num t kind data)"
proof -
  let ?l = "''['' @ num t @ '','' @ quoted [kind] @ '','' @ json_text data @ '']''"
  have "cast_line num t kind data = ?l @ [newline]" by (simp add: cast_line_def)
  moreover have "newline \<notin> set ?l"
    using assms json_escape_newline [of data]
    by (auto simp: quoted_def json_text_def newline_def special_codes)
  ultimately show ?thesis unfolding one_line_more_def by blast
qed

lemma number_plain: "newline \<notin> set (show_int i)"
proof -
  have "digit_val newline = None" by (simp add: digit_val_def newline_def)
  thus ?thesis by (simp add: show_int_def not_digit_absent newline_def)
qed

lemma cast_header_one: "one_line_more (cast_header w h t)"
proof -
  let ?l = "butlast (cast_header w h t)"
  have "cast_header w h t = ?l @ [newline]" by (simp add: cast_header_def butlast_append)
  moreover have "newline \<notin> set ?l"
    using number_plain by (simp add: cast_header_def butlast_append quoted_def) (simp add: newline_def special_codes)
  ultimately show ?thesis unfolding one_line_more_def by blast
qed

text \<open>Each piece of output and each resizing adds one line to the file, or nothing.\<close>

lemma session_step_lines:
  assumes "\<And>t. newline \<notin> set (num t)" and "session_step num ev (Some r, shown) = (w, shown')"
  obtains r' where "w = Some r'" and "cw_path r' = cw_path r" and
    "cw_text r' = cw_text r \<or> (\<exists>l. cw_text r' = cw_text r @ l \<and> one_line_more l)"
proof -
  have k: "CHR ''o'' \<noteq> newline" "CHR ''r'' \<noteq> newline" by (simp_all add: newline_def)
  show thesis
  proof (cases ev)
    case (Output now err accept p)
    show thesis
      using assms(2) that cast_line_one [OF assms(1) k(1)]
      by (cases "p = ''''"; cases err) (auto simp: Output recording_write_def WriteOutput_def)
  next
    case (Resize now err cols rows)
    show thesis
      using assms(2) that cast_line_one [OF assms(1) k(2)]
      by (cases "cols \<le> 0 \<or> rows \<le> 0"; cases err) (auto simp: Resize WriteResize_def)
  qed
qed

text \<open>Output is recorded before it is shown: what cannot be recorded is not shown.\<close>

lemma recorded_before_shown:
  assumes "session_step num (Output now (Some e) accept p) (Some r, shown) = (w, shown')" and "p \<noteq> ''''"
  shows "w = Some r \<and> shown' = shown"
  using assms by (simp add: recording_write_def WriteOutput_def)

end
