(* ===== verification/Spec2Isabelle.thy ===== *)
theory Spec2Isabelle
  imports MySqlServer PgServer Sdk AccessServices SshFilter SshServer Bootstrap Router Handlers NativeEngine WebTerminal
    ApiClient Recorder
begin

text \<open>
  Turjmp is a bastion host.  Users never hold the credentials of the machines and databases
  they work on: they log in to the API server, are issued a short lived connection token for
  an asset and an account they have permission for, and connect to one of the proxies with
  it.  The proxy has the API verify the token, gets the decrypted credentials of the account,
  opens the target, creates a session, relays the traffic, and records what is done.

  \<^bold>\<open>Theories\<close> (file names are under \<open>src/internal\<close>).

  \<^item> \<open>Prelude\<close>: results with errors, actions on a state that may fail, lemmas on lists.
    \<open>GoStrings\<close>, \<open>Codec\<close>, \<open>NetAddr\<close>, \<open>Json\<close>, \<open>Paths\<close>: the parts of Go's standard library
    the program uses, as computing functions: trimming, splitting, decimal numbers, base64,
    hexadecimal, UTF-8, fixed width integers, host and port, URL escapes, JSON strings and
    objects, the cleaning of paths.
  \<^item> \<open>Domain\<close> (\<open>domain/models.go\<close>, \<open>domain/errors.go\<close>): one record per table; the errors.
  \<^item> \<open>Store\<close>, \<open>StorePerm\<close>, \<open>StoreTokens\<close> (\<open>repository/store.go\<close>): the database is the
    record \<open>db\<close> of all tables, a table the list of its rows in order of insertion.  Each
    method of the store is an action on it; the schema's constraints are errors.
    \<open>HasAssetPermission\<close> is the permission query, \<open>one_shot\<close> the contract of everything
    that may be claimed once (tokens, refresh tokens, the end of a session).  \<open>Roles\<close> has the
    roles, platforms and nodes, \<open>Listings\<close> the list queries, the dashboard, the filters of the
    audit log, and the host keys (\<open>service/host_keys.go\<close>).
  \<^item> \<open>Bootstrap\<close> (\<open>repository/bootstrap.go\<close>): the rows a new database is seeded with.
  \<^item> \<open>Crypto\<close> (\<open>crypto/secret.go\<close>), \<open>Auth\<close> (\<open>auth/\<close>), \<open>AuthService\<close> (\<open>service/auth.go\<close>,
    \<open>service/settings_policy.go\<close>): encryption of secrets, passwords, one-time codes, the two
    tokens of a login, refresh, logout and the second factor.
  \<^item> \<open>Tokens\<close>, \<open>ProxyAllow\<close> (\<open>service/tokens.go\<close>): issuing, verifying and consuming connection
    tokens; the list of addresses the proxies may call from, with the parsers of addresses and
    networks of the standard library.
  \<^item> \<open>UserService\<close>, \<open>AccessServices\<close>, \<open>AssetService\<close> (\<open>service/users.go\<close>,
    \<open>permissions.go\<close>, \<open>sessions.go\<close>, \<open>assets.go\<close>, \<open>settings.go\<close>): administration.
  \<^item> \<open>RdpCredentials\<close>, \<open>RdpNative\<close> (\<open>service/rdp_proxy_credentials.go\<close>,
    \<open>service/rdp_native.go\<close>): the password of the native RDP front, routing names, and the
    sessions of native clients.
  \<^item> \<open>Sdk\<close> (\<open>service/sdk.go\<close>): command lines and files that start a native client.
  \<^item> \<open>Config\<close> (\<open>config/config.go\<close>): records, defaults, limits, environment variables.
  \<^item> \<open>DbTypes\<close>, \<open>MySqlProtocol\<close>, \<open>MySqlHandshake\<close>, \<open>MySqlResult\<close>, \<open>MySqlServer\<close>,
    \<open>PgAudit\<close>, \<open>PgServer\<close>, \<open>Dsn\<close> (\<open>proxy/db/\<close>): the database proxies.  The MySQL proxy
    speaks the wire protocol itself and is modelled to the byte; the PostgreSQL proxy relays
    the messages of \<open>pgproto3\<close>, and its two directions are a step relation.
    \<open>WebTerminal\<close> (\<open>proxy/db/web_terminal.go\<close>) is what stands between the browser and the
    database client: the guard on the typed input, the scrubber of the output, the browser's
    messages.
  \<^item> \<open>RdpServer\<close> (\<open>proxy/rdp/server.go\<close>, \<open>types.go\<close>, \<open>native_resolver.go\<close>,
    \<open>recorder/storage.go\<close>): the RDP proxy of the browser, as the events a connection and the
    closing of its tunnel cause, a step relation over the tunnels open at a time, and the
    recordings.  \<open>NativeEngine\<close> (\<open>proxy/rdp/native_engine.go\<close>): the configuration of FreeRDP,
    its checks, the file written for it, its start, and the reading of its output.
  \<^item> \<open>SshFilter\<close>, \<open>Sftp\<close>, \<open>SshServer\<close> (\<open>proxy/ssh/\<close>): the command filter, the policy of the
    SFTP subsystem, and the SSH proxy with its sessions, commands, tunnels and web terminal,
    as the list of events a connection causes.
  \<^item> \<open>Httpx\<close>, \<open>Rbac\<close>, \<open>Api\<close>, \<open>RoleAdmin\<close>, \<open>Requests\<close>, \<open>Handlers\<close>, \<open>Router\<close> (\<open>api/\<close>, \<open>rbac/\<close>):
    the HTTP API.  A handler maps a request (its body already decoded) and the record \<open>api\<close>
    of everything the server keeps to a reply and the new record; \<open>Httpx\<close> has the replies, the
    authentication and the rate limiter, \<open>Rbac\<close> the policies, their table and the matcher,
    \<open>Requests\<close> the query parameters and the stream tokens, \<open>Handlers\<close> the handlers, and \<open>Router\<close>
    the table of routes with the checks each group of them starts with; \<open>limited_dispatch\<close> puts
    the rate limiter in front of it, as the server does.
  \<^item> \<open>ApiClient\<close> (the three \<open>api_client.go\<close> under \<open>proxy/\<close>, \<open>api/httpx/context.go\<close>): the calls of the
    proxies to the API as JSON trees, and the handlers at the other end.
  \<^item> \<open>Recorder\<close> (\<open>recorder/cast.go\<close>): the lines of a recording, and the writer that records what it
    shows.

  \<^bold>\<open>Correspondence.\<close>  A definition has the name of the Go function; a suffix or a prefix
  such as \<open>_pg\<close> or \<open>Users_\<close> keeps two of one name apart.  A struct is a record, an
  \<open>error\<close> result the left side of a sum, a panic the error \<open>ErrPanic\<close>, which no caller turns
  into another error, or a result of its own.  A method that writes the database returns the
  new state on every path, the failing ones included; one statement is atomic, and the
  properties on interleavings interleave whole requests or single claims, the one on refresh
  tokens single statements of the requests (\<open>refresh_statement\<close>).  Go strings are
  byte strings.  Machine integers are words where their wrap-around can be reached
  (\<open>wrap64\<close>, the positions of the handshake parser) and mathematical integers elsewhere.
  Maps become partial functions; the order of a Go map iteration is never relied on.
  \<open>return p, store.Create(&p)\<close> reads \<open>p\<close> after the call, as the gc compiler does.
  \<open>%06s\<close> pads with zeros.  Error texts are translated into English.

  \<^bold>\<open>Parameters.\<close>  Code that is not part of the repository is an argument: Argon2id, AES-GCM,
  SHA-256, HMAC-SHA1, the JWT signature, regular expressions, the host part of a URL, the
  MySQL driver, \<open>pgconn\<close>, the SSH and SFTP libraries, guacd, FreeRDP, the file system, Casbin
  (the record \<open>casbin\<close>, its laws \<open>casbin_ok\<close>), the API as the proxies see it (\<open>ApiClient\<close> has
  the two ends together), the clocks and the random bytes.
  What a property needs of one of them is a named hypothesis, and its witness instantiates
  the parameter by a function.

  \<^bold>\<open>What the lemmas show.\<close>  Who may connect is exactly what the permission table says, and a
  token, a refresh token, and the end of a session are each claimed once in any
  interleaving, the refresh token even when the statements of its requests interleave.  Logging in needs the password and, where required, the one-time code; a
  deactivated user is locked out.  No proxy opens a target before it has verified a token
  for its protocol.  For what the proxies execute the audit API is called, statement by
  statement; the \<open>USE\<close> of a MySQL handshake is the exception, and a call that fails is not
  repeated.  What is written to the wire is read back: packets, result sets with columns,
  handshakes, connection strings, shell words, environment variables.  Secrets are stored encrypted and come back.
  A secured route is reached only with an access token and a policy that admits it; the
  default policies open each route to exactly the roles they mean; the interface of the
  proxies is closed without the shared secret.  Seeding is idempotent, the policies in memory
  and in the table agree after every change of a role, a rename moves the policies of a role or
  leaves them, and recordings are sent from the configured directories only.  A proxy that
  calls the API over HTTP is told what the service behind it decided.
  Every session the RDP proxy creates is open or finished once, however tunnels come and go;
  the file for FreeRDP has exactly the lines the configuration means; the guard of the web
  terminal replaces the end of every line that starts with a backslash.
  Where the code falls short, the property says so: the handshake parser that panics, the
  permission that widens when its account is deleted, the statement logged with the wrong
  outcome, the filter that ignores editing, the token for setting up a second factor that
  opens every route to a user named admin, the default permission that comes back, the failed
  authentication reported as a success, the guard that knows neither characters of several bytes
  nor the erasing of words, the result set without columns, the hash sign a shell takes for a
  comment, the write whose end overflows past the size limit.

  \<^bold>\<open>Loops.\<close>  All functions are total.  A loop over the input recurses on what is left of it;
  the ones that do not recurse structurally have termination proofs.  No fuel is used.

  \<^bold>\<open>Not modelled.\<close>  Opening the database, binding HTTP bodies outside \<open>ApiClient\<close>, the calls of the
  RDP client that start and finish native sessions, key generation, process start, health,
  logging, metrics and the files of the web interface are input and output around the code
  above.  So are starting the
  database client on its pseudo terminal, and the listeners and signals of the RDP servers,
  which drive external processes.  The connection pool, time zones and the failure of a
  connection to the database are left out.
\<close>

end
